(* ===== verification/Cert_Prelude.thy ===== *)
theory Cert_Prelude
  imports Main "HOL-Library.Word"
begin

text \<open>
  Shared vocabulary of the development: Go's error values, results of fallible functions,
  pointers, machine integers, and the generic list lemmas the components use. A nil-able
  pointer of the source is an \<open>option\<close>; a function that returns a value and an error
  is a function into \<open>'a result\<close>, whose third constructor is a run-time panic (a nil
  dereference, an index out of range, a write to a nil map).
\<close>

subsection \<open>Fact collections\<close>

named_theorems go_simps "defining equations of the small Go helpers"
named_theorems io_simps "how the sequencing operators execute"
named_theorems appends_intros "operations that only append events"
named_theorems label_simps "accessors of the values a deployment is built from"

subsection \<open>Machine integers\<close>

type_synonym go_int = "64 word"
type_synonym go_int32 = "32 word"

subsection \<open>Error values\<close>

text \<open>
  The code builds errors with \<open>fmt.Errorf\<close> and \<open>errors.New\<close> (\<open>ErrMsg\<close>), wraps them with
  the verb \<open>: %w\<close> (\<open>Wrap\<close>, prefix and inner error), joins them with \<open>errors.Join\<close>
  (\<open>Joined\<close>), and receives errors from libraries: \<open>NotFound\<close> is one that \<open>apierrors.IsNotFound\<close> recognises,
  \<open>Foreign\<close> any other.
\<close>

datatype goerr =
    ErrMsg string
  | Wrap string goerr
  | Joined "goerr list"
  | NotFound string
  | Foreign string

fun isNotFound :: "goerr \<Rightarrow> bool" where
  "isNotFound (NotFound _) = True"
| "isNotFound (Wrap _ e) = isNotFound e"
| "isNotFound _ = False"

text \<open>\<open>client.IgnoreNotFound\<close>: nil for a not-found error, the error itself otherwise.\<close>

definition ignoreNotFound :: "goerr option \<Rightarrow> goerr option" where
  [go_simps]: "ignoreNotFound e =
    (case e of None \<Rightarrow> None | Some x \<Rightarrow> if isNotFound x then None else Some x)"

text \<open>The text of an error, as \<open>Error()\<close> returns it; joined errors are separated by newlines.\<close>

fun err_text :: "goerr \<Rightarrow> string" where
  "err_text (ErrMsg s) = s"
| "err_text (Wrap s e) = s @ '': '' @ err_text e"
| "err_text (Joined []) = ''''"
| "err_text (Joined [e]) = err_text e"
| "err_text (Joined (e # es)) = err_text e @ [CHR 0x0A] @ err_text (Joined es)"
| "err_text (NotFound s) = s"
| "err_text (Foreign s) = s"

text \<open>\<open>errors.Join\<close> of a list without nil errors: nil for the empty list.\<close>

definition errors_Join :: "goerr list \<Rightarrow> goerr option" where
  [go_simps]: "errors_Join es = (if es = [] then None else Some (Joined es))"

subsection \<open>Results\<close>

datatype 'a result = Ok 'a | Error goerr | Panic string

primrec is_Ok :: "'a result \<Rightarrow> bool" where
  "is_Ok (Ok _) = True"
| "is_Ok (Error _) = False"
| "is_Ok (Panic _) = False"

text \<open>The statement \<open>if err != nil { return ..., err }\<close> after a call.\<close>

definition rbind :: "'a result \<Rightarrow> ('a \<Rightarrow> 'b result) \<Rightarrow> 'b result" where
  "rbind m f = (case m of Ok a \<Rightarrow> f a | Error e \<Rightarrow> Error e | Panic p \<Rightarrow> Panic p)"

lemma rbind_simps [simp]:
  "rbind (Ok a) f = f a" "rbind (Error e) f = Error e" "rbind (Panic p) f = Panic p"
  by (simp_all add: rbind_def)

lemma rbind_Ok_iff: "rbind m f = Ok b \<longleftrightarrow> (\<exists>a. m = Ok a \<and> f a = Ok b)"
  by (cases m) auto

lemma ex_rbind_Ok: "(\<exists>b. rbind m f = Ok b) \<longleftrightarrow> (\<exists>a. m = Ok a \<and> (\<exists>b. f a = Ok b))"
  by (cases m) simp_all

lemma rbind_Panic_iff: "rbind m f = Panic p \<longleftrightarrow> m = Panic p \<or> (\<exists>a. m = Ok a \<and> f a = Panic p)"
  by (cases m) auto

lemma is_Ok_iff: "is_Ok m \<longleftrightarrow> (\<exists>a. m = Ok a)"
  by (cases m) auto

text \<open>The same statement with a wrapped error.\<close>

definition wrap_err :: "string \<Rightarrow> 'a result \<Rightarrow> 'a result" where
  "wrap_err s m = (case m of Ok a \<Rightarrow> Ok a | Error e \<Rightarrow> Error (Wrap s e) | Panic p \<Rightarrow> Panic p)"

lemma wrap_err_simps [simp]:
  "wrap_err s (Ok a) = Ok a" "wrap_err s (Error e) = Error (Wrap s e)"
  "wrap_err s (Panic p) = Panic p"
  by (simp_all add: wrap_err_def)

lemma wrap_err_Ok_iff [simp]: "wrap_err s m = Ok a \<longleftrightarrow> m = Ok a"
  by (cases m) auto

lemma wrap_err_Panic_iff [simp]: "wrap_err s m = Panic p \<longleftrightarrow> m = Panic p"
  by (cases m) auto

definition res_of :: "goerr option \<Rightarrow> unit result" where
  "res_of e = (case e of None \<Rightarrow> Ok () | Some x \<Rightarrow> Error x)"

lemma res_of_simps [simp]: "res_of None = Ok ()" "res_of (Some x) = Error x"
  by (simp_all add: res_of_def)

text \<open>A loop whose body may fail: stops at the first error, keeps the values otherwise.\<close>

fun rmap :: "('a \<Rightarrow> 'b result) \<Rightarrow> 'a list \<Rightarrow> 'b list result" where
  "rmap f [] = Ok []"
| "rmap f (x # xs) = rbind (f x) (\<lambda>y. rbind (rmap f xs) (\<lambda>ys. Ok (y # ys)))"

lemma rmap_Ok_iff: "rmap f xs = Ok ys \<longleftrightarrow> list_all2 (\<lambda>x y. f x = Ok y) xs ys"
proof (induction xs arbitrary: ys)
  case Nil
  then show ?case by auto
next
  case (Cons x xs)
  then show ?case by (auto simp: rbind_Ok_iff list_all2_Cons1)
qed

lemma rmap_total: "(\<And>x. x \<in> set xs \<Longrightarrow> \<exists>y. f x = Ok y) \<Longrightarrow> \<exists>ys. rmap f xs = Ok ys"
proof (induction xs)
  case Nil
  then show ?case by simp
next
  case (Cons x xs)
  then obtain y ys where "f x = Ok y" "rmap f xs = Ok ys"
    by (meson list.set_intros)
  then show ?case by simp
qed

lemma rmap_results: "rmap f xs = Ok ys \<Longrightarrow> list_all (\<lambda>y. \<exists>x. f x = Ok y) ys"
  by (induction xs arbitrary: ys) (auto simp: rbind_Ok_iff)

lemma rmap_Ok: "rmap (\<lambda>x. Ok (f x)) xs = Ok (map f xs)"
  by (induction xs) auto

lemma rmap_no_panic: "(\<And>x. f x \<noteq> Panic p) \<Longrightarrow> rmap f xs \<noteq> Panic p"
  by (induction xs) (auto simp: rbind_Panic_iff)

lemma rmap_map_eq: "rmap f xs = Ok ys \<Longrightarrow> (\<And>x y. f x = Ok y \<Longrightarrow> g y = h x) \<Longrightarrow> map g ys = map h xs"
  by (induction xs arbitrary: ys) (auto simp: rbind_Ok_iff)

subsection \<open>Pointers and conditional appends\<close>

text \<open>\<open>ptr.Deref(p, d)\<close>\<close>

definition ptr_Deref :: "'a option \<Rightarrow> 'a \<Rightarrow> 'a" where
  [go_simps]: "ptr_Deref p d = (case p of None \<Rightarrow> d | Some x \<Rightarrow> x)"

lemma ptr_Deref_simps [simp]: "ptr_Deref None d = d" "ptr_Deref (Some x) d = x"
  by (simp_all add: ptr_Deref_def)

text \<open>\<open>if c { xs = append(xs, ys...) }\<close> adds \<open>append_if c ys\<close> to the list.\<close>

definition append_if :: "bool \<Rightarrow> 'a list \<Rightarrow> 'a list" where
  "append_if c ys = (if c then ys else [])"

lemma append_if_simps [simp]: "append_if True ys = ys" "append_if False ys = []"
  by (simp_all add: append_if_def)

lemma append_if_Nil_iff [simp]: "append_if c ys = [] \<longleftrightarrow> \<not> c \<or> ys = []"
  by (simp add: append_if_def)

lemma set_append_if [simp]: "set (append_if c ys) = (if c then set ys else {})"
  by (simp add: append_if_def)

lemma map_append_if [simp]: "map f (append_if c ys) = append_if c (map f ys)"
  by (simp add: append_if_def)

text \<open>A loop with an index: \<open>for i, x := range xs\<close>, appending what the body yields.\<close>

fun for_from :: "nat \<Rightarrow> (nat \<Rightarrow> 'a \<Rightarrow> 'b list) \<Rightarrow> 'a list \<Rightarrow> 'b list" where
  "for_from i f [] = []"
| "for_from i f (x # xs) = f i x @ for_from (Suc i) f xs"

definition for_range :: "(nat \<Rightarrow> 'a \<Rightarrow> 'b list) \<Rightarrow> 'a list \<Rightarrow> 'b list" where
  "for_range f xs = for_from 0 f xs"

lemma for_from_Nil_iff:
  "for_from n f xs = [] \<longleftrightarrow> (\<forall>i < length xs. f (n + i) (xs ! i) = [])"
  by (induction xs arbitrary: n) (auto simp: All_less_Suc2)

lemma for_range_Nil_iff:
  "for_range f xs = [] \<longleftrightarrow> (\<forall>i < length xs. f i (xs ! i) = [])"
  by (simp add: for_range_def for_from_Nil_iff)

lemma for_range_Nil [simp]: "for_range f [] = []"
  by (simp add: for_range_def)

end
