(* ===== verification/Go_Strings.thy ===== *)
theory Go_Strings
  imports Cert_Prelude
begin

text \<open>
  The functions of Go's packages \<open>strings\<close>, \<open>strconv\<close> and \<open>fmt\<close> the code uses. A Go string
  is a sequence of bytes, a HOL \<open>string\<close> is a list of eight-bit characters, so lengths and
  indices agree.
\<close>

subsection \<open>Package strings\<close>

text \<open>\<open>strings.Split(s, sep)\<close> and \<open>strings.Join(ps, sep)\<close> for a separator of one byte.\<close>

fun splitOn :: "char \<Rightarrow> string \<Rightarrow> string list" where
  "splitOn c [] = [[]]"
| "splitOn c (x # xs) =
     (if x = c then [] # splitOn c xs
      else (case splitOn c xs of [] \<Rightarrow> [[x]] | p # ps \<Rightarrow> (x # p) # ps))"

fun joinOn :: "char \<Rightarrow> string list \<Rightarrow> string" where
  "joinOn c [] = []"
| "joinOn c [p] = p"
| "joinOn c (p # ps) = p @ c # joinOn c ps"

lemma splitOn_not_Nil [simp]: "splitOn c s \<noteq> []"
  by (induction s) (auto split: list.splits)

lemma joinOn_Cons: "ps \<noteq> [] \<Longrightarrow> joinOn c (p # ps) = p @ c # joinOn c ps"
  by (cases ps) auto

lemma joinOn_splitOn [simp]: "joinOn c (splitOn c s) = s"
proof (induction s)
  case Nil
  then show ?case by simp
next
  case (Cons x s)
  then obtain p ps where "splitOn c s = p # ps"
    by (cases "splitOn c s") auto
  with Cons show ?case
    by (cases ps) (auto simp: joinOn_Cons)
qed

lemma splitOn_no_sep: "p \<in> set (splitOn c s) \<Longrightarrow> c \<notin> set p"
proof (induction s arbitrary: p)
  case Nil
  then show ?case by simp
next
  case (Cons x s)
  then show ?case
    by (cases "splitOn c s") (auto split: if_splits)
qed

lemma splitOn_single: "c \<notin> set s \<Longrightarrow> splitOn c s = [s]"
  by (induction s) auto

lemma splitOn_append_sep: "c \<notin> set p \<Longrightarrow> splitOn c (p @ c # s) = p # splitOn c s"
  by (induction p) auto

lemma splitOn_joinOn: "ps \<noteq> [] \<Longrightarrow> \<forall>p \<in> set ps. c \<notin> set p \<Longrightarrow> splitOn c (joinOn c ps) = ps"
proof (induction ps)
  case Nil
  then show ?case by simp
next
  case (Cons p ps)
  then show ?case
    by (cases "ps = []") (auto simp: joinOn_Cons splitOn_single splitOn_append_sep)
qed

definition hasPrefix :: "string \<Rightarrow> string \<Rightarrow> bool" where
  [go_simps]: "hasPrefix s p \<longleftrightarrow> length p \<le> length s \<and> take (length p) s = p"

definition hasSuffix :: "string \<Rightarrow> string \<Rightarrow> bool" where
  [go_simps]: "hasSuffix s p \<longleftrightarrow> length p \<le> length s \<and> drop (length s - length p) s = p"

definition trimSuffix :: "string \<Rightarrow> string \<Rightarrow> string" where
  [go_simps]: "trimSuffix s p = (if hasSuffix s p then take (length s - length p) s else s)"

text \<open>\<open>strings.CutPrefix\<close>: \<open>Some\<close> of the rest when the prefix was there.\<close>

definition cutPrefix :: "string \<Rightarrow> string \<Rightarrow> string option" where
  [go_simps]: "cutPrefix s p = (if hasPrefix s p then Some (drop (length p) s) else None)"

lemma hasSuffix_append [simp]: "hasSuffix (s @ p) p"
  by (simp add: hasSuffix_def)

lemma trimSuffix_append [simp]: "trimSuffix (s @ p) p = s"
  by (simp add: trimSuffix_def)

lemma hasSuffix_single: "hasSuffix s [c] \<longleftrightarrow> s \<noteq> [] \<and> last s = c"
  by (cases s rule: rev_cases) (auto simp: hasSuffix_def)

lemma hasPrefix_single: "hasPrefix s [c] \<longleftrightarrow> (\<exists>r. s = c # r)"
  by (cases s) (auto simp: hasPrefix_def)

lemma cutPrefix_single:
  "cutPrefix s [c] = (case s of [] \<Rightarrow> None | x # r \<Rightarrow> if x = c then Some r else None)"
  by (cases s) (auto simp: cutPrefix_def hasPrefix_def)

text \<open>\<open>strings.Trim(s, cutset)\<close>\<close>

definition trimLeftSet :: "string \<Rightarrow> string \<Rightarrow> string" where
  [go_simps]: "trimLeftSet s cs = dropWhile (\<lambda>c. c \<in> set cs) s"

definition trimSet :: "string \<Rightarrow> string \<Rightarrow> string" where
  [go_simps]: "trimSet s cs = rev (trimLeftSet (rev (trimLeftSet s cs)) cs)"

lemma trimLeftSet_Nil_iff: "trimLeftSet s cs = [] \<longleftrightarrow> set s \<subseteq> set cs"
  by (induction s) (simp_all add: trimLeftSet_def)

lemma trimLeftSet_hd: "trimLeftSet s cs = x # r \<Longrightarrow> x \<notin> set cs"
  by (induction s) (simp_all add: trimLeftSet_def split: if_splits)

lemma trimSet_Nil_iff: "trimSet s cs = [] \<longleftrightarrow> set s \<subseteq> set cs"
proof (cases "trimLeftSet s cs")
  case Nil
  then show ?thesis
    using trimLeftSet_Nil_iff [of s cs] trimLeftSet_Nil_iff [of "[]" cs] by (simp add: trimSet_def)
next
  case (Cons x r)
  then show ?thesis
    using trimLeftSet_Nil_iff [of s cs] trimLeftSet_Nil_iff [of "rev (x # r)" cs]
      trimLeftSet_hd [OF Cons] by (simp add: trimSet_def)
qed

text \<open>
  \<open>strings.TrimSpace\<close> removes white space as Unicode defines it; the encodings below are the
  UTF-8 forms of every such rune, the six ASCII ones first.
\<close>

definition space_runes :: "string list" where
  "space_runes =
    [[CHR 0x09], [CHR 0x0A], [CHR 0x0B], [CHR 0x0C], [CHR 0x0D], [CHR 0x20], [CHR 0xC2, CHR 0x85],
     [CHR 0xC2, CHR 0xA0], [CHR 0xE1, CHR 0x9A, CHR 0x80], [CHR 0xE2, CHR 0x80, CHR 0x80],
     [CHR 0xE2, CHR 0x80, CHR 0x81], [CHR 0xE2, CHR 0x80, CHR 0x82],
     [CHR 0xE2, CHR 0x80, CHR 0x83], [CHR 0xE2, CHR 0x80, CHR 0x84],
     [CHR 0xE2, CHR 0x80, CHR 0x85], [CHR 0xE2, CHR 0x80, CHR 0x86],
     [CHR 0xE2, CHR 0x80, CHR 0x87], [CHR 0xE2, CHR 0x80, CHR 0x88],
     [CHR 0xE2, CHR 0x80, CHR 0x89], [CHR 0xE2, CHR 0x80, CHR 0x8A],
     [CHR 0xE2, CHR 0x80, CHR 0xA8], [CHR 0xE2, CHR 0x80, CHR 0xA9],
     [CHR 0xE2, CHR 0x80, CHR 0xAF], [CHR 0xE2, CHR 0x81, CHR 0x9F], [CHR 0xE3, CHR 0x80, CHR 0x80]]"

fun trimLeftSpace :: "nat \<Rightarrow> string list \<Rightarrow> string \<Rightarrow> string" where
  "trimLeftSpace 0 rs s = s"
| "trimLeftSpace (Suc k) rs s =
     (case find (\<lambda>r. hasPrefix s r) rs of None \<Rightarrow> s
      | Some r \<Rightarrow> trimLeftSpace k rs (drop (length r) s))"

definition trimSpace :: "string \<Rightarrow> string" where
  "trimSpace s =
     (let l = trimLeftSpace (length s) space_runes s
      in rev (trimLeftSpace (length l) (map rev space_runes) (rev l)))"

lemma trimLeftSpace_length: "length (trimLeftSpace k rs s) \<le> length s"
proof (induction k arbitrary: s)
  case (Suc k)
  show ?case
    by (auto split: option.splits intro: order_trans [OF Suc])
qed simp

lemma trimSpace_length: "length (trimSpace s) \<le> length s"
proof -
  let ?l = "trimLeftSpace (length s) space_runes s"
  have "length (trimSpace s) \<le> length ?l"
    using trimLeftSpace_length [of "length ?l" "map rev space_runes" "rev ?l"]
    by (simp add: trimSpace_def Let_def)
  also have "\<dots> \<le> length s"
    by (rule trimLeftSpace_length)
  finally show ?thesis .
qed

text \<open>Byte positions, as \<open>bytealg.IndexByteString\<close> and its \<open>Last\<close> form return them.\<close>

fun indexByte :: "string \<Rightarrow> char \<Rightarrow> nat option" where
  "indexByte [] c = None"
| "indexByte (x # xs) c = (if x = c then Some 0 else map_option Suc (indexByte xs c))"

fun lastIndexByte :: "string \<Rightarrow> char \<Rightarrow> nat option" where
  "lastIndexByte [] c = None"
| "lastIndexByte (x # xs) c =
     (case lastIndexByte xs c of Some i \<Rightarrow> Some (Suc i) | None \<Rightarrow> if x = c then Some 0 else None)"

lemma indexByte_None_iff [simp]: "indexByte s c = None \<longleftrightarrow> c \<notin> set s"
  by (induction s) auto

lemma lastIndexByte_None_iff [simp]: "lastIndexByte s c = None \<longleftrightarrow> c \<notin> set s"
  by (induction s) (auto split: option.splits)

lemma indexByte_append: "c \<notin> set p \<Longrightarrow> indexByte (p @ c # s) c = Some (length p)"
  by (induction p) auto

lemma lastIndexByte_append: "c \<notin> set s \<Longrightarrow> lastIndexByte (p @ c # s) c = Some (length p)"
  by (induction p) (auto split: option.splits)

subsection \<open>Packages strconv and fmt\<close>

definition dec_digits :: string where
  "dec_digits = ''0123456789''"

definition digit_char :: "nat \<Rightarrow> char" where
  "digit_char d = dec_digits ! d"

definition digit_val :: "char \<Rightarrow> nat option" where
  "digit_val c = map_of (zip dec_digits [0, 1, 2, 3, 4, 5, 6, 7, 8, 9]) c"

lemma less_10_cases: "(d::nat) < 10 \<Longrightarrow>
    d = 0 \<or> d = 1 \<or> d = 2 \<or> d = 3 \<or> d = 4 \<or> d = 5 \<or> d = 6 \<or> d = 7 \<or> d = 8 \<or> d = 9"
  by arith

lemma digit_val_digit_char [simp]: "d < 10 \<Longrightarrow> digit_val (digit_char d) = Some d"
  by (drule less_10_cases) (auto simp: digit_val_def digit_char_def dec_digits_def)

lemma digit_char_in [simp]: "d < 10 \<Longrightarrow> digit_char d \<in> set dec_digits"
  by (simp add: digit_char_def dec_digits_def [THEN arg_cong [of _ _ length]])

text \<open>\<open>%d\<close> of a non-negative number.\<close>

fun show_nat :: "nat \<Rightarrow> string" where
  "show_nat n = (if n < 10 then [digit_char n] else show_nat (n div 10) @ [digit_char (n mod 10)])"

declare show_nat.simps [simp del]

lemma show_nat_small: "n < 10 \<Longrightarrow> show_nat n = [digit_char n]"
  by (simp add: show_nat.simps)

lemma show_nat_not_Nil [simp]: "show_nat n \<noteq> []"
  by (subst show_nat.simps) simp

lemma show_nat_digits: "set (show_nat n) \<subseteq> set dec_digits"
proof (induction n rule: show_nat.induct)
  case (1 n)
  then show ?case
    by (cases "n < 10") (auto simp: show_nat.simps [of n])
qed

text \<open>\<open>%d\<close> of a signed integer of any width.\<close>

definition show_int :: "int \<Rightarrow> string" where
  "show_int i = (if i < 0 then CHR ''-'' # show_nat (nat (- i)) else show_nat (nat i))"

text \<open>\<open>strconv.Atoi\<close>: an optional sign, at least one decimal digit, within 64 bits.\<close>

fun digits_val :: "nat \<Rightarrow> string \<Rightarrow> nat option" where
  "digits_val acc [] = Some acc"
| "digits_val acc (c # cs) =
     (case digit_val c of None \<Rightarrow> None | Some d \<Rightarrow> digits_val (10 * acc + d) cs)"

definition atoi :: "string \<Rightarrow> int option" where
  "atoi s =
    (let neg = (hasPrefix s ''-'');
         body = (if neg \<or> hasPrefix s ''+'' then tl s else s)
     in if body = [] then None
        else (case digits_val 0 body of
            None \<Rightarrow> None
          | Some n \<Rightarrow>
              (let v = (if neg then - int n else int n)
               in if - (2 ^ 63) \<le> v \<and> v < 2 ^ 63 then Some v else None)))"

lemma digits_val_append:
  "digits_val acc (xs @ ys) =
     (case digits_val acc xs of None \<Rightarrow> None | Some m \<Rightarrow> digits_val m ys)"
  by (induction xs arbitrary: acc) (auto split: option.splits)

lemma digits_val_show_nat: "digits_val 0 (show_nat n) = Some n"
proof (induction n rule: show_nat.induct)
  case (1 n)
  show ?case
  proof (cases "n < 10")
    case True
    then show ?thesis by (simp add: show_nat_small)
  next
    case False
    with 1 show ?thesis
      by (subst show_nat.simps) (simp add: digits_val_append)
  qed
qed

lemma show_nat_no_sign: "\<not> hasPrefix (show_nat n) ''-''" "\<not> hasPrefix (show_nat n) ''+''"
  using show_nat_digits [of n] by (auto simp: hasPrefix_single dec_digits_def)

lemma atoi_show_nat: "n < 2 ^ 63 \<Longrightarrow> atoi (show_nat n) = Some (int n)"
  by (simp add: atoi_def show_nat_no_sign digits_val_show_nat)

lemma atoi_show_nat_big: "2 ^ 63 \<le> n \<Longrightarrow> atoi (show_nat n) = None"
  by (simp add: atoi_def show_nat_no_sign digits_val_show_nat)

lemma atoi_show_nat_iff: "atoi (show_nat n) = Some i \<longleftrightarrow> i = int n \<and> n < 2 ^ 63"
  using atoi_show_nat atoi_show_nat_big by (metis leI option.distinct(1) option.inject)

lemma atoi_plus: "atoi (CHR ''+'' # show_nat n) = atoi (show_nat n)"
proof -
  have "hasPrefix (CHR ''+'' # show_nat n) ''+''" "\<not> hasPrefix (CHR ''+'' # show_nat n) ''-''"
    by (simp_all add: hasPrefix_single)
  then show ?thesis by (simp add: atoi_def show_nat_no_sign)
qed

text \<open>
  \<open>time.Duration.String()\<close> of a number of nanoseconds: below a second the largest unit that
  leaves an integral part (ns, the two-byte micro sign, ms), else hours, minutes and seconds
  with the leading zero units left out. \<open>fmtFrac\<close> drops trailing zeros of the fraction.
\<close>

fun pad_digits :: "nat \<Rightarrow> nat \<Rightarrow> string" where
  "pad_digits 0 v = []"
| "pad_digits (Suc k) v = pad_digits k (v div 10) @ [digit_char (v mod 10)]"

definition fmtFrac :: "nat \<Rightarrow> nat \<Rightarrow> string" where
  "fmtFrac v prec =
     (let ds = rev (dropWhile (\<lambda>c. c = CHR ''0'') (rev (pad_digits prec v)))
      in if ds = [] then [] else CHR ''.'' # ds)"

definition duration_abs :: "nat \<Rightarrow> string" where
  "duration_abs u =
     (if u = 0 then ''0s''
      else if u < 10 ^ 3 then show_nat u @ ''ns''
      else if u < 10 ^ 6 then show_nat (u div 10 ^ 3) @ fmtFrac u 3 @ [char_of (0xC2 :: nat), char_of (0xB5 :: nat)] @ ''s''
      else if u < 10 ^ 9 then show_nat (u div 10 ^ 6) @ fmtFrac u 6 @ ''ms''
      else
        (let sec = u div 10 ^ 9; m = sec div 60; h = m div 60
         in append_if (0 < h) (show_nat h @ ''h'') @ append_if (0 < m) (show_nat (m mod 60) @ ''m'')
            @ show_nat (sec mod 60) @ fmtFrac u 9 @ ''s''))"

definition durationString :: "int \<Rightarrow> string" where
  "durationString d = (if d < 0 then CHR ''-'' # duration_abs (nat (- d)) else duration_abs (nat d))"

lemma durationString_not_Nil [simp]: "durationString d \<noteq> []"
  by (simp add: durationString_def duration_abs_def Let_def)

text \<open>\<open>%x\<close> of a byte slice: two lower-case hexadecimal digits per byte.\<close>

definition hex_of_bytes :: "string \<Rightarrow> string" where
  "hex_of_bytes s = concat (map (\<lambda>c. let n = (of_char c :: nat)
     in [''0123456789abcdef'' ! (n div 16), ''0123456789abcdef'' ! (n mod 16)]) s)"

lemma hex_of_bytes_length: "length (hex_of_bytes s) = 2 * length s"
  by (induction s) (auto simp: hex_of_bytes_def Let_def)

end
