(* ===== verification/Go_Net.thy ===== *)
theory Go_Net
  imports Go_Strings
begin

text \<open>
  The two functions of Go's package \<open>net\<close> that decide what a nameserver address is:
  \<open>net.SplitHostPort\<close>, written as the library does it with byte positions, and
  \<open>net.ParseIP\<close>, of which the code asks only whether the result is nil. The lemmas say what
  the two accept as a grammar.
\<close>

subsection \<open>net.SplitHostPort\<close>

definition SplitHostPort :: "string \<Rightarrow> (string \<times> string) option" where
  "SplitHostPort s =
    (case lastIndexByte s CHR '':'' of
      None \<Rightarrow> None
    | Some i \<Rightarrow>
        (let fin = (\<lambda>host j k. if CHR ''['' \<in> set (drop j s) \<or> CHR '']'' \<in> set (drop k s)
                     then None else Some (host, drop (Suc i) s))
         in if hasPrefix s ''['' then
              (case indexByte s CHR '']'' of
                None \<Rightarrow> None
              | Some e \<Rightarrow>
                  if Suc e = length s then None
                  else if Suc e = i then fin (take (e - 1) (drop 1 s)) 1 (Suc e)
                  else None)
            else
              (let host = take i s
               in if CHR '':'' \<in> set host then None else fin host 0 0)))"

definition no_brackets :: "string \<Rightarrow> bool" where
  "no_brackets s \<longleftrightarrow> CHR ''['' \<notin> set s \<and> CHR '']'' \<notin> set s"

lemma no_brackets_append [simp]: "no_brackets (a @ b) \<longleftrightarrow> no_brackets a \<and> no_brackets b"
  by (auto simp: no_brackets_def)

lemma no_brackets_Cons [simp]:
  "no_brackets (c # s) \<longleftrightarrow> c \<noteq> CHR ''['' \<and> c \<noteq> CHR '']'' \<and> no_brackets s"
  by (auto simp: no_brackets_def)

lemma last_colon_split:
  "lastIndexByte s c = Some i \<Longrightarrow> \<exists>p q. s = p @ c # q \<and> c \<notin> set q \<and> length p = i"
proof (induction s arbitrary: i)
  case Nil
  then show ?case by simp
next
  case (Cons x s)
  show ?case
  proof (cases "lastIndexByte s c")
    case None
    with Cons.prems have "x = c" "i = 0" "c \<notin> set s"
      by (auto split: if_splits)
    then show ?thesis by (intro exI [of _ "[]"] exI [of _ s]) simp
  next
    case (Some k)
    from Cons.IH [OF Some] obtain p q where "s = p @ c # q" "c \<notin> set q" "length p = k"
      by blast
    with Some Cons.prems show ?thesis
      by (intro exI [of _ "x # p"] exI [of _ q]) auto
  qed
qed

lemma SplitHostPort_plain:
  assumes "CHR '':'' \<notin> set h" "CHR '':'' \<notin> set p" "no_brackets h" "no_brackets p"
  shows "SplitHostPort (h @ CHR '':'' # p) = Some (h, p)"
  using assms
  by (auto simp: SplitHostPort_def lastIndexByte_append hasPrefix_single no_brackets_def
      Cons_eq_append_conv append_eq_Cons_conv Let_def)

lemma SplitHostPort_bracketed:
  assumes "no_brackets h" "CHR '':'' \<notin> set p" "no_brackets p"
  shows "SplitHostPort (CHR ''['' # h @ CHR '']'' # CHR '':'' # p) = Some (h, p)"
proof -
  have "lastIndexByte (CHR ''['' # h @ CHR '']'' # CHR '':'' # p) CHR '':'' = Some (length h + 2)"
    using assms lastIndexByte_append [of "CHR '':''" p "CHR ''['' # h @ [CHR '']'']"] by simp
  moreover have "indexByte (CHR ''['' # h @ CHR '']'' # CHR '':'' # p) CHR '']'' = Some (length h + 1)"
    using assms indexByte_append [of "CHR '']''" "CHR ''['' # h"] by (simp add: no_brackets_def)
  ultimately show ?thesis
    using assms by (simp add: SplitHostPort_def hasPrefix_def no_brackets_def)
qed

lemma SplitHostPort_no_colon: "CHR '':'' \<notin> set s \<Longrightarrow> SplitHostPort s = None"
  by (simp add: SplitHostPort_def lastIndexByte_None_iff [THEN iffD2])

lemma first_index_split:
  "indexByte s c = Some i \<Longrightarrow> \<exists>p q. s = p @ c # q \<and> c \<notin> set p \<and> length p = i"
proof (induction s arbitrary: i)
  case (Cons x s)
  show ?case
  proof (cases "x = c")
    case True
    with Cons.prems show ?thesis by (auto intro: exI [of _ "[]"])
  next
    case False
    with Cons.prems obtain j where "indexByte s c = Some j" "i = Suc j" by auto
    with Cons.IH [of j] obtain p q where "s = p @ c # q" "c \<notin> set p" "length p = j" by blast
    with False \<open>i = Suc j\<close> show ?thesis by (intro exI [of _ "x # p"] exI [of _ q]) simp
  qed
qed simp

lemma SplitHostPort_bracketedD:
  assumes "SplitHostPort s = Some (h, p)" "hasPrefix s ''[''"
  shows "s = CHR ''['' # h @ CHR '']'' # CHR '':'' # p \<and> CHR '':'' \<notin> set p \<and> no_brackets h \<and> no_brackets p"
proof -
  obtain i e where i: "lastIndexByte s CHR '':'' = Some i"
    and e: "indexByte s CHR '']'' = Some e" "Suc e = i"
    and h: "h = take (e - 1) (drop 1 s)" and p: "p = drop (Suc i) s"
    and nb: "CHR ''['' \<notin> set (drop 1 s)" "CHR '']'' \<notin> set (drop i s)"
    using assms by (auto simp: SplitHostPort_def Let_def split: option.splits if_splits)
  obtain a b where ab: "s = a @ CHR '':'' # b" "CHR '':'' \<notin> set b" "length a = i"
    using last_colon_split [OF i] by blast
  obtain q r where qr: "s = q @ CHR '']'' # r" "CHR '']'' \<notin> set q" "length q = e"
    using first_index_split [OF e(1)] by blast
  have "(q @ [CHR '']'']) @ r = a @ CHR '':'' # b" "length (q @ [CHR '']'']) = length a"
    using ab qr e(2) by simp_all
  then have r: "r = CHR '':'' # b" using append_eq_append_conv by blast
  obtain q' where q': "q = CHR ''['' # q'"
    using assms(2) qr(1) by (cases q) (auto simp: hasPrefix_single)
  have "h = q'" using h qr(1,3) q' by auto
  moreover have "p = b" using p ab(1,3) by simp
  ultimately show ?thesis
    using qr(1,2) q' r ab nb by (auto simp: no_brackets_def)
qed

lemma SplitHostPort_unbracketedD:
  assumes "SplitHostPort s = Some (h, p)" "\<not> hasPrefix s ''[''"
  shows "s = h @ CHR '':'' # p \<and> CHR '':'' \<notin> set p \<and> CHR '':'' \<notin> set h \<and> no_brackets h \<and> no_brackets p"
proof -
  obtain i where i: "lastIndexByte s CHR '':'' = Some i"
    using assms(1) by (auto simp: SplitHostPort_def split: option.splits)
  obtain a b where "s = a @ CHR '':'' # b" "CHR '':'' \<notin> set b" "length a = i"
    using last_colon_split [OF i] by blast
  then show ?thesis
    using assms i by (auto simp: SplitHostPort_def Let_def no_brackets_def split: if_splits)
qed

lemma SplitHostPort_SomeD:
  assumes "SplitHostPort s = Some (h, p)"
  shows "CHR '':'' \<notin> set p \<and> no_brackets p \<and> no_brackets h
    \<and> (s = h @ CHR '':'' # p \<and> CHR '':'' \<notin> set h \<or> s = CHR ''['' # h @ CHR '']'' # CHR '':'' # p)"
  using SplitHostPort_bracketedD [OF assms] SplitHostPort_unbracketedD [OF assms] by blast

subsection \<open>net.ParseIP\<close>

text \<open>
  \<open>netip.parseIPv4Fields\<close>: the previous character, the value and the number of digits of the
  current octet and the number of octets before it are the loop's state.
\<close>

fun ipv4_loop :: "char option \<Rightarrow> nat \<Rightarrow> nat \<Rightarrow> nat \<Rightarrow> string \<Rightarrow> bool" where
  "ipv4_loop prev val pos digLen [] = (pos \<ge> 3)"
| "ipv4_loop prev val pos digLen (c # cs) =
    (case digit_val c of
      Some d \<Rightarrow>
        if digLen = 1 \<and> val = 0 then False
        else if val * 10 + d > 255 then False
        else ipv4_loop (Some c) (val * 10 + d) pos (Suc digLen) cs
    | None \<Rightarrow>
        if c = CHR ''.'' then
          (if prev = None \<or> cs = [] \<or> prev = Some CHR ''.'' then False
           else if pos = 3 then False
           else ipv4_loop (Some c) 0 (Suc pos) 0 cs)
        else False)"

definition parseIPv4Fields :: "string \<Rightarrow> bool" where
  "parseIPv4Fields s = ipv4_loop None 0 0 0 s"

definition isHex :: "char \<Rightarrow> bool" where
  "isHex c \<longleftrightarrow> c \<in> set ''0123456789abcdefABCDEF''"

text \<open>
  \<open>netip.parseIPv6\<close>: \<open>i\<close> counts the bytes of the address that are set, \<open>ell\<close> is the position of
  the ellipsis. A zone makes \<open>ParseIP\<close> return nil, so any \<open>%\<close> does.
\<close>

definition ipv6_end :: "nat \<Rightarrow> nat option \<Rightarrow> string \<Rightarrow> bool" where
  "ipv6_end i ell s \<longleftrightarrow> s = [] \<and> (if i < 16 then ell \<noteq> None else ell = None)"

function ipv6_loop :: "nat \<Rightarrow> nat option \<Rightarrow> string \<Rightarrow> bool" where
  "ipv6_loop i ell s =
    (if i \<ge> 16 then ipv6_end i ell s
     else
       (let off = length (takeWhile isHex s)
        in if off = 0 \<or> off > 4 then False
           else (case drop off s of
               [] \<Rightarrow> ipv6_end (i + 2) ell []
             | c # r \<Rightarrow>
                 if c = CHR ''.'' then
                   (if ell = None \<and> i \<noteq> 12 then False
                    else if i + 4 > 16 then False
                    else parseIPv4Fields s \<and> ipv6_end (i + 4) ell [])
                 else if c \<noteq> CHR '':'' then False
                 else (case r of
                     [] \<Rightarrow> False
                   | d # r' \<Rightarrow>
                       if d = CHR '':'' then
                         (if ell \<noteq> None then False
                          else if r' = [] then ipv6_end (i + 2) (Some (i + 2)) []
                          else ipv6_loop (i + 2) (Some (i + 2)) r')
                       else ipv6_loop (i + 2) ell r))))"
  by pat_completeness auto
termination
  by (relation "measure (\<lambda>(i, ell, s). 16 - i)") auto

declare ipv6_loop.simps [simp del]

definition parseIPv6 :: "string \<Rightarrow> bool" where
  "parseIPv6 s =
    (if CHR ''%'' \<in> set s then False
     else if hasPrefix s ''::'' then
       (if length s = 2 then True else ipv6_loop 0 (Some 0) (drop 2 s))
     else ipv6_loop 0 None s)"

text \<open>\<open>net.ParseIP(s) != nil\<close>\<close>

definition ParseIP :: "string \<Rightarrow> bool" where
  "ParseIP s =
    (case find (\<lambda>c. c \<in> {CHR ''.'', CHR '':'', CHR ''%''}) s of
      None \<Rightarrow> False
    | Some c \<Rightarrow> if c = CHR ''.'' then parseIPv4Fields s
                else if c = CHR '':'' then parseIPv6 s else False)"

subsection \<open>What ParseIP accepts\<close>

definition ip_chars :: "char set" where
  "ip_chars = set ''0123456789abcdefABCDEF.:''"

lemma digit_val_SomeD: "digit_val c = Some d \<Longrightarrow> c \<in> set dec_digits"
  by (auto simp: digit_val_def dest: map_of_SomeD set_zip_leftD)

lemma dec_digits_ip_chars: "set dec_digits \<subseteq> ip_chars"
  by (simp add: dec_digits_def ip_chars_def)

lemma ipv4_loop_chars: "ipv4_loop prev v pos n s \<Longrightarrow> set s \<subseteq> ip_chars"
proof (induction prev v pos n s rule: ipv4_loop.induct)
  case (2 prev v pos n c cs)
  show ?case
  proof (cases "digit_val c")
    case None
    with 2 show ?thesis by (auto simp: ip_chars_def split: if_splits)
  next
    case (Some d)
    then have "c \<in> ip_chars"
      using digit_val_SomeD dec_digits_ip_chars by blast
    with 2 Some show ?thesis by (auto split: if_splits)
  qed
qed simp

lemma isHex_ip_chars: "isHex c \<Longrightarrow> c \<in> ip_chars"
  by (auto simp: isHex_def ip_chars_def)

lemma takeWhile_isHex_chars: "set (takeWhile isHex s) \<subseteq> ip_chars"
  by (auto dest: set_takeWhileD isHex_ip_chars)

lemma split_isHex: "s = takeWhile isHex s @ drop (length (takeWhile isHex s)) s"
  by (simp add: dropWhile_eq_drop [symmetric])

lemma ipv6_loop_chars: "ipv6_loop i ell s \<Longrightarrow> set s \<subseteq> ip_chars"
proof (induction i ell s rule: ipv6_loop.induct)
  case (1 i ell s)
  let ?rest = "drop (length (takeWhile isHex s)) s"
  have colon: "CHR '':'' \<in> ip_chars"
    by (simp add: ip_chars_def)
  have *: "set ?rest \<subseteq> ip_chars \<Longrightarrow> ?case"
    using split_isHex [of s] takeWhile_isHex_chars [of s] by (metis Un_subset_iff set_append)
  show ?case
  proof (cases "i \<ge> 16")
    case True
    with 1(3) show ?thesis by (simp add: ipv6_loop.simps [of i] ipv6_end_def)
  next
    case False
    note step = 1(3) [unfolded ipv6_loop.simps [of i] Let_def]
    show ?thesis
    proof (cases ?rest)
      case Nil
      then show ?thesis using * by simp
    next
      case (Cons c r)
      show ?thesis
      proof (cases "c = CHR ''.''")
        case True
        with step False Cons have "parseIPv4Fields s"
          by (auto split: if_splits)
        then show ?thesis by (auto simp: parseIPv4Fields_def dest: ipv4_loop_chars)
      next
        case ndot: False
        with step False Cons obtain d r' where c: "c = CHR '':''" and r: "r = d # r'"
          by (auto split: if_splits list.splits)
        show ?thesis
        proof (cases "d = CHR '':''")
          case True
          with step False Cons c r ndot have "set r' \<subseteq> ip_chars"
            using "1.IH"(1) [OF _ refl _ Cons] by (auto split: if_splits)
          with Cons c r True colon * show ?thesis by simp
        next
          case nd: False
          with step False Cons c r ndot have "set r \<subseteq> ip_chars"
            using "1.IH"(2) [OF _ refl _ Cons] by (auto split: if_splits)
          with Cons c colon * show ?thesis by simp
        qed
      qed
    qed
  qed
qed

lemma ParseIP_chars: "ParseIP s \<Longrightarrow> set s \<subseteq> ip_chars"
proof -
  assume ip: "ParseIP s"
  have "set (drop 2 s) \<subseteq> ip_chars \<Longrightarrow> hasPrefix s ''::'' \<Longrightarrow> set s \<subseteq> ip_chars"
    by (cases s; cases "tl s") (auto simp: hasPrefix_def ip_chars_def)
  moreover have "hasPrefix s ''::'' \<Longrightarrow> length s = 2 \<Longrightarrow> drop 2 s = []"
    by simp
  ultimately show ?thesis
    using ip
    by (auto simp: ParseIP_def parseIPv6_def parseIPv4Fields_def
        split: option.splits if_splits dest!: ipv4_loop_chars ipv6_loop_chars)
qed

lemma ParseIP_no_brackets: "ParseIP s \<Longrightarrow> no_brackets s"
  by (auto simp: no_brackets_def ip_chars_def dest!: ParseIP_chars)

lemma digit_chars_plain: "c \<in> set dec_digits \<Longrightarrow> c \<noteq> CHR ''.'' \<and> c \<noteq> CHR '':'' \<and> c \<noteq> CHR ''%''
    \<and> c \<noteq> CHR ''['' \<and> c \<noteq> CHR '']''"
  by (auto simp: dec_digits_def)

lemma show_nat_plain: "c \<in> set (show_nat n) \<Longrightarrow> c \<noteq> CHR ''.'' \<and> c \<noteq> CHR '':'' \<and> c \<noteq> CHR ''%''
    \<and> c \<noteq> CHR ''['' \<and> c \<noteq> CHR '']''"
  using show_nat_digits digit_chars_plain by blast

lemma show_nat_no_brackets [simp]: "no_brackets (show_nat n)"
  using show_nat_plain unfolding no_brackets_def by blast

subsection \<open>Dotted decimal strings\<close>

definition dotted :: "nat list \<Rightarrow> string" where
  "dotted ns = joinOn CHR ''.'' (map show_nat ns)"

lemma ipv4_octet:
  "ipv4_loop prev 0 pos 0 (show_nat n @ rest) =
     (n \<le> 255 \<and> ipv4_loop (Some (last (show_nat n))) n pos (length (show_nat n)) rest)"
proof (induction n arbitrary: rest rule: show_nat.induct)
  case (1 n)
  show ?case
  proof (cases "n < 10")
    case True
    then show ?thesis by (simp add: show_nat_small)
  next
    case False
    have len: "length (show_nat (n div 10)) \<noteq> 0" by simp
    have eq: "n div 10 * 10 + n mod 10 = n" by simp
    have "show_nat n = show_nat (n div 10) @ [digit_char (n mod 10)]"
      using False by (simp add: show_nat.simps [of n])
    moreover have "0 < n div 10"
      using False by (simp add: div_greater_zero_iff)
    ultimately show ?thesis
      using "1.IH" [OF False, of "digit_char (n mod 10) # rest"] False eq by auto
  qed
qed

lemma last_show_nat: "last (show_nat n) \<noteq> CHR ''.''"
  using show_nat_plain [of "last (show_nat n)" n] by simp

lemma dotted_Cons: "ns \<noteq> [] \<Longrightarrow> dotted (n # ns) = show_nat n @ CHR ''.'' # dotted ns"
  by (simp add: dotted_def joinOn_Cons)

lemma dotted_not_Nil: "ns \<noteq> [] \<Longrightarrow> dotted ns \<noteq> []"
  by (cases ns; cases "tl ns") (auto simp: dotted_def)

lemma ipv4_dotted:
  "ns \<noteq> [] \<Longrightarrow> pos \<le> 3 \<Longrightarrow>
     ipv4_loop prev 0 pos 0 (dotted ns) = ((\<forall>n \<in> set ns. n \<le> 255) \<and> pos + length ns = 4)"
proof (induction ns arbitrary: prev pos)
  case Nil
  then show ?case by simp
next
  case (Cons n ns)
  show ?case
  proof (cases "ns = []")
    case True
    then show ?thesis
      using Cons.prems ipv4_octet [of prev pos n "[]"] by (auto simp: dotted_def)
  next
    case False
    have "digit_val CHR ''.'' = None"
      by (simp add: digit_val_def dec_digits_def)
    then have "ipv4_loop prev 0 pos 0 (dotted (n # ns)) =
        (n \<le> 255 \<and> pos \<noteq> 3 \<and> ipv4_loop (Some CHR ''.'') 0 (Suc pos) 0 (dotted ns))"
      using False last_show_nat [of n] by (simp add: dotted_Cons ipv4_octet dotted_not_Nil)
    also have "\<dots> = (n \<le> 255 \<and> pos \<noteq> 3 \<and> (\<forall>n \<in> set ns. n \<le> 255) \<and> Suc pos + length ns = 4)"
      using Cons.IH [OF False, of "Suc pos"] Cons.prems by auto
    finally show ?thesis
      using False by (cases ns) auto
  qed
qed

lemma dotted_chars: "set (dotted ns) \<subseteq> insert CHR ''.'' (set dec_digits)"
proof (induction ns)
  case Nil
  then show ?case by (simp add: dotted_def)
next
  case (Cons n ns)
  then show ?case
    using show_nat_digits [of n] by (cases "ns = []") (auto simp: dotted_Cons, auto simp: dotted_def)
qed

lemma find_show_nat:
  "find (\<lambda>c. c \<in> {CHR ''.'', CHR '':'', CHR ''%''}) (show_nat n @ rest)
     = find (\<lambda>c. c \<in> {CHR ''.'', CHR '':'', CHR ''%''}) rest"
proof -
  have "\<forall>c \<in> set xs. c \<notin> {CHR ''.'', CHR '':'', CHR ''%''} \<Longrightarrow>
      find (\<lambda>c. c \<in> {CHR ''.'', CHR '':'', CHR ''%''}) (xs @ rest)
        = find (\<lambda>c. c \<in> {CHR ''.'', CHR '':'', CHR ''%''}) rest" for xs
    by (induction xs) auto
  then show ?thesis using show_nat_plain by blast
qed

lemma ParseIP_dotted: "ParseIP (dotted ns) \<longleftrightarrow> length ns = 4 \<and> (\<forall>n \<in> set ns. n \<le> 255)"
proof (cases ns)
  case Nil
  then show ?thesis by (simp add: ParseIP_def dotted_def)
next
  case (Cons n ms)
  show ?thesis
  proof (cases "ms = []")
    case True
    then have "dotted ns = show_nat n @ []" using Cons by (simp add: dotted_def)
    then show ?thesis
      using Cons True find_show_nat [of n "[]"] by (simp add: ParseIP_def)
  next
    case False
    have "find (\<lambda>c. c \<in> {CHR ''.'', CHR '':'', CHR ''%''}) (dotted ns) = Some CHR ''.''"
      using Cons False find_show_nat [of n "CHR ''.'' # dotted ms"] by (simp add: dotted_Cons)
    then have "ParseIP (dotted ns) = parseIPv4Fields (dotted ns)"
      by (simp add: ParseIP_def)
    then show ?thesis
      using ipv4_dotted [of ns 0 None] Cons by (auto simp: parseIPv4Fields_def)
  qed
qed

end
