(* ===== verification/API_Conversion.thy ===== *)
theory API_Conversion
  imports Cert_Prelude
begin

text \<open>
  The contract of a pair of generated conversion functions between a versioned API type and its
  internal type. A conversion writes every field of an existing target object but leaves the
  target's \<open>TypeMeta\<close> alone; \<open>vmeta\<close> and \<open>imeta\<close> replace the \<open>TypeMeta\<close> of an object.
\<close>

record TypeMeta =
  tm_Kind :: string
  tm_APIVersion :: string

locale api_conversion =
  fixes to_internal :: "'v \<Rightarrow> 'i \<Rightarrow> 'i"
    and to_versioned :: "'i \<Rightarrow> 'v \<Rightarrow> 'v"
    and vmeta :: "'v \<Rightarrow> TypeMeta" and set_vmeta :: "TypeMeta \<Rightarrow> 'v \<Rightarrow> 'v"
    and imeta :: "'i \<Rightarrow> TypeMeta" and set_imeta :: "TypeMeta \<Rightarrow> 'i \<Rightarrow> 'i"
  assumes versioned_of_internal: "to_versioned (to_internal v i) v' = set_vmeta (vmeta v') v"
    and internal_of_versioned: "to_internal (to_versioned i v) i' = set_imeta (imeta i') i"
    and set_vmeta_id: "set_vmeta (vmeta v) v = v"
    and set_imeta_id: "set_imeta (imeta i) i = i"
    and set_vmeta_again: "set_vmeta m (set_vmeta m' v) = set_vmeta m v"
begin

lemma round_trip: "vmeta v' = vmeta v \<Longrightarrow> to_versioned (to_internal v i) v' = v"
  by (simp add: versioned_of_internal set_vmeta_id)

lemma round_trip_internal: "imeta i' = imeta i \<Longrightarrow> to_internal (to_versioned i v) i' = i"
  by (simp add: internal_of_versioned set_imeta_id)

text \<open>Nothing but the \<open>TypeMeta\<close> is lost: objects that convert alike differ in it at most.\<close>

lemma lossless: "to_internal v i = to_internal v' i \<Longrightarrow> set_vmeta (vmeta v) v' = v"
  by (metis versioned_of_internal set_vmeta_again set_vmeta_id)

end

end
