(* ===== verification/Config_API.thy ===== *)
theory Config_API
  imports API_Conversion
begin

text \<open>
  The configuration of the extension: the internal type (\<open>pkg/apis/config/types.go\<close>), the
  versioned one (\<open>pkg/apis/config/v1alpha1/types.go\<close>), the defaulting function and the generated
  conversions between them.
\<close>

subsection \<open>Internal types\<close>

record HealthCheckConfig =
  hcc_SyncPeriod :: go_int

record PrivateKeyDefaults =
  pkd_Algorithm :: "string option"
  pkd_SizeRSA :: "go_int option"
  pkd_SizeECDSA :: "go_int option"

record ShootIssuers =
  si_Enabled :: bool

record ConfigACME =
  cacme_Email :: string
  cacme_Server :: string
  cacme_PrivateKey :: "string option"
  cacme_PropagationTimeout :: "go_int option"
  cacme_PrecheckNameservers :: "string option"
  cacme_CACertificates :: "string option"
  cacme_DeactivateAuthorizations :: "bool option"
  cacme_SkipDNSChallengeValidation :: "bool option"

record ConfigCA =
  cca_Certificate :: string
  cca_CertificateKey :: string

record Configuration =
  cfg_TypeMeta :: TypeMeta
  cfg_IssuerName :: string
  cfg_RestrictIssuer :: "bool option"
  cfg_DefaultRequestsPerDayQuota :: "go_int32 option"
  cfg_ShootIssuers :: "ShootIssuers option"
  cfg_ACME :: "ConfigACME option"
  cfg_CA :: "ConfigCA option"
  cfg_HealthCheckConfig :: "HealthCheckConfig option"
  cfg_PrivateKeyDefaults :: "PrivateKeyDefaults option"
  cfg_InClusterACMEServerNamespaceMatchLabel :: "string \<rightharpoonup> string"

text \<open>The zero value of the struct, as \<open>config.Configuration{}\<close>.\<close>

definition emptyTypeMeta :: TypeMeta where
  "emptyTypeMeta = \<lparr>tm_Kind = [], tm_APIVersion = []\<rparr>"

definition emptyConfiguration :: Configuration where
  "emptyConfiguration = \<lparr>cfg_TypeMeta = emptyTypeMeta, cfg_IssuerName = [], cfg_RestrictIssuer = None,
     cfg_DefaultRequestsPerDayQuota = None, cfg_ShootIssuers = None, cfg_ACME = None, cfg_CA = None,
     cfg_HealthCheckConfig = None, cfg_PrivateKeyDefaults = None,
     cfg_InClusterACMEServerNamespaceMatchLabel = Map.empty\<rparr>"

subsection \<open>Versioned types\<close>

record v1PrivateKeyDefaults =
  vpkd_Algorithm :: "string option"
  vpkd_SizeRSA :: "go_int option"
  vpkd_SizeECDSA :: "go_int option"

record v1ShootIssuers =
  vsi_Enabled :: bool

record v1ACME =
  vacme_Email :: string
  vacme_Server :: string
  vacme_PrivateKey :: "string option"
  vacme_PropagationTimeout :: "go_int option"
  vacme_PrecheckNameservers :: "string option"
  vacme_CACertificates :: "string option"
  vacme_DeactivateAuthorizations :: "bool option"
  vacme_SkipDNSChallengeValidation :: "bool option"

record v1CA =
  vca_Certificate :: string
  vca_CertificateKey :: string

record v1Configuration =
  vcfg_TypeMeta :: TypeMeta
  vcfg_IssuerName :: string
  vcfg_RestrictIssuer :: "bool option"
  vcfg_DefaultRequestsPerDayQuota :: "go_int32 option"
  vcfg_ShootIssuers :: "v1ShootIssuers option"
  vcfg_ACME :: "v1ACME option"
  vcfg_CA :: "v1CA option"
  vcfg_HealthCheckConfig :: "HealthCheckConfig option"
  vcfg_PrivateKeyDefaults :: "v1PrivateKeyDefaults option"
  vcfg_InClusterACMEServerNamespaceMatchLabel :: "string \<rightharpoonup> string"

subsection \<open>Defaulting\<close>

definition SetDefaults_Configuration :: "v1Configuration \<Rightarrow> v1Configuration" where
  "SetDefaults_Configuration obj =
    (if vcfg_RestrictIssuer obj = None then obj\<lparr>vcfg_RestrictIssuer := Some True\<rparr> else obj)"

text \<open>The registered defaulter (\<open>zz_generated.defaults.go\<close>) calls the handwritten one.\<close>

definition SetObjectDefaults_Configuration :: "v1Configuration \<Rightarrow> v1Configuration" where
  "SetObjectDefaults_Configuration obj = SetDefaults_Configuration obj"

lemma SetDefaults_idem:
  "SetDefaults_Configuration (SetDefaults_Configuration c) = SetDefaults_Configuration c"
  by (simp add: SetDefaults_Configuration_def)

subsection \<open>Conversions\<close>

text \<open>
  The generated code reinterprets pointers to structs of the same layout; a conversion writes the
  fields into an existing target.
\<close>

definition convPKD_to_config :: "v1PrivateKeyDefaults \<Rightarrow> PrivateKeyDefaults \<Rightarrow> PrivateKeyDefaults" where
  "convPKD_to_config i out = out\<lparr>pkd_Algorithm := vpkd_Algorithm i, pkd_SizeRSA := vpkd_SizeRSA i,
     pkd_SizeECDSA := vpkd_SizeECDSA i\<rparr>"

definition convPKD_to_v1 :: "PrivateKeyDefaults \<Rightarrow> v1PrivateKeyDefaults \<Rightarrow> v1PrivateKeyDefaults" where
  "convPKD_to_v1 i out = out\<lparr>vpkd_Algorithm := pkd_Algorithm i, vpkd_SizeRSA := pkd_SizeRSA i,
     vpkd_SizeECDSA := pkd_SizeECDSA i\<rparr>"

definition convShootIssuers_to_config :: "v1ShootIssuers \<Rightarrow> ShootIssuers \<Rightarrow> ShootIssuers" where
  "convShootIssuers_to_config i out = out\<lparr>si_Enabled := vsi_Enabled i\<rparr>"

definition convShootIssuers_to_v1 :: "ShootIssuers \<Rightarrow> v1ShootIssuers \<Rightarrow> v1ShootIssuers" where
  "convShootIssuers_to_v1 i out = out\<lparr>vsi_Enabled := si_Enabled i\<rparr>"

definition convACME_to_config :: "v1ACME \<Rightarrow> ConfigACME \<Rightarrow> ConfigACME" where
  "convACME_to_config i out = out\<lparr>cacme_Email := vacme_Email i, cacme_Server := vacme_Server i,
     cacme_PrivateKey := vacme_PrivateKey i, cacme_PropagationTimeout := vacme_PropagationTimeout i,
     cacme_PrecheckNameservers := vacme_PrecheckNameservers i,
     cacme_CACertificates := vacme_CACertificates i,
     cacme_DeactivateAuthorizations := vacme_DeactivateAuthorizations i,
     cacme_SkipDNSChallengeValidation := vacme_SkipDNSChallengeValidation i\<rparr>"

definition convACME_to_v1 :: "ConfigACME \<Rightarrow> v1ACME \<Rightarrow> v1ACME" where
  "convACME_to_v1 i out = out\<lparr>vacme_Email := cacme_Email i, vacme_Server := cacme_Server i,
     vacme_PrivateKey := cacme_PrivateKey i, vacme_PropagationTimeout := cacme_PropagationTimeout i,
     vacme_PrecheckNameservers := cacme_PrecheckNameservers i,
     vacme_CACertificates := cacme_CACertificates i,
     vacme_DeactivateAuthorizations := cacme_DeactivateAuthorizations i,
     vacme_SkipDNSChallengeValidation := cacme_SkipDNSChallengeValidation i\<rparr>"

definition convCA_to_config :: "v1CA \<Rightarrow> ConfigCA \<Rightarrow> ConfigCA" where
  "convCA_to_config i out = out\<lparr>cca_Certificate := vca_Certificate i,
     cca_CertificateKey := vca_CertificateKey i\<rparr>"

definition convCA_to_v1 :: "ConfigCA \<Rightarrow> v1CA \<Rightarrow> v1CA" where
  "convCA_to_v1 i out = out\<lparr>vca_Certificate := cca_Certificate i,
     vca_CertificateKey := cca_CertificateKey i\<rparr>"

text \<open>What a reinterpreted pointer points to: the same fields at the other type.\<close>

definition asConfigACME :: "v1ACME \<Rightarrow> ConfigACME" where
  "asConfigACME a = \<lparr>cacme_Email = vacme_Email a, cacme_Server = vacme_Server a,
     cacme_PrivateKey = vacme_PrivateKey a, cacme_PropagationTimeout = vacme_PropagationTimeout a,
     cacme_PrecheckNameservers = vacme_PrecheckNameservers a,
     cacme_CACertificates = vacme_CACertificates a,
     cacme_DeactivateAuthorizations = vacme_DeactivateAuthorizations a,
     cacme_SkipDNSChallengeValidation = vacme_SkipDNSChallengeValidation a\<rparr>"

definition asV1ACME :: "ConfigACME \<Rightarrow> v1ACME" where
  "asV1ACME a = \<lparr>vacme_Email = cacme_Email a, vacme_Server = cacme_Server a,
     vacme_PrivateKey = cacme_PrivateKey a, vacme_PropagationTimeout = cacme_PropagationTimeout a,
     vacme_PrecheckNameservers = cacme_PrecheckNameservers a,
     vacme_CACertificates = cacme_CACertificates a,
     vacme_DeactivateAuthorizations = cacme_DeactivateAuthorizations a,
     vacme_SkipDNSChallengeValidation = cacme_SkipDNSChallengeValidation a\<rparr>"

definition asConfigCA :: "v1CA \<Rightarrow> ConfigCA" where
  "asConfigCA a = \<lparr>cca_Certificate = vca_Certificate a, cca_CertificateKey = vca_CertificateKey a\<rparr>"

definition asV1CA :: "ConfigCA \<Rightarrow> v1CA" where
  "asV1CA a = \<lparr>vca_Certificate = cca_Certificate a, vca_CertificateKey = cca_CertificateKey a\<rparr>"

definition asConfigShootIssuers :: "v1ShootIssuers \<Rightarrow> ShootIssuers" where
  "asConfigShootIssuers a = \<lparr>si_Enabled = vsi_Enabled a\<rparr>"

definition asV1ShootIssuers :: "ShootIssuers \<Rightarrow> v1ShootIssuers" where
  "asV1ShootIssuers a = \<lparr>vsi_Enabled = si_Enabled a\<rparr>"

definition asConfigPKD :: "v1PrivateKeyDefaults \<Rightarrow> PrivateKeyDefaults" where
  "asConfigPKD a = \<lparr>pkd_Algorithm = vpkd_Algorithm a, pkd_SizeRSA = vpkd_SizeRSA a,
     pkd_SizeECDSA = vpkd_SizeECDSA a\<rparr>"

definition asV1PKD :: "PrivateKeyDefaults \<Rightarrow> v1PrivateKeyDefaults" where
  "asV1PKD a = \<lparr>vpkd_Algorithm = pkd_Algorithm a, vpkd_SizeRSA = pkd_SizeRSA a,
     vpkd_SizeECDSA = pkd_SizeECDSA a\<rparr>"

definition convConfiguration_to_config :: "v1Configuration \<Rightarrow> Configuration \<Rightarrow> Configuration" where
  "convConfiguration_to_config i out = out\<lparr>
     cfg_IssuerName := vcfg_IssuerName i,
     cfg_RestrictIssuer := vcfg_RestrictIssuer i,
     cfg_DefaultRequestsPerDayQuota := vcfg_DefaultRequestsPerDayQuota i,
     cfg_ShootIssuers := map_option asConfigShootIssuers (vcfg_ShootIssuers i),
     cfg_ACME := map_option asConfigACME (vcfg_ACME i),
     cfg_CA := map_option asConfigCA (vcfg_CA i),
     cfg_HealthCheckConfig := vcfg_HealthCheckConfig i,
     cfg_PrivateKeyDefaults := map_option asConfigPKD (vcfg_PrivateKeyDefaults i),
     cfg_InClusterACMEServerNamespaceMatchLabel := vcfg_InClusterACMEServerNamespaceMatchLabel i\<rparr>"

definition convConfiguration_to_v1 :: "Configuration \<Rightarrow> v1Configuration \<Rightarrow> v1Configuration" where
  "convConfiguration_to_v1 i out = out\<lparr>
     vcfg_IssuerName := cfg_IssuerName i,
     vcfg_RestrictIssuer := cfg_RestrictIssuer i,
     vcfg_DefaultRequestsPerDayQuota := cfg_DefaultRequestsPerDayQuota i,
     vcfg_ShootIssuers := map_option asV1ShootIssuers (cfg_ShootIssuers i),
     vcfg_ACME := map_option asV1ACME (cfg_ACME i),
     vcfg_CA := map_option asV1CA (cfg_CA i),
     vcfg_HealthCheckConfig := cfg_HealthCheckConfig i,
     vcfg_PrivateKeyDefaults := map_option asV1PKD (cfg_PrivateKeyDefaults i),
     vcfg_InClusterACMEServerNamespaceMatchLabel := cfg_InClusterACMEServerNamespaceMatchLabel i\<rparr>"

lemma reinterpret_inverses [simp]:
  "asV1ACME \<circ> asConfigACME = id" "asConfigACME \<circ> asV1ACME = id"
  "asV1CA \<circ> asConfigCA = id" "asConfigCA \<circ> asV1CA = id"
  "asV1ShootIssuers \<circ> asConfigShootIssuers = id" "asConfigShootIssuers \<circ> asV1ShootIssuers = id"
  "asV1PKD \<circ> asConfigPKD = id" "asConfigPKD \<circ> asV1PKD = id"
  by (auto simp: fun_eq_iff asV1ACME_def asConfigACME_def asV1CA_def asConfigCA_def
      asV1ShootIssuers_def asConfigShootIssuers_def asV1PKD_def asConfigPKD_def)

text \<open>The nested conversion functions agree with the reinterpretation of pointers.\<close>

lemma nested_conversions:
  "convACME_to_config a out = asConfigACME a" "convACME_to_v1 b out' = asV1ACME b"
  "convCA_to_config c out2 = asConfigCA c" "convCA_to_v1 d out2' = asV1CA d"
  "convShootIssuers_to_config e out3 = asConfigShootIssuers e"
  "convShootIssuers_to_v1 f out3' = asV1ShootIssuers f"
  "convPKD_to_config g out4 = asConfigPKD g" "convPKD_to_v1 h out4' = asV1PKD h"
  by (simp_all add: convACME_to_config_def asConfigACME_def convACME_to_v1_def asV1ACME_def
      convCA_to_config_def asConfigCA_def convCA_to_v1_def asV1CA_def
      convShootIssuers_to_config_def asConfigShootIssuers_def convShootIssuers_to_v1_def
      asV1ShootIssuers_def convPKD_to_config_def asConfigPKD_def convPKD_to_v1_def asV1PKD_def)

interpretation cfg_conv: api_conversion convConfiguration_to_config convConfiguration_to_v1
  vcfg_TypeMeta "\<lambda>m c. c\<lparr>vcfg_TypeMeta := m\<rparr>" cfg_TypeMeta "\<lambda>m c. c\<lparr>cfg_TypeMeta := m\<rparr>"
  by unfold_locales
    (simp_all add: convConfiguration_to_config_def convConfiguration_to_v1_def option.map_comp option.map_id)

end
