(* ===== verification/Field_Errors.thy ===== *)
theory Field_Errors
  imports Config_API Go_Strings
begin

text \<open>
  The validation errors of \<open>k8s.io/apimachinery/pkg/util/validation/field\<close> as the code builds
  them: a kind, the path of the field (\<open>NewPath\<close>, \<open>Child\<close> and \<open>Index\<close> give its elements), the bad
  value and a detail. \<open>field.Required\<close> and \<open>field.Forbidden\<close> carry the empty string as the bad
  value, \<open>field.Duplicate\<close> an empty detail.
\<close>

datatype error_type = TypeRequired | TypeInvalid | TypeForbidden | TypeDuplicate

datatype path_element = Child string | Index nat

type_synonym field_path = "path_element list"

datatype bad_value = BVString string | BVInt int | BVBool bool | BVACME ConfigACME

record field_error =
  fe_Type :: error_type
  fe_Field :: field_path
  fe_BadValue :: bad_value
  fe_Detail :: string

definition fRequired :: "field_path \<Rightarrow> string \<Rightarrow> field_error" where
  "fRequired p d = \<lparr>fe_Type = TypeRequired, fe_Field = p, fe_BadValue = BVString [], fe_Detail = d\<rparr>"

definition fInvalid :: "field_path \<Rightarrow> bad_value \<Rightarrow> string \<Rightarrow> field_error" where
  "fInvalid p v d = \<lparr>fe_Type = TypeInvalid, fe_Field = p, fe_BadValue = v, fe_Detail = d\<rparr>"

definition fForbidden :: "field_path \<Rightarrow> string \<Rightarrow> field_error" where
  "fForbidden p d = \<lparr>fe_Type = TypeForbidden, fe_Field = p, fe_BadValue = BVString [], fe_Detail = d\<rparr>"

definition fDuplicate :: "field_path \<Rightarrow> bad_value \<Rightarrow> field_error" where
  "fDuplicate p v = \<lparr>fe_Type = TypeDuplicate, fe_Field = p, fe_BadValue = v, fe_Detail = []\<rparr>"

lemmas field_error_defs = fRequired_def fInvalid_def fForbidden_def fDuplicate_def

text \<open>An \<open>*field.Error\<close> that may be nil, appended when it is not.\<close>

definition opt_list :: "'a option \<Rightarrow> 'a list" where
  "opt_list o' = (case o' of None \<Rightarrow> [] | Some x \<Rightarrow> [x])"

lemma opt_list_simps [simp]: "opt_list None = []" "opt_list (Some x) = [x]"
  by (simp_all add: opt_list_def)

lemma opt_list_Nil_iff [simp]: "opt_list x = [] \<longleftrightarrow> x = None"
  by (cases x) auto

definition quoted :: "string \<Rightarrow> string" where
  "quoted s = CHR 0x27 # s @ [CHR 0x27]"

fun joinStr :: "string \<Rightarrow> string list \<Rightarrow> string" where
  "joinStr sep [] = []"
| "joinStr sep [p] = p"
| "joinStr sep (p # ps) = p @ sep @ joinStr sep ps"

end
