(* ===== verification/Extern.thy ===== *)
theory Extern
  imports Field_Errors
begin

text \<open>
  The pure functions the code calls that are not under \<open>src/\<close> (or, for the X.509 and PEM
  parsers, the URL parser and SHA-256, too large a part of the standard library to restate).
  They are a parameter of the model: every definition that uses one takes an \<open>extern\<close> record.
  A result of type \<open>goerr option\<close> is the returned error, \<open>None\<close> for nil.
\<close>

record extern =
  parseRequestURI :: "string \<Rightarrow> goerr option"
    \<comment> \<open>\<open>net/url.ParseRequestURI\<close>\<close>
  TestEmail :: "string \<Rightarrow> bool"
    \<comment> \<open>\<open>gardener/pkg/utils.TestEmail\<close>\<close>
  isDNS1123Subdomain :: "string \<Rightarrow> string list"
    \<comment> \<open>\<open>k8s.io/apimachinery/pkg/util/validation.IsDNS1123Subdomain\<close>: the list of complaints\<close>
  pemDecode :: "string \<Rightarrow> (string \<times> string) option"
    \<comment> \<open>\<open>encoding/pem.Decode\<close>: \<open>None\<close> if no block was found, else the block's bytes and the rest\<close>
  parseCertificate :: "string \<Rightarrow> goerr option"
    \<comment> \<open>\<open>crypto/x509.ParseCertificate\<close>\<close>
  parsePKCS8PrivateKey :: "string \<Rightarrow> goerr option"
  parsePKCS1PrivateKey :: "string \<Rightarrow> goerr option"
  parseECPrivateKey :: "string \<Rightarrow> goerr option"
    \<comment> \<open>the three private key parsers of \<open>crypto/x509\<close>\<close>
  sha256 :: "string \<Rightarrow> string"
    \<comment> \<open>\<open>crypto/sha256.Sum256\<close>\<close>
  aggregateText :: "field_error list \<Rightarrow> string"
    \<comment> \<open>the text of \<open>field.ErrorList.ToAggregate()\<close>\<close>
  AnnotDNSRecordProviderType :: string
  AnnotDNSRecordClass :: string
    \<comment> \<open>annotation keys of \<open>cert-management/pkg/cert/source\<close>\<close>
  GardenRole :: string
  GardenRoleControlPlaneWildcardCert :: string
  GardenRoleGardenWildcardCert :: string
  ShootNoCleanup :: string
  KeepObject :: string
  SeedResourceManagerClass :: string
    \<comment> \<open>label and annotation keys and values of gardener\<close>

text \<open>
  Constants of the gardener and cert-management APIs. Those the repository's own tests and
  examples spell out have their value here; the others are fields of \<open>extern\<close>.
\<close>

definition GardenNamespace :: string where
  "GardenNamespace = ''garden''" \<comment> \<open>\<open>test/e2e/garden/create_delete.go\<close>\<close>

definition ReferencedResourcesPrefix :: string where
  "ReferencedResourcesPrefix = ''ref-''" \<comment> \<open>\<open>shared/deployer_test.go\<close>\<close>

definition SecretNamePrefixShootAccess :: string where
  "SecretNamePrefixShootAccess = ''shoot-access-''" \<comment> \<open>\<open>shared/deployer_test.go\<close>\<close>

definition AnnotClass :: string where
  "AnnotClass = ''cert.gardener.cloud/class''" \<comment> \<open>\<open>shared/deployer_test.go\<close>\<close>

definition AnnotDNSRecordSecretRef :: string where
  "AnnotDNSRecordSecretRef = ''cert.gardener.cloud/dnsrecord-secret-ref''"
    \<comment> \<open>\<open>test/e2e/garden/create_delete.go\<close>\<close>

text \<open>\<open>errs.ToAggregate()\<close> of a non-empty list of validation errors\<close>

definition toAggregate :: "extern \<Rightarrow> field_error list \<Rightarrow> goerr" where
  "toAggregate X es = Foreign (aggregateText X es)"

subsection \<open>Documented behaviour the proofs rely on\<close>

text \<open>\<open>pem.Decode\<close> consumes the block it returns.\<close>

definition pem_consumes :: "extern \<Rightarrow> bool" where
  "pem_consumes X \<longleftrightarrow>
    (\<forall>data bytes rest. pemDecode X data = Some (bytes, rest) \<longrightarrow> length rest < length data)"

text \<open>
  A DNS-1123 subdomain "must consist of lower case alphanumeric characters, '-' or '.', and must
  start and end with an alphanumeric character".
\<close>

definition dns1123_chars :: "char set" where
  "dns1123_chars = set ''abcdefghijklmnopqrstuvwxyz0123456789-.''"

definition dns1123_law :: "extern \<Rightarrow> bool" where
  "dns1123_law X \<longleftrightarrow>
    (\<forall>s. isDNS1123Subdomain X s = [] \<longrightarrow> s \<noteq> [] \<and> set s \<subseteq> dns1123_chars)"

subsection \<open>A concrete instance\<close>

text \<open>
  Small total functions that obey the documented behaviour, for evaluating the model: one PEM
  block is one \<open>B\<close>, a URL is anything with a slash, an address anything with an at sign.
\<close>

definition sample_extern :: extern where
  "sample_extern = \<lparr>
     parseRequestURI = (\<lambda>s. if CHR ''/'' \<in> set s then None else Some (Foreign ''invalid URI for request'')),
     TestEmail = (\<lambda>s. CHR ''@'' \<in> set s),
     isDNS1123Subdomain = (\<lambda>s. if s \<noteq> [] \<and> set s \<subseteq> set ''abcdefghijklmnopqrstuvwxyz0123456789-.''
                              \<and> hd s \<notin> {CHR ''-'', CHR ''.''} \<and> last s \<notin> {CHR ''-'', CHR ''.''}
                           then [] else [''a lowercase RFC 1123 subdomain'']),
     pemDecode = (\<lambda>s. case s of [] \<Rightarrow> None | c # r \<Rightarrow> if c = CHR ''B'' then Some ([c], r) else None),
     parseCertificate = (\<lambda>b. None),
     parsePKCS8PrivateKey = (\<lambda>b. Some (Foreign ''not PKCS8'')),
     parsePKCS1PrivateKey = (\<lambda>b. Some (Foreign ''not PKCS1'')),
     parseECPrivateKey = (\<lambda>b. None),
     sha256 = (\<lambda>s. s),
     aggregateText = (\<lambda>es. concat (map fe_Detail es)),
     AnnotDNSRecordProviderType = ''cert.gardener.cloud/dnsrecord-provider-type'',
     AnnotDNSRecordClass = ''cert.gardener.cloud/dnsrecord-class'',
     GardenRole = ''gardener.cloud/role'',
     GardenRoleControlPlaneWildcardCert = ''controlplane-cert'',
     GardenRoleGardenWildcardCert = ''garden-cert'',
     ShootNoCleanup = ''shoot.gardener.cloud/no-cleanup'',
     KeepObject = ''resources.gardener.cloud/keep-object'',
     SeedResourceManagerClass = ''seed''\<rparr>"

lemma sample_extern_simps:
  "parseRequestURI sample_extern s = (if CHR ''/'' \<in> set s then None else Some (Foreign ''invalid URI for request''))"
  "TestEmail sample_extern s = (CHR ''@'' \<in> set s)"
  "sha256 sample_extern s = s"
  "parseCertificate sample_extern s = None"
  "parseECPrivateKey sample_extern s = None"
  unfolding sample_extern_def extern.select_convs by (rule refl)+

lemma sample_pem_consumes: "pem_consumes sample_extern"
  by (auto simp: pem_consumes_def sample_extern_def split: list.splits if_splits)

lemma sample_dns1123_law: "dns1123_law sample_extern"
  by (auto simp: dns1123_law_def sample_extern_def dns1123_chars_def split: if_splits)

end
