(* ===== verification/Config_Validation.thy ===== *)
theory Config_Validation
  imports Go_Net Extern
begin

text \<open>
  \<open>pkg/apis/config/validation/validation.go\<close>: validation of the extension's configuration, and
  \<open>ValidateNameserver\<close>, which the shoot validation uses as well. The grammar of nameserver
  addresses, the inductive description of a certificate bundle and the predicate of valid
  configurations at the end are the specifications the code is proved against.
\<close>

subsection \<open>Nameserver addresses\<close>

definition ValidateNameserver :: "extern \<Rightarrow> string \<Rightarrow> goerr option" where
  "ValidateNameserver X server =
    (let hp = (case SplitHostPort server of
         Some (host, port) \<Rightarrow> Inr (host, port)
       | None \<Rightarrow>
           (case cutPrefix server ''['' of
              Some inner0 \<Rightarrow>
                (let inner = trimSuffix inner0 '']''
                 in if \<not> hasSuffix server '']'' \<or> \<not> ParseIP inner
                    then Inl (ErrMsg (quoted server @ '' is no valid nameserver address''))
                    else Inr (inner, ''53''))
            | None \<Rightarrow> Inr (server, ''53'')))
     in case hp of
          Inl e \<Rightarrow> Some e
        | Inr (host, port) \<Rightarrow>
            (let errs = isDNS1123Subdomain X (trimSuffix host ''.'')
             in if \<not> ParseIP host \<and> (0 < length errs \<or> length (trimSet host ''0123456789.'') = 0)
                then Some (ErrMsg (quoted host @ '' is no valid IP address or domain name'' @
                       append_if (0 < length errs) ('' ('' @ joinStr ''; '' errs @ '')'')))
                else (case atoi port of
                    None \<Rightarrow> Some (ErrMsg (quoted port @ '' is no valid port''))
                  | Some n \<Rightarrow>
                      if n < 1 \<or> n > 65535
                      then Some (ErrMsg (quoted port @ '' is no valid port number''))
                      else None)))"

text \<open>What is accepted: a host is an IP address or a domain name that is not a mere number.\<close>

definition host_ok :: "extern \<Rightarrow> string \<Rightarrow> bool" where
  "host_ok X h \<longleftrightarrow>
    ParseIP h \<or> isDNS1123Subdomain X (trimSuffix h ''.'') = [] \<and> \<not> set h \<subseteq> set ''0123456789.''"

definition port_ok :: "string \<Rightarrow> bool" where
  "port_ok p \<longleftrightarrow> (\<exists>n. atoi p = Some n \<and> 1 \<le> n \<and> n \<le> 65535)"

text \<open>
  The grammar: \<open>nameserver_form s h p\<close> when \<open>s\<close> names host \<open>h\<close> and port \<open>p\<close>. An address without a
  port has the default port 53; it holds no colon at all (a name, an IPv4 address) or several
  (a bare IPv6 address).
\<close>

definition colons :: "string \<Rightarrow> nat" where
  "colons s = length (filter (\<lambda>c. c = CHR '':'') s)"

inductive nameserver_form :: "string \<Rightarrow> string \<Rightarrow> string \<Rightarrow> bool" where
  host_port: "CHR '':'' \<notin> set h \<Longrightarrow> CHR '':'' \<notin> set p \<Longrightarrow> no_brackets h \<Longrightarrow> no_brackets p \<Longrightarrow>
     nameserver_form (h @ CHR '':'' # p) h p"
| bracket_port: "no_brackets h \<Longrightarrow> CHR '':'' \<notin> set p \<Longrightarrow> no_brackets p \<Longrightarrow>
     nameserver_form (CHR ''['' # h @ CHR '']'' # CHR '':'' # p) h p"
| bracket: "ParseIP h \<Longrightarrow> nameserver_form (CHR ''['' # h @ [CHR '']'']) h ''53''"
| bare: "colons h \<noteq> 1 \<Longrightarrow> no_brackets h \<Longrightarrow> nameserver_form h h ''53''"

definition nameserver_ok :: "extern \<Rightarrow> string \<Rightarrow> bool" where
  "nameserver_ok X s \<longleftrightarrow> (\<exists>h p. nameserver_form s h p \<and> host_ok X h \<and> port_ok p)"

lemma trimSet_digits_Nil: "trimSet h ''0123456789.'' = [] \<longleftrightarrow> set h \<subseteq> set ''0123456789.''"
  by (rule trimSet_Nil_iff)

lemma host_check_iff:
  "(\<not> ParseIP h \<and> (0 < length (isDNS1123Subdomain X (trimSuffix h ''.''))
      \<or> length (trimSet h ''0123456789.'') = 0)) \<longleftrightarrow> \<not> host_ok X h"
  unfolding host_ok_def length_0_conv trimSet_digits_Nil by blast

lemma port_53_ok: "port_ok ''53''"
  by (simp add: port_ok_def atoi_def hasPrefix_single digit_val_def dec_digits_def)

text \<open>Once host and port are known, the rest of the function checks exactly the two predicates.\<close>

lemma ValidateNameserver_host_port:
  assumes "SplitHostPort s = Some (h, p)"
  shows "ValidateNameserver X s = None \<longleftrightarrow> host_ok X h \<and> port_ok p"
  unfolding ValidateNameserver_def assms Let_def option.case prod.case sum.case host_check_iff port_ok_def
  by (auto split: option.splits)

lemma ValidateNameserver_bracketed:
  assumes "SplitHostPort s = None" "s = CHR ''['' # r"
  shows "ValidateNameserver X s = None \<longleftrightarrow> (\<exists>h. r = h @ '']'' \<and> ParseIP h)"
proof (cases "\<exists>h. r = h @ '']''")
  case True
  then obtain h where r: "r = h @ '']''" by blast
  have "host_ok X h" if "ParseIP h" using that by (simp add: host_ok_def)
  then show ?thesis
    unfolding ValidateNameserver_def Let_def host_check_iff
    using assms r port_53_ok
    by (auto simp: cutPrefix_single hasSuffix_single port_ok_def)
next
  case False
  then have "\<not> hasSuffix s '']''"
    using assms(2) by (cases r rule: rev_cases) (auto simp: hasSuffix_single)
  then show ?thesis
    using False assms unfolding ValidateNameserver_def Let_def
    by (auto simp: cutPrefix_single)
qed

lemma ValidateNameserver_bare:
  assumes "SplitHostPort s = None" "\<not> hasPrefix s ''[''"
  shows "ValidateNameserver X s = None \<longleftrightarrow> host_ok X s"
  unfolding ValidateNameserver_def Let_def cutPrefix_def assms
  using assms(2) port_53_ok host_check_iff [of s X]
  by (auto simp: port_ok_def)

lemma host_ok_no_brackets: "dns1123_law X \<Longrightarrow> host_ok X h \<Longrightarrow> no_brackets h"
proof -
  assume law: "dns1123_law X" and ok: "host_ok X h"
  show ?thesis
  proof (cases "ParseIP h")
    case True
    then show ?thesis by (rule ParseIP_no_brackets)
  next
    case False
    with ok law have "set (trimSuffix h ''.'') \<subseteq> dns1123_chars"
      by (auto simp: host_ok_def dns1123_law_def)
    then have "no_brackets (trimSuffix h ''.'')"
      by (auto simp: no_brackets_def dns1123_chars_def)
    moreover have "h = trimSuffix h ''.'' \<or> h = trimSuffix h ''.'' @ ''.''"
      by (cases h rule: rev_cases) (auto simp: trimSuffix_def hasSuffix_single)
    moreover have "no_brackets ''.''"
      by (simp add: no_brackets_def)
    ultimately show ?thesis
      by (metis no_brackets_append)
  qed
qed

text \<open>The code accepts exactly the addresses of the grammar with an acceptable host and port.\<close>

lemma colons_append [simp]: "colons (a @ b) = colons a + colons b"
  by (simp add: colons_def)

lemma colons_Cons [simp]: "colons (c # s) = (if c = CHR '':'' then Suc (colons s) else colons s)"
  by (simp add: colons_def)

lemma colons_0_iff: "colons s = 0 \<longleftrightarrow> CHR '':'' \<notin> set s"
  by (auto simp: colons_def filter_empty_conv)

lemma SplitHostPort_bare_None:
  assumes "colons h \<noteq> 1" "no_brackets h"
  shows "SplitHostPort h = None"
proof (rule ccontr)
  assume "SplitHostPort h \<noteq> None"
  then obtain a b where "SplitHostPort h = Some (a, b)" by auto
  from SplitHostPort_SomeD [OF this] assms show False
    by (auto simp: colons_0_iff [symmetric])
qed

lemma SplitHostPort_bracket_None: "no_brackets h \<Longrightarrow> SplitHostPort (CHR ''['' # h @ '']'') = None"
proof (rule ccontr)
  assume nb: "no_brackets h" and "SplitHostPort (CHR ''['' # h @ '']'') \<noteq> None"
  then obtain a b where "SplitHostPort (CHR ''['' # h @ '']'') = Some (a, b)" by auto
  from SplitHostPort_SomeD [OF this]
  have nab: "no_brackets a" "no_brackets b"
    and "CHR ''['' # h @ '']'' = a @ CHR '':'' # b \<or> h @ '']'' = a @ CHR '']'' # CHR '':'' # b"
    by auto
  then have "CHR '']'' = (if b = [] then CHR '':'' else last b)"
  proof (elim disjE)
    assume "CHR ''['' # h @ '']'' = a @ CHR '':'' # b"
    from arg_cong [OF this, of last] show ?thesis by simp
  next
    assume "h @ '']'' = a @ CHR '']'' # CHR '':'' # b"
    from arg_cong [OF this, of last] show ?thesis by simp
  qed
  with nab(2) last_in_set [of b] show False
    by (auto simp: no_brackets_def split: if_splits)
qed

lemma nameserver_form_sound:
  assumes "nameserver_form s h p" "host_ok X h" "port_ok p"
  shows "ValidateNameserver X s = None"
  using assms
proof cases
  case host_port
  with assms show ?thesis
    by (simp add: ValidateNameserver_host_port [OF SplitHostPort_plain])
next
  case bracket_port
  with assms show ?thesis
    by (simp add: ValidateNameserver_host_port [OF SplitHostPort_bracketed])
next
  case bracket
  then have "SplitHostPort s = None"
    using SplitHostPort_bracket_None ParseIP_no_brackets by simp
  then show ?thesis
    using ValidateNameserver_bracketed [of s "h @ '']''" X] bracket by simp
next
  case bare
  then have "SplitHostPort s = None"
    using SplitHostPort_bare_None by simp
  moreover have "\<not> hasPrefix s ''[''"
    using bare by (auto simp: hasPrefix_single)
  ultimately show ?thesis
    using ValidateNameserver_bare assms(2) bare(1) by simp
qed

lemma nameserver_form_complete:
  assumes law: "dns1123_law X" and acc: "ValidateNameserver X s = None"
  shows "\<exists>h p. nameserver_form s h p \<and> host_ok X h \<and> port_ok p"
proof (cases "SplitHostPort s")
  case (Some hp)
  obtain h p where "hp = (h, p)" by (cases hp)
  with Some have split: "SplitHostPort s = Some (h, p)" by simp
  have "nameserver_form s h p"
    using SplitHostPort_SomeD [OF split] nameserver_form.host_port nameserver_form.bracket_port by metis
  then show ?thesis
    using acc ValidateNameserver_host_port [OF split] by blast
next
  case None
  show ?thesis
  proof (cases "hasPrefix s ''[''")
    case True
    then obtain r where s: "s = CHR ''['' # r" by (auto simp: hasPrefix_single)
    then obtain h where "r = h @ '']''" "ParseIP h"
      using ValidateNameserver_bracketed [OF None s] acc by blast
    moreover from this have "host_ok X h" by (simp add: host_ok_def)
    ultimately show ?thesis
      using nameserver_form.bracket port_53_ok s by metis
  next
    case False
    then have ok: "host_ok X s"
      using ValidateNameserver_bare [OF None] acc by blast
    then have nb: "no_brackets s" by (rule host_ok_no_brackets [OF law])
    have "colons s \<noteq> 1"
    proof
      assume one: "colons s = 1"
      then have "CHR '':'' \<in> set s" using colons_0_iff by (metis zero_neq_one)
      then obtain a b where s: "s = a @ CHR '':'' # b" by (auto dest: split_list)
      with one have "CHR '':'' \<notin> set a" "CHR '':'' \<notin> set b"
        by (auto simp: colons_0_iff [symmetric])
      with SplitHostPort_plain nb s None show False by auto
    qed
    with nb ok port_53_ok show ?thesis
      using nameserver_form.bare by blast
  qed
qed

subsection \<open>Certificates and keys\<close>

definition shorten :: "string \<Rightarrow> string" where
  "shorten s = (if length s > 60 then take 30 s @ ''...'' @ drop (length s - 30) s else s)"

text \<open>The rest of the data after the first block, and the error; on an error the rest is nil.\<close>

definition validateCertificate :: "extern \<Rightarrow> field_path \<Rightarrow> string \<Rightarrow> string \<times> field_error option" where
  "validateCertificate X fldPath data =
    (if length data = 0 then ([], None)
     else (case pemDecode X data of
        None \<Rightarrow> ([], Some (fInvalid fldPath (BVString (shorten data)) ''invalid certificate: expected PEM format''))
      | Some (bytes, rest) \<Rightarrow>
          (case parseCertificate X bytes of
             Some err \<Rightarrow> ([], Some (fInvalid fldPath (BVString (shorten data)) ''invalid certificate''))
           | None \<Rightarrow> (rest, None))))"

text \<open>
  The loop over a certificate bundle. Nothing in it bounds the number of rounds, so the loop is a
  partial function: the outer \<open>None\<close> is a loop that does not end.
\<close>

partial_function (option) caCertificatesLoop ::
    "extern \<Rightarrow> field_path \<Rightarrow> string \<Rightarrow> field_error option option" where
  "caCertificatesLoop X fldPath data =
    (if length data = 0 then Some None
     else (case snd (validateCertificate X fldPath data) of
        Some err \<Rightarrow> Some (Some err)
      | None \<Rightarrow> caCertificatesLoop X fldPath (fst (validateCertificate X fldPath data))))"

definition validateCACertificates :: "extern \<Rightarrow> field_path \<Rightarrow> string \<Rightarrow> field_error option option" where
  "validateCACertificates X fldPath caCertificates =
     caCertificatesLoop X fldPath (trimSpace caCertificates)"

definition validateCertificateKey :: "extern \<Rightarrow> field_path \<Rightarrow> string \<Rightarrow> field_error option" where
  "validateCertificateKey X fldPath data =
    (if length data = 0 then None
     else (case pemDecode X data of
        None \<Rightarrow> Some (fInvalid fldPath (BVString (shorten data)) ''invalid certificate private key: expected PEM format'')
      | Some (bytes, rest) \<Rightarrow>
          (let err = parsePKCS8PrivateKey X bytes;
               err = (if err \<noteq> None then parsePKCS1PrivateKey X bytes else err);
               err = (if err \<noteq> None then parseECPrivateKey X bytes else err)
           in if err \<noteq> None
              then Some (fInvalid fldPath (BVString (shorten data)) ''invalid certificate private key'')
              else if length rest > 0
              then Some (fInvalid fldPath (BVString (shorten data)) ''certificate private key contains additional data'')
              else None)))"

definition validateCA :: "extern \<Rightarrow> ConfigCA \<Rightarrow> field_path \<Rightarrow> field_error list" where
  "validateCA X ca fldPath =
     opt_list (snd (validateCertificate X (fldPath @ [Child ''certificate'']) (trimSpace (cca_Certificate ca))))
     @ opt_list (validateCertificateKey X (fldPath @ [Child ''certificateKey'']) (trimSpace (cca_CertificateKey ca)))"

subsection \<open>The configuration\<close>

definition validatePrivateKeyDefaults :: "PrivateKeyDefaults option \<Rightarrow> field_path \<Rightarrow> field_error list" where
  "validatePrivateKeyDefaults defaults fldPath =
    (case defaults of
       None \<Rightarrow> []
     | Some d \<Rightarrow>
         (case pkd_Algorithm d of None \<Rightarrow> [] | Some a \<Rightarrow>
            append_if (a \<noteq> ''RSA'' \<and> a \<noteq> ''ECDSA'')
              [fInvalid (fldPath @ [Child ''algorithm'']) (BVString a)
                 (''algorithm must either be '' @ quoted ''RSA'' @ '' or '' @ quoted ''ECDSA'')])
         @ (case pkd_SizeRSA d of None \<Rightarrow> [] | Some n \<Rightarrow>
            append_if (n \<noteq> 2048 \<and> n \<noteq> 3072 \<and> n \<noteq> 4096)
              [fInvalid (fldPath @ [Child ''sizeRSA'']) (BVInt (sint n))
                 (''size for RSA algorithm must either be '' @ quoted ''2048'' @ '' or '' @ quoted ''3072''
                  @ '' or '' @ quoted ''4096'')])
         @ (case pkd_SizeECDSA d of None \<Rightarrow> [] | Some n \<Rightarrow>
            append_if (n \<noteq> 256 \<and> n \<noteq> 384)
              [fInvalid (fldPath @ [Child ''sizeECDSA'']) (BVInt (sint n))
                 (''size for ECDSA algorithm must either be '' @ quoted ''256'' @ '' or '' @ quoted ''384'')]))"

definition validateACME :: "extern \<Rightarrow> ConfigACME \<Rightarrow> field_path \<Rightarrow> field_error list option" where
  "validateACME X acme fldPath =
    (let serverErrs = (case parseRequestURI X (cacme_Server acme) of
           None \<Rightarrow> []
         | Some err \<Rightarrow> [fInvalid (fldPath @ [Child ''server'']) (BVString (cacme_Server acme)) (err_text err)]);
         emailErrs = append_if (\<not> TestEmail X (cacme_Email acme))
           [fInvalid (fldPath @ [Child ''email'']) (BVString (cacme_Email acme)) ''must be a valid mail address''];
         nsErrs = (case cacme_PrecheckNameservers acme of
           None \<Rightarrow> []
         | Some ns \<Rightarrow>
             (let servers = splitOn CHR '','' ns; p = fldPath @ [Child ''precheckNameservers'']
              in if length servers = 1 \<and> length (servers ! 0) = 0
                 then [fInvalid p (BVString ns) ''must contain at least one DNS server address'']
                 else concat (map (\<lambda>server. case ValidateNameserver X server of
                        None \<Rightarrow> [] | Some err \<Rightarrow> [fInvalid p (BVString ns) (err_text err)]) servers)))
     in (case cacme_CACertificates acme of
           None \<Rightarrow> Some (serverErrs @ emailErrs @ nsErrs)
         | Some certs \<Rightarrow>
             Option.bind (validateCACertificates X (fldPath @ [Child ''caCertificates'']) certs)
               (\<lambda>err. Some (serverErrs @ emailErrs @ nsErrs @ opt_list err))))"

definition ValidateConfiguration :: "extern \<Rightarrow> Configuration \<Rightarrow> field_error list option" where
  "ValidateConfiguration X c =
    (let nameErrs = append_if (cfg_IssuerName c = []) [fRequired [Child ''issuerName''] ''field is required''];
         quotaErrs = (case cfg_DefaultRequestsPerDayQuota c of
             None \<Rightarrow> []
           | Some q \<Rightarrow> append_if (sint q < 1)
               [fInvalid [Child ''defaultRequestsPerDayQuota''] (BVInt (sint q)) ''must be >= 1'']);
         bothErrs = (case (cfg_ACME c, cfg_CA c) of
             (Some acme, Some ca) \<Rightarrow>
               [fInvalid [Child ''acme''] (BVACME acme) ''only one of ACME or CA can be specified'']
           | _ \<Rightarrow> []);
         noneErrs = append_if (cfg_ACME c = None \<and> cfg_CA c = None)
           [fRequired [Child ''acme''] ''at least one of ACME or CA must be specified'']
     in Option.bind (case cfg_ACME c of None \<Rightarrow> Some [] | Some acme \<Rightarrow> validateACME X acme [Child ''acme''])
          (\<lambda>acmeErrs. Some (nameErrs @ quotaErrs @ bothErrs @ noneErrs @ acmeErrs
             @ (case cfg_CA c of None \<Rightarrow> [] | Some ca \<Rightarrow> validateCA X ca [Child ''ca''])
             @ validatePrivateKeyDefaults (cfg_PrivateKeyDefaults c) [Child ''privateKeyDefaults''])))"

subsection \<open>Specifications\<close>

text \<open>A bundle is a sequence of PEM blocks, each of which holds a certificate.\<close>

inductive cert_bundle :: "extern \<Rightarrow> string \<Rightarrow> bool" for X where
  bundle_nil: "cert_bundle X []"
| bundle_cons: "pemDecode X data = Some (bytes, rest) \<Longrightarrow> parseCertificate X bytes = None \<Longrightarrow>
     data \<noteq> [] \<Longrightarrow> cert_bundle X rest \<Longrightarrow> cert_bundle X data"

inductive_simps cert_bundle_nonempty: "cert_bundle X (c # cs)"

lemma cert_bundle_unfold:
  "data \<noteq> [] \<Longrightarrow> cert_bundle X data \<longleftrightarrow>
     (\<exists>bytes rest. pemDecode X data = Some (bytes, rest) \<and> parseCertificate X bytes = None \<and> cert_bundle X rest)"
  by (cases data) (auto simp: cert_bundle_nonempty)

lemma validateCertificate_None_iff:
  "data \<noteq> [] \<Longrightarrow> snd (validateCertificate X p data) = None \<longleftrightarrow>
     (\<exists>bytes rest. pemDecode X data = Some (bytes, rest) \<and> parseCertificate X bytes = None)"
  by (auto simp: validateCertificate_def split: option.splits)

lemma validateCertificate_rest:
  "data \<noteq> [] \<Longrightarrow> pemDecode X data = Some (bytes, rest) \<Longrightarrow> parseCertificate X bytes = None \<Longrightarrow>
     fst (validateCertificate X p data) = rest"
  by (simp add: validateCertificate_def)

lemma caCertificatesLoop_spec:
  assumes law: "pem_consumes X"
  shows "\<exists>r. caCertificatesLoop X p data = Some r \<and> (r = None \<longleftrightarrow> cert_bundle X data)"
proof (induction data rule: length_induct)
  case (1 data)
  show ?case
  proof (cases "data = []")
    case True
    then show ?thesis by (simp add: caCertificatesLoop.simps bundle_nil)
  next
    case False
    let ?v = "validateCertificate X p data"
    show ?thesis
    proof (cases "snd ?v")
      case (Some err)
      then have "\<not> cert_bundle X data"
        using validateCertificate_None_iff [OF False, of X p] cert_bundle_unfold [OF False, of X] by auto
      with Some False show ?thesis by (simp add: caCertificatesLoop.simps [of X p data])
    next
      case None
      then obtain bytes where b: "pemDecode X data = Some (bytes, fst ?v)" "parseCertificate X bytes = None"
        using validateCertificate_None_iff [OF False, of X p] validateCertificate_rest [OF False, of X] by metis
      then have "length (fst ?v) < length data"
        using law by (auto simp: pem_consumes_def)
      then obtain r where "caCertificatesLoop X p (fst ?v) = Some r" "r = None \<longleftrightarrow> cert_bundle X (fst ?v)"
        using 1 by blast
      with None False b show ?thesis
        by (simp add: caCertificatesLoop.simps [of X p data] cert_bundle_unfold)
    qed
  qed
qed

definition key_ok :: "extern \<Rightarrow> string \<Rightarrow> bool" where
  "key_ok X data \<longleftrightarrow> data = [] \<or>
    (\<exists>bytes. pemDecode X data = Some (bytes, []) \<and>
       (parsePKCS8PrivateKey X bytes = None \<or> parsePKCS1PrivateKey X bytes = None
         \<or> parseECPrivateKey X bytes = None))"

lemma validateCertificateKey_None_iff: "validateCertificateKey X p data = None \<longleftrightarrow> key_ok X data"
  by (auto simp: validateCertificateKey_def key_ok_def Let_def split: option.splits)

definition first_cert_ok :: "extern \<Rightarrow> string \<Rightarrow> bool" where
  "first_cert_ok X data \<longleftrightarrow> data = [] \<or>
    (\<exists>bytes rest. pemDecode X data = Some (bytes, rest) \<and> parseCertificate X bytes = None)"

lemma validateCertificate_ok_iff: "snd (validateCertificate X p data) = None \<longleftrightarrow> first_cert_ok X data"
  by (auto simp: validateCertificate_def first_cert_ok_def split: option.splits)

definition acme_ok :: "extern \<Rightarrow> ConfigACME \<Rightarrow> bool" where
  "acme_ok X a \<longleftrightarrow>
     parseRequestURI X (cacme_Server a) = None \<and> TestEmail X (cacme_Email a)
     \<and> (\<forall>ns. cacme_PrecheckNameservers a = Some ns \<longrightarrow>
          ns \<noteq> [] \<and> (\<forall>s \<in> set (splitOn CHR '','' ns). ValidateNameserver X s = None))
     \<and> (\<forall>cs. cacme_CACertificates a = Some cs \<longrightarrow> cert_bundle X (trimSpace cs))"

definition key_defaults_ok :: "PrivateKeyDefaults \<Rightarrow> bool" where
  "key_defaults_ok d \<longleftrightarrow>
     pkd_Algorithm d \<in> {None, Some ''RSA'', Some ''ECDSA''}
     \<and> pkd_SizeRSA d \<in> {None, Some 2048, Some 3072, Some 4096}
     \<and> pkd_SizeECDSA d \<in> {None, Some 256, Some 384}"

definition config_ok :: "extern \<Rightarrow> Configuration \<Rightarrow> bool" where
  "config_ok X c \<longleftrightarrow>
     cfg_IssuerName c \<noteq> []
     \<and> (\<forall>q. cfg_DefaultRequestsPerDayQuota c = Some q \<longrightarrow> 1 \<le> sint q)
     \<and> (case (cfg_ACME c, cfg_CA c) of
          (Some a, None) \<Rightarrow> acme_ok X a
        | (None, Some ca) \<Rightarrow> first_cert_ok X (trimSpace (cca_Certificate ca))
                           \<and> key_ok X (trimSpace (cca_CertificateKey ca))
        | _ \<Rightarrow> False)
     \<and> (\<forall>d. cfg_PrivateKeyDefaults c = Some d \<longrightarrow> key_defaults_ok d)"

lemma splitOn_empty_iff: "length (splitOn c s) = 1 \<and> length (splitOn c s ! 0) = 0 \<longleftrightarrow> s = []"
proof -
  have "splitOn c s = [[]] \<longleftrightarrow> s = []"
    using joinOn_splitOn [of c s] by (metis joinOn.simps(2) splitOn.simps(1))
  then show ?thesis
    by (cases "splitOn c s") auto
qed

lemma validateACME_total:
  assumes "pem_consumes X"
  shows "\<exists>es. validateACME X a p = Some es \<and> (es = [] \<longleftrightarrow> acme_ok X a)"
proof -
  have ns: "(\<forall>ns. cacme_PrecheckNameservers a = Some ns \<longrightarrow>
          ns \<noteq> [] \<and> (\<forall>s \<in> set (splitOn CHR '','' ns). ValidateNameserver X s = None))
     \<longleftrightarrow> (case cacme_PrecheckNameservers a of
           None \<Rightarrow> []
         | Some ns \<Rightarrow>
             (let servers = splitOn CHR '','' ns; p = p @ [Child ''precheckNameservers'']
              in if length servers = 1 \<and> length (servers ! 0) = 0
                 then [fInvalid p (BVString ns) ''must contain at least one DNS server address'']
                 else concat (map (\<lambda>server. case ValidateNameserver X server of
                        None \<Rightarrow> [] | Some err \<Rightarrow> [fInvalid p (BVString ns) (err_text err)]) servers))) = []"
    by (auto simp: Let_def splitOn_empty_iff [simplified] split: option.splits)
  show ?thesis
  proof (cases "cacme_CACertificates a")
    case None
    then show ?thesis
      unfolding validateACME_def acme_ok_def ns by (auto simp: Let_def split: option.splits)
  next
    case (Some cs)
    obtain r where r: "validateCACertificates X (p @ [Child ''caCertificates'']) cs = Some r"
      "r = None \<longleftrightarrow> cert_bundle X (trimSpace cs)"
      using caCertificatesLoop_spec [OF assms] unfolding validateCACertificates_def by blast
    with Some show ?thesis
      unfolding validateACME_def acme_ok_def ns by (auto simp: Let_def split: option.splits)
  qed
qed

lemma validatePrivateKeyDefaults_Nil_iff:
  "validatePrivateKeyDefaults defaults p = [] \<longleftrightarrow> (\<forall>d. defaults = Some d \<longrightarrow> key_defaults_ok d)"
  by (auto simp: validatePrivateKeyDefaults_def key_defaults_ok_def split: option.splits)

lemma ValidateConfiguration_total:
  assumes "pem_consumes X"
  shows "\<exists>es. ValidateConfiguration X c = Some es \<and> (es = [] \<longleftrightarrow> config_ok X c)"
proof (cases "cfg_ACME c")
  case None
  then show ?thesis
    unfolding ValidateConfiguration_def config_ok_def
    by (auto simp: Let_def validateCA_def validateCertificate_ok_iff validateCertificateKey_None_iff
        validatePrivateKeyDefaults_Nil_iff split: option.splits)
next
  case (Some a)
  obtain es where "validateACME X a [Child ''acme''] = Some es" "es = [] \<longleftrightarrow> acme_ok X a"
    using validateACME_total [OF assms] by blast
  with Some show ?thesis
    unfolding ValidateConfiguration_def config_ok_def
    by (auto simp: Let_def validatePrivateKeyDefaults_Nil_iff split: option.splits)
qed

lemma ValidateNameserver_ok_iff:
  "dns1123_law X \<Longrightarrow> ValidateNameserver X s = None \<longleftrightarrow> nameserver_ok X s"
  unfolding nameserver_ok_def using nameserver_form_sound nameserver_form_complete by blast

subsection \<open>Properties\<close>

text \<open>C23: \<open>ValidateNameserver\<close> accepts a string exactly when it is an address of the grammar
  (\<open>host:port\<close>, \<open>[host]:port\<close>, \<open>[ipv6]\<close> or a bare host with the default port) whose host is an
  IP address or a non-numeric domain name and whose port is between 1 and 65535.\<close>

theorem nameserver_grammar:
  assumes "dns1123_law X"
  shows "ValidateNameserver X s = None \<longleftrightarrow> nameserver_ok X s"
  by (rule ValidateNameserver_ok_iff [OF assms])

theorem nameserver_grammar_witness:
  "dns1123_law sample_extern \<and> nameserver_ok sample_extern ''[2001:db8::1]:5353''"
proof -
  have "ValidateNameserver sample_extern ''[2001:db8::1]:5353'' = None" by code_simp
  then show ?thesis
    using nameserver_grammar [OF sample_dns1123_law] sample_dns1123_law by blast
qed

text \<open>An address written with an explicit decimal port, bracketed or not, is accepted exactly
  when its host is acceptable and the port number is between 1 and 65535.\<close>

theorem nameserver_port_range:
  assumes "no_brackets h"
  shows "(ValidateNameserver X (''['' @ h @ '']:'' @ show_nat n) = None \<longleftrightarrow>
            host_ok X h \<and> 1 \<le> n \<and> n \<le> 65535)
       \<and> (CHR '':'' \<notin> set h \<longrightarrow>
            (ValidateNameserver X (h @ '':'' @ show_nat n) = None \<longleftrightarrow> host_ok X h \<and> 1 \<le> n \<and> n \<le> 65535))"
proof -
  have nc: "CHR '':'' \<notin> set (show_nat n)"
    using show_nat_plain by blast
  have port: "port_ok (show_nat n) \<longleftrightarrow> 1 \<le> n \<and> n \<le> 65535"
    by (auto simp: port_ok_def atoi_show_nat_iff)
  show ?thesis
    using ValidateNameserver_host_port [OF SplitHostPort_plain [OF _ nc assms show_nat_no_brackets], of X]
      ValidateNameserver_host_port [OF SplitHostPort_bracketed [OF assms nc show_nat_no_brackets], of X] port
    by simp
qed

theorem nameserver_port_range_witness:
  "no_brackets ''8.8.8.8'' \<and> ValidateNameserver sample_extern (''8.8.8.8:'' @ show_nat 53) = None
     \<and> ValidateNameserver sample_extern (''8.8.8.8:'' @ show_nat 65536) \<noteq> None"
proof -
  have nb: "no_brackets ''8.8.8.8''" by (simp add: no_brackets_def)
  have "host_ok sample_extern ''8.8.8.8''" by code_simp
  with nb show ?thesis
    using nameserver_port_range [OF nb, of sample_extern 53]
      nameserver_port_range [OF nb, of sample_extern 65536] by simp
qed

text \<open>A string of decimal numbers separated by dots is accepted exactly when it is an IPv4
  address, that is, four numbers of at most 255, whatever the check of domain names says.\<close>

theorem nameserver_dotted_decimal:
  "ValidateNameserver X (dotted ns) = None \<longleftrightarrow> length ns = 4 \<and> (\<forall>n \<in> set ns. n \<le> 255)"
proof -
  have plain: "c \<noteq> CHR '':'' \<and> c \<noteq> CHR ''[''" if "c \<in> set (dotted ns)" for c
    using that dotted_chars [of ns] digit_chars_plain [of c] by auto
  then have "CHR '':'' \<notin> set (dotted ns)" "\<not> hasPrefix (dotted ns) ''[''"
    using plain [of "hd (dotted ns)"] unfolding hasPrefix_single
    by (metis list.sel(1) list.set_intros(1))+
  moreover have "set ''0123456789.'' = insert CHR ''.'' (set dec_digits)"
    by (simp add: dec_digits_def insert_commute)
  ultimately show ?thesis
    using ValidateNameserver_bare [OF SplitHostPort_no_colon, of "dotted ns" X] dotted_chars [of ns]
    by (simp add: host_ok_def ParseIP_dotted del: list.set)
qed

text \<open>The port is read with \<open>strconv.Atoi\<close>, so a port with a leading plus sign is accepted
  like the same port without it.\<close>

theorem nameserver_plus_port:
  assumes "no_brackets h" and "CHR '':'' \<notin> set h"
  shows "ValidateNameserver X (h @ '':+'' @ show_nat n) = None \<longleftrightarrow>
         ValidateNameserver X (h @ '':'' @ show_nat n) = None"
proof -
  have "no_brackets (CHR ''+'' # show_nat n)" "CHR '':'' \<notin> set (CHR ''+'' # show_nat n)"
    "CHR '':'' \<notin> set (show_nat n)"
    using show_nat_plain by auto
  then show ?thesis
    using ValidateNameserver_host_port [OF SplitHostPort_plain [OF assms(2) _ assms(1)], of "CHR ''+'' # show_nat n" X]
      ValidateNameserver_host_port [OF SplitHostPort_plain [OF assms(2) _ assms(1)], of "show_nat n" X]
    by (simp add: port_ok_def atoi_plus)
qed

theorem nameserver_plus_port_witness:
  "ValidateNameserver sample_extern (''8.8.8.8:+'' @ show_nat 53) = None"
proof -
  have nb: "no_brackets ''8.8.8.8''" "CHR '':'' \<notin> set ''8.8.8.8''" by (simp_all add: no_brackets_def)
  have "ValidateNameserver sample_extern (''8.8.8.8:'' @ show_nat 53) = None" by code_simp
  then show ?thesis
    using nameserver_plus_port [OF nb, of sample_extern 53] by simp
qed

text \<open>C33: Given that \<open>pem.Decode\<close> consumes the block it returns, the loop over a bundle of CA
  certificates ends, and it reports no error exactly for a sequence of PEM certificates.\<close>

theorem ca_bundle_terminates:
  assumes "pem_consumes X"
  shows "\<exists>r. validateCACertificates X p certs = Some r \<and> (r = None \<longleftrightarrow> cert_bundle X (trimSpace certs))"
  unfolding validateCACertificates_def by (rule caCertificatesLoop_spec [OF assms])

theorem ca_bundle_terminates_witness:
  "pem_consumes sample_extern \<and> validateCACertificates sample_extern [] '' BB '' = Some None
     \<and> cert_bundle sample_extern (trimSpace '' BB '')"
proof -
  have trim: "trimSpace '' BB '' = ''BB''" by code_simp
  have "cert_bundle sample_extern ''BB''"
    by (simp add: cert_bundle_unfold sample_extern_def bundle_nil)
  then show ?thesis
    using ca_bundle_terminates [OF sample_pem_consumes, of "[]" "'' BB ''"] sample_pem_consumes trim by auto
qed

text \<open>C11: \<open>ValidateConfiguration\<close> always returns, and it returns no error exactly for the
  configurations that name an issuer, set exactly one of ACME and CA with valid contents, and have a
  positive quota and supported key defaults where they are set.\<close>

theorem validate_configuration_sound_complete:
  assumes "pem_consumes X"
  shows "\<exists>es. ValidateConfiguration X c = Some es \<and> (es = [] \<longleftrightarrow> config_ok X c)"
  by (rule ValidateConfiguration_total [OF assms])

theorem validate_configuration_witness:
  "ValidateConfiguration sample_extern
     (emptyConfiguration\<lparr>cfg_IssuerName := ''garden'', cfg_CA := Some \<lparr>cca_Certificate = ''B'', cca_CertificateKey = ''B''\<rparr>\<rparr>)
   = Some []"
proof -
  let ?c = "emptyConfiguration\<lparr>cfg_IssuerName := ''garden'',
     cfg_CA := Some \<lparr>cca_Certificate = ''B'', cca_CertificateKey = ''B''\<rparr>\<rparr>"
  have "trimSpace ''B'' = ''B''" by code_simp
  then have "config_ok sample_extern ?c"
    by (simp add: config_ok_def emptyConfiguration_def first_cert_ok_def key_ok_def sample_extern_def)
  then show ?thesis
    using validate_configuration_sound_complete [OF sample_pem_consumes, of ?c] by auto
qed

end
