(* ===== verification/Service_API.thy ===== *)
theory Service_API
  imports Config_API
begin

text \<open>
  The provider configuration of an Extension resource: the internal type
  (\<open>pkg/apis/service/types.go\<close>), the versioned one (\<open>pkg/apis/service/v1alpha1/types.go\<close>) and the
  generated conversions.
\<close>

subsection \<open>Internal types\<close>

record Alerting =
  al_CertExpirationAlertDays :: "go_int option"

record ACMEExternalAccountBinding =
  eab_KeyID :: string
  eab_KeySecretName :: string

text \<open>A nil slice and an empty one differ for \<open>yaml.Marshal\<close> only; slices are options of lists here
  because \<open>collectIssuers\<close> tests \<open>Include != nil\<close>.\<close>

record DNSSelection =
  dsel_Include :: "string list option"
  dsel_Exclude :: "string list option"

record DNSChallengeOnShoot =
  dcs_Enabled :: bool
  dcs_Namespace :: string
  dcs_DNSClass :: "string option"

record IssuerConfig =
  ic_Name :: string
  ic_Server :: string
  ic_Email :: string
  ic_RequestsPerDayQuota :: "go_int option"
  ic_PrivateKeySecretName :: "string option"
  ic_ExternalAccountBinding :: "ACMEExternalAccountBinding option"
  ic_SkipDNSChallengeValidation :: "bool option"
  ic_Domains :: "DNSSelection option"
  ic_PrecheckNameservers :: "string list"

record SvcShootIssuers =
  ssi_Enabled :: bool

record CertConfig =
  cc_TypeMeta :: TypeMeta
  cc_Issuers :: "IssuerConfig list"
  cc_DNSChallengeOnShoot :: "DNSChallengeOnShoot option"
  cc_ShootIssuers :: "SvcShootIssuers option"
  cc_PrecheckNameservers :: "string option"
  cc_Alerting :: "Alerting option"
  cc_GenerateControlPlaneCertificate :: "bool option"

definition emptyCertConfig :: CertConfig where
  "emptyCertConfig = \<lparr>cc_TypeMeta = emptyTypeMeta, cc_Issuers = [], cc_DNSChallengeOnShoot = None,
     cc_ShootIssuers = None, cc_PrecheckNameservers = None, cc_Alerting = None,
     cc_GenerateControlPlaneCertificate = None\<rparr>"

text \<open>An issuer configuration with a name, server and e-mail address only.\<close>

definition plainIssuerConfig :: "string \<Rightarrow> string \<Rightarrow> string \<Rightarrow> IssuerConfig" where
  "plainIssuerConfig n s e = \<lparr>ic_Name = n, ic_Server = s, ic_Email = e, ic_RequestsPerDayQuota = None,
     ic_PrivateKeySecretName = None, ic_ExternalAccountBinding = None,
     ic_SkipDNSChallengeValidation = None, ic_Domains = None, ic_PrecheckNameservers = []\<rparr>"

subsection \<open>Versioned types\<close>

record v1Alerting =
  val_CertExpirationAlertDays :: "go_int option"

record v1ACMEExternalAccountBinding =
  veab_KeyID :: string
  veab_KeySecretName :: string

record v1DNSSelection =
  vdsel_Include :: "string list option"
  vdsel_Exclude :: "string list option"

record v1DNSChallengeOnShoot =
  vdcs_Enabled :: bool
  vdcs_Namespace :: string
  vdcs_DNSClass :: "string option"

record v1IssuerConfig =
  vic_Name :: string
  vic_Server :: string
  vic_Email :: string
  vic_RequestsPerDayQuota :: "go_int option"
  vic_PrivateKeySecretName :: "string option"
  vic_ExternalAccountBinding :: "v1ACMEExternalAccountBinding option"
  vic_SkipDNSChallengeValidation :: "bool option"
  vic_Domains :: "v1DNSSelection option"
  vic_PrecheckNameservers :: "string list"

record v1SvcShootIssuers =
  vssi_Enabled :: bool

record v1CertConfig =
  vcc_TypeMeta :: TypeMeta
  vcc_Issuers :: "v1IssuerConfig list"
  vcc_DNSChallengeOnShoot :: "v1DNSChallengeOnShoot option"
  vcc_ShootIssuers :: "v1SvcShootIssuers option"
  vcc_PrecheckNameservers :: "string option"
  vcc_Alerting :: "v1Alerting option"
  vcc_GenerateControlPlaneCertificate :: "bool option"

subsection \<open>Conversions\<close>

text \<open>Each nested struct at the other type, field by field, as the reinterpreting casts read it.\<close>

definition convEAB_to_service :: "v1ACMEExternalAccountBinding \<Rightarrow> ACMEExternalAccountBinding" where
  "convEAB_to_service i = \<lparr>eab_KeyID = veab_KeyID i, eab_KeySecretName = veab_KeySecretName i\<rparr>"

definition convEAB_to_v1 :: "ACMEExternalAccountBinding \<Rightarrow> v1ACMEExternalAccountBinding" where
  "convEAB_to_v1 i = \<lparr>veab_KeyID = eab_KeyID i, veab_KeySecretName = eab_KeySecretName i\<rparr>"

definition convAlerting_to_service :: "v1Alerting \<Rightarrow> Alerting" where
  "convAlerting_to_service i = \<lparr>al_CertExpirationAlertDays = val_CertExpirationAlertDays i\<rparr>"

definition convAlerting_to_v1 :: "Alerting \<Rightarrow> v1Alerting" where
  "convAlerting_to_v1 i = \<lparr>val_CertExpirationAlertDays = al_CertExpirationAlertDays i\<rparr>"

definition convDNSChallenge_to_service :: "v1DNSChallengeOnShoot \<Rightarrow> DNSChallengeOnShoot" where
  "convDNSChallenge_to_service i = \<lparr>dcs_Enabled = vdcs_Enabled i, dcs_Namespace = vdcs_Namespace i,
     dcs_DNSClass = vdcs_DNSClass i\<rparr>"

definition convDNSChallenge_to_v1 :: "DNSChallengeOnShoot \<Rightarrow> v1DNSChallengeOnShoot" where
  "convDNSChallenge_to_v1 i = \<lparr>vdcs_Enabled = dcs_Enabled i, vdcs_Namespace = dcs_Namespace i,
     vdcs_DNSClass = dcs_DNSClass i\<rparr>"

definition convDNSSelection_to_service :: "v1DNSSelection \<Rightarrow> DNSSelection" where
  "convDNSSelection_to_service i = \<lparr>dsel_Include = vdsel_Include i, dsel_Exclude = vdsel_Exclude i\<rparr>"

definition convDNSSelection_to_v1 :: "DNSSelection \<Rightarrow> v1DNSSelection" where
  "convDNSSelection_to_v1 i = \<lparr>vdsel_Include = dsel_Include i, vdsel_Exclude = dsel_Exclude i\<rparr>"

definition convIssuerConfig_to_service :: "v1IssuerConfig \<Rightarrow> IssuerConfig" where
  "convIssuerConfig_to_service i = \<lparr>ic_Name = vic_Name i, ic_Server = vic_Server i, ic_Email = vic_Email i,
     ic_RequestsPerDayQuota = vic_RequestsPerDayQuota i,
     ic_PrivateKeySecretName = vic_PrivateKeySecretName i,
     ic_ExternalAccountBinding = map_option convEAB_to_service (vic_ExternalAccountBinding i),
     ic_SkipDNSChallengeValidation = vic_SkipDNSChallengeValidation i,
     ic_Domains = map_option convDNSSelection_to_service (vic_Domains i),
     ic_PrecheckNameservers = vic_PrecheckNameservers i\<rparr>"

definition convIssuerConfig_to_v1 :: "IssuerConfig \<Rightarrow> v1IssuerConfig" where
  "convIssuerConfig_to_v1 i = \<lparr>vic_Name = ic_Name i, vic_Server = ic_Server i, vic_Email = ic_Email i,
     vic_RequestsPerDayQuota = ic_RequestsPerDayQuota i,
     vic_PrivateKeySecretName = ic_PrivateKeySecretName i,
     vic_ExternalAccountBinding = map_option convEAB_to_v1 (ic_ExternalAccountBinding i),
     vic_SkipDNSChallengeValidation = ic_SkipDNSChallengeValidation i,
     vic_Domains = map_option convDNSSelection_to_v1 (ic_Domains i),
     vic_PrecheckNameservers = ic_PrecheckNameservers i\<rparr>"

definition convSvcShootIssuers_to_service :: "v1SvcShootIssuers \<Rightarrow> SvcShootIssuers" where
  "convSvcShootIssuers_to_service i = \<lparr>ssi_Enabled = vssi_Enabled i\<rparr>"

definition convSvcShootIssuers_to_v1 :: "SvcShootIssuers \<Rightarrow> v1SvcShootIssuers" where
  "convSvcShootIssuers_to_v1 i = \<lparr>vssi_Enabled = ssi_Enabled i\<rparr>"

definition convCertConfig_to_service :: "v1CertConfig \<Rightarrow> CertConfig \<Rightarrow> CertConfig" where
  "convCertConfig_to_service i out = out\<lparr>
     cc_Issuers := map convIssuerConfig_to_service (vcc_Issuers i),
     cc_DNSChallengeOnShoot := map_option convDNSChallenge_to_service (vcc_DNSChallengeOnShoot i),
     cc_ShootIssuers := map_option convSvcShootIssuers_to_service (vcc_ShootIssuers i),
     cc_PrecheckNameservers := vcc_PrecheckNameservers i,
     cc_Alerting := map_option convAlerting_to_service (vcc_Alerting i),
     cc_GenerateControlPlaneCertificate := vcc_GenerateControlPlaneCertificate i\<rparr>"

definition convCertConfig_to_v1 :: "CertConfig \<Rightarrow> v1CertConfig \<Rightarrow> v1CertConfig" where
  "convCertConfig_to_v1 i out = out\<lparr>
     vcc_Issuers := map convIssuerConfig_to_v1 (cc_Issuers i),
     vcc_DNSChallengeOnShoot := map_option convDNSChallenge_to_v1 (cc_DNSChallengeOnShoot i),
     vcc_ShootIssuers := map_option convSvcShootIssuers_to_v1 (cc_ShootIssuers i),
     vcc_PrecheckNameservers := cc_PrecheckNameservers i,
     vcc_Alerting := map_option convAlerting_to_v1 (cc_Alerting i),
     vcc_GenerateControlPlaneCertificate := cc_GenerateControlPlaneCertificate i\<rparr>"

lemma nested_service_inverses [simp]:
  "convEAB_to_v1 \<circ> convEAB_to_service = id" "convEAB_to_service \<circ> convEAB_to_v1 = id"
  "convAlerting_to_v1 \<circ> convAlerting_to_service = id" "convAlerting_to_service \<circ> convAlerting_to_v1 = id"
  "convDNSChallenge_to_v1 \<circ> convDNSChallenge_to_service = id"
  "convDNSChallenge_to_service \<circ> convDNSChallenge_to_v1 = id"
  "convDNSSelection_to_v1 \<circ> convDNSSelection_to_service = id"
  "convDNSSelection_to_service \<circ> convDNSSelection_to_v1 = id"
  "convSvcShootIssuers_to_v1 \<circ> convSvcShootIssuers_to_service = id"
  "convSvcShootIssuers_to_service \<circ> convSvcShootIssuers_to_v1 = id"
  by (auto simp: fun_eq_iff convEAB_to_v1_def convEAB_to_service_def convAlerting_to_v1_def
      convAlerting_to_service_def convDNSChallenge_to_v1_def convDNSChallenge_to_service_def
      convDNSSelection_to_v1_def convDNSSelection_to_service_def convSvcShootIssuers_to_v1_def
      convSvcShootIssuers_to_service_def)

lemma issuer_config_inverses [simp]:
  "convIssuerConfig_to_v1 \<circ> convIssuerConfig_to_service = id"
  "convIssuerConfig_to_service \<circ> convIssuerConfig_to_v1 = id"
  by (auto simp: fun_eq_iff convIssuerConfig_to_v1_def convIssuerConfig_to_service_def
      option.map_comp option.map_id)

interpretation cc_conv: api_conversion convCertConfig_to_service convCertConfig_to_v1
  vcc_TypeMeta "\<lambda>m c. c\<lparr>vcc_TypeMeta := m\<rparr>" cc_TypeMeta "\<lambda>m c. c\<lparr>cc_TypeMeta := m\<rparr>"
  by unfold_locales
    (simp_all add: convCertConfig_to_service_def convCertConfig_to_v1_def option.map_comp option.map_id)

subsection \<open>Properties\<close>

text \<open>Converting a provider configuration to the internal type and back, into a target with the
  same \<open>TypeMeta\<close>, gives it back unchanged, in both directions; likewise for the extension's own
  configuration.\<close>

theorem conversion_round_trips:
  "convCertConfig_to_v1 (convCertConfig_to_service v emptyCertConfig) (v\<lparr>vcc_Issuers := []\<rparr>) = v
   \<and> convCertConfig_to_service (convCertConfig_to_v1 i v) (emptyCertConfig\<lparr>cc_TypeMeta := cc_TypeMeta i\<rparr>) = i
   \<and> convConfiguration_to_v1 (convConfiguration_to_config w emptyConfiguration) (w\<lparr>vcfg_ACME := None\<rparr>) = w
   \<and> convConfiguration_to_config (convConfiguration_to_v1 j w) (emptyConfiguration\<lparr>cfg_TypeMeta := cfg_TypeMeta j\<rparr>) = j"
  by (simp add: cc_conv.round_trip cc_conv.round_trip_internal cfg_conv.round_trip cfg_conv.round_trip_internal)

end
