(* ===== verification/Gardener_Types.thy ===== *)
theory Gardener_Types
  imports Go_Strings
begin

text \<open>
  The objects of the Kubernetes and gardener APIs the controllers read, with the fields the code
  looks at. A Go map of strings is a HOL map; a nil map reads like the empty one. Fields that are
  the result of a library accessor on the object (\<open>controller.IsHibernated(cluster)\<close>,
  \<open>controller.GetReplicas(cluster, 1)\<close>,
  \<open>extensions.GenericTokenKubeconfigSecretNameFromCluster(cluster)\<close>) are named after it.
\<close>

type_synonym labels = "string \<rightharpoonup> string"

text \<open>\<open>gardencorev1beta1.NamedResourceReference\<close>\<close>

record NamedResourceReference =
  nrr_Name :: string
  nrr_Kind :: string
  nrr_RefName :: string
  nrr_APIVersion :: string

text \<open>\<open>gardencorev1beta1.Shoot\<close>; times are nanoseconds.\<close>

record Shoot =
  sh_Name :: string
  sh_Namespace :: string
  sh_DeletionTimestamp :: "int option"
  sh_DNS :: "string option option" \<comment> \<open>\<open>Spec.DNS\<close>, and in it \<open>Domain\<close>\<close>
  sh_Resources :: "NamedResourceReference list"

text \<open>\<open>extensions/pkg/controller.Cluster\<close>\<close>

record Cluster =
  cl_Shoot :: "Shoot option"
  cl_IsHibernated :: bool
  cl_GetReplicas :: go_int
  cl_GenericTokenKubeconfigSecretName :: string

text \<open>\<open>extensionsv1alpha1.Extension\<close>\<close>

record Extension =
  ex_Name :: string
  ex_Namespace :: string
  ex_Annotations :: labels
  ex_DeletionTimestamp :: "int option"
  ex_Type :: string
  ex_Class :: "string option"
  ex_ProviderConfig :: "string option" \<comment> \<open>the raw bytes\<close>
  ex_StatusResources :: "NamedResourceReference list"

definition ExtensionClassShoot :: string where "ExtensionClassShoot = ''shoot''"
definition ExtensionClassSeed :: string where "ExtensionClassSeed = ''seed''"
definition ExtensionClassGarden :: string where "ExtensionClassGarden = ''garden''"

lemmas extension_class_defs =
  ExtensionClassShoot_def ExtensionClassSeed_def ExtensionClassGarden_def

text \<open>\<open>helper.GetExtensionClassOrDefault\<close>: the shoot class if none is set.\<close>

definition GetExtensionClassOrDefault :: "string option \<Rightarrow> string" where
  "GetExtensionClassOrDefault c = ptr_Deref c ExtensionClassShoot"

text \<open>\<open>operatorv1alpha1.Garden\<close>: domain names, and \<open>Spec.DNS\<close> with its providers (type, secret).\<close>

record Garden =
  ga_VirtualDomains :: "string list"
  ga_IngressDomains :: "string list"
  ga_DNSProviders :: "(string \<times> string) list option"

text \<open>
  \<open>gardencorev1beta1.Seed\<close>: the ingress domain if \<open>Spec.Ingress\<close> is set, and the DNS provider's
  type and credentials reference if \<open>Spec.DNS.Provider\<close> is set.
\<close>

record Seed =
  sd_Name :: string
  sd_IngressDomain :: "string option"
  sd_DNSProvider :: "(string \<times> string option) option"

text \<open>\<open>certv1alpha1.Certificate\<close>\<close>

record Certificate =
  ce_Name :: string
  ce_Namespace :: string
  ce_Labels :: labels
  ce_Annotations :: labels
  ce_CommonName :: "string option"
  ce_DNSNames :: "string list"
  ce_SecretLabels :: labels
  ce_SecretRef :: "(string \<times> string) option" \<comment> \<open>name and namespace\<close>

definition newCertificateObject :: "string \<Rightarrow> string \<Rightarrow> Certificate" where
  "newCertificateObject name ns = \<lparr>ce_Name = name, ce_Namespace = ns, ce_Labels = Map.empty,
     ce_Annotations = Map.empty, ce_CommonName = None, ce_DNSNames = [], ce_SecretLabels = Map.empty,
     ce_SecretRef = None\<rparr>"

end
