(* ===== verification/Service_Validation.thy ===== *)
theory Service_Validation
  imports Config_Validation Service_API Gardener_Types
begin

text \<open>
  \<open>pkg/apis/service/validation/validation.go\<close>: validation of the provider configuration against
  the cluster it belongs to, and the contract of looking up a referenced secret, which the
  deployer's own lookup obeys as well.
\<close>

subsection \<open>References to secrets\<close>

text \<open>
  The contract: the first resource reference of the given name decides, and it must be a secret.
  \<open>lookup\<close> searches a list of references, \<open>success\<close> says whether a result of it is a success.
\<close>

definition first_ref :: "string \<Rightarrow> NamedResourceReference list \<Rightarrow> NamedResourceReference option" where
  "first_ref name refs = find (\<lambda>r. nrr_Name r = name) refs"

locale secret_lookup =
  fixes lookup :: "NamedResourceReference list \<Rightarrow> string \<Rightarrow> 'r"
    and success :: "'r \<Rightarrow> bool"
  assumes lookup_Nil: "\<not> success (lookup [] name)"
    and lookup_hit: "nrr_Name r = name \<Longrightarrow> success (lookup (r # refs) name) \<longleftrightarrow> nrr_Kind r = ''Secret''"
    and lookup_miss: "nrr_Name r \<noteq> name \<Longrightarrow> lookup (r # refs) name = lookup refs name"
begin

lemma success_iff:
  "success (lookup refs name) \<longleftrightarrow> (\<exists>r. first_ref name refs = Some r \<and> nrr_Kind r = ''Secret'')"
proof (induction refs)
  case Nil
  then show ?case by (simp add: first_ref_def lookup_Nil)
next
  case (Cons r refs)
  then show ?case
    by (cases "nrr_Name r = name") (auto simp: first_ref_def lookup_hit lookup_miss)
qed

end

text \<open>\<open>checkReferencedResource\<close> returns a complaint, the empty string if there is none.\<close>

fun checkReferencedLoop :: "NamedResourceReference list \<Rightarrow> string \<Rightarrow> string" where
  "checkReferencedLoop [] refname = ''referenced resource not found''"
| "checkReferencedLoop (ref # refs) refname =
    (if nrr_Name ref = refname then
       (if nrr_Kind ref \<noteq> ''Secret'' then ''expected secret resource'' else '''')
     else checkReferencedLoop refs refname)"

definition checkReferencedResource :: "Cluster \<Rightarrow> string \<Rightarrow> string" where
  "checkReferencedResource cluster refname =
    (case cl_Shoot cluster of
       None \<Rightarrow> ''shoot spec not set''
     | Some shoot \<Rightarrow> checkReferencedLoop (sh_Resources shoot) refname)"

interpretation check_ref: secret_lookup checkReferencedLoop "\<lambda>detail. detail = ''''"
  by unfold_locales auto

subsection \<open>Issuers\<close>

text \<open>The body of the loop over the issuers; \<open>names\<close> holds the names seen before.\<close>

definition validateIssuer ::
    "extern \<Rightarrow> Cluster \<Rightarrow> field_path \<Rightarrow> string set \<Rightarrow> nat \<Rightarrow> IssuerConfig \<Rightarrow> field_error list" where
  "validateIssuer X cluster fldPath names i issuer =
    (let p = fldPath @ [Index i] in
       append_if (ic_Name issuer = []) [fInvalid (p @ [Child ''name'']) (BVString (ic_Name issuer)) ''must not be empty'']
     @ append_if (ic_Name issuer \<in> names) [fDuplicate (p @ [Child ''name'']) (BVString (ic_Name issuer))]
     @ append_if (parseRequestURI X (ic_Server issuer) \<noteq> None)
         [fInvalid (p @ [Child ''server'']) (BVString (ic_Server issuer)) ''must be a valid url'']
     @ append_if (\<not> TestEmail X (ic_Email issuer))
         [fInvalid (p @ [Child ''email'']) (BVString (ic_Email issuer)) ''must a valid email address'']
     @ (case ic_PrivateKeySecretName issuer of None \<Rightarrow> [] | Some n \<Rightarrow>
          (let detail = checkReferencedResource cluster n
           in append_if (detail \<noteq> '''') [fInvalid (p @ [Child ''privateKeySecretName'']) (BVString n) detail]))
     @ (case ic_ExternalAccountBinding issuer of None \<Rightarrow> [] | Some eab \<Rightarrow>
          append_if (eab_KeyID eab = [])
            [fInvalid (p @ [Child ''externalAccountBinding'', Child ''keyID'']) (BVString (eab_KeyID eab)) ''must not be empty'']
          @ (let detail = checkReferencedResource cluster (eab_KeySecretName eab)
             in append_if (detail \<noteq> '''')
                  [fInvalid (p @ [Child ''externalAccountBinding'', Child ''keySecretName''])
                     (BVString (eab_KeySecretName eab)) detail]))
     @ append_if (ic_SkipDNSChallengeValidation issuer = Some True \<and> ic_ExternalAccountBinding issuer = None)
         [fInvalid (p @ [Child ''skipDNSChallengeValidation'']) (BVBool True)
            ''is only allowed for external account binding'']
     @ (case ic_RequestsPerDayQuota issuer of None \<Rightarrow> [] | Some q \<Rightarrow>
          append_if (sint q < 1) [fInvalid (p @ [Child ''requestsPerDayQuota'']) (BVInt (sint q)) ''must be >= 1''])
     @ append_if (0 < length (ic_PrecheckNameservers issuer))
         (for_range (\<lambda>j server. case ValidateNameserver X server of
              None \<Rightarrow> []
            | Some err \<Rightarrow> [fInvalid (p @ [Child ''precheckNameservers'', Index j]) (BVString server) (err_text err)])
            (ic_PrecheckNameservers issuer)))"

fun validateIssuersLoop ::
    "extern \<Rightarrow> Cluster \<Rightarrow> field_path \<Rightarrow> string set \<Rightarrow> nat \<Rightarrow> IssuerConfig list \<Rightarrow> field_error list" where
  "validateIssuersLoop X cluster fldPath names i [] = []"
| "validateIssuersLoop X cluster fldPath names i (issuer # issuers) =
     validateIssuer X cluster fldPath names i issuer
     @ validateIssuersLoop X cluster fldPath (insert (ic_Name issuer) names) (Suc i) issuers"

definition validateIssuers :: "extern \<Rightarrow> Cluster \<Rightarrow> IssuerConfig list \<Rightarrow> field_path \<Rightarrow> field_error list" where
  "validateIssuers X cluster issuers fldPath = validateIssuersLoop X cluster fldPath {} 0 issuers"

definition validateDNSChallengeOnShoot :: "DNSChallengeOnShoot option \<Rightarrow> field_path \<Rightarrow> field_error list" where
  "validateDNSChallengeOnShoot dnsChallenge fldPath =
    (case dnsChallenge of
       None \<Rightarrow> []
     | Some d \<Rightarrow> append_if (dcs_Enabled d \<and> dcs_Namespace d = [])
         [fRequired (fldPath @ [Child ''namespace'']) ''must provide namespace for writing DNS entries''])"

definition validatePrecheckNameservers :: "extern \<Rightarrow> string option \<Rightarrow> field_path \<Rightarrow> field_error list" where
  "validatePrecheckNameservers X precheckNameservers fldPath =
    (case precheckNameservers of
       None \<Rightarrow> []
     | Some ns \<Rightarrow>
         (let servers = splitOn CHR '','' ns
          in if length servers = 1 \<and> length (servers ! 0) = 0
             then [fInvalid fldPath (BVString ns) ''must contain at least one DNS server address'']
             else for_range (\<lambda>i server. case ValidateNameserver X server of
                    None \<Rightarrow> []
                  | Some err \<Rightarrow> [fInvalid (fldPath @ [Index i]) (BVString server) (err_text err)]) servers))"

subsection \<open>The provider configuration\<close>

text \<open>Without a cluster the extension runs in a garden or seed, where most settings are forbidden.\<close>

definition ValidateCertConfig :: "extern \<Rightarrow> CertConfig \<Rightarrow> Cluster option \<Rightarrow> field_error list" where
  "ValidateCertConfig X config cluster =
    (case cluster of
       None \<Rightarrow>
         append_if (0 < length (cc_Issuers config)) [fForbidden [Child ''issuers'']
            (''issuers are not allowed in extension on runtime cluster. You can only specify the default issuer in the ''
              @ quoted ''runtimeClusterValues'' @ '' of the gardener-extension-shoot-cert-service extension'')]
       @ append_if (cc_PrecheckNameservers config \<noteq> None) [fForbidden [Child ''precheckNameservers'']
            ''precheckNameservers are not allowed in extension on runtime cluster.'']
       @ append_if (cc_DNSChallengeOnShoot config \<noteq> None) [fForbidden [Child ''dnsChallengeOnShoot'']
            ''dnsChallengeOnShoot is not allowed in extension on runtime cluster.'']
       @ append_if (cc_ShootIssuers config \<noteq> None) [fForbidden [Child ''shootIssuers'']
            ''shootIssuers is not allowed in extension on runtime cluster.'']
       @ append_if (cc_Alerting config \<noteq> None) [fForbidden [Child ''alerting'']
            ''alerting is not allowed in extension on runtime cluster.'']
     | Some cl \<Rightarrow>
         validateIssuers X cl (cc_Issuers config) [Child ''issuers'']
       @ validateDNSChallengeOnShoot (cc_DNSChallengeOnShoot config) [Child ''dnsChallengeOnShoot'']
       @ validatePrecheckNameservers X (cc_PrecheckNameservers config) [Child ''precheckNameservers''])"

subsection \<open>What a valid provider configuration is\<close>

text \<open>The specification, independent of the order of the checks and of the complaints.\<close>

definition secret_reference :: "Cluster \<Rightarrow> string \<Rightarrow> bool" where
  "secret_reference cluster refname \<longleftrightarrow>
    (\<exists>shoot r. cl_Shoot cluster = Some shoot \<and> first_ref refname (sh_Resources shoot) = Some r
       \<and> nrr_Kind r = ''Secret'')"

definition issuer_ok :: "extern \<Rightarrow> Cluster \<Rightarrow> IssuerConfig \<Rightarrow> bool" where
  "issuer_ok X cluster ic \<longleftrightarrow>
     ic_Name ic \<noteq> [] \<and> parseRequestURI X (ic_Server ic) = None \<and> TestEmail X (ic_Email ic)
   \<and> pred_option (secret_reference cluster) (ic_PrivateKeySecretName ic)
   \<and> pred_option (\<lambda>e. eab_KeyID e \<noteq> [] \<and> secret_reference cluster (eab_KeySecretName e))
       (ic_ExternalAccountBinding ic)
   \<and> (ic_SkipDNSChallengeValidation ic = Some True \<longrightarrow> ic_ExternalAccountBinding ic \<noteq> None)
   \<and> pred_option (\<lambda>q. 1 \<le> sint q) (ic_RequestsPerDayQuota ic)
   \<and> list_all (nameserver_ok X) (ic_PrecheckNameservers ic)"

definition issuers_ok :: "extern \<Rightarrow> Cluster \<Rightarrow> IssuerConfig list \<Rightarrow> bool" where
  "issuers_ok X cluster issuers \<longleftrightarrow>
     distinct (map ic_Name issuers) \<and> list_all (issuer_ok X cluster) issuers"

definition shoot_config_ok :: "extern \<Rightarrow> Cluster \<Rightarrow> CertConfig \<Rightarrow> bool" where
  "shoot_config_ok X cluster config \<longleftrightarrow>
     issuers_ok X cluster (cc_Issuers config)
   \<and> pred_option (\<lambda>d. dcs_Enabled d \<longrightarrow> dcs_Namespace d \<noteq> []) (cc_DNSChallengeOnShoot config)
   \<and> pred_option (\<lambda>ns. ns \<noteq> [] \<and> list_all (nameserver_ok X) (splitOn CHR '','' ns))
       (cc_PrecheckNameservers config)"

definition runtime_config_ok :: "CertConfig \<Rightarrow> bool" where
  "runtime_config_ok config \<longleftrightarrow>
     cc_Issuers config = [] \<and> cc_PrecheckNameservers config = None
   \<and> cc_DNSChallengeOnShoot config = None \<and> cc_ShootIssuers config = None \<and> cc_Alerting config = None"

lemma checkReferencedResource_ok:
  "checkReferencedResource cluster refname = '''' \<longleftrightarrow> secret_reference cluster refname"
  by (auto simp: checkReferencedResource_def secret_reference_def check_ref.success_iff
      split: option.splits)

lemma nameserver_loop_Nil_iff:
  assumes "dns1123_law X"
  shows "for_range (\<lambda>i server. case ValidateNameserver X server of None \<Rightarrow> [] | Some err \<Rightarrow> [f i server err]) servers = []
    \<longleftrightarrow> list_all (nameserver_ok X) servers"
proof -
  have "(case ValidateNameserver X server of None \<Rightarrow> [] | Some err \<Rightarrow> [f i server err]) = []
      \<longleftrightarrow> nameserver_ok X server" for i server
    using ValidateNameserver_ok_iff [OF assms, of server]
    by (auto split: option.splits)
  then show ?thesis
    by (simp add: for_range_Nil_iff list_all_length)
qed

lemma validateIssuer_Nil_iff:
  assumes "dns1123_law X"
  shows "validateIssuer X cluster p names i ic = [] \<longleftrightarrow> ic_Name ic \<notin> names \<and> issuer_ok X cluster ic"
  unfolding validateIssuer_def issuer_ok_def Let_def append_is_Nil_conv append_if_Nil_iff
    nameserver_loop_Nil_iff [OF assms] checkReferencedResource_ok
  by (auto simp: checkReferencedResource_ok split: option.splits)

lemma validateIssuersLoop_Nil_iff:
  assumes "dns1123_law X"
  shows "validateIssuersLoop X cluster p names i issuers = [] \<longleftrightarrow>
    issuers_ok X cluster issuers \<and> ic_Name ` set issuers \<inter> names = {}"
  by (induction issuers arbitrary: i names)
    (auto simp: validateIssuer_Nil_iff [OF assms] issuers_ok_def)

lemma validatePrecheckNameservers_Nil_iff:
  assumes "dns1123_law X"
  shows "validatePrecheckNameservers X ns p = [] \<longleftrightarrow>
    pred_option (\<lambda>n. n \<noteq> [] \<and> list_all (nameserver_ok X) (splitOn CHR '','' n)) ns"
  unfolding validatePrecheckNameservers_def Let_def splitOn_empty_iff
  by (auto simp: nameserver_loop_Nil_iff [OF assms] split: option.splits)

lemma validateDNSChallengeOnShoot_Nil_iff:
  "validateDNSChallengeOnShoot d p = [] \<longleftrightarrow> pred_option (\<lambda>d. dcs_Enabled d \<longrightarrow> dcs_Namespace d \<noteq> []) d"
  by (auto simp: validateDNSChallengeOnShoot_def split: option.splits)

lemma ValidateCertConfig_shoot_iff:
  "dns1123_law X \<Longrightarrow> ValidateCertConfig X config (Some cluster) = [] \<longleftrightarrow> shoot_config_ok X cluster config"
  unfolding ValidateCertConfig_def shoot_config_ok_def validateIssuers_def
  by (auto simp: validateIssuersLoop_Nil_iff validatePrecheckNameservers_Nil_iff
      validateDNSChallengeOnShoot_Nil_iff)

lemma ValidateCertConfig_runtime_iff:
  "ValidateCertConfig X config None = [] \<longleftrightarrow> runtime_config_ok config"
  by (auto simp: ValidateCertConfig_def runtime_config_ok_def)

subsection \<open>Properties\<close>

text \<open>C9: A provider configuration of a shoot passes the validation exactly when its issuers have
  distinct non-empty names, valid servers and addresses, positive quotas, valid name servers,
  references that resolve to secrets of the shoot and key ids for their external account bindings, skip the DNS
  check only with an external account binding, and when the DNS challenge on the shoot names a namespace if it
  is enabled and the name servers to check, if any are given, are a non-empty list of valid addresses.\<close>

theorem validate_cert_config_shoot:
  assumes "dns1123_law X"
  shows "ValidateCertConfig X config (Some cluster) = [] \<longleftrightarrow> shoot_config_ok X cluster config"
  by (rule ValidateCertConfig_shoot_iff [OF assms])

theorem validate_cert_config_shoot_witness:
  "\<not> shoot_config_ok sample_extern \<lparr>cl_Shoot = None, cl_IsHibernated = False, cl_GetReplicas = 1,
       cl_GenericTokenKubeconfigSecretName = ''kc''\<rparr>
     (emptyCertConfig\<lparr>cc_Issuers := [plainIssuerConfig ''a'' ''https://x/'' ''a@b'',
                                     plainIssuerConfig ''a'' ''https://x/'' ''a@b'']\<rparr>)"
  unfolding validate_cert_config_shoot [OF sample_dns1123_law, symmetric]
  by (simp add: ValidateCertConfig_def validateIssuers_def validateIssuer_def plainIssuerConfig_def
      emptyCertConfig_def)

text \<open>Without a cluster, that is in a garden or seed, a provider configuration passes exactly when
  it sets none of issuers, name servers, DNS challenge, shoot issuers and alerting.\<close>

theorem validate_cert_config_runtime:
  "ValidateCertConfig X config None = [] \<longleftrightarrow> runtime_config_ok config"
  by (rule ValidateCertConfig_runtime_iff)

end
