(* ===== verification/Kube_Objects.thy ===== *)
theory Kube_Objects
  imports Gardener_Types
begin

text \<open>
  The Kubernetes objects the deployer builds, with the fields it sets. Quantities and enumeration
  values are their texts. A nil map differs from an empty one only where the code writes to it,
  which happens for annotations; they are an option.
\<close>

subsection \<open>Metadata\<close>

record ObjectMeta =
  om_Name :: string
  om_Namespace :: string
  om_Labels :: labels
  om_Annotations :: "labels option"

text \<open>The literal \<open>metav1.ObjectMeta{Name: n, Namespace: ns}\<close>.\<close>

definition meta :: "string \<Rightarrow> string \<Rightarrow> ObjectMeta" where
  "meta n ns = \<lparr>om_Name = n, om_Namespace = ns, om_Labels = Map.empty, om_Annotations = None\<rparr>"

lemma meta_simps [simp]:
  "om_Name (meta n ns) = n" "om_Namespace (meta n ns) = ns" "om_Labels (meta n ns) = Map.empty"
  "om_Annotations (meta n ns) = None"
  by (simp_all add: meta_def)

subsection \<open>Access control\<close>

record PolicyRule =
  pr_APIGroups :: "string list"
  pr_Resources :: "string list"
  pr_ResourceNames :: "string list"
  pr_Verbs :: "string list"

definition policy_rule :: "string list \<Rightarrow> string list \<Rightarrow> string list \<Rightarrow> PolicyRule" where
  "policy_rule groups res verbs =
    \<lparr>pr_APIGroups = groups, pr_Resources = res, pr_ResourceNames = [], pr_Verbs = verbs\<rparr>"

record Subject =
  su_Kind :: string
  su_Name :: string
  su_Namespace :: string

record RoleRef =
  rr_APIGroup :: string
  rr_Kind :: string
  rr_Name :: string

record Role = \<comment> \<open>\<open>rbacv1.Role\<close> and \<open>rbacv1.ClusterRole\<close>\<close>
  ro_Meta :: ObjectMeta
  ro_Rules :: "PolicyRule list"

record RoleBinding = \<comment> \<open>\<open>rbacv1.RoleBinding\<close> and \<open>rbacv1.ClusterRoleBinding\<close>\<close>
  rb_Meta :: ObjectMeta
  rb_RoleRef :: RoleRef
  rb_Subjects :: "Subject list"

record ServiceAccount =
  sa_Meta :: ObjectMeta
  sa_AutomountServiceAccountToken :: "bool option"

subsection \<open>The deployment\<close>

record VolumeMount =
  vm_Name :: string
  vm_MountPath :: string
  vm_ReadOnly :: bool

text \<open>A projected secret: its name, whether it is optional, and the keys with their paths.\<close>

record SecretProjection =
  sp_Name :: string
  sp_Optional :: "bool option"
  sp_Items :: "(string \<times> string) list"

datatype VolumeSource =
    Projected "go_int32 option" "SecretProjection list" \<comment> \<open>default mode and sources\<close>
  | ConfigMapVolume string

record Volume =
  vo_Name :: string
  vo_Source :: VolumeSource

record EnvVar =
  ev_Name :: string
  ev_Value :: string

record ContainerPort =
  cp_Name :: string
  cp_ContainerPort :: go_int32
  cp_Protocol :: string

record Probe =
  pb_Path :: string
  pb_Port :: go_int32
  pb_Scheme :: string
  pb_InitialDelaySeconds :: go_int32
  pb_TimeoutSeconds :: go_int32

record Container =
  co_Name :: string
  co_Image :: string
  co_ImagePullPolicy :: string
  co_AllowPrivilegeEscalation :: "bool option"
  co_VolumeMounts :: "VolumeMount list"
  co_Args :: "string list"
  co_Env :: "EnvVar list"
  co_Ports :: "ContainerPort list"
  co_LivenessProbe :: "Probe option"
  co_Requests :: labels

record PodSpec =
  ps_PriorityClassName :: string
  ps_Containers :: "Container list"
  ps_Volumes :: "Volume list"
  ps_ServiceAccountName :: string

record Deployment =
  dp_Meta :: ObjectMeta
  dp_RevisionHistoryLimit :: "go_int32 option"
  dp_Replicas :: "go_int32 option"
  dp_Selector :: labels
  dp_TemplateAnnotations :: labels
  dp_TemplateLabels :: labels
  dp_PodSpec :: PodSpec

subsection \<open>The other objects\<close>

record ConfigMap =
  cm_Meta :: ObjectMeta
  cm_Data :: labels

record Secret =
  se_Meta :: ObjectMeta
  se_Data :: labels
  se_Type :: string

text \<open>\<open>corev1.SecretReference\<close>\<close>

record SecretReference =
  sr_Name :: string
  sr_Namespace :: string

record EABSpec =
  eabs_KeyID :: string
  eabs_KeySecretRef :: SecretReference

record ACMESpec =
  as_Email :: string
  as_Server :: string
  as_PrivateKeySecretRef :: SecretReference
  as_AutoRegistration :: bool
  as_PrecheckNameservers :: "string list"
  as_ExternalAccountBinding :: "EABSpec option"
  as_SkipDNSChallengeValidation :: "bool option"
  as_Domains :: "(string list option \<times> string list option) option"

record CASpec =
  cs_PrivateKeySecretRef :: SecretReference

record IssuerObj =
  is_Meta :: ObjectMeta
  is_ACME :: "ACMESpec option"
  is_CA :: "CASpec option"
  is_RequestsPerDayQuota :: "go_int option"

record ServicePort =
  svp_Name :: string
  svp_Port :: go_int32
  svp_Protocol :: string

record Service =
  sv_Meta :: ObjectMeta
  sv_Type :: string
  sv_ClusterIP :: string
  sv_Ports :: "ServicePort list"
  sv_Selector :: labels

record VPA =
  vp_Meta :: ObjectMeta
  vp_TargetAPIVersion :: string
  vp_TargetKind :: string
  vp_TargetName :: string
  vp_UpdateMode :: string
  vp_ContainerName :: string
  vp_ControlledValues :: string
  vp_ControlledResources :: "string list"
  vp_MinAllowed :: labels

record PodDisruptionBudget =
  pd_Meta :: ObjectMeta
  pd_MaxUnavailable :: "go_int32 option"
  pd_Selector :: labels
  pd_UnhealthyPodEvictionPolicy :: "string option"

record PrometheusAlert =
  pa_Group :: string
  pa_Alert :: string
  pa_Expr :: string
  pa_For :: string
  pa_Labels :: labels
  pa_Annotations :: labels

record PrometheusRule =
  pru_Meta :: ObjectMeta
  pru_Alert :: PrometheusAlert

record RelabelConfig =
  rc_SourceLabels :: "string list"
  rc_Action :: string
  rc_Regex :: string

record ServiceMonitor =
  sm_APIVersion :: string
  sm_Kind :: string
  sm_Meta :: ObjectMeta
  sm_Selector :: labels
  sm_Port :: string
  sm_RelabelConfigs :: "RelabelConfig list"
  sm_MetricRelabelConfigs :: "RelabelConfig list"

text \<open>A network policy for all pods with one egress rule to the namespaces with some labels.\<close>

record NetworkPolicy =
  np_Meta :: ObjectMeta
  np_PodSelector :: labels
  np_EgressNamespaceLabels :: labels

text \<open>A custom resource definition: the part of the embedded document apart from the metadata stays
  opaque.\<close>

record CRD =
  crd_Meta :: ObjectMeta
  crd_Spec :: string

subsection \<open>Objects as interface values\<close>

datatype kobj =
    KServiceAccount ServiceAccount
  | KConfigMap ConfigMap
  | KSecret Secret
  | KIssuer IssuerObj
  | KRole Role
  | KRoleBinding RoleBinding
  | KClusterRole Role
  | KClusterRoleBinding RoleBinding
  | KService Service
  | KDeployment Deployment
  | KVPA VPA
  | KPodDisruptionBudget PodDisruptionBudget
  | KPrometheusRule PrometheusRule
  | KServiceMonitor ServiceMonitor
  | KNetworkPolicy NetworkPolicy
  | KCRD CRD

primrec kind_of :: "kobj \<Rightarrow> string" where
  "kind_of (KServiceAccount _) = ''ServiceAccount''"
| "kind_of (KConfigMap _) = ''ConfigMap''"
| "kind_of (KSecret _) = ''Secret''"
| "kind_of (KIssuer _) = ''Issuer''"
| "kind_of (KRole _) = ''Role''"
| "kind_of (KRoleBinding _) = ''RoleBinding''"
| "kind_of (KClusterRole _) = ''ClusterRole''"
| "kind_of (KClusterRoleBinding _) = ''ClusterRoleBinding''"
| "kind_of (KService _) = ''Service''"
| "kind_of (KDeployment _) = ''Deployment''"
| "kind_of (KVPA _) = ''VerticalPodAutoscaler''"
| "kind_of (KPodDisruptionBudget _) = ''PodDisruptionBudget''"
| "kind_of (KPrometheusRule _) = ''PrometheusRule''"
| "kind_of (KServiceMonitor _) = ''ServiceMonitor''"
| "kind_of (KNetworkPolicy _) = ''NetworkPolicy''"
| "kind_of (KCRD _) = ''CustomResourceDefinition''"

primrec meta_of :: "kobj \<Rightarrow> ObjectMeta" where
  "meta_of (KServiceAccount x) = sa_Meta x"
| "meta_of (KConfigMap x) = cm_Meta x"
| "meta_of (KSecret x) = se_Meta x"
| "meta_of (KIssuer x) = is_Meta x"
| "meta_of (KRole x) = ro_Meta x"
| "meta_of (KRoleBinding x) = rb_Meta x"
| "meta_of (KClusterRole x) = ro_Meta x"
| "meta_of (KClusterRoleBinding x) = rb_Meta x"
| "meta_of (KService x) = sv_Meta x"
| "meta_of (KDeployment x) = dp_Meta x"
| "meta_of (KVPA x) = vp_Meta x"
| "meta_of (KPodDisruptionBudget x) = pd_Meta x"
| "meta_of (KPrometheusRule x) = pru_Meta x"
| "meta_of (KServiceMonitor x) = sm_Meta x"
| "meta_of (KNetworkPolicy x) = np_Meta x"
| "meta_of (KCRD x) = crd_Meta x"

text \<open>What identifies an object in a cluster: kind, namespace and name.\<close>

definition object_key :: "kobj \<Rightarrow> string \<times> string \<times> string" where
  "object_key x = (kind_of x, om_Namespace (meta_of x), om_Name (meta_of x))"

text \<open>
  A value of the interface type \<open>client.Object\<close>: the nil interface, an interface that holds a nil
  pointer of some kind (not equal to nil in Go), or an object.
\<close>

datatype client_object = NilInterface | TypedNil string | Obj kobj

text \<open>Storing a pointer of a concrete type in the interface.\<close>

definition as_object :: "string \<Rightarrow> ('a \<Rightarrow> kobj) \<Rightarrow> 'a option \<Rightarrow> client_object" where
  "as_object kind K p = (case p of None \<Rightarrow> TypedNil kind | Some x \<Rightarrow> Obj (K x))"

text \<open>The objects behind the interfaces.\<close>

fun objs_of :: "client_object list \<Rightarrow> kobj list" where
  "objs_of [] = []"
| "objs_of (Obj x # os) = x # objs_of os"
| "objs_of (_ # os) = objs_of os"

lemma objs_of_append [simp]: "objs_of (xs @ ys) = objs_of xs @ objs_of ys"
  by (induction xs rule: objs_of.induct) auto

lemma objs_of_map_Obj [simp]: "objs_of (map Obj xs) = xs"
  by (induction xs) auto

lemma set_objs_of: "x \<in> set (objs_of os) \<longleftrightarrow> Obj x \<in> set os"
  by (induction os rule: objs_of.induct) auto

definition opt_obj :: "('a \<Rightarrow> kobj) \<Rightarrow> 'a option \<Rightarrow> kobj list" where
  "opt_obj K p = (case p of None \<Rightarrow> [] | Some x \<Rightarrow> [K x])"

lemma opt_obj_simps [simp]: "opt_obj K None = []" "opt_obj K (Some x) = [K x]"
  by (simp_all add: opt_obj_def)

lemma set_opt_obj: "x \<in> set (opt_obj K p) \<longleftrightarrow> (\<exists>y. p = Some y \<and> x = K y)"
  by (cases p) auto

lemma objs_of_as_object [simp]: "objs_of (as_object k K p # os) = opt_obj K p @ objs_of os"
  by (simp add: as_object_def split: option.splits)

end
