(* ===== verification/Seen_Loop.thy ===== *)
theory Seen_Loop
  imports Cert_Prelude "HOL-Library.Sublist"
begin

text \<open>
  The contract of a loop that collects the items it has not met before: it carries the set of the
  items met and the list collected so far. The code has two such loops, one over name servers
  (\<open>mergeServers\<close>) and one over domain names (\<open>gardenCert.reconcile\<close>).
\<close>

text \<open>The items of a list at their first occurrence, without those of a given set.\<close>

fun first_occ :: "'a set \<Rightarrow> 'a list \<Rightarrow> 'a list" where
  "first_occ S [] = []"
| "first_occ S (x # xs) = (if x \<in> S then first_occ S xs else x # first_occ (insert x S) xs)"

lemma set_first_occ [simp]: "set (first_occ S xs) = set xs - S"
  by (induction xs arbitrary: S) auto

lemma distinct_first_occ [simp]: "distinct (first_occ S xs)"
  by (induction xs arbitrary: S) auto

lemma subseq_first_occ: "subseq (first_occ S xs) xs"
  by (induction xs arbitrary: S) auto

lemma first_occ_append: "first_occ S (xs @ ys) = first_occ S xs @ first_occ (S \<union> set xs) ys"
proof (induction xs arbitrary: S)
  case Nil
  then show ?case by simp
next
  case (Cons x xs)
  then show ?case by (cases "x \<in> S") (simp_all add: insert_absorb)
qed

lemma first_occ_id: "distinct xs \<Longrightarrow> set xs \<inter> S = {} \<Longrightarrow> first_occ S xs = xs"
  by (induction xs arbitrary: S) auto

lemma first_occ_Nil_iff: "first_occ S xs = [] \<longleftrightarrow> set xs \<subseteq> S"
  by (metis Diff_eq_empty_iff set_empty set_first_occ)

lemma first_occ_idem [simp]: "first_occ {} (first_occ {} xs) = first_occ {} xs"
  by (simp add: first_occ_id)

locale seen_loop =
  fixes loop :: "'a list \<Rightarrow> 'a set \<times> 'b list \<Rightarrow> 'a set \<times> 'b list"
    and emit :: "'a \<Rightarrow> 'b"
  assumes loop_Nil: "loop [] st = st"
    and loop_seen: "x \<in> S \<Longrightarrow> loop (x # xs) (S, out) = loop xs (S, out)"
    and loop_new: "x \<notin> S \<Longrightarrow> loop (x # xs) (S, out) = loop xs (insert x S, out @ [emit x])"
begin

lemma loop_eq: "loop xs (S, out) = (S \<union> set xs, out @ map emit (first_occ S xs))"
proof (induction xs arbitrary: S out)
  case Nil
  then show ?case by (simp add: loop_Nil)
next
  case (Cons x xs)
  then show ?case
    by (cases "x \<in> S") (auto simp: loop_seen loop_new)
qed

lemma loop_append: "loop ys (loop xs st) = loop (xs @ ys) st"
  by (cases st) (simp add: loop_eq first_occ_append Un_assoc)

lemma loop_distinct: "inj emit \<Longrightarrow> distinct (snd (loop xs ({}, [])))"
  by (auto simp: loop_eq distinct_map intro: inj_on_subset)

lemma loop_set: "set (snd (loop xs ({}, []))) = emit ` set xs"
  by (simp add: loop_eq)

end

end
