(* ===== verification/Deployer_Values.thy ===== *)
theory Deployer_Values
  imports Service_Validation Kube_Objects Seen_Loop
begin

text \<open>
  \<open>pkg/controller/extension/shared/deployer.go\<close>: the values a deployment is made from and the
  settings derived from them.
\<close>

record Values =
  vl_ExtensionConfig :: Configuration
  vl_CertConfig :: CertConfig
  vl_Namespace :: string
  vl_Image :: string
  vl_GenericTokenKubeconfigSecretName :: string
  vl_RestrictedDomains :: string
  vl_Resources :: "NamedResourceReference list"
  vl_ShootDeployment :: bool
  vl_GardenDeployment :: bool
  vl_CertClass :: string
  vl_Replicas :: go_int32
  vl_NextGenDNSShootService :: bool

text \<open>The zero value of the struct.\<close>

definition emptyValues :: Values where
  "emptyValues = \<lparr>vl_ExtensionConfig = emptyConfiguration, vl_CertConfig = emptyCertConfig,
     vl_Namespace = [], vl_Image = [], vl_GenericTokenKubeconfigSecretName = [],
     vl_RestrictedDomains = [], vl_Resources = [], vl_ShootDeployment = False,
     vl_GardenDeployment = False, vl_CertClass = [], vl_Replicas = 0, vl_NextGenDNSShootService = False\<rparr>"

subsection \<open>Names\<close>

text \<open>Constants of \<open>pkg/apis/service/v1alpha1/types.go\<close>.\<close>

definition CertManagementResourceNameShoot :: string where
  "CertManagementResourceNameShoot = ''extension-shoot-cert-service-shoot''"

definition CertManagementResourceNameSeed :: string where
  "CertManagementResourceNameSeed = ''extension-shoot-cert-service-seed''"

definition CertManagementResourceNameGarden :: string where
  "CertManagementResourceNameGarden = ''extension-shoot-cert-service-garden''"

definition CertManagementImageName :: string where
  "CertManagementImageName = ''cert-management''"

definition ShootAccessSecretName :: string where
  "ShootAccessSecretName = ''extension-shoot-cert-service''"

definition ShootAccessServiceAccountName :: string where
  "ShootAccessServiceAccountName = ShootAccessSecretName"

definition CertManagementChartNameShootSeed :: string where
  "CertManagementChartNameShootSeed = ''shoot-cert-management-seed''"

definition CertManagementChartNameShootShoot :: string where
  "CertManagementChartNameShootShoot = ''shoot-cert-management-shoot''"

definition CertManagementChartNameGarden :: string where
  "CertManagementChartNameGarden = ''cert-management-garden''"

definition CertManagementChartNameSeed :: string where
  "CertManagementChartNameSeed = ''cert-management-seed''"

definition defaultCertExpirationAlertDays :: go_int where
  "defaultCertExpirationAlertDays = 15"

definition chartNameSeed :: "Values \<Rightarrow> string" where
  "chartNameSeed v = (if vl_ShootDeployment v then CertManagementChartNameShootSeed
     else if vl_CertClass v = ''garden'' then CertManagementChartNameGarden
     else CertManagementChartNameSeed)"

definition chartNameShoot :: "Values \<Rightarrow> string" where
  "chartNameShoot v = (if vl_ShootDeployment v then CertManagementChartNameShootShoot
     else if vl_CertClass v = ''garden'' then CertManagementChartNameGarden
     else CertManagementChartNameSeed)"

definition getLabels :: "Values \<Rightarrow> labels" where
  "getLabels v = [''app.kubernetes.io/name'' \<mapsto> chartNameSeed v,
                  ''app.kubernetes.io/instance'' \<mapsto> chartNameSeed v]"

definition getSelectLabels :: "Values \<Rightarrow> labels" where
  "getSelectLabels v = [''app.kubernetes.io/name'' \<mapsto> chartNameSeed v,
                        ''app.kubernetes.io/instance'' \<mapsto> chartNameSeed v]"

definition shootClusterRoleName :: "Values \<Rightarrow> string" where
  "shootClusterRoleName v =
    (if vl_ShootDeployment v then ''extensions.gardener.cloud:extension-shoot-cert-service:shoot''
     else ''extensions.gardener.cloud:extension-shoot-cert-service:'' @ vl_CertClass v)"

definition resourceNameGardenOrSeed :: "Values \<Rightarrow> string" where
  "resourceNameGardenOrSeed v =
    (if vl_CertClass v = ''garden'' then CertManagementResourceNameGarden
     else CertManagementResourceNameSeed)"

definition instanceNameGardenOrSeed :: "Values \<Rightarrow> string" where
  "instanceNameGardenOrSeed v = ''cert-management-'' @ vl_CertClass v"

definition shootNamespace :: "Values \<Rightarrow> string" where
  "shootNamespace v = (if vl_ShootDeployment v then ''kube-system'' else vl_Namespace v)"

definition fullName :: "Values \<Rightarrow> string" where
  "fullName v = ''cert-controller-manager''"

definition priorityClassName :: "Values \<Rightarrow> string" where
  "priorityClassName v =
    (if vl_GardenDeployment v then ''gardener-garden-system-100'' else ''gardener-system-200'')"

subsection \<open>Merging lists of name servers\<close>

text \<open>
  Two nested loops: over the lists, and over the parts of each list between its commas. The state is
  the set \<open>existing\<close> and the list \<open>merged\<close>.
\<close>

fun mergeItems :: "string list \<Rightarrow> string set \<times> string list \<Rightarrow> string set \<times> string list" where
  "mergeItems [] st = st"
| "mergeItems (item # items) (existing, merged) =
    (if item \<notin> existing then mergeItems items (insert item existing, merged @ [item])
     else mergeItems items (existing, merged))"

fun mergeLists :: "string list \<Rightarrow> string set \<times> string list \<Rightarrow> string set \<times> string list" where
  "mergeLists [] st = st"
| "mergeLists (servers # rest) st = mergeLists rest (mergeItems (splitOn CHR '','' servers) st)"

definition mergeServers :: "string list \<Rightarrow> string" where
  "mergeServers serversList = joinOn CHR '','' (snd (mergeLists serversList ({}, [])))"

interpretation merge_loop: seen_loop mergeItems "\<lambda>s. s"
  by unfold_locales auto

lemma mergeLists_eq: "mergeLists ls st = mergeItems (concat (map (splitOn CHR '','') ls)) st"
proof (induction ls arbitrary: st)
  case Nil
  then show ?case by (simp add: merge_loop.loop_Nil)
next
  case (Cons l ls)
  then show ?case by (simp add: merge_loop.loop_append)
qed

lemma mergeServers_eq:
  "mergeServers ls = joinOn CHR '','' (first_occ {} (concat (map (splitOn CHR '','') ls)))"
  by (simp add: mergeServers_def mergeLists_eq merge_loop.loop_eq)

subsection \<open>Settings\<close>

definition RestrictedIssuer :: "Values \<Rightarrow> bool" where
  "RestrictedIssuer v \<longleftrightarrow>
     vl_RestrictedDomains v \<noteq> [] \<and> ptr_Deref (cfg_RestrictIssuer (vl_ExtensionConfig v)) False"

definition precheckNameservers :: "Values \<Rightarrow> string" where
  "precheckNameservers v =
    (let ns = (case cfg_ACME (vl_ExtensionConfig v) of
                 None \<Rightarrow> ''''
               | Some acme \<Rightarrow> ptr_Deref (cacme_PrecheckNameservers acme) '''')
     in case cc_PrecheckNameservers (vl_CertConfig v) of
          None \<Rightarrow> ns
        | Some own \<Rightarrow> mergeServers [own, ns])"

definition caCertificates :: "Values \<Rightarrow> string" where
  "caCertificates v = (case cfg_ACME (vl_ExtensionConfig v) of
     None \<Rightarrow> ''''
   | Some acme \<Rightarrow> ptr_Deref (cacme_CACertificates acme) '''')"

definition certExpirationAlertDays :: "Values \<Rightarrow> go_int" where
  "certExpirationAlertDays v = (case cc_Alerting (vl_CertConfig v) of
     None \<Rightarrow> defaultCertExpirationAlertDays
   | Some al \<Rightarrow> (case al_CertExpirationAlertDays al of
         None \<Rightarrow> defaultCertExpirationAlertDays
       | Some days \<Rightarrow> days))"

definition deactivateAuthorizations :: "Values \<Rightarrow> bool" where
  "deactivateAuthorizations v = (case cfg_ACME (vl_ExtensionConfig v) of
     None \<Rightarrow> False
   | Some acme \<Rightarrow> ptr_Deref (cacme_DeactivateAuthorizations acme) False)"

definition propagationTimeout :: "Values \<Rightarrow> string" where
  "propagationTimeout v = (case cfg_ACME (vl_ExtensionConfig v) of
     None \<Rightarrow> ''''
   | Some acme \<Rightarrow> (case cacme_PropagationTimeout acme of
         None \<Rightarrow> ''''
       | Some d \<Rightarrow> durationString (sint d)))"

definition shootIssuersEnabled :: "Values \<Rightarrow> bool" where
  "shootIssuersEnabled v =
    (if \<not> vl_ShootDeployment v then False
     else case cc_ShootIssuers (vl_CertConfig v) of None \<Rightarrow> False | Some s \<Rightarrow> ssi_Enabled s)"

definition dnsChallengeOnShootEnabled :: "Values \<Rightarrow> bool" where
  "dnsChallengeOnShootEnabled v \<longleftrightarrow> vl_ShootDeployment v \<and>
    (case cc_DNSChallengeOnShoot (vl_CertConfig v) of None \<Rightarrow> False | Some d \<Rightarrow> dcs_Enabled d)"

subsection \<open>What merging does\<close>

lemma splitOn_mergeServers:
  "splitOn CHR '','' (mergeServers (l # ls)) =
     first_occ {} (concat (map (splitOn CHR '','') (l # ls)))" (is "_ = ?items")
proof -
  have "\<forall>p \<in> set ?items. CHR '','' \<notin> set p"
    using splitOn_no_sep by (fastforce simp del: first_occ.simps)
  moreover have "?items \<noteq> []"
    by (simp del: first_occ.simps add: first_occ_Nil_iff)
  ultimately show ?thesis
    unfolding mergeServers_eq by (intro splitOn_joinOn) auto
qed

lemma mergeServers_with_empty:
  assumes "'''' \<notin> set (splitOn CHR '','' own)"
  shows "mergeServers [own, ''''] = mergeServers [own] @ '',''"
proof -
  have "joinOn c (ps @ ['''']) = joinOn c ps @ [c]" if "ps \<noteq> []" for c ps
    using that by (induction ps rule: joinOn.induct) (auto simp: joinOn_Cons)
  moreover have "first_occ {} (splitOn CHR '','' own) \<noteq> []"
    by (simp add: first_occ_Nil_iff)
  ultimately show ?thesis
    using assms by (simp add: mergeServers_eq first_occ_append)
qed

definition defaultPrecheckNameservers :: "Values \<Rightarrow> string option" where
  "defaultPrecheckNameservers v =
     Option.bind (cfg_ACME (vl_ExtensionConfig v)) cacme_PrecheckNameservers"

lemma precheckNameservers_eq:
  "precheckNameservers v =
    (let ns = ptr_Deref (defaultPrecheckNameservers v) '''' in
     case cc_PrecheckNameservers (vl_CertConfig v) of None \<Rightarrow> ns | Some own \<Rightarrow> mergeServers [own, ns])"
  by (simp add: precheckNameservers_def defaultPrecheckNameservers_def split: option.splits)

subsection \<open>Properties\<close>

text \<open>The merged list of name servers has the parts of all the lists, each once and in the order
  of their first occurrence, and merging it again changes nothing.\<close>

theorem merge_servers_first_occurrences:
  "splitOn CHR '','' (mergeServers (l # ls)) = first_occ {} (concat (map (splitOn CHR '','') (l # ls)))
   \<and> distinct (splitOn CHR '','' (mergeServers (l # ls)))
   \<and> set (splitOn CHR '','' (mergeServers (l # ls))) = \<Union> (set ` splitOn CHR '','' ` set (l # ls))
   \<and> mergeServers [mergeServers (l # ls)] = mergeServers (l # ls)"
proof -
  have one: "mergeServers [m] = joinOn CHR '','' (first_occ {} (splitOn CHR '','' m))" for m
    by (simp add: mergeServers_eq)
  have "mergeServers [mergeServers (l # ls)] = mergeServers (l # ls)"
    unfolding one splitOn_mergeServers first_occ_idem by (simp only: mergeServers_eq)
  then show ?thesis
    by (simp only: splitOn_mergeServers distinct_first_occ set_first_occ) auto
qed

text \<open>When the provider configuration names the servers to check and the extension's
  configuration has defaults, both valid, the flag gets valid addresses only, each once.\<close>

theorem precheck_nameservers_valid:
  assumes "cc_PrecheckNameservers (vl_CertConfig v) = Some own"
    and "defaultPrecheckNameservers v = Some dflt"
    and "list_all (nameserver_ok X) (splitOn CHR '','' own)"
    and "list_all (nameserver_ok X) (splitOn CHR '','' dflt)"
  shows "list_all (nameserver_ok X) (splitOn CHR '','' (precheckNameservers v))
    \<and> distinct (splitOn CHR '','' (precheckNameservers v))"
proof -
  have "precheckNameservers v = mergeServers [own, dflt]"
    using assms(1,2) by (simp add: precheckNameservers_eq)
  then have "splitOn CHR '','' (precheckNameservers v)
      = first_occ {} (splitOn CHR '','' own @ splitOn CHR '','' dflt)"
    by (simp only: splitOn_mergeServers list.map concat.simps append_Nil2)
  then show ?thesis
    using assms(3,4) by (auto simp: list_all_iff)
qed

theorem precheck_nameservers_valid_witness:
  "\<exists>v. list_all (nameserver_ok sample_extern) (splitOn CHR '','' (precheckNameservers v))
     \<and> precheckNameservers v = ''8.8.8.8,8.8.4.4''"
proof -
  let ?acme = "\<lparr>cacme_Email = [], cacme_Server = [], cacme_PrivateKey = None,
     cacme_PropagationTimeout = None, cacme_PrecheckNameservers = Some ''8.8.4.4,8.8.8.8'',
     cacme_CACertificates = None, cacme_DeactivateAuthorizations = None,
     cacme_SkipDNSChallengeValidation = None\<rparr>"
  let ?v = "emptyValues\<lparr>vl_ExtensionConfig := emptyConfiguration\<lparr>cfg_ACME := Some ?acme\<rparr>,
     vl_CertConfig := emptyCertConfig\<lparr>cc_PrecheckNameservers := Some ''8.8.8.8''\<rparr>\<rparr>"
  have "ValidateNameserver sample_extern ''8.8.8.8'' = None"
    "ValidateNameserver sample_extern ''8.8.4.4'' = None"
    by code_simp+
  then have ok: "nameserver_ok sample_extern ''8.8.8.8''" "nameserver_ok sample_extern ''8.8.4.4''"
    by (simp_all add: ValidateNameserver_ok_iff [OF sample_dns1123_law])
  have "precheckNameservers ?v = ''8.8.8.8,8.8.4.4''" by code_simp
  moreover have "list_all (nameserver_ok sample_extern) (splitOn CHR '','' (precheckNameservers ?v))
    \<and> distinct (splitOn CHR '','' (precheckNameservers ?v))"
    by (rule precheck_nameservers_valid [of _ "''8.8.8.8''" "''8.8.4.4,8.8.8.8''"])
      (simp_all add: ok defaultPrecheckNameservers_def emptyValues_def emptyConfiguration_def emptyCertConfig_def)
  ultimately show ?thesis by blast
qed

text \<open>When the provider configuration names servers and there are no defaults, the flag ends in a
  comma: its last entry is the empty string, which the validation of addresses rejects.\<close>

theorem precheck_nameservers_trailing_comma:
  assumes "cc_PrecheckNameservers (vl_CertConfig v) = Some own"
    and "defaultPrecheckNameservers v = None"
    and "'''' \<notin> set (splitOn CHR '','' own)"
  shows "precheckNameservers v = mergeServers [own] @ '','' \<and> ValidateNameserver X '''' \<noteq> None"
proof -
  have "precheckNameservers v = mergeServers [own, '''']"
    using assms(1,2) by (simp add: precheckNameservers_eq)
  moreover have "ValidateNameserver X '''' \<noteq> None"
    by (subst ValidateNameserver_bare)
      (simp_all add: SplitHostPort_no_colon host_ok_def ParseIP_def hasPrefix_def)
  ultimately show ?thesis
    using mergeServers_with_empty [OF assms(3)] by simp
qed

theorem precheck_nameservers_trailing_comma_witness:
  "precheckNameservers (emptyValues\<lparr>vl_CertConfig := emptyCertConfig\<lparr>cc_PrecheckNameservers := Some ''8.8.8.8''\<rparr>\<rparr>)
     = ''8.8.8.8,''"
proof -
  have "precheckNameservers (emptyValues\<lparr>vl_CertConfig := emptyCertConfig\<lparr>cc_PrecheckNameservers := Some ''8.8.8.8''\<rparr>\<rparr>)
      = mergeServers [''8.8.8.8''] @ '','' \<and> ValidateNameserver sample_extern '''' \<noteq> None"
    by (rule precheck_nameservers_trailing_comma)
      (simp_all add: defaultPrecheckNameservers_def emptyValues_def emptyConfiguration_def emptyCertConfig_def)
  moreover have "mergeServers [''8.8.8.8''] = ''8.8.8.8''" by code_simp
  ultimately show ?thesis by simp
qed

end
