(* ===== verification/Deployer_Issuers.thy ===== *)
theory Deployer_Issuers
  imports Deployer_Values
begin

text \<open>
  \<open>pkg/controller/extension/shared/issuer.go\<close> and \<open>deployer_issuers.go\<close>: the issuers a deployment
  has, their checksum, and the issuer objects and secrets made from them.
\<close>

subsection \<open>The issuer model\<close>

record ExternalAccountBinding =
  eb_KeyID :: string
  eb_KeySecretName :: string

record Domains =
  do_Include :: "string list option"
  do_Exclude :: "string list option"

record ACME =
  ac_Email :: string
  ac_PrivateKey :: "string option"
  ac_Server :: string
  ac_PrivateKeySecretName :: string
  ac_ExternalAccountBinding :: "ExternalAccountBinding option"
  ac_SkipDNSChallengeValidation :: bool
  ac_Domains :: "Domains option"

record CA =
  ca_Certificate :: string
  ca_CertificateKey :: string

record Issuer =
  i_Name :: string
  i_ACME :: "ACME option"
  i_CA :: "CA option"
  i_RequestsPerDayQuota :: go_int
  i_PrecheckNameservers :: "string list"

text \<open>
  What the deployer calls that is not under \<open>src/\<close>: \<open>yaml.Marshal\<close> of the issuers,
  \<open>yaml.Unmarshal\<close> into a custom resource definition, the serialisation of a managed resource
  registry, the image vector, the check of the keys of a private key secret, and the strict
  decoder of provider configurations; and the embedded asset files.
\<close>

record deploy_extern =
  marshalIssuers :: "Issuer list \<Rightarrow> goerr + string"
  unmarshalCRD :: "string \<Rightarrow> goerr + CRD"
  AddAllAndSerialize :: "client_object list \<Rightarrow> goerr + string"
  findImages :: "string list \<Rightarrow> goerr + labels"
  validateSecretDataKeys :: "labels \<Rightarrow> goerr option"
  decodeCertConfig :: "string \<Rightarrow> goerr + CertConfig"
  crdCertificates :: string
  crdRevocations :: string
  crdIssuers :: string
  certDashboardJSON :: string

text \<open>A library call that returns a value and an error.\<close>

definition lib :: "goerr + 'a \<Rightarrow> 'a result" where
  "lib r = (case r of Inl e \<Rightarrow> Error e | Inr a \<Rightarrow> Ok a)"

lemma lib_simps [simp]: "lib (Inl e) = Error e" "lib (Inr a) = Ok a"
  by (simp_all add: lib_def)

lemma lib_Ok_iff [simp]: "lib r = Ok a \<longleftrightarrow> r = Inr a"
  by (cases r) auto

lemma lib_no_panic [simp]: "lib r \<noteq> Panic p"
  by (cases r) auto

subsection \<open>Collecting the issuers\<close>

fun lookupReferencedLoop :: "NamedResourceReference list \<Rightarrow> string \<Rightarrow> string result" where
  "lookupReferencedLoop [] refname = Error (ErrMsg (''invalid referenced resource: '' @ refname))"
| "lookupReferencedLoop (ref # refs) refname =
    (if nrr_Name ref = refname then
       (if nrr_Kind ref \<noteq> ''Secret'' then
          Error (ErrMsg (''invalid referenced resource, expected kind Secret, not '' @ nrr_Kind ref @ '': '' @ refname))
        else Ok (ReferencedResourcesPrefix @ nrr_RefName ref))
     else lookupReferencedLoop refs refname)"

definition lookupReferencedSecret :: "Values \<Rightarrow> string \<Rightarrow> string result" where
  "lookupReferencedSecret v refname =
    (if \<not> vl_ShootDeployment v then Error (ErrMsg ''only shoot deployment supports additional issuers'')
     else lookupReferencedLoop (vl_Resources v) refname)"

interpretation deploy_ref: secret_lookup lookupReferencedLoop is_Ok
  by unfold_locales auto

definition gardenIssuer :: "Values \<Rightarrow> Issuer" where
  "gardenIssuer v = \<lparr>
     i_Name = cfg_IssuerName (vl_ExtensionConfig v),
     i_ACME = map_option (\<lambda>acme. \<lparr>ac_Email = cacme_Email acme, ac_PrivateKey = cacme_PrivateKey acme,
         ac_Server = cacme_Server acme, ac_PrivateKeySecretName = [], ac_ExternalAccountBinding = None,
         ac_SkipDNSChallengeValidation = ptr_Deref (cacme_SkipDNSChallengeValidation acme) False,
         ac_Domains = None\<rparr>) (cfg_ACME (vl_ExtensionConfig v)),
     i_CA = map_option (\<lambda>ca. \<lparr>ca_Certificate = cca_Certificate ca, ca_CertificateKey = cca_CertificateKey ca\<rparr>)
         (cfg_CA (vl_ExtensionConfig v)),
     i_RequestsPerDayQuota = 0, i_PrecheckNameservers = []\<rparr>"

definition lookupError :: "IssuerConfig \<Rightarrow> string" where
  "lookupError issuer = ''failed to lookup referenced private key secret for issuer '' @ ic_Name issuer"

text \<open>The domains of an issuer are taken over if either list has an entry.\<close>

definition issuerDomains :: "IssuerConfig \<Rightarrow> Domains option" where
  "issuerDomains issuer = (case ic_Domains issuer of
     None \<Rightarrow> None
   | Some d \<Rightarrow>
       (if 0 < length (ptr_Deref (dsel_Include d) []) + length (ptr_Deref (dsel_Exclude d) [])
        then Some \<lparr>do_Include = dsel_Include d, do_Exclude = dsel_Exclude d\<rparr> else None))"

text \<open>The body of the loop over the issuers of the provider configuration.\<close>

definition userIssuer :: "Values \<Rightarrow> IssuerConfig \<Rightarrow> Issuer result" where
  "userIssuer v issuer =
    rbind (case ic_PrivateKeySecretName issuer of
             None \<Rightarrow> Ok ''''
           | Some n \<Rightarrow> wrap_err (lookupError issuer) (lookupReferencedSecret v n)) (\<lambda>keySecret.
    rbind (case ic_ExternalAccountBinding issuer of
             None \<Rightarrow> Ok None
           | Some eab \<Rightarrow>
               rbind (wrap_err (lookupError issuer) (lookupReferencedSecret v (eab_KeySecretName eab)))
                 (\<lambda>secretName. Ok (Some \<lparr>eb_KeyID = eab_KeyID eab, eb_KeySecretName = secretName\<rparr>))) (\<lambda>eab.
    Ok \<lparr>i_Name = ic_Name issuer,
        i_ACME = Some \<lparr>ac_Email = ic_Email issuer, ac_PrivateKey = None, ac_Server = ic_Server issuer,
          ac_PrivateKeySecretName = keySecret, ac_ExternalAccountBinding = eab,
          ac_SkipDNSChallengeValidation = (ic_SkipDNSChallengeValidation issuer = Some True),
          ac_Domains = issuerDomains issuer\<rparr>,
        i_CA = None,
        i_RequestsPerDayQuota = ptr_Deref (ic_RequestsPerDayQuota issuer) 0,
        i_PrecheckNameservers = ic_PrecheckNameservers issuer\<rparr>))"

fun collectLoop :: "Values \<Rightarrow> IssuerConfig list \<Rightarrow> Issuer list \<Rightarrow> Issuer list result" where
  "collectLoop v [] issuerList = Ok issuerList"
| "collectLoop v (issuer # issuers) issuerList =
    (if ic_Name issuer = cfg_IssuerName (vl_ExtensionConfig v) then collectLoop v issuers issuerList
     else rbind (userIssuer v issuer) (\<lambda>modelIssuer. collectLoop v issuers (issuerList @ [modelIssuer])))"

definition collectIssuers :: "Values \<Rightarrow> Issuer list result" where
  "collectIssuers v =
    (if \<not> vl_ShootDeployment v then Ok [gardenIssuer v]
     else collectLoop v (cc_Issuers (vl_CertConfig v)) [gardenIssuer v])"

definition issuersChecksum :: "extern \<Rightarrow> deploy_extern \<Rightarrow> Values \<Rightarrow> string result" where
  "issuersChecksum X D v =
    rbind (collectIssuers v) (\<lambda>issuers.
    rbind (lib (marshalIssuers D issuers)) (\<lambda>issuersData.
    Ok (hex_of_bytes (sha256 X issuersData))))"

subsection \<open>Objects\<close>

definition issuerSecretName :: "string \<Rightarrow> string" where
  "issuerSecretName n = ''extension-shoot-cert-service-issuer-'' @ n"

definition nil_deref :: string where
  "nil_deref = ''invalid memory address or nil pointer dereference''"

definition secretACME :: "Values \<Rightarrow> Issuer \<Rightarrow> Secret result" where
  "secretACME v issuer = (case i_ACME issuer of
     None \<Rightarrow> Panic nil_deref
   | Some acme \<Rightarrow> (case ac_PrivateKey acme of
         None \<Rightarrow> Panic nil_deref
       | Some key \<Rightarrow> Ok \<lparr>se_Meta = meta (issuerSecretName (i_Name issuer)) (vl_Namespace v),
           se_Data = [''email'' \<mapsto> ac_Email acme, ''privateKey'' \<mapsto> key], se_Type = ''Opaque''\<rparr>))"

definition secretCA :: "Values \<Rightarrow> Issuer \<Rightarrow> Secret result" where
  "secretCA v issuer = (case i_CA issuer of
     None \<Rightarrow> Panic nil_deref
   | Some ca \<Rightarrow> Ok \<lparr>se_Meta = meta (issuerSecretName (i_Name issuer) @ ''-ca'') (vl_Namespace v),
       se_Data = [''tls.crt'' \<mapsto> ca_Certificate ca, ''tls.key'' \<mapsto> ca_CertificateKey ca],
       se_Type = ''kubernetes.io/tls''\<rparr>)"

definition createACMESpec :: "Values \<Rightarrow> Issuer \<Rightarrow> ACMESpec option" where
  "createACMESpec v issuer = (case i_ACME issuer of
     None \<Rightarrow> None
   | Some input \<Rightarrow>
      (let secretName = (if ac_PrivateKeySecretName input = [] then issuerSecretName (i_Name issuer)
                         else ac_PrivateKeySecretName input)
       in Some \<lparr>as_Email = ac_Email input, as_Server = ac_Server input,
            as_PrivateKeySecretRef = \<lparr>sr_Name = secretName, sr_Namespace = vl_Namespace v\<rparr>,
            as_AutoRegistration = (ac_PrivateKeySecretName input = [] \<and> ac_PrivateKey input = None),
            as_PrecheckNameservers = i_PrecheckNameservers issuer,
            as_ExternalAccountBinding = map_option (\<lambda>e. \<lparr>eabs_KeyID = eb_KeyID e,
               eabs_KeySecretRef = \<lparr>sr_Name = eb_KeySecretName e, sr_Namespace = vl_Namespace v\<rparr>\<rparr>)
               (ac_ExternalAccountBinding input),
            as_SkipDNSChallengeValidation =
              (if ac_SkipDNSChallengeValidation input then Some True else None),
            as_Domains = map_option (\<lambda>d. (do_Include d, do_Exclude d)) (ac_Domains input)\<rparr>))"

definition createCASpec :: "Values \<Rightarrow> Issuer \<Rightarrow> CASpec option" where
  "createCASpec v issuer = (case i_CA issuer of
     None \<Rightarrow> None
   | Some _ \<Rightarrow> Some \<lparr>cs_PrivateKeySecretRef =
        \<lparr>sr_Name = issuerSecretName (i_Name issuer) @ ''-ca'', sr_Namespace = vl_Namespace v\<rparr>\<rparr>)"

definition createIssuer :: "Values \<Rightarrow> Issuer \<Rightarrow> IssuerObj" where
  "createIssuer v input = \<lparr>
     is_Meta = (meta (i_Name input) (vl_Namespace v))\<lparr>om_Annotations :=
       (if vl_CertClass v \<noteq> [] then Some [AnnotClass \<mapsto> vl_CertClass v] else None)\<rparr>,
     is_ACME = createACMESpec v input,
     is_CA = createCASpec v input,
     is_RequestsPerDayQuota =
       (if 0 < sint (i_RequestsPerDayQuota input) then Some (i_RequestsPerDayQuota input) else None)\<rparr>"

text \<open>The body of the loop of \<open>createIssuers\<close>: the objects of one issuer.\<close>

definition issuerObjects :: "Values \<Rightarrow> Issuer \<Rightarrow> kobj list result" where
  "issuerObjects v issuer =
    rbind (case i_ACME issuer of
             None \<Rightarrow> Ok []
           | Some acme \<Rightarrow> (if ac_PrivateKey acme \<noteq> None
               then rbind (secretACME v issuer) (\<lambda>s. Ok [KSecret s]) else Ok [])) (\<lambda>acmeSecrets.
    rbind (if i_CA issuer \<noteq> None then rbind (secretCA v issuer) (\<lambda>s. Ok [KSecret s]) else Ok []) (\<lambda>caSecrets.
    Ok (acmeSecrets @ caSecrets @ [KIssuer (createIssuer v issuer)])))"

definition createIssuers :: "Values \<Rightarrow> (client_object list \<times> Issuer list) result" where
  "createIssuers v =
    rbind (collectIssuers v) (\<lambda>issuers.
    rbind (rmap (issuerObjects v) issuers) (\<lambda>objectLists.
    Ok (map Obj (concat objectLists), issuers)))"

subsection \<open>Which issuers are collected\<close>

definition secret_in :: "NamedResourceReference list \<Rightarrow> string \<Rightarrow> bool" where
  "secret_in refs n \<longleftrightarrow> (\<exists>r. first_ref n refs = Some r \<and> nrr_Kind r = ''Secret'')"

definition issuer_refs_ok :: "NamedResourceReference list \<Rightarrow> IssuerConfig \<Rightarrow> bool" where
  "issuer_refs_ok refs ic \<longleftrightarrow>
     pred_option (secret_in refs) (ic_PrivateKeySecretName ic)
   \<and> pred_option (\<lambda>e. secret_in refs (eab_KeySecretName e)) (ic_ExternalAccountBinding ic)"

text \<open>The issuers of the provider configuration that are taken over: not the extension's own name.\<close>

definition user_issuers :: "Values \<Rightarrow> IssuerConfig list" where
  "user_issuers v = filter (\<lambda>ic. ic_Name ic \<noteq> cfg_IssuerName (vl_ExtensionConfig v)) (cc_Issuers (vl_CertConfig v))"

lemma lookupReferencedSecret_Ok_iff:
  "vl_ShootDeployment v \<Longrightarrow>
     (\<exists>s. lookupReferencedSecret v n = Ok s) \<longleftrightarrow> secret_in (vl_Resources v) n"
  using deploy_ref.success_iff [of "vl_Resources v" n]
  by (simp add: lookupReferencedSecret_def secret_in_def is_Ok_iff)

lemma lookupReferencedLoop_no_panic: "lookupReferencedLoop refs n \<noteq> Panic p"
  by (induction refs) auto

lemma lookupReferencedLoop_prefix:
  "lookupReferencedLoop refs n = Ok s \<Longrightarrow> \<exists>r. first_ref n refs = Some r \<and> s = ReferencedResourcesPrefix @ nrr_RefName r"
  by (induction refs) (auto simp: first_ref_def split: if_splits)

lemma userIssuer_Ok_iff:
  assumes "vl_ShootDeployment v"
  shows "(\<exists>i. userIssuer v ic = Ok i) \<longleftrightarrow> issuer_refs_ok (vl_Resources v) ic"
  unfolding issuer_refs_ok_def lookupReferencedSecret_Ok_iff [OF assms, symmetric]
  by (cases "ic_PrivateKeySecretName ic"; cases "ic_ExternalAccountBinding ic")
    (simp_all add: userIssuer_def ex_rbind_Ok)

lemma userIssuer_name: "userIssuer v ic = Ok i \<Longrightarrow> i_Name i = ic_Name ic"
  by (auto simp: userIssuer_def rbind_Ok_iff)

lemma userIssuer_no_ca: "userIssuer v ic = Ok i \<Longrightarrow> i_CA i = None"
  by (auto simp: userIssuer_def rbind_Ok_iff)

lemma userIssuer_no_key:
  "userIssuer v ic = Ok i \<Longrightarrow> \<exists>a. i_ACME i = Some a \<and> ac_PrivateKey a = None"
  by (auto simp: userIssuer_def rbind_Ok_iff)

lemma collectLoop_eq:
  "collectLoop v is acc =
     rbind (rmap (userIssuer v) (filter (\<lambda>ic. ic_Name ic \<noteq> cfg_IssuerName (vl_ExtensionConfig v)) is))
       (\<lambda>ms. Ok (acc @ ms))"
proof (induction "is" arbitrary: acc)
  case Nil
  then show ?case by simp
next
  case (Cons i "is")
  show ?case
  proof (cases "ic_Name i = cfg_IssuerName (vl_ExtensionConfig v)")
    case True
    then show ?thesis by (simp add: Cons)
  next
    case False
    show ?thesis
    proof (cases "userIssuer v i")
      case (Ok m)
      then show ?thesis
        using False by (cases "rmap (userIssuer v) (filter (\<lambda>ic. ic_Name ic \<noteq> cfg_IssuerName (vl_ExtensionConfig v)) is)")
          (simp_all add: Cons)
    qed (use False in \<open>simp_all add: Cons\<close>)
  qed
qed

lemma collectIssuers_eq:
  "collectIssuers v =
    (if vl_ShootDeployment v
     then rbind (rmap (userIssuer v) (user_issuers v)) (\<lambda>ms. Ok (gardenIssuer v # ms))
     else Ok [gardenIssuer v])"
  by (simp add: collectIssuers_def collectLoop_eq user_issuers_def)

lemma collectIssuers_shootD:
  assumes "collectIssuers v = Ok is" "vl_ShootDeployment v"
  obtains ms where "is = gardenIssuer v # ms" "rmap (userIssuer v) (user_issuers v) = Ok ms"
  using assms by (auto simp: collectIssuers_eq rbind_Ok_iff)

lemma collectIssuers_names:
  assumes "collectIssuers v = Ok is"
  shows "map i_Name is = cfg_IssuerName (vl_ExtensionConfig v)
    # (if vl_ShootDeployment v then map ic_Name (user_issuers v) else [])"
proof -
  have garden: "i_Name (gardenIssuer v) = cfg_IssuerName (vl_ExtensionConfig v)"
    by (simp add: gardenIssuer_def)
  have "map i_Name ms = map ic_Name (user_issuers v)" if "rmap (userIssuer v) (user_issuers v) = Ok ms" for ms
    using that by (rule rmap_map_eq) (rule userIssuer_name)
  then show ?thesis
    using assms garden by (auto simp: collectIssuers_eq rbind_Ok_iff split: if_splits)
qed

lemma collectIssuers_distinct:
  assumes "collectIssuers v = Ok is" "distinct (map ic_Name (cc_Issuers (vl_CertConfig v)))"
  shows "distinct (map i_Name is)"
  unfolding collectIssuers_names [OF assms(1)]
  using assms(2) by (auto simp: user_issuers_def distinct_map_filter)

lemma collectIssuers_Ok_iff:
  "(\<exists>is. collectIssuers v = Ok is) \<longleftrightarrow>
     (vl_ShootDeployment v \<longrightarrow> list_all (issuer_refs_ok (vl_Resources v)) (user_issuers v))"
proof (cases "vl_ShootDeployment v")
  case False
  then show ?thesis by (simp add: collectIssuers_eq)
next
  case True
  have "(\<exists>ms. rmap (userIssuer v) xs = Ok ms) \<longleftrightarrow> list_all (issuer_refs_ok (vl_Resources v)) xs" for xs
    by (induction xs) (auto simp: rbind_Ok_iff userIssuer_Ok_iff [OF True, symmetric])
  then show ?thesis
    using True by (auto simp: collectIssuers_eq rbind_Ok_iff)
qed

subsection \<open>The objects of an issuer\<close>

definition issuer_secrets :: "Values \<Rightarrow> Issuer \<Rightarrow> Secret list" where
  "issuer_secrets v i =
    (case i_ACME i of None \<Rightarrow> [] | Some a \<Rightarrow> (case ac_PrivateKey a of None \<Rightarrow> [] | Some key \<Rightarrow>
       [\<lparr>se_Meta = meta (issuerSecretName (i_Name i)) (vl_Namespace v),
         se_Data = [''email'' \<mapsto> ac_Email a, ''privateKey'' \<mapsto> key], se_Type = ''Opaque''\<rparr>]))
    @ (case i_CA i of None \<Rightarrow> [] | Some ca \<Rightarrow>
       [\<lparr>se_Meta = meta (issuerSecretName (i_Name i) @ ''-ca'') (vl_Namespace v),
         se_Data = [''tls.crt'' \<mapsto> ca_Certificate ca, ''tls.key'' \<mapsto> ca_CertificateKey ca],
         se_Type = ''kubernetes.io/tls''\<rparr>])"

definition issuer_objs :: "Values \<Rightarrow> Issuer \<Rightarrow> kobj list" where
  "issuer_objs v i = map KSecret (issuer_secrets v i) @ [KIssuer (createIssuer v i)]"

lemma issuerObjects_eq: "issuerObjects v i = Ok (issuer_objs v i)"
  by (auto simp: issuerObjects_def issuer_objs_def issuer_secrets_def secretACME_def secretCA_def
      split: option.splits)

lemma createIssuers_eq:
  "createIssuers v = rbind (collectIssuers v) (\<lambda>is. Ok (map Obj (concat (map (issuer_objs v) is)), is))"
  by (simp add: createIssuers_def issuerObjects_eq [abs_def] rmap_Ok)

lemma createIssuers_OkD:
  "createIssuers v = Ok (objs, is) \<Longrightarrow>
     collectIssuers v = Ok is \<and> objs_of objs = concat (map (issuer_objs v) is)"
  by (auto simp: createIssuers_eq rbind_Ok_iff)

lemma issuer_secrets_user: "userIssuer v ic = Ok i \<Longrightarrow> issuer_secrets v i = []"
  using userIssuer_no_ca userIssuer_no_key by (fastforce simp: issuer_secrets_def)

text \<open>Only the extension's own issuer comes with secrets, at most one for each of ACME and CA.\<close>

lemma createIssuers_objs:
  assumes "createIssuers v = Ok (objs, is)"
  obtains ms where "is = gardenIssuer v # ms"
    and "objs_of objs = map KSecret (issuer_secrets v (gardenIssuer v)) @ map (KIssuer \<circ> createIssuer v) is"
    and "list_all (\<lambda>m. \<exists>ic. userIssuer v ic = Ok m) ms"
proof -
  have col: "collectIssuers v = Ok is" and objs: "objs_of objs = concat (map (issuer_objs v) is)"
    using createIssuers_OkD [OF assms] by auto
  obtain ms where ms: "is = gardenIssuer v # ms" "list_all (\<lambda>m. \<exists>ic. userIssuer v ic = Ok m) ms"
    using col by (auto simp: collectIssuers_eq rbind_Ok_iff dest: rmap_results split: if_splits)
  have "concat (map (issuer_objs v) ms) = map (KIssuer \<circ> createIssuer v) ms"
    using ms(2) by (induction ms) (auto simp: issuer_objs_def issuer_secrets_user)
  then show ?thesis
    using ms objs by (intro that) (auto simp: issuer_objs_def)
qed

lemma object_key_createIssuer:
  "object_key (KIssuer (createIssuer v i)) = (''Issuer'', vl_Namespace v, i_Name i)"
  by (simp add: object_key_def createIssuer_def)

lemma issuer_secret_keys:
  "set (map object_key (map KSecret (issuer_secrets v i)))
     \<subseteq> {(''Secret'', vl_Namespace v, issuerSecretName (i_Name i)),
        (''Secret'', vl_Namespace v, issuerSecretName (i_Name i) @ ''-ca'')}"
  by (auto simp: issuer_secrets_def object_key_def split: option.splits)

lemma issuer_secret_keys_distinct: "distinct (map object_key (map KSecret (issuer_secrets v i)))"
  by (auto simp: issuer_secrets_def object_key_def split: option.splits)

lemma createIssuers_keys_distinct:
  assumes "createIssuers v = Ok (objs, is)" "distinct (map ic_Name (cc_Issuers (vl_CertConfig v)))"
  shows "distinct (map object_key (objs_of objs))"
proof -
  obtain ms where eq: "objs_of objs
      = map KSecret (issuer_secrets v (gardenIssuer v)) @ map (KIssuer \<circ> createIssuer v) is"
    using createIssuers_objs [OF assms(1)] by metis
  have "distinct (map i_Name is)"
    using assms createIssuers_OkD collectIssuers_distinct by blast
  then have "distinct (map object_key (map (KIssuer \<circ> createIssuer v) is))"
    by (simp add: object_key_createIssuer comp_def distinct_map inj_on_def)
  moreover have "fst ` set (map object_key (map KSecret ss)) \<subseteq> {''Secret''}" for ss
    by (auto simp: object_key_def)
  moreover have "fst ` set (map object_key (map (KIssuer \<circ> createIssuer v) is)) \<subseteq> {''Issuer''}"
    by (auto simp: object_key_createIssuer)
  ultimately show ?thesis
    using issuer_secret_keys_distinct [of v "gardenIssuer v"]
    by (auto simp: eq object_key_def)
qed

subsection \<open>The secrets an issuer refers to\<close>

text \<open>
  What an issuer object says about its secrets is consistent with the objects it is deployed with:
  the private key of an ACME account is registered by the controller, or lies in a secret of the
  deployment, or in a secret that has the prefix of secrets copied from the shoot's references; an
  external account binding lies in one with this prefix; a certificate authority's key pair lies in a
  secret of the deployment. That is what the objects alone can tell; which reference a copied secret
  comes from is the matter of \<open>issuer_as_configured\<close> below.
\<close>

definition copy_prefixed :: "string \<Rightarrow> bool" where
  "copy_prefixed n \<longleftrightarrow> (\<exists>m. n = ReferencedResourcesPrefix @ m)"

definition deployed_secret :: "kobj list \<Rightarrow> SecretReference \<Rightarrow> string \<Rightarrow> string list \<Rightarrow> bool" where
  "deployed_secret os ref ty ks \<longleftrightarrow>
     (\<exists>s. KSecret s \<in> set os \<and> om_Name (se_Meta s) = sr_Name ref
        \<and> om_Namespace (se_Meta s) = sr_Namespace ref \<and> se_Type s = ty \<and> dom (se_Data s) = set ks)"

definition acme_secrets_ok :: "kobj list \<Rightarrow> ACMESpec \<Rightarrow> bool" where
  "acme_secrets_ok os s \<longleftrightarrow>
     (as_AutoRegistration s
       \<or> copy_prefixed (sr_Name (as_PrivateKeySecretRef s))
       \<or> deployed_secret os (as_PrivateKeySecretRef s) ''Opaque'' [''email'', ''privateKey''])
   \<and> pred_option (\<lambda>e. copy_prefixed (sr_Name (eabs_KeySecretRef e))) (as_ExternalAccountBinding s)"

definition ca_secret_ok :: "kobj list \<Rightarrow> CASpec \<Rightarrow> bool" where
  "ca_secret_ok os s \<longleftrightarrow>
     deployed_secret os (cs_PrivateKeySecretRef s) ''kubernetes.io/tls'' [''tls.crt'', ''tls.key'']"

definition issuer_secrets_ok :: "kobj list \<Rightarrow> IssuerObj \<Rightarrow> bool" where
  "issuer_secrets_ok os i \<longleftrightarrow>
     pred_option (acme_secrets_ok os) (is_ACME i) \<and> pred_option (ca_secret_ok os) (is_CA i)"

lemma deployed_secretI:
  "KSecret s \<in> set os \<Longrightarrow> om_Name (se_Meta s) = sr_Name ref \<Longrightarrow> om_Namespace (se_Meta s) = sr_Namespace ref
    \<Longrightarrow> se_Type s = ty \<Longrightarrow> dom (se_Data s) = set ks \<Longrightarrow> deployed_secret os ref ty ks"
  unfolding deployed_secret_def by blast

lemma garden_issuer_secrets_ok:
  assumes "set (map KSecret (issuer_secrets v (gardenIssuer v))) \<subseteq> set os"
  shows "issuer_secrets_ok os (createIssuer v (gardenIssuer v))"
proof -
  let ?i = "gardenIssuer v"
  have "acme_secrets_ok os s" if s: "createACMESpec v ?i = Some s" for s
  proof -
    obtain a where a: "i_ACME ?i = Some a"
      using s by (auto simp: createACMESpec_def split: option.splits)
    have a': "ac_PrivateKeySecretName a = []" "ac_ExternalAccountBinding a = None"
      using a by (auto simp: gardenIssuer_def)
    show ?thesis
    proof (cases "ac_PrivateKey a")
      case None
      then show ?thesis
        using s a a' by (auto simp: createACMESpec_def acme_secrets_ok_def)
    next
      case (Some key)
      then show ?thesis
        using s a a' assms
        by (auto simp: createACMESpec_def acme_secrets_ok_def issuer_secrets_def intro!: deployed_secretI
            split: if_splits)
    qed
  qed
  moreover have "ca_secret_ok os s" if "createCASpec v ?i = Some s" for s
    using that assms
    by (auto simp: createCASpec_def ca_secret_ok_def issuer_secrets_def intro!: deployed_secretI
        split: option.splits if_splits)
  ultimately show ?thesis
    by (simp add: issuer_secrets_ok_def createIssuer_def option.pred_set)
qed

text \<open>
  \<open>n\<close> is the copy that gardener makes of the secret to which the shoot's resources give the name \<open>m\<close>:
  the first resource of that name, which must be a secret.
\<close>

definition copied_secret :: "NamedResourceReference list \<Rightarrow> string \<Rightarrow> string \<Rightarrow> bool" where
  "copied_secret refs m n \<longleftrightarrow>
     (\<exists>r. first_ref m refs = Some r \<and> nrr_Kind r = ''Secret'' \<and> n = ReferencedResourcesPrefix @ nrr_RefName r)"

lemma lookupReferencedLoop_copied: "lookupReferencedLoop refs n = Ok s \<Longrightarrow> copied_secret refs n s"
  by (induction refs) (auto simp: first_ref_def copied_secret_def split: if_splits)

lemma lookupReferencedSecret_copied: "lookupReferencedSecret v n = Ok s \<Longrightarrow> copied_secret (vl_Resources v) n s"
  by (auto simp: lookupReferencedSecret_def intro: lookupReferencedLoop_copied split: if_splits)

lemma copied_prefixed: "copied_secret refs m n \<Longrightarrow> copy_prefixed n"
  by (auto simp: copied_secret_def copy_prefixed_def)

text \<open>
  The issuer object made for an issuer of the provider configuration: its private key is registered if
  none is referred to, and otherwise lies in the copy of the secret that is referred to, in the
  deployment's namespace; likewise its external account binding.
\<close>

definition acme_as_configured :: "Values \<Rightarrow> IssuerConfig \<Rightarrow> ACMESpec \<Rightarrow> bool" where
  "acme_as_configured v ic s \<longleftrightarrow>
     as_Email s = ic_Email ic \<and> as_Server s = ic_Server ic
   \<and> sr_Namespace (as_PrivateKeySecretRef s) = vl_Namespace v
   \<and> (case ic_PrivateKeySecretName ic of
        None \<Rightarrow> as_AutoRegistration s
      | Some m \<Rightarrow> \<not> as_AutoRegistration s \<and> copied_secret (vl_Resources v) m (sr_Name (as_PrivateKeySecretRef s)))
   \<and> (case ic_ExternalAccountBinding ic of
        None \<Rightarrow> as_ExternalAccountBinding s = None
      | Some eab \<Rightarrow> \<exists>e. as_ExternalAccountBinding s = Some e \<and> eabs_KeyID e = eab_KeyID eab
          \<and> sr_Namespace (eabs_KeySecretRef e) = vl_Namespace v
          \<and> copied_secret (vl_Resources v) (eab_KeySecretName eab) (sr_Name (eabs_KeySecretRef e)))"

definition issuer_as_configured :: "Values \<Rightarrow> IssuerConfig \<Rightarrow> IssuerObj \<Rightarrow> bool" where
  "issuer_as_configured v ic i \<longleftrightarrow> om_Name (is_Meta i) = ic_Name ic \<and> om_Namespace (is_Meta i) = vl_Namespace v
     \<and> is_CA i = None \<and> (\<exists>s. is_ACME i = Some s \<and> acme_as_configured v ic s)"

text \<open>
  The extension's own issuer refers to nothing outside of the deployment: a private key that is
  configured and a certificate authority's key pair lie in secrets of the deployment with these data.
\<close>

definition holds_secret :: "kobj list \<Rightarrow> SecretReference \<Rightarrow> string \<Rightarrow> labels \<Rightarrow> bool" where
  "holds_secret os ref ty data \<longleftrightarrow>
     (\<exists>s. KSecret s \<in> set os \<and> om_Name (se_Meta s) = sr_Name ref
        \<and> om_Namespace (se_Meta s) = sr_Namespace ref \<and> se_Type s = ty \<and> se_Data s = data)"

definition own_issuer_ok :: "Values \<Rightarrow> kobj list \<Rightarrow> IssuerObj \<Rightarrow> bool" where
  "own_issuer_ok v os i \<longleftrightarrow>
     om_Name (is_Meta i) = cfg_IssuerName (vl_ExtensionConfig v) \<and> om_Namespace (is_Meta i) = vl_Namespace v
   \<and> (case cfg_ACME (vl_ExtensionConfig v) of
        None \<Rightarrow> is_ACME i = None
      | Some acme \<Rightarrow> \<exists>s. is_ACME i = Some s \<and> as_ExternalAccountBinding s = None
          \<and> (case cacme_PrivateKey acme of
               None \<Rightarrow> as_AutoRegistration s
             | Some key \<Rightarrow> \<not> as_AutoRegistration s \<and> holds_secret os (as_PrivateKeySecretRef s) ''Opaque''
                 [''email'' \<mapsto> cacme_Email acme, ''privateKey'' \<mapsto> key]))
   \<and> (case cfg_CA (vl_ExtensionConfig v) of
        None \<Rightarrow> is_CA i = None
      | Some ca \<Rightarrow> \<exists>s. is_CA i = Some s \<and> holds_secret os (cs_PrivateKeySecretRef s) ''kubernetes.io/tls''
          [''tls.crt'' \<mapsto> cca_Certificate ca, ''tls.key'' \<mapsto> cca_CertificateKey ca])"

lemma user_issuer_as_configured:
  assumes "userIssuer v ic = Ok i"
  shows "issuer_as_configured v ic (createIssuer v i)"
proof -
  have "lookupReferencedSecret v m \<noteq> Ok ''''" for m
    using lookupReferencedSecret_copied [of v m "''''"] by (auto simp: copied_secret_def ReferencedResourcesPrefix_def)
  then show ?thesis
    using assms lookupReferencedSecret_copied
    by (auto simp: userIssuer_def rbind_Ok_iff issuer_as_configured_def acme_as_configured_def createIssuer_def
        createACMESpec_def createCASpec_def Let_def split: option.splits)
qed

lemma holds_secretI:
  "KSecret s \<in> set os \<Longrightarrow> om_Name (se_Meta s) = sr_Name ref \<Longrightarrow> om_Namespace (se_Meta s) = sr_Namespace ref
    \<Longrightarrow> se_Type s = ty \<Longrightarrow> se_Data s = data \<Longrightarrow> holds_secret os ref ty data"
  unfolding holds_secret_def by blast

lemma own_issuer_as_configured:
  assumes "set (map KSecret (issuer_secrets v (gardenIssuer v))) \<subseteq> set os"
  shows "own_issuer_ok v os (createIssuer v (gardenIssuer v))"
proof -
  let ?cfg = "vl_ExtensionConfig v" and ?n = "issuerSecretName (cfg_IssuerName (vl_ExtensionConfig v))"
  have key: "holds_secret os \<lparr>sr_Name = ?n, sr_Namespace = vl_Namespace v\<rparr> ''Opaque''
      [''email'' \<mapsto> cacme_Email acme, ''privateKey'' \<mapsto> key]"
    if "cfg_ACME ?cfg = Some acme" "cacme_PrivateKey acme = Some key" for acme key
    by (rule holds_secretI [of "\<lparr>se_Meta = meta ?n (vl_Namespace v),
        se_Data = [''email'' \<mapsto> cacme_Email acme, ''privateKey'' \<mapsto> key], se_Type = ''Opaque''\<rparr>"])
      (use assms that in \<open>simp_all add: issuer_secrets_def gardenIssuer_def\<close>)
  have ca: "holds_secret os \<lparr>sr_Name = ?n @ ''-ca'', sr_Namespace = vl_Namespace v\<rparr> ''kubernetes.io/tls''
      [''tls.crt'' \<mapsto> cca_Certificate ca, ''tls.key'' \<mapsto> cca_CertificateKey ca]"
    if "cfg_CA ?cfg = Some ca" for ca
    by (rule holds_secretI [of "\<lparr>se_Meta = meta (?n @ ''-ca'') (vl_Namespace v),
        se_Data = [''tls.crt'' \<mapsto> cca_Certificate ca, ''tls.key'' \<mapsto> cca_CertificateKey ca], se_Type = ''kubernetes.io/tls''\<rparr>"])
      (use assms that in \<open>simp_all add: issuer_secrets_def gardenIssuer_def split: option.splits\<close>)
  have "case cfg_ACME ?cfg of None \<Rightarrow> createACMESpec v (gardenIssuer v) = None
      | Some acme \<Rightarrow> \<exists>s. createACMESpec v (gardenIssuer v) = Some s \<and> as_ExternalAccountBinding s = None
          \<and> (case cacme_PrivateKey acme of None \<Rightarrow> as_AutoRegistration s
             | Some key \<Rightarrow> \<not> as_AutoRegistration s \<and> holds_secret os (as_PrivateKeySecretRef s) ''Opaque''
                 [''email'' \<mapsto> cacme_Email acme, ''privateKey'' \<mapsto> key])"
    using key by (auto simp: createACMESpec_def gardenIssuer_def split: option.split)
  moreover have "case cfg_CA ?cfg of None \<Rightarrow> createCASpec v (gardenIssuer v) = None
      | Some ca \<Rightarrow> \<exists>s. createCASpec v (gardenIssuer v) = Some s \<and> holds_secret os (cs_PrivateKeySecretRef s) ''kubernetes.io/tls''
          [''tls.crt'' \<mapsto> cca_Certificate ca, ''tls.key'' \<mapsto> cca_CertificateKey ca]"
    using ca by (auto simp: createCASpec_def gardenIssuer_def split: option.split)
  moreover have "is_ACME (createIssuer v i) = createACMESpec v i" "is_CA (createIssuer v i) = createCASpec v i"
    "om_Name (is_Meta (createIssuer v i)) = i_Name i" "om_Namespace (is_Meta (createIssuer v i)) = vl_Namespace v" for i
    by (simp_all add: createIssuer_def)
  moreover have "i_Name (gardenIssuer v) = cfg_IssuerName ?cfg"
    by (simp add: gardenIssuer_def)
  ultimately show ?thesis
    by (simp only: own_issuer_ok_def)
qed

lemma user_issuer_secrets_ok:
  assumes "userIssuer v ic = Ok i"
  shows "issuer_secrets_ok os (createIssuer v i)"
  using assms copied_prefixed [OF lookupReferencedSecret_copied]
  by (auto simp: userIssuer_def rbind_Ok_iff issuer_secrets_ok_def createIssuer_def createACMESpec_def
      createCASpec_def acme_secrets_ok_def split: option.splits)

lemma createIssuers_secrets_ok:
  assumes "createIssuers v = Ok (objs, is)" "KIssuer i \<in> set (objs_of objs)"
  shows "issuer_secrets_ok (objs_of objs) i"
proof -
  obtain ms where ms: "is = gardenIssuer v # ms" "list_all (\<lambda>m. \<exists>ic. userIssuer v ic = Ok m) ms"
    and objs: "objs_of objs = map KSecret (issuer_secrets v (gardenIssuer v)) @ map (KIssuer \<circ> createIssuer v) is"
    using createIssuers_objs [OF assms(1)] by metis
  consider "i = createIssuer v (gardenIssuer v)" | m where "m \<in> set ms" "i = createIssuer v m"
    using assms(2) by (auto simp: objs ms(1))
  then show ?thesis
  proof cases
    case 1
    then show ?thesis by (auto simp: objs intro: garden_issuer_secrets_ok)
  next
    case 2
    then show ?thesis using ms(2) user_issuer_secrets_ok by (auto simp: list_all_iff)
  qed
qed

text \<open>The issuers in a list of objects.\<close>

fun issuers_of :: "kobj list \<Rightarrow> IssuerObj list" where
  "issuers_of [] = []"
| "issuers_of (KIssuer i # os) = i # issuers_of os"
| "issuers_of (_ # os) = issuers_of os"

lemma issuers_of_simps [simp]:
  "issuers_of (map KSecret ss @ os) = issuers_of os" "issuers_of (map (KIssuer \<circ> f) xs) = map f xs"
proof -
  show "issuers_of (map KSecret ss @ os) = issuers_of os" by (induction ss) auto
  show "issuers_of (map (KIssuer \<circ> f) xs) = map f xs" by (induction xs) auto
qed

lemma collectIssuers_no_panic: "collectIssuers v \<noteq> Panic p"
proof -
  have look: "lookupReferencedSecret v n \<noteq> Panic p" for n
    by (simp add: lookupReferencedSecret_def lookupReferencedLoop_no_panic)
  have "userIssuer v ic \<noteq> Panic p" for ic
    by (auto simp: userIssuer_def rbind_Panic_iff look split: option.splits)
  then show ?thesis
    by (auto simp: collectIssuers_eq rbind_Panic_iff rmap_no_panic)
qed

subsection \<open>A concrete deployment\<close>

text \<open>A shoot with one referenced secret, whose provider configuration has an issuer that uses it.\<close>

definition sample_acme :: ConfigACME where
  "sample_acme = \<lparr>cacme_Email = ''garden@example.com'', cacme_Server = ''https://acme/directory'',
     cacme_PrivateKey = Some ''KEY'', cacme_PropagationTimeout = None,
     cacme_PrecheckNameservers = None, cacme_CACertificates = Some ''B'',
     cacme_DeactivateAuthorizations = None, cacme_SkipDNSChallengeValidation = None\<rparr>"

definition sample_configuration :: Configuration where
  "sample_configuration = emptyConfiguration\<lparr>cfg_IssuerName := ''garden'', cfg_ACME := Some sample_acme\<rparr>"

definition sample_shoot :: Shoot where
  "sample_shoot = \<lparr>sh_Name = ''foo'', sh_Namespace = ''garden-dev'', sh_DeletionTimestamp = None,
     sh_DNS = Some (Some ''foo.example.com''),
     sh_Resources = [\<lparr>nrr_Name = ''key'', nrr_Kind = ''Secret'', nrr_RefName = ''my-key'', nrr_APIVersion = ''v1''\<rparr>]\<rparr>"

definition sample_cluster :: Cluster where
  "sample_cluster = \<lparr>cl_Shoot = Some sample_shoot, cl_IsHibernated = False, cl_GetReplicas = 1,
     cl_GenericTokenKubeconfigSecretName = ''generic-token-kubeconfig''\<rparr>"

definition sample_cert_config :: CertConfig where
  "sample_cert_config = emptyCertConfig\<lparr>cc_Issuers :=
     [(plainIssuerConfig ''alice'' ''https://acme/directory'' ''alice@example.com'')
        \<lparr>ic_PrivateKeySecretName := Some ''key''\<rparr>]\<rparr>"

definition sample_values :: Values where
  "sample_values = emptyValues\<lparr>vl_ExtensionConfig := sample_configuration,
     vl_CertConfig := sample_cert_config, vl_Namespace := ''shoot--dev--foo'', vl_Image := ''image:1'',
     vl_GenericTokenKubeconfigSecretName := ''generic-token-kubeconfig'',
     vl_Resources := sh_Resources sample_shoot, vl_ShootDeployment := True, vl_Replicas := 1\<rparr>"

definition sample_garden_values :: Values where
  "sample_garden_values = emptyValues\<lparr>vl_ExtensionConfig := sample_configuration,
     vl_Namespace := ''garden'', vl_Image := ''image:1'', vl_GardenDeployment := True,
     vl_CertClass := ''garden'', vl_Replicas := 1\<rparr>"

lemmas sample_defs = sample_acme_def sample_configuration_def sample_shoot_def sample_cluster_def
  sample_cert_config_def sample_values_def sample_garden_values_def emptyValues_def
  emptyConfiguration_def emptyCertConfig_def plainIssuerConfig_def

lemma sample_createIssuers:
  obtains objs "is" where "createIssuers sample_values = Ok (objs, is)"
proof -
  have "\<exists>is. collectIssuers sample_values = Ok is"
    unfolding collectIssuers_Ok_iff
    by (simp add: sample_defs user_issuers_def issuer_refs_ok_def secret_in_def first_ref_def)
  then show ?thesis
    using that by (auto simp: createIssuers_eq)
qed

subsection \<open>Properties\<close>

text \<open>Collecting the issuers never panics, and it succeeds exactly when the deployment is not for a
  shoot or every issuer of the provider configuration refers to secrets only.\<close>

theorem collect_issuers_total:
  "collectIssuers v \<noteq> Panic p
   \<and> (\<exists>is. collectIssuers v = Ok is) =
      list_all (issuer_refs_ok (vl_Resources v)) (if vl_ShootDeployment v then user_issuers v else [])"
  using collectIssuers_no_panic collectIssuers_Ok_iff by simp

text \<open>C27: When the provider configuration passed the validation against the cluster whose resources
  the deployment gets, the issuers are collected, with distinct names: the extension's own issuer
  first, then those of the configuration in their order, without one that has the name of the
  extension's own.\<close>

theorem validated_issuers_collected:
  assumes "dns1123_law X"
    and "ValidateCertConfig X (vl_CertConfig v) (Some cluster) = []"
    and "cl_Shoot cluster = Some shoot" "vl_Resources v = sh_Resources shoot" "vl_ShootDeployment v"
  shows "\<exists>is. collectIssuers v = Ok is \<and> distinct (map i_Name is)
    \<and> map i_Name is = cfg_IssuerName (vl_ExtensionConfig v) # map ic_Name (user_issuers v)"
proof -
  have ok: "shoot_config_ok X cluster (vl_CertConfig v)"
    using assms(2) by (simp add: ValidateCertConfig_shoot_iff [OF assms(1)])
  have "list_all (issuer_refs_ok (vl_Resources v)) (user_issuers v)"
    using ok assms(3,4)
    by (auto simp: shoot_config_ok_def issuers_ok_def issuer_ok_def issuer_refs_ok_def user_issuers_def
        list_all_iff secret_in_def secret_reference_def option.pred_set split: option.splits)
  then obtain "is" where "collectIssuers v = Ok is"
    using collectIssuers_Ok_iff by blast
  moreover have "distinct (map ic_Name (cc_Issuers (vl_CertConfig v)))"
    using ok by (simp add: shoot_config_ok_def issuers_ok_def)
  ultimately show ?thesis
    using collectIssuers_distinct collectIssuers_names assms(5) by fastforce
qed

theorem validated_issuers_collected_witness:
  "\<exists>is. collectIssuers sample_values = Ok is \<and> map i_Name is = [''garden'', ''alice'']"
proof -
  have "secret_reference sample_cluster ''key''"
    by (simp add: secret_reference_def sample_cluster_def sample_shoot_def first_ref_def)
  moreover have "cc_Issuers sample_cert_config =
      [(plainIssuerConfig ''alice'' ''https://acme/directory'' ''alice@example.com'')
        \<lparr>ic_PrivateKeySecretName := Some ''key''\<rparr>]"
    "cc_DNSChallengeOnShoot sample_cert_config = None" "cc_PrecheckNameservers sample_cert_config = None"
    by (simp_all add: sample_cert_config_def emptyCertConfig_def)
  ultimately have "shoot_config_ok sample_extern sample_cluster sample_cert_config"
    by (simp add: shoot_config_ok_def issuers_ok_def issuer_ok_def plainIssuerConfig_def sample_extern_simps)
  then have valid: "ValidateCertConfig sample_extern (vl_CertConfig sample_values) (Some sample_cluster) = []"
    by (simp add: ValidateCertConfig_shoot_iff [OF sample_dns1123_law] sample_values_def)
  have "\<exists>is. collectIssuers sample_values = Ok is \<and> distinct (map i_Name is)
    \<and> map i_Name is = cfg_IssuerName (vl_ExtensionConfig sample_values) # map ic_Name (user_issuers sample_values)"
    by (rule validated_issuers_collected [OF sample_dns1123_law valid, of sample_shoot])
      (simp_all add: sample_values_def sample_cluster_def emptyValues_def)
  moreover have "cfg_IssuerName (vl_ExtensionConfig sample_values) = ''garden''"
    "map ic_Name (user_issuers sample_values) = [''alice'']"
    by (simp_all add: sample_defs user_issuers_def)
  ultimately show ?thesis by metis
qed

text \<open>C28: The issuer objects of a deployment and the secrets they refer to: there is one object for the
  extension's own issuer, whose configured private key and key pair lie in secrets of the same deployment
  with exactly these data; for a shoot there is one for each issuer of the provider configuration that does not
  have the extension's own name, with its mail address and server, whose private key and external account
  binding, where it refers to any, lie in the copy of the very secret that the shoot's resources give that
  name; and every other private key is registered by the controller. There are no other issuer objects.\<close>

theorem issuer_secret_references:
  assumes "createIssuers v = Ok (objs, is)"
  shows "\<exists>own users. issuers_of (objs_of objs) = own # users \<and> own_issuer_ok v (objs_of objs) own
    \<and> list_all2 (issuer_as_configured v) (if vl_ShootDeployment v then user_issuers v else []) users"
proof -
  obtain ms where ms: "is = gardenIssuer v # ms"
    and objs: "objs_of objs = map KSecret (issuer_secrets v (gardenIssuer v)) @ map (KIssuer \<circ> createIssuer v) is"
    using createIssuers_objs [OF assms] by metis
  have "collectIssuers v = Ok is"
    using createIssuers_OkD [OF assms] by blast
  then have "rmap (userIssuer v) (if vl_ShootDeployment v then user_issuers v else []) = Ok ms"
    by (auto simp: collectIssuers_eq ms rbind_Ok_iff)
  then have "list_all2 (issuer_as_configured v) (if vl_ShootDeployment v then user_issuers v else []) (map (createIssuer v) ms)"
    by (auto simp: rmap_Ok_iff list_all2_map2 elim!: list_all2_mono intro: user_issuer_as_configured)
  moreover have "issuers_of (objs_of objs) = map (createIssuer v) is"
    unfolding objs by (simp only: issuers_of_simps)
  moreover have "own_issuer_ok v (objs_of objs) (createIssuer v (gardenIssuer v))"
    by (rule own_issuer_as_configured) (auto simp: objs)
  ultimately show ?thesis
    by (intro exI [of _ "createIssuer v (gardenIssuer v)"] exI [of _ "map (createIssuer v) ms"]) (simp add: ms)
qed

theorem issuer_secret_references_witness:
  "\<exists>objs is own alice s. createIssuers sample_values = Ok (objs, is) \<and> issuers_of (objs_of objs) = [own, alice]
     \<and> om_Name (is_Meta alice) = ''alice'' \<and> is_ACME alice = Some s
     \<and> sr_Name (as_PrivateKeySecretRef s) = ''ref-my-key''"
proof -
  obtain objs "is" where ok: "createIssuers sample_values = Ok (objs, is)"
    by (rule sample_createIssuers)
  obtain own users where o: "issuers_of (objs_of objs) = own # users"
    "list_all2 (issuer_as_configured sample_values)
       (if vl_ShootDeployment sample_values then user_issuers sample_values else []) users"
    using issuer_secret_references [OF ok] by blast
  have "list_all2 (issuer_as_configured sample_values)
      [(plainIssuerConfig ''alice'' ''https://acme/directory'' ''alice@example.com'')\<lparr>ic_PrivateKeySecretName := Some ''key''\<rparr>] users"
    using o(2) by (simp add: sample_defs user_issuers_def)
  then obtain alice where "users = [alice]" "issuer_as_configured sample_values
      ((plainIssuerConfig ''alice'' ''https://acme/directory'' ''alice@example.com'')\<lparr>ic_PrivateKeySecretName := Some ''key''\<rparr>) alice"
    by (auto simp: list_all2_Cons1)
  then show ?thesis
    using ok o(1)
    by (auto simp: issuer_as_configured_def acme_as_configured_def copied_secret_def first_ref_def sample_defs
        ReferencedResourcesPrefix_def)
qed

text \<open>The objects made for the issuers have distinct kinds, namespaces and names when the names
  of the configuration's issuers are distinct, as the validation demands.\<close>

theorem issuer_objects_distinct:
  assumes "createIssuers v = Ok (objs, is)"
    and "distinct (map ic_Name (cc_Issuers (vl_CertConfig v)))"
  shows "distinct (map object_key (objs_of objs))"
  by (rule createIssuers_keys_distinct [OF assms])

theorem issuer_objects_distinct_witness:
  "\<exists>objs is. createIssuers sample_values = Ok (objs, is) \<and> distinct (map object_key (objs_of objs))"
proof -
  obtain objs "is" where "createIssuers sample_values = Ok (objs, is)"
    by (rule sample_createIssuers)
  moreover from this have "distinct (map object_key (objs_of objs))"
    by (rule issuer_objects_distinct) (simp add: sample_defs)
  ultimately show ?thesis by blast
qed

end
