(* ===== verification/Deployer_Seed.thy ===== *)
theory Deployer_Seed
  imports Deployer_Issuers
begin

text \<open>
  \<open>pkg/controller/extension/shared/deployer_seed.go\<close>: the objects deployed next to the control
  plane, and the arguments, environment and volumes of the controller's pod.
\<close>

subsection \<open>Constants\<close>

definition serverPortHttp :: go_int32 where "serverPortHttp = 10258"
definition ingressCertWorkers :: int where "ingressCertWorkers = 5"
definition certWorkers :: int where "certWorkers = 5"
definition issuerWorkers :: int where "issuerWorkers = 2"
definition vpaUpdateMode :: string where "vpaUpdateMode = ''InPlaceOrRecreate''"
definition defaultAlgorithm :: string where "defaultAlgorithm = ''RSA''"
definition defaultSizeRSA :: go_int where "defaultSizeRSA = 3072"
definition defaultSizeECDSA :: go_int where "defaultSizeECDSA = 384"
definition nextGenerationDNSClass :: string where "nextGenerationDNSClass = ''gardendns-next-gen''"
definition vpaMinAllowed :: string where "vpaMinAllowed = ''20Mi''"

definition shootAccessSecretName :: string where
  "shootAccessSecretName = SecretNamePrefixShootAccess @ ShootAccessSecretName"

text \<open>\<open>fmt.Sprintf("--name=%s", value)\<close>\<close>

definition flag :: "string \<Rightarrow> string \<Rightarrow> string" where
  "flag name val = ''--'' @ name @ ''='' @ val"

subsection \<open>Environment, arguments and volumes of the container\<close>

definition env :: "Values \<Rightarrow> EnvVar list" where
  "env v = (if caCertificates v = '''' then []
     else [\<lparr>ev_Name = ''LEGO_CA_SYSTEM_CERT_POOL'', ev_Value = ''true''\<rparr>,
           \<lparr>ev_Name = ''LEGO_CA_CERTIFICATES'', ev_Value = ''/var/run/cert-manager/certs/certs.pem''\<rparr>])"

definition dns_args :: "Values \<Rightarrow> string list" where
  "dns_args v =
    (case (dnsChallengeOnShootEnabled v, cc_DNSChallengeOnShoot (vl_CertConfig v)) of
       (True, Some dc) \<Rightarrow>
         [''--dns=/var/run/secrets/gardener.cloud/shoot/generic-kubeconfig/kubeconfig'',
          flag ''issuer.dns-namespace'' (dcs_Namespace dc)]
         @ append_if (ptr_Deref (dcs_DNSClass dc) '''' \<noteq> '''')
             [flag ''issuer.dns-class'' (ptr_Deref (dcs_DNSClass dc) '''')]
     | _ \<Rightarrow> [flag ''issuer.dns-namespace'' (vl_Namespace v)])"

definition key_args :: "Values \<Rightarrow> string list" where
  "key_args v =
    (let defaults = cfg_PrivateKeyDefaults (vl_ExtensionConfig v);
         algorithm = (case defaults of None \<Rightarrow> defaultAlgorithm
                      | Some d \<Rightarrow> ptr_Deref (pkd_Algorithm d) defaultAlgorithm);
         sizeRSA = (case defaults of None \<Rightarrow> defaultSizeRSA
                    | Some d \<Rightarrow> ptr_Deref (pkd_SizeRSA d) defaultSizeRSA);
         sizeECDSA = (case defaults of None \<Rightarrow> defaultSizeECDSA
                      | Some d \<Rightarrow> ptr_Deref (pkd_SizeECDSA d) defaultSizeECDSA)
     in [flag ''default-private-key-algorithm'' algorithm,
         flag ''default-rsa-private-key-size'' (show_int (sint sizeRSA)),
         flag ''default-ecdsa-private-key-size'' (show_int (sint sizeECDSA))])"

definition args :: "Values \<Rightarrow> string list" where
  "args v =
    [flag ''name'' (fullName v)]
    @ (if vl_ShootDeployment v then
         [''--namespace=kube-system'',
          ''--source=/var/run/secrets/gardener.cloud/shoot/generic-kubeconfig/kubeconfig'']
       else
         [flag ''namespace'' (vl_Namespace v), flag ''cert-class'' (vl_CertClass v), ''--use-dnsrecords=true''])
    @ [flag ''issuer.issuer-namespace'' (vl_Namespace v),
       flag ''issuer.default-issuer'' (cfg_IssuerName (vl_ExtensionConfig v))]
    @ (let quota = ptr_Deref (cfg_DefaultRequestsPerDayQuota (vl_ExtensionConfig v)) 0
       in append_if (0 < sint quota) [flag ''issuer.default-requests-per-day-quota'' (show_int (sint quota))])
    @ append_if (RestrictedIssuer v) [flag ''issuer.default-issuer-domain-ranges'' (vl_RestrictedDomains v)]
    @ append_if (precheckNameservers v \<noteq> '''') [flag ''issuer.precheck-nameservers'' (precheckNameservers v)]
    @ dns_args v
    @ [flag ''server-port-http'' (show_int (sint serverPortHttp)),
       flag ''ingress-cert.targets.pool.size'' (show_int ingressCertWorkers),
       flag ''service-cert.targets.pool.size'' (show_int certWorkers),
       flag ''issuer.default.pool.size'' (show_int issuerWorkers)]
    @ append_if (propagationTimeout v \<noteq> '''') [flag ''propagation-timeout'' (propagationTimeout v)]
    @ append_if (shootIssuersEnabled v) [''--allow-target-issuers'']
    @ append_if (deactivateAuthorizations v) [''--acme-deactivate-authorizations'']
    @ [''--lease-name=shoot-cert-service'', ''--lease-resource-lock=leases'',
       ''--kubeconfig.disable-deploy-crds'', ''--source.disable-deploy-crds'', ''--target.disable-deploy-crds'']
    @ key_args v
    @ append_if (vl_NextGenDNSShootService v) [flag ''issuer.dns-class'' nextGenerationDNSClass]"

definition volumeMounts :: "Values \<Rightarrow> VolumeMount list" where
  "volumeMounts v =
    append_if (vl_ShootDeployment v)
      [\<lparr>vm_Name = ''kubeconfig'', vm_MountPath = ''/var/run/secrets/gardener.cloud/shoot/generic-kubeconfig'',
        vm_ReadOnly = True\<rparr>]
    @ append_if (caCertificates v \<noteq> '''')
      [\<lparr>vm_Name = ''ca-certificates'', vm_MountPath = ''/var/run/cert-manager/certs'', vm_ReadOnly = True\<rparr>]"

definition volumes :: "Values \<Rightarrow> Volume list" where
  "volumes v =
    append_if (vl_ShootDeployment v)
      [\<lparr>vo_Name = ''kubeconfig'', vo_Source = Projected (Some 420)
         [\<lparr>sp_Name = vl_GenericTokenKubeconfigSecretName v, sp_Optional = Some False,
           sp_Items = [(''kubeconfig'', ''kubeconfig'')]\<rparr>,
          \<lparr>sp_Name = shootAccessSecretName, sp_Optional = Some False, sp_Items = [(''token'', ''token'')]\<rparr>]\<rparr>]
    @ append_if (caCertificates v \<noteq> '''')
      [\<lparr>vo_Name = ''ca-certificates'', vo_Source = ConfigMapVolume (fullName v @ ''-ca-certificates'')\<rparr>]"

subsection \<open>Objects\<close>

definition createCACertificatesConfigMap :: "Values \<Rightarrow> ConfigMap option" where
  "createCACertificatesConfigMap v =
    (let certs = caCertificates v in
     if certs = '''' then None
     else Some \<lparr>cm_Meta = (meta ''cert-controller-manager-ca-certificates'' (vl_Namespace v))\<lparr>om_Labels := getLabels v\<rparr>,
                cm_Data = [''certs.pem'' \<mapsto> certs]\<rparr>)"

definition createDashboardsConfigMap :: "deploy_extern \<Rightarrow> Values \<Rightarrow> ConfigMap" where
  "createDashboardsConfigMap D v =
    \<lparr>cm_Meta = (meta ''cert-controller-manager-dashboards'' (vl_Namespace v))
       \<lparr>om_Labels := [''dashboard.monitoring.gardener.cloud/shoot'' \<mapsto> ''true'']\<rparr>,
     cm_Data = [''cert-controller-manager-dashboard.json'' \<mapsto> certDashboardJSON D]\<rparr>"

definition podLabels :: "Values \<Rightarrow> labels" where
  "podLabels v =
    [''gardener.cloud/role'' \<mapsto> ''controlplane'',
     ''networking.gardener.cloud/to-dns'' \<mapsto> ''allowed'',
     ''networking.gardener.cloud/to-private-networks'' \<mapsto> ''allowed'',
     ''networking.gardener.cloud/to-public-networks'' \<mapsto> ''allowed'',
     ''networking.gardener.cloud/to-runtime-apiserver'' \<mapsto> ''allowed'',
     ''networking.resources.gardener.cloud/to-kube-apiserver-tcp-443'' \<mapsto> ''allowed'']
    ++ getLabels v"

definition container :: "Values \<Rightarrow> Container" where
  "container v = \<lparr>
     co_Name = chartNameSeed v, co_Image = vl_Image v, co_ImagePullPolicy = ''IfNotPresent'',
     co_AllowPrivilegeEscalation = Some False,
     co_VolumeMounts = volumeMounts v, co_Args = args v, co_Env = env v,
     co_Ports = [\<lparr>cp_Name = ''metrics'', cp_ContainerPort = serverPortHttp, cp_Protocol = ''TCP''\<rparr>],
     co_LivenessProbe = Some \<lparr>pb_Path = ''/healthz'', pb_Port = serverPortHttp, pb_Scheme = ''HTTP'',
       pb_InitialDelaySeconds = 30, pb_TimeoutSeconds = 5\<rparr>,
     co_Requests = [''cpu'' \<mapsto> ''5m'', ''memory'' \<mapsto> ''30Mi'']\<rparr>"

definition createDeployment :: "extern \<Rightarrow> deploy_extern \<Rightarrow> Values \<Rightarrow> Deployment result" where
  "createDeployment X D v =
    rbind (issuersChecksum X D v) (\<lambda>issuerChecksum.
    Ok \<lparr>dp_Meta = (meta (fullName v) (vl_Namespace v))\<lparr>om_Labels :=
          (if vl_ShootDeployment v
           then (getLabels v)(''high-availability-config.resources.gardener.cloud/type'' \<mapsto> ''controller'')
           else getLabels v)\<rparr>,
        dp_RevisionHistoryLimit = Some 2,
        dp_Replicas = Some (vl_Replicas v),
        dp_Selector = getSelectLabels v,
        dp_TemplateAnnotations = [''checksum/issuers'' \<mapsto> issuerChecksum],
        dp_TemplateLabels = podLabels v,
        dp_PodSpec = \<lparr>ps_PriorityClassName = priorityClassName v, ps_Containers = [container v],
          ps_Volumes = volumes v, ps_ServiceAccountName = chartNameSeed v\<rparr>\<rparr>)"

definition createPodDisruptionBudget :: "Values \<Rightarrow> PodDisruptionBudget" where
  "createPodDisruptionBudget v =
    \<lparr>pd_Meta = (meta ''cert-controller-manager'' (vl_Namespace v))\<lparr>om_Labels := getLabels v\<rparr>,
     pd_MaxUnavailable = Some 1, pd_Selector = getSelectLabels v,
     pd_UnhealthyPodEvictionPolicy = Some ''AlwaysAllow''\<rparr>"

definition getPrometheusLabels :: "Values \<Rightarrow> labels" where
  "getPrometheusLabels v = (getLabels v)(''prometheus'' \<mapsto> ''shoot'')"

definition createPrometheusRule :: "Values \<Rightarrow> PrometheusRule option" where
  "createPrometheusRule v =
    (let alertDays = certExpirationAlertDays v; days = show_int (sint alertDays) in
     if alertDays = 0 then None
     else Some \<lparr>
       pru_Meta = (meta ''shoot-cert-controller-manager'' (vl_Namespace v))\<lparr>om_Labels := getPrometheusLabels v\<rparr>,
       pru_Alert = \<lparr>pa_Group = ''cert-controller-manager.rules'',
         pa_Alert = ''SslCertificateWillExpireSoon'',
         pa_Expr = ''((cert_management_cert_object_expire > 0) - time()) / 86400 <= '' @ days,
         pa_For = ''30m'',
         pa_Labels = [''service'' \<mapsto> ''cert-controller-manager'', ''severity'' \<mapsto> ''critical'',
           ''type'' \<mapsto> ''seed'', ''visibility'' \<mapsto> ''operator''],
         pa_Annotations =
           [''description'' \<mapsto> ''Certificate in namespace '' @ vl_Namespace v @ '' will expire in less than '' @ days @ '' days.'',
            ''summary'' \<mapsto> ''TLS certificate will expire in less than '' @ days @ '' days'']\<rparr>\<rparr>)"

definition shootCertServiceRoleName :: string where
  "shootCertServiceRoleName = ''extensions.gardener.cloud:extension-shoot-cert-service''"

definition createRole :: "Values \<Rightarrow> Role" where
  "createRole v = \<lparr>
     ro_Meta = (meta shootCertServiceRoleName (vl_Namespace v))\<lparr>om_Labels := getLabels v\<rparr>,
     ro_Rules =
       [\<lparr>pr_APIGroups = [''''], pr_Resources = [''configmaps''],
         pr_ResourceNames = [''gardener-extension-shoot-cert-service''], pr_Verbs = [''get'', ''update'']\<rparr>,
        policy_rule [''''] [''configmaps''] [''create'']]
     @ (if vl_ShootDeployment v
        then [policy_rule [''dns.gardener.cloud''] [''dnsentries'']
                [''get'', ''list'', ''update'', ''patch'', ''watch'', ''create'', ''delete'']]
        else [policy_rule [''extensions.gardener.cloud''] [''dnsrecords'']
                [''get'', ''list'', ''update'', ''patch'', ''watch'', ''create'', ''delete'']])
     @ [policy_rule [''cert.gardener.cloud''] [''issuers'', ''issuers/status'']
          [''get'', ''update'', ''list'', ''patch'', ''watch''],
        policy_rule [''''] [''secrets'']
          [''get'', ''list'', ''update'', ''patch'', ''watch'', ''create'', ''delete''],
        policy_rule ['''', ''events.k8s.io''] [''events''] [''create'', ''patch'']]\<rparr>"

definition createRoleBinding :: "Values \<Rightarrow> RoleBinding" where
  "createRoleBinding v = \<lparr>
     rb_Meta = (meta (chartNameSeed v) (vl_Namespace v))\<lparr>om_Labels := getLabels v\<rparr>,
     rb_RoleRef = \<lparr>rr_APIGroup = ''rbac.authorization.k8s.io'', rr_Kind = ''Role'',
       rr_Name = ''extensions.gardener.cloud:extension-shoot-cert-service''\<rparr>,
     rb_Subjects = [\<lparr>su_Kind = ''ServiceAccount'', su_Name = chartNameSeed v, su_Namespace = vl_Namespace v\<rparr>]\<rparr>"

definition createService :: "Values \<Rightarrow> Service" where
  "createService v = \<lparr>
     sv_Meta = (meta ''cert-controller-manager'' (vl_Namespace v))\<lparr>
       om_Annotations := Some [''networking.resources.gardener.cloud/from-all-scrape-targets-allowed-ports'' \<mapsto>
         ''[{\"port\":'' @ show_int (sint serverPortHttp) @ '',\"protocol\":\"TCP\"}]''],
       om_Labels := getLabels v\<rparr>,
     sv_Type = ''ClusterIP'', sv_ClusterIP = ''None'',
     sv_Ports = [\<lparr>svp_Name = ''metrics'', svp_Port = serverPortHttp, svp_Protocol = ''TCP''\<rparr>],
     sv_Selector = getSelectLabels v\<rparr>"

definition createServiceAccount :: "Values \<Rightarrow> ServiceAccount" where
  "createServiceAccount v = \<lparr>
     sa_Meta = (meta (chartNameSeed v) (vl_Namespace v))\<lparr>om_Labels := getLabels v\<rparr>,
     sa_AutomountServiceAccountToken = Some False\<rparr>"

definition createServiceMonitor :: "Values \<Rightarrow> ServiceMonitor" where
  "createServiceMonitor v = \<lparr>
     sm_APIVersion = ''monitoring.coreos.com/v1'', sm_Kind = ''ServiceMonitor'',
     sm_Meta = (meta ''shoot-cert-controller-manager'' (vl_Namespace v))\<lparr>om_Labels := getPrometheusLabels v\<rparr>,
     sm_Selector = getSelectLabels v, sm_Port = ''metrics'',
     sm_RelabelConfigs = [\<lparr>rc_SourceLabels = [], rc_Action = ''labelmap'',
       rc_Regex = ''__meta_kubernetes_service_label_(.+)''\<rparr>],
     sm_MetricRelabelConfigs = [\<lparr>rc_SourceLabels = [''__name__''], rc_Action = ''keep'',
       rc_Regex = ''^(cert_management_.+)$''\<rparr>]\<rparr>"

definition createVPA :: "Values \<Rightarrow> VPA option" where
  "createVPA v =
    (if \<not> vl_ShootDeployment v then None
     else Some \<lparr>vp_Meta = meta (fullName v @ ''-vpa'') (vl_Namespace v),
       vp_TargetAPIVersion = ''apps/v1'', vp_TargetKind = ''Deployment'', vp_TargetName = fullName v,
       vp_UpdateMode = vpaUpdateMode, vp_ContainerName = ''*'', vp_ControlledValues = ''RequestsOnly'',
       vp_ControlledResources = [''memory''], vp_MinAllowed = [''memory'' \<mapsto> vpaMinAllowed]\<rparr>)"

subsection \<open>The list of objects\<close>

text \<open>
  A loop that keeps what is not the nil interface. An interface holding a nil pointer is not nil,
  and stays.
\<close>

fun removeNilObjects :: "client_object list \<Rightarrow> client_object list" where
  "removeNilObjects [] = []"
| "removeNilObjects (obj # objects) =
    (if obj \<noteq> NilInterface then obj # removeNilObjects objects else removeNilObjects objects)"

text \<open>The list \<open>DeploySeedManagedResource\<close> builds before it serialises it, with the issuers.\<close>

definition seedObjects ::
    "extern \<Rightarrow> deploy_extern \<Rightarrow> Values \<Rightarrow> (client_object list \<times> Issuer list) result" where
  "seedObjects X D v =
    rbind (createIssuers v) (\<lambda>(issuerObjs, issuers).
    rbind (createDeployment X D v) (\<lambda>deployment.
    Ok (removeNilObjects
      ([Obj (KPodDisruptionBudget (createPodDisruptionBudget v)),
        Obj (KServiceAccount (createServiceAccount v)),
        as_object ''ConfigMap'' KConfigMap (createCACertificatesConfigMap v)]
       @ issuerObjs
       @ [Obj (KRole (createRole v)),
          Obj (KRoleBinding (createRoleBinding v)),
          Obj (KService (createService v)),
          Obj (KDeployment deployment),
          as_object ''VerticalPodAutoscaler'' KVPA (createVPA v),
          Obj (KConfigMap (createDashboardsConfigMap D v)),
          as_object ''PrometheusRule'' KPrometheusRule (createPrometheusRule v),
          Obj (KServiceMonitor (createServiceMonitor v))]), issuers)))"

end
