(* ===== verification/Deployer_Shoot.thy ===== *)
theory Deployer_Shoot
  imports Deployer_Seed
begin

text \<open>
  \<open>pkg/controller/extension/shared/deployer_shoot.go\<close> and the object builders of
  \<open>deployer_gardenorseed.go\<close>: the roles of the controller where the certificates are, the custom
  resource definitions, and the lists of objects deployed to a shoot and to a garden or seed.
\<close>

definition roleName :: string where
  "roleName = ''extensions.gardener.cloud:extension-shoot-cert-service:cert-controller-manager''"

subsection \<open>Roles\<close>

definition createShootRole :: "Values \<Rightarrow> Role" where
  "createShootRole v = \<lparr>
     ro_Meta = meta roleName (shootNamespace v),
     ro_Rules =
       [policy_rule [''''] [''configmaps''] [''create''],
        \<lparr>pr_APIGroups = [''''], pr_Resources = [''configmaps''], pr_ResourceNames = [''shoot-cert-service''],
          pr_Verbs = [''get'', ''watch'', ''update'']\<rparr>,
        policy_rule [''coordination.k8s.io''] [''leases''] [''create''],
        \<lparr>pr_APIGroups = [''coordination.k8s.io''], pr_Resources = [''leases''],
          pr_ResourceNames = [''shoot-cert-service''], pr_Verbs = [''get'', ''watch'', ''update'']\<rparr>]\<rparr>"

definition getServiceAccount :: "Values \<Rightarrow> Subject" where
  "getServiceAccount v = \<lparr>
     su_Kind = ''ServiceAccount'',
     su_Name = (if \<not> vl_ShootDeployment v then instanceNameGardenOrSeed v else ShootAccessServiceAccountName),
     su_Namespace = (if \<not> vl_ShootDeployment v then vl_Namespace v else ''kube-system'')\<rparr>"

definition createShootRoleBinding :: "Values \<Rightarrow> RoleBinding" where
  "createShootRoleBinding v = \<lparr>
     rb_Meta = meta roleName (shootNamespace v),
     rb_RoleRef = \<lparr>rr_APIGroup = ''rbac.authorization.k8s.io'', rr_Kind = ''Role'', rr_Name = roleName\<rparr>,
     rb_Subjects = [getServiceAccount v]\<rparr>"

definition getShootLabels :: "Values \<Rightarrow> labels" where
  "getShootLabels v = [''app.kubernetes.io/instance'' \<mapsto> chartNameShoot v]"

definition createShootClusterRole :: "Values \<Rightarrow> Role" where
  "createShootClusterRole v =
    (let certResources =
           [''certificates'', ''certificates/status'', ''certificaterevocations'', ''certificaterevocations/status'']
           @ append_if (shootIssuersEnabled v) [''issuers'', ''issuers/status'']
     in \<lparr>ro_Meta = (meta (shootClusterRoleName v) '''')\<lparr>om_Labels := getShootLabels v\<rparr>,
         ro_Rules =
           [policy_rule [''networking.k8s.io''] [''ingresses''] [''get'', ''list'', ''update'', ''watch''],
            policy_rule [''gateway.networking.k8s.io''] [''gateways'', ''httproutes'']
              [''get'', ''list'', ''update'', ''watch''],
            policy_rule [''networking.istio.io''] [''gateways'', ''virtualservices'']
              [''get'', ''list'', ''update'', ''watch''],
            policy_rule [''''] [''services''] [''get'', ''list'', ''update'', ''watch''],
            policy_rule [''''] [''secrets''] [''get'', ''list'', ''update'', ''watch'', ''create'', ''delete''],
            policy_rule [''cert.gardener.cloud''] certResources
              [''get'', ''list'', ''update'', ''watch'', ''create'', ''delete''],
            policy_rule [''''] [''events''] [''create'', ''patch''],
            policy_rule [''apiextensions.k8s.io''] [''customresourcedefinitions'']
              [''get'', ''list'', ''update'', ''create'', ''watch'']]
           @ append_if (dnsChallengeOnShootEnabled v)
               [policy_rule [''dns.gardener.cloud''] [''dnsentries'']
                  [''get'', ''list'', ''update'', ''watch'', ''create'', ''delete'']]\<rparr>)"

definition createShootClusterRoleBinding :: "Values \<Rightarrow> RoleBinding" where
  "createShootClusterRoleBinding v = \<lparr>
     rb_Meta = (meta (shootClusterRoleName v) '''')\<lparr>om_Labels := getShootLabels v\<rparr>,
     rb_RoleRef = \<lparr>rr_APIGroup = ''rbac.authorization.k8s.io'', rr_Kind = ''ClusterRole'',
       rr_Name = shootClusterRoleName v\<rparr>,
     rb_Subjects = [getServiceAccount v]\<rparr>"

subsection \<open>Custom resource definitions\<close>

definition stringToCRD :: "deploy_extern \<Rightarrow> string \<Rightarrow> CRD result" where
  "stringToCRD D data = lib (unmarshalCRD D data)"

definition crd_items :: "deploy_extern \<Rightarrow> Values \<Rightarrow> string list" where
  "crd_items D v = [crdCertificates D, crdRevocations D]
     @ append_if (shootIssuersEnabled v \<or> \<not> vl_ShootDeployment v) [crdIssuers D]"

text \<open>\<open>crd.SetLabels\<close> replaces all labels of the document.\<close>

definition getShootCRDs :: "extern \<Rightarrow> deploy_extern \<Rightarrow> Values \<Rightarrow> CRD list result" where
  "getShootCRDs X D v =
    rmap (\<lambda>data. rbind (stringToCRD D data) (\<lambda>crd.
      Ok (crd\<lparr>crd_Meta := (crd_Meta crd)\<lparr>om_Labels := [ShootNoCleanup X \<mapsto> ''true'']\<rparr>\<rparr>)))
      (crd_items D v)"

text \<open>
  \<open>crd.GetAnnotations()[KeepObject] = "true"\<close>: writing to the annotations of a definition that has
  none is a panic.
\<close>

definition keepCRD :: "extern \<Rightarrow> CRD \<Rightarrow> CRD result" where
  "keepCRD X crd = (case om_Annotations (crd_Meta crd) of
     None \<Rightarrow> Panic ''assignment to entry in nil map''
   | Some as \<Rightarrow> Ok (crd\<lparr>crd_Meta := (crd_Meta crd)\<lparr>om_Annotations := Some (as(KeepObject X \<mapsto> ''true''))\<rparr>\<rparr>))"

subsection \<open>Network policy\<close>

definition createNetworkPolicy :: "Values \<Rightarrow> NetworkPolicy option" where
  "createNetworkPolicy v =
    (let matchLabels = cfg_InClusterACMEServerNamespaceMatchLabel (vl_ExtensionConfig v) in
     if matchLabels = Map.empty then None
     else Some \<lparr>np_Meta = (meta ''egress-from-cert-controller-manager-to-labelled-namespaces'' (vl_Namespace v))
            \<lparr>om_Annotations := Some [''configured-by'' \<mapsto> ''certificateConfig.inClusterACMEServerNamespaceMatchLabel'']\<rparr>,
          np_PodSelector = Map.empty, np_EgressNamespaceLabels = matchLabels\<rparr>)"

subsection \<open>The lists of objects\<close>

text \<open>What \<open>DeployShootManagedResource\<close> serialises.\<close>

definition shootObjects :: "extern \<Rightarrow> deploy_extern \<Rightarrow> Values \<Rightarrow> client_object list result" where
  "shootObjects X D v =
    rbind (getShootCRDs X D v) (\<lambda>crds.
    Ok ([Obj (KRole (createShootRole v)),
         Obj (KRoleBinding (createShootRoleBinding v)),
         Obj (KClusterRole (createShootClusterRole v)),
         Obj (KClusterRoleBinding (createShootClusterRoleBinding v))]
        @ map (Obj \<circ> KCRD) crds))"

text \<open>What \<open>DeployGardenOrSeedManagedResource\<close> serialises, with the issuers.\<close>

definition gardenOrSeedObjects ::
    "extern \<Rightarrow> deploy_extern \<Rightarrow> Values \<Rightarrow> (client_object list \<times> Issuer list) result" where
  "gardenOrSeedObjects X D v =
    rbind (createIssuers v) (\<lambda>(issuerObjs, issuers).
    rbind (createDeployment X D v) (\<lambda>deployment.
    rbind (getShootCRDs X D v) (\<lambda>crds0.
    rbind (rmap (keepCRD X) crds0) (\<lambda>crds.
    Ok (removeNilObjects
      ([Obj (KServiceAccount (createServiceAccount v)),
        as_object ''ConfigMap'' KConfigMap (createCACertificatesConfigMap v)]
       @ issuerObjs
       @ [Obj (KRole (createRole v)),
          Obj (KRoleBinding (createRoleBinding v)),
          Obj (KService (createService v)),
          Obj (KDeployment deployment),
          as_object ''VerticalPodAutoscaler'' KVPA (createVPA v),
          Obj (KRole (createShootRole v)),
          Obj (KRoleBinding (createShootRoleBinding v)),
          Obj (KClusterRole (createShootClusterRole v)),
          Obj (KClusterRoleBinding (createShootClusterRoleBinding v)),
          as_object ''NetworkPolicy'' KNetworkPolicy (createNetworkPolicy v)]
       @ map (Obj \<circ> KCRD) crds), issuers)))))"

end
