(* ===== verification/Deployer_Coherence.thy ===== *)
theory Deployer_Coherence
  imports Deployer_Shoot
begin

text \<open>
  What makes the lists of objects of a deployment correct as a whole: the references between the
  objects resolve, no two objects have the same key, and the flags of the controller do not repeat.
\<close>

subsection \<open>References between objects\<close>

definition deployments :: "kobj list \<Rightarrow> Deployment list" where
  "deployments os = concat (map (\<lambda>x. case x of KDeployment d \<Rightarrow> [d] | _ \<Rightarrow> []) os)"

definition has_config_map :: "kobj list \<Rightarrow> string \<Rightarrow> string \<Rightarrow> bool" where
  "has_config_map os ns n \<longleftrightarrow>
     (\<exists>c. KConfigMap c \<in> set os \<and> om_Name (cm_Meta c) = n \<and> om_Namespace (cm_Meta c) = ns
        \<and> ''certs.pem'' \<in> dom (cm_Data c))"

definition has_service_account :: "kobj list \<Rightarrow> string \<Rightarrow> string \<Rightarrow> bool" where
  "has_service_account os ns n \<longleftrightarrow>
     (\<exists>a. KServiceAccount a \<in> set os \<and> om_Name (sa_Meta a) = n \<and> om_Namespace (sa_Meta a) = ns)"

text \<open>A config map volume refers to a deployed config map; the projected secrets come from outside.\<close>

definition volume_resolves :: "kobj list \<Rightarrow> string \<Rightarrow> Volume \<Rightarrow> bool" where
  "volume_resolves os ns vol \<longleftrightarrow>
     (case vo_Source vol of Projected _ _ \<Rightarrow> True | ConfigMapVolume n \<Rightarrow> has_config_map os ns n)"

text \<open>
  A deployment selects its own pods, runs under a deployed service account, mounts exactly its
  volumes, and its volumes exist.
\<close>

definition deployment_ok :: "kobj list \<Rightarrow> Deployment \<Rightarrow> bool" where
  "deployment_ok os d \<longleftrightarrow>
     (let ns = om_Namespace (dp_Meta d); vols = ps_Volumes (dp_PodSpec d) in
        dp_Selector d \<subseteq>\<^sub>m dp_TemplateLabels d
      \<and> has_service_account os ns (ps_ServiceAccountName (dp_PodSpec d))
      \<and> distinct (map vo_Name vols)
      \<and> list_all (\<lambda>c. map vm_Name (co_VolumeMounts c) = map vo_Name vols) (ps_Containers (dp_PodSpec d))
      \<and> list_all (volume_resolves os ns) vols)"

definition role_resolves :: "kobj list \<Rightarrow> RoleBinding \<Rightarrow> bool" where
  "role_resolves os b \<longleftrightarrow> rr_Kind (rb_RoleRef b) = ''Role'' \<and>
     (\<exists>r. KRole r \<in> set os \<and> om_Name (ro_Meta r) = rr_Name (rb_RoleRef b)
        \<and> om_Namespace (ro_Meta r) = om_Namespace (rb_Meta b))"

definition cluster_role_resolves :: "kobj list \<Rightarrow> RoleBinding \<Rightarrow> bool" where
  "cluster_role_resolves os b \<longleftrightarrow> rr_Kind (rb_RoleRef b) = ''ClusterRole'' \<and>
     (\<exists>r. KClusterRole r \<in> set os \<and> om_Name (ro_Meta r) = rr_Name (rb_RoleRef b))"

text \<open>All subjects of a binding are the given service account.\<close>

definition bound_to :: "string \<Rightarrow> string \<Rightarrow> RoleBinding \<Rightarrow> bool" where
  "bound_to ns n b \<longleftrightarrow> rb_Subjects b = [\<lparr>su_Kind = ''ServiceAccount'', su_Name = n, su_Namespace = ns\<rparr>]"

text \<open>What an object says about the pods of the deployment and about other objects.\<close>

definition object_ok :: "kobj list \<Rightarrow> Deployment \<Rightarrow> kobj \<Rightarrow> bool" where
  "object_ok os d x \<longleftrightarrow>
     (let sa = ps_ServiceAccountName (dp_PodSpec d); ns = om_Namespace (dp_Meta d) in
      case x of
        KRoleBinding b \<Rightarrow> role_resolves os b \<and> bound_to ns sa b
      | KClusterRoleBinding b \<Rightarrow> cluster_role_resolves os b \<and> bound_to ns sa b
      | KService s \<Rightarrow> sv_Selector s \<subseteq>\<^sub>m dp_TemplateLabels d
          \<and> map svp_Port (sv_Ports s) = concat (map (map cp_ContainerPort \<circ> co_Ports) (ps_Containers (dp_PodSpec d)))
      | KPodDisruptionBudget p \<Rightarrow> pd_Selector p \<subseteq>\<^sub>m dp_TemplateLabels d
      | KServiceMonitor m \<Rightarrow> (\<exists>s. KService s \<in> set os \<and> sm_Selector m \<subseteq>\<^sub>m om_Labels (sv_Meta s)
          \<and> sm_Port m \<in> set (map svp_Name (sv_Ports s)))
      | KVPA p \<Rightarrow> vp_TargetKind p = ''Deployment'' \<and> vp_TargetName p = om_Name (dp_Meta d)
      | KIssuer i \<Rightarrow> issuer_secrets_ok os i
      | _ \<Rightarrow> True)"

definition coherent :: "kobj list \<Rightarrow> bool" where
  "coherent os \<longleftrightarrow> (case deployments os of [d] \<Rightarrow> deployment_ok os d \<and> list_all (object_ok os d) os | _ \<Rightarrow> False)"

subsection \<open>The lists as a whole\<close>

lemma removeNilObjects_id: "NilInterface \<notin> set os \<Longrightarrow> removeNilObjects os = os"
  by (induction os) auto

lemma objs_of_removeNilObjects [simp]: "objs_of (removeNilObjects os) = objs_of os"
proof (induction os)
  case Nil
  then show ?case by simp
next
  case (Cons x os)
  then show ?case by (cases x) auto
qed

lemma no_nil_interface: "NilInterface \<notin> set (map Obj xs)" "NilInterface \<noteq> as_object k K p"
  by (auto simp: as_object_def split: option.splits)

lemma seedObjects_OkD:
  assumes "seedObjects X D v = Ok (objs, is)"
  obtains iobjs d where "createIssuers v = Ok (iobjs, is)" "createDeployment X D v = Ok d"
    "objs_of objs =
       [KPodDisruptionBudget (createPodDisruptionBudget v), KServiceAccount (createServiceAccount v)]
       @ opt_obj KConfigMap (createCACertificatesConfigMap v)
       @ objs_of iobjs
       @ [KRole (createRole v), KRoleBinding (createRoleBinding v), KService (createService v), KDeployment d]
       @ opt_obj KVPA (createVPA v)
       @ [KConfigMap (createDashboardsConfigMap D v)]
       @ opt_obj KPrometheusRule (createPrometheusRule v)
       @ [KServiceMonitor (createServiceMonitor v)]"
  using assms by (auto simp: seedObjects_def rbind_Ok_iff simp del: removeNilObjects.simps)

lemma gardenOrSeedObjects_OkD:
  assumes "gardenOrSeedObjects X D v = Ok (objs, is)"
  obtains iobjs d crds0 crds where "createIssuers v = Ok (iobjs, is)" "createDeployment X D v = Ok d"
    "getShootCRDs X D v = Ok crds0" "rmap (keepCRD X) crds0 = Ok crds"
    "objs_of objs =
       [KServiceAccount (createServiceAccount v)]
       @ opt_obj KConfigMap (createCACertificatesConfigMap v)
       @ objs_of iobjs
       @ [KRole (createRole v), KRoleBinding (createRoleBinding v), KService (createService v), KDeployment d]
       @ opt_obj KVPA (createVPA v)
       @ [KRole (createShootRole v), KRoleBinding (createShootRoleBinding v),
          KClusterRole (createShootClusterRole v), KClusterRoleBinding (createShootClusterRoleBinding v)]
       @ opt_obj KNetworkPolicy (createNetworkPolicy v)
       @ map KCRD crds"
proof -
  have map_KCRD: "objs_of (map (Obj \<circ> KCRD) crds) = map KCRD crds" for crds
    by (induction crds) auto
  show thesis
    using assms that by (auto simp: gardenOrSeedObjects_def rbind_Ok_iff map_KCRD simp del: removeNilObjects.simps)
qed

subsection \<open>Coherence\<close>

lemma deployments_simps [simp]:
  "deployments [] = []"
  "deployments (x # os) = (case x of KDeployment d \<Rightarrow> [d] | _ \<Rightarrow> []) @ deployments os"
  "deployments (os @ os') = deployments os @ deployments os'"
  by (simp_all add: deployments_def)

lemma deployments_opt_obj [simp]: "(\<And>x d. K x \<noteq> KDeployment d) \<Longrightarrow> deployments (opt_obj K p) = []"
  by (cases p) (auto split: kobj.splits)

lemma deployments_map_KCRD [simp]: "deployments (map KCRD crds) = []"
  by (induction crds) auto

lemma createIssuers_kinds:
  assumes "createIssuers v = Ok (objs, is)" "x \<in> set (objs_of objs)"
  shows "(\<exists>s. x = KSecret s) \<or> (\<exists>i. x = KIssuer i)"
proof -
  obtain ms where "objs_of objs = map KSecret (issuer_secrets v (gardenIssuer v)) @ map (KIssuer \<circ> createIssuer v) is"
    using createIssuers_objs [OF assms(1)] by metis
  then show ?thesis using assms(2) by auto
qed

lemma deployments_issuers:
  assumes "createIssuers v = Ok (objs, is)"
  shows "deployments (objs_of objs) = []"
  using createIssuers_kinds [OF assms] by (fastforce simp: deployments_def)

lemma createDeployment_OkD:
  assumes "createDeployment X D v = Ok d"
  shows "om_Name (dp_Meta d) = fullName v" "om_Namespace (dp_Meta d) = vl_Namespace v"
    "dp_Selector d = getSelectLabels v" "dp_TemplateLabels d = podLabels v"
    "dp_PodSpec d = \<lparr>ps_PriorityClassName = priorityClassName v, ps_Containers = [container v],
          ps_Volumes = volumes v, ps_ServiceAccountName = chartNameSeed v\<rparr>"
    "dp_Replicas d = Some (vl_Replicas v)"
  using assms by (auto simp: createDeployment_def rbind_Ok_iff)

lemma select_podLabels: "getSelectLabels v \<subseteq>\<^sub>m podLabels v"
proof -
  have "getSelectLabels v = getLabels v"
    by (simp add: getSelectLabels_def getLabels_def)
  then show ?thesis by (simp add: podLabels_def map_le_map_add)
qed

text \<open>The parts every deployment of the controller has.\<close>

definition pod_objects :: "Values \<Rightarrow> Deployment \<Rightarrow> kobj list \<Rightarrow> bool" where
  "pod_objects v d os \<longleftrightarrow>
     {KServiceAccount (createServiceAccount v), KRole (createRole v), KService (createService v)}
     \<union> set (opt_obj KConfigMap (createCACertificatesConfigMap v)) \<subseteq> set os"

lemma mounts_volumes: "map vm_Name (volumeMounts v) = map vo_Name (volumes v)"
  by (simp add: volumeMounts_def volumes_def)

lemma volumes_distinct: "distinct (map vo_Name (volumes v))"
  by (simp add: volumes_def append_if_def)

lemma volumes_resolve:
  assumes "set (opt_obj KConfigMap (createCACertificatesConfigMap v)) \<subseteq> set os"
  shows "list_all (volume_resolves os (vl_Namespace v)) (volumes v)"
proof -
  have "has_config_map os (vl_Namespace v) (fullName v @ ''-ca-certificates'')" if "caCertificates v \<noteq> ''''"
    using assms that
    by (auto simp: has_config_map_def createCACertificatesConfigMap_def fullName_def Let_def opt_obj_def
        intro!: exI [of _ "the (createCACertificatesConfigMap v)"])
  then show ?thesis
    by (auto simp: volumes_def volume_resolves_def append_if_def)
qed

lemma deployment_ok_created:
  assumes "createDeployment X D v = Ok d" "pod_objects v d os"
  shows "deployment_ok os d"
proof -
  have "has_service_account os (vl_Namespace v) (chartNameSeed v)"
    using assms(2) unfolding has_service_account_def pod_objects_def
    by (intro exI [of _ "createServiceAccount v"]) (simp add: createServiceAccount_def)
  moreover have "list_all (volume_resolves os (vl_Namespace v)) (volumes v)"
    using assms(2) by (auto simp: pod_objects_def intro: volumes_resolve)
  ultimately show ?thesis
    using createDeployment_OkD [OF assms(1)]
    by (simp add: deployment_ok_def Let_def select_podLabels volumes_distinct container_def mounts_volumes)
qed

lemma issuer_secrets_ok_mono:
  assumes "issuer_secrets_ok os i" "set os \<subseteq> set os'"
  shows "issuer_secrets_ok os' i"
proof -
  have "deployed_secret os r t ks \<Longrightarrow> deployed_secret os' r t ks" for r t ks
    using assms(2) unfolding deployed_secret_def by blast
  then show ?thesis
    using assms(1) unfolding issuer_secrets_ok_def acme_secrets_ok_def ca_secret_ok_def
    by (auto simp: option.pred_set)
qed

lemma issuers_ok_objects:
  assumes "createIssuers v = Ok (iobjs, is)" "set (objs_of iobjs) \<subseteq> set os"
  shows "list_all (object_ok os d) (objs_of iobjs)"
proof -
  have "object_ok os d x" if x: "x \<in> set (objs_of iobjs)" for x
    using createIssuers_kinds [OF assms(1) x] x
    by (auto simp: object_ok_def Let_def
        intro: issuer_secrets_ok_mono [OF createIssuers_secrets_ok [OF assms(1)] assms(2)])
  then show ?thesis by (simp add: list_all_iff)
qed

text \<open>The objects common to both kinds of deployment.\<close>

lemma common_objects_ok:
  assumes "createDeployment X D v = Ok d" "pod_objects v d os"
  shows "object_ok os d (KRoleBinding (createRoleBinding v))"
    "object_ok os d (KService (createService v))"
    "object_ok os d (KPodDisruptionBudget (createPodDisruptionBudget v))"
    "object_ok os d (KServiceMonitor (createServiceMonitor v))"
    "list_all (object_ok os d) (opt_obj KVPA (createVPA v))"
proof -
  note d = createDeployment_OkD [OF assms(1)]
  have mem: "KRole (createRole v) \<in> set os" "KService (createService v) \<in> set os"
    using assms(2) by (auto simp: pod_objects_def)
  have "role_resolves os (createRoleBinding v)"
    unfolding role_resolves_def
    using mem(1) by (auto simp: createRoleBinding_def createRole_def shootCertServiceRoleName_def)
  then show "object_ok os d (KRoleBinding (createRoleBinding v))"
    by (simp add: object_ok_def Let_def d bound_to_def createRoleBinding_def)
  show "object_ok os d (KService (createService v))"
    by (simp add: object_ok_def Let_def d createService_def select_podLabels container_def)
  show "object_ok os d (KPodDisruptionBudget (createPodDisruptionBudget v))"
    by (simp add: object_ok_def Let_def d createPodDisruptionBudget_def select_podLabels)
  show "object_ok os d (KServiceMonitor (createServiceMonitor v))"
    unfolding object_ok_def Let_def kobj.case
    using mem(2) by (intro exI [of _ "createService v"])
      (simp add: createServiceMonitor_def createService_def getSelectLabels_def getLabels_def)
  show "list_all (object_ok os d) (opt_obj KVPA (createVPA v))"
    by (simp add: createVPA_def object_ok_def Let_def d)
qed

lemma trivial_objects_ok [simp]:
  "object_ok os d (KServiceAccount a)" "object_ok os d (KConfigMap c)" "object_ok os d (KRole r)"
  "object_ok os d (KClusterRole r)" "object_ok os d (KDeployment d')" "object_ok os d (KCRD k)"
  "object_ok os d (KPrometheusRule p)" "object_ok os d (KNetworkPolicy n)"
  "list_all (object_ok os d) (opt_obj KConfigMap oc)"
  "list_all (object_ok os d) (opt_obj KPrometheusRule op)"
  "list_all (object_ok os d) (opt_obj KNetworkPolicy onp)"
  "list_all (object_ok os d) (map KCRD crds)"
  by (auto simp: object_ok_def opt_obj_def list_all_iff split: option.splits)

lemma coherentI: "deployments os = [d] \<Longrightarrow> deployment_ok os d \<Longrightarrow> list_all (object_ok os d) os \<Longrightarrow> coherent os"
  by (simp add: coherent_def)

lemma seedObjects_coherent:
  assumes "seedObjects X D v = Ok (objs, is)"
  shows "coherent (objs_of objs)"
proof -
  from assms obtain iobjs d where iobjs: "createIssuers v = Ok (iobjs, is)"
    and d: "createDeployment X D v = Ok d"
    and os: "objs_of objs =
       [KPodDisruptionBudget (createPodDisruptionBudget v), KServiceAccount (createServiceAccount v)]
       @ opt_obj KConfigMap (createCACertificatesConfigMap v) @ objs_of iobjs
       @ [KRole (createRole v), KRoleBinding (createRoleBinding v), KService (createService v), KDeployment d]
       @ opt_obj KVPA (createVPA v) @ [KConfigMap (createDashboardsConfigMap D v)]
       @ opt_obj KPrometheusRule (createPrometheusRule v) @ [KServiceMonitor (createServiceMonitor v)]"
    by (rule seedObjects_OkD)
  have pod: "pod_objects v d (objs_of objs)"
    by (auto simp: pod_objects_def os)
  show ?thesis
  proof (rule coherentI [of _ d])
    show "deployments (objs_of objs) = [d]"
      by (simp add: os deployments_issuers [OF iobjs])
    show "deployment_ok (objs_of objs) d"
      by (rule deployment_ok_created [OF d pod])
    have "list_all (object_ok (objs_of objs) d) (objs_of iobjs)"
      by (rule issuers_ok_objects [OF iobjs]) (auto simp: os)
    then show "list_all (object_ok (objs_of objs) d) (objs_of objs)"
      by (subst (2) os) (simp add: common_objects_ok [OF d pod])
  qed
qed

lemma gardenOrSeedObjects_coherent:
  assumes "gardenOrSeedObjects X D v = Ok (objs, is)" "\<not> vl_ShootDeployment v"
    "vl_CertClass v = ''garden'' \<or> vl_CertClass v = ''seed''"
  shows "coherent (objs_of objs)"
proof -
  from assms(1) obtain iobjs d crds0 crds where iobjs: "createIssuers v = Ok (iobjs, is)"
    and d: "createDeployment X D v = Ok d"
    and os: "objs_of objs =
       [KServiceAccount (createServiceAccount v)]
       @ opt_obj KConfigMap (createCACertificatesConfigMap v) @ objs_of iobjs
       @ [KRole (createRole v), KRoleBinding (createRoleBinding v), KService (createService v), KDeployment d]
       @ opt_obj KVPA (createVPA v)
       @ [KRole (createShootRole v), KRoleBinding (createShootRoleBinding v),
          KClusterRole (createShootClusterRole v), KClusterRoleBinding (createShootClusterRoleBinding v)]
       @ opt_obj KNetworkPolicy (createNetworkPolicy v) @ map KCRD crds"
    by (rule gardenOrSeedObjects_OkD)
  have pod: "pod_objects v d (objs_of objs)"
    by (auto simp: pod_objects_def os)
  have sa: "instanceNameGardenOrSeed v = chartNameSeed v"
    using assms(2,3) by (auto simp: instanceNameGardenOrSeed_def chartNameSeed_def
        CertManagementChartNameGarden_def CertManagementChartNameSeed_def)
  have "role_resolves (objs_of objs) (createShootRoleBinding v)"
    unfolding role_resolves_def
    by (auto simp: os createShootRoleBinding_def createShootRole_def intro!: exI [of _ "createShootRole v"])
  then have role: "object_ok (objs_of objs) d (KRoleBinding (createShootRoleBinding v))"
    by (simp add: object_ok_def Let_def createDeployment_OkD [OF d] bound_to_def
        createShootRoleBinding_def getServiceAccount_def assms(2) sa)
  have "cluster_role_resolves (objs_of objs) (createShootClusterRoleBinding v)"
    unfolding cluster_role_resolves_def
    by (auto simp: os createShootClusterRoleBinding_def createShootClusterRole_def Let_def
        intro!: exI [of _ "createShootClusterRole v"])
  then have cluster: "object_ok (objs_of objs) d (KClusterRoleBinding (createShootClusterRoleBinding v))"
    by (simp add: object_ok_def Let_def createDeployment_OkD [OF d] bound_to_def
        createShootClusterRoleBinding_def getServiceAccount_def assms(2) sa)
  show ?thesis
  proof (rule coherentI [of _ d])
    show "deployments (objs_of objs) = [d]"
      by (simp add: os deployments_issuers [OF iobjs])
    show "deployment_ok (objs_of objs) d"
      by (rule deployment_ok_created [OF d pod])
    have "list_all (object_ok (objs_of objs) d) (objs_of iobjs)"
      by (rule issuers_ok_objects [OF iobjs]) (auto simp: os)
    then show "list_all (object_ok (objs_of objs) d) (objs_of objs)"
      by (subst (2) os) (simp add: common_objects_ok [OF d pod] role cluster)
  qed
qed

end
