(* ===== verification/Deployer_Objects.thy ===== *)
theory Deployer_Objects
  imports Deployer_Coherence
begin

text \<open>
  The lists of objects have no two objects of the same key; the custom resource definitions and the
  permissions on them agree; the flags of the controller do not repeat; and the properties of the
  deployer's object builders.
\<close>

subsection \<open>The embedded documents\<close>

text \<open>
  What the three embedded files say (\<open>shared/assets\<close>): each is a custom resource definition without
  a namespace, of the given name, with annotations.
\<close>

definition crd_document :: "deploy_extern \<Rightarrow> string \<Rightarrow> string \<Rightarrow> bool" where
  "crd_document D data n \<longleftrightarrow>
     (\<exists>crd. unmarshalCRD D data = Inr crd \<and> om_Name (crd_Meta crd) = n
        \<and> om_Namespace (crd_Meta crd) = '''' \<and> om_Annotations (crd_Meta crd) \<noteq> None)"

definition assets_law :: "deploy_extern \<Rightarrow> bool" where
  "assets_law D \<longleftrightarrow>
     crd_document D (crdCertificates D) ''certificates.cert.gardener.cloud''
   \<and> crd_document D (crdRevocations D) ''certificaterevocations.cert.gardener.cloud''
   \<and> crd_document D (crdIssuers D) ''issuers.cert.gardener.cloud''"

definition crd_names :: "Values \<Rightarrow> string list" where
  "crd_names v =
     [''certificates.cert.gardener.cloud'', ''certificaterevocations.cert.gardener.cloud'']
     @ append_if (shootIssuersEnabled v \<or> \<not> vl_ShootDeployment v) [''issuers.cert.gardener.cloud'']"

definition crd_name :: "CRD \<Rightarrow> string" where
  "crd_name c = om_Name (crd_Meta c)"

lemma getShootCRDs_assets:
  assumes "assets_law D"
  shows "\<exists>crds. getShootCRDs X D v = Ok crds \<and> map crd_name crds = crd_names v
    \<and> list_all (\<lambda>c. om_Namespace (crd_Meta c) = '''' \<and> om_Annotations (crd_Meta c) \<noteq> None
         \<and> om_Labels (crd_Meta c) = [ShootNoCleanup X \<mapsto> ''true'']) crds"
  using assms
  by (auto simp: assets_law_def crd_document_def getShootCRDs_def crd_items_def crd_names_def
      stringToCRD_def crd_name_def append_if_def)

lemma keepCRD_Ok:
  "om_Annotations (crd_Meta c) \<noteq> None \<Longrightarrow>
     \<exists>c'. keepCRD X c = Ok c' \<and> crd_name c' = crd_name c
       \<and> om_Namespace (crd_Meta c') = om_Namespace (crd_Meta c)
       \<and> om_Labels (crd_Meta c') = om_Labels (crd_Meta c)"
  by (auto simp: keepCRD_def crd_name_def)

lemma keepCRDs_Ok:
  "list_all (\<lambda>c. om_Namespace (crd_Meta c) = '''' \<and> om_Annotations (crd_Meta c) \<noteq> None \<and> P c) crds0 \<Longrightarrow>
     \<exists>crds. rmap (keepCRD X) crds0 = Ok crds \<and> map crd_name crds = map crd_name crds0
       \<and> list_all (\<lambda>c. om_Namespace (crd_Meta c) = '''') crds"
proof (induction crds0)
  case Nil
  then show ?case by simp
next
  case (Cons c cs)
  then obtain crds where "rmap (keepCRD X) cs = Ok crds" "map crd_name crds = map crd_name cs"
    "list_all (\<lambda>c. om_Namespace (crd_Meta c) = '''') crds" by auto
  moreover obtain c' where "keepCRD X c = Ok c'" "crd_name c' = crd_name c"
    "om_Namespace (crd_Meta c') = ''''"
    using keepCRD_Ok [of c X] Cons.prems by auto
  ultimately show ?case by simp
qed

subsection \<open>Keys\<close>

lemma crd_keys:
  "list_all (\<lambda>c. om_Namespace (crd_Meta c) = '''') crds \<Longrightarrow>
     map object_key (map KCRD crds) = map (\<lambda>n. (''CustomResourceDefinition'', '''', n)) (map crd_name crds)"
  by (simp add: list_all_iff object_key_def crd_name_def)

lemma distinct_crd_names: "distinct (map (\<lambda>n. (''CustomResourceDefinition'', '''', n)) (crd_names v))"
  by (simp add: crd_names_def append_if_def)

lemma issuer_keys:
  assumes "createIssuers v = Ok (objs, is)"
  shows "fst ` object_key ` set (objs_of objs) \<subseteq> {''Secret'', ''Issuer''}"
  using createIssuers_kinds [OF assms] by (fastforce simp: object_key_def)

lemma key_simps [simp]:
  "object_key (KRole (createRole v)) = (''Role'', vl_Namespace v, shootCertServiceRoleName)"
  "object_key (KRoleBinding (createRoleBinding v)) = (''RoleBinding'', vl_Namespace v, chartNameSeed v)"
  "object_key (KService (createService v)) = (''Service'', vl_Namespace v, ''cert-controller-manager'')"
  "object_key (KServiceAccount (createServiceAccount v)) = (''ServiceAccount'', vl_Namespace v, chartNameSeed v)"
  "object_key (KPodDisruptionBudget (createPodDisruptionBudget v))
     = (''PodDisruptionBudget'', vl_Namespace v, ''cert-controller-manager'')"
  "object_key (KConfigMap (createDashboardsConfigMap D v))
     = (''ConfigMap'', vl_Namespace v, ''cert-controller-manager-dashboards'')"
  "object_key (KServiceMonitor (createServiceMonitor v))
     = (''ServiceMonitor'', vl_Namespace v, ''shoot-cert-controller-manager'')"
  "object_key (KRole (createShootRole v)) = (''Role'', shootNamespace v, roleName)"
  "object_key (KRoleBinding (createShootRoleBinding v)) = (''RoleBinding'', shootNamespace v, roleName)"
  "object_key (KClusterRole (createShootClusterRole v)) = (''ClusterRole'', '''', shootClusterRoleName v)"
  "object_key (KClusterRoleBinding (createShootClusterRoleBinding v))
     = (''ClusterRoleBinding'', '''', shootClusterRoleName v)"
  by (simp_all add: object_key_def createRole_def createRoleBinding_def createService_def
      createServiceAccount_def createPodDisruptionBudget_def createDashboardsConfigMap_def
      createServiceMonitor_def createShootRole_def createShootRoleBinding_def
      createShootClusterRole_def createShootClusterRoleBinding_def Let_def)

lemma opt_keys [simp]:
  "map object_key (opt_obj KConfigMap (createCACertificatesConfigMap v))
     = append_if (caCertificates v \<noteq> '''') [(''ConfigMap'', vl_Namespace v, ''cert-controller-manager-ca-certificates'')]"
  "map object_key (opt_obj KVPA (createVPA v))
     = append_if (vl_ShootDeployment v) [(''VerticalPodAutoscaler'', vl_Namespace v, fullName v @ ''-vpa'')]"
  "map object_key (opt_obj KPrometheusRule (createPrometheusRule v))
     = append_if (certExpirationAlertDays v \<noteq> 0) [(''PrometheusRule'', vl_Namespace v, ''shoot-cert-controller-manager'')]"
  "map object_key (opt_obj KNetworkPolicy (createNetworkPolicy v))
     = append_if (cfg_InClusterACMEServerNamespaceMatchLabel (vl_ExtensionConfig v) \<noteq> Map.empty)
         [(''NetworkPolicy'', vl_Namespace v, ''egress-from-cert-controller-manager-to-labelled-namespaces'')]"
  by (simp_all add: createCACertificatesConfigMap_def createVPA_def createPrometheusRule_def
      createNetworkPolicy_def object_key_def Let_def)

lemma deployment_key:
  "createDeployment X D v = Ok d \<Longrightarrow> object_key (KDeployment d) = (''Deployment'', vl_Namespace v, fullName v)"
  using createDeployment_OkD by (simp add: object_key_def)

lemma distinct_around:
  assumes "distinct (xs @ zs)" "distinct ys" "fst ` set ys \<subseteq> K" "fst ` set (xs @ zs) \<inter> K = {}"
  shows "distinct (xs @ ys @ zs)"
  using assms by fastforce

lemma distinct_keys_around:
  assumes "createIssuers v = Ok (iobjs, is)" "distinct (map ic_Name (cc_Issuers (vl_CertConfig v)))"
    and "distinct (xs @ zs)" "''Secret'' \<notin> fst ` set (xs @ zs)" "''Issuer'' \<notin> fst ` set (xs @ zs)"
  shows "distinct (xs @ map object_key (objs_of iobjs) @ zs)"
proof (rule distinct_around [of _ _ _ "{''Secret'', ''Issuer''}"])
  show "distinct (map object_key (objs_of iobjs))"
    by (rule createIssuers_keys_distinct [OF assms(1,2)])
  show "fst ` set (map object_key (objs_of iobjs)) \<subseteq> {''Secret'', ''Issuer''}"
    using issuer_keys [OF assms(1)] by simp
qed (use assms(3-5) in auto)

lemma seedObjects_keys_distinct:
  assumes "seedObjects X D v = Ok (objs, is)" "distinct (map ic_Name (cc_Issuers (vl_CertConfig v)))"
  shows "distinct (map object_key (objs_of objs))"
proof -
  from assms(1) obtain iobjs d where iobjs: "createIssuers v = Ok (iobjs, is)"
    and d: "createDeployment X D v = Ok d"
    and os: "objs_of objs =
       [KPodDisruptionBudget (createPodDisruptionBudget v), KServiceAccount (createServiceAccount v)]
       @ opt_obj KConfigMap (createCACertificatesConfigMap v) @ objs_of iobjs
       @ [KRole (createRole v), KRoleBinding (createRoleBinding v), KService (createService v), KDeployment d]
       @ opt_obj KVPA (createVPA v) @ [KConfigMap (createDashboardsConfigMap D v)]
       @ opt_obj KPrometheusRule (createPrometheusRule v) @ [KServiceMonitor (createServiceMonitor v)]"
    by (rule seedObjects_OkD)
  let ?ns = "vl_Namespace v"
  let ?xs = "[(''PodDisruptionBudget'', ?ns, ''cert-controller-manager''), (''ServiceAccount'', ?ns, chartNameSeed v)]
    @ append_if (caCertificates v \<noteq> '''') [(''ConfigMap'', ?ns, ''cert-controller-manager-ca-certificates'')]"
  let ?zs = "[(''Role'', ?ns, shootCertServiceRoleName), (''RoleBinding'', ?ns, chartNameSeed v),
       (''Service'', ?ns, ''cert-controller-manager''), (''Deployment'', ?ns, fullName v)]
    @ append_if (vl_ShootDeployment v) [(''VerticalPodAutoscaler'', ?ns, fullName v @ ''-vpa'')]
    @ [(''ConfigMap'', ?ns, ''cert-controller-manager-dashboards'')]
    @ append_if (certExpirationAlertDays v \<noteq> 0) [(''PrometheusRule'', ?ns, ''shoot-cert-controller-manager'')]
    @ [(''ServiceMonitor'', ?ns, ''shoot-cert-controller-manager'')]"
  have "map object_key (objs_of objs) = ?xs @ map object_key (objs_of iobjs) @ ?zs"
    by (simp add: os deployment_key [OF d])
  moreover have "distinct (?xs @ map object_key (objs_of iobjs) @ ?zs)"
    by (rule distinct_keys_around [OF iobjs assms(2)]) (auto simp: append_if_def)
  ultimately show ?thesis by simp
qed

lemma gardenOrSeedObjects_keys_distinct:
  assumes "gardenOrSeedObjects X D v = Ok (objs, is)" "assets_law D" "\<not> vl_ShootDeployment v"
    "distinct (map ic_Name (cc_Issuers (vl_CertConfig v)))"
  shows "distinct (map object_key (objs_of objs))"
proof -
  from assms(1) obtain iobjs d crds0 crds where iobjs: "createIssuers v = Ok (iobjs, is)"
    and d: "createDeployment X D v = Ok d"
    and crds0: "getShootCRDs X D v = Ok crds0" and crds: "rmap (keepCRD X) crds0 = Ok crds"
    and os: "objs_of objs =
       [KServiceAccount (createServiceAccount v)]
       @ opt_obj KConfigMap (createCACertificatesConfigMap v) @ objs_of iobjs
       @ [KRole (createRole v), KRoleBinding (createRoleBinding v), KService (createService v), KDeployment d]
       @ opt_obj KVPA (createVPA v)
       @ [KRole (createShootRole v), KRoleBinding (createShootRoleBinding v),
          KClusterRole (createShootClusterRole v), KClusterRoleBinding (createShootClusterRoleBinding v)]
       @ opt_obj KNetworkPolicy (createNetworkPolicy v) @ map KCRD crds"
    by (rule gardenOrSeedObjects_OkD)
  obtain cs where "getShootCRDs X D v = Ok cs" "map crd_name cs = crd_names v"
    "list_all (\<lambda>c. om_Namespace (crd_Meta c) = '''' \<and> om_Annotations (crd_Meta c) \<noteq> None
       \<and> om_Labels (crd_Meta c) = [ShootNoCleanup X \<mapsto> ''true'']) cs"
    using getShootCRDs_assets [OF assms(2)] by blast
  then have crd: "map crd_name crds = crd_names v" "list_all (\<lambda>c. om_Namespace (crd_Meta c) = '''') crds"
    using keepCRDs_Ok [of _ crds0 X] crds0 crds by auto
  let ?ns = "vl_Namespace v"
  let ?ck = "map (\<lambda>n. (''CustomResourceDefinition'', '''', n)) (crd_names v)"
  let ?xs = "[(''ServiceAccount'', ?ns, chartNameSeed v)]
    @ append_if (caCertificates v \<noteq> '''') [(''ConfigMap'', ?ns, ''cert-controller-manager-ca-certificates'')]"
  let ?zs = "[(''Role'', ?ns, shootCertServiceRoleName), (''RoleBinding'', ?ns, chartNameSeed v),
       (''Service'', ?ns, ''cert-controller-manager''), (''Deployment'', ?ns, fullName v)]
    @ append_if (vl_ShootDeployment v) [(''VerticalPodAutoscaler'', ?ns, fullName v @ ''-vpa'')]
    @ [(''Role'', shootNamespace v, roleName), (''RoleBinding'', shootNamespace v, roleName),
       (''ClusterRole'', '''', shootClusterRoleName v), (''ClusterRoleBinding'', '''', shootClusterRoleName v)]
    @ append_if (cfg_InClusterACMEServerNamespaceMatchLabel (vl_ExtensionConfig v) \<noteq> Map.empty)
         [(''NetworkPolicy'', ?ns, ''egress-from-cert-controller-manager-to-labelled-namespaces'')]
    @ ?ck"
  have "map object_key (objs_of objs) = ?xs @ map object_key (objs_of iobjs) @ ?zs"
    using crd_keys [OF crd(2)] crd(1) by (simp add: os deployment_key [OF d])
  moreover have "distinct (?xs @ map object_key (objs_of iobjs) @ ?zs)"
  proof (rule distinct_keys_around [OF iobjs assms(4)])
    have "chartNameSeed v \<noteq> roleName"
      by (simp add: chartNameSeed_def roleName_def CertManagementChartNameShootSeed_def
          CertManagementChartNameGarden_def CertManagementChartNameSeed_def)
    then show "distinct (?xs @ ?zs)"
      using distinct_crd_names [of v]
      by (auto simp: append_if_def roleName_def shootCertServiceRoleName_def)
  qed (auto simp: append_if_def)
  ultimately show ?thesis by simp
qed

lemma shootObjects_keys_distinct:
  assumes "shootObjects X D v = Ok objs" "assets_law D"
  shows "distinct (map object_key (objs_of objs))"
proof -
  obtain crds where crds: "getShootCRDs X D v = Ok crds" "map crd_name crds = crd_names v"
    "list_all (\<lambda>c. om_Namespace (crd_Meta c) = '''' \<and> om_Annotations (crd_Meta c) \<noteq> None
       \<and> om_Labels (crd_Meta c) = [ShootNoCleanup X \<mapsto> ''true'']) crds"
    using getShootCRDs_assets [OF assms(2)] by blast
  have "objs_of (map (Obj \<circ> KCRD) crds) = map KCRD crds"
    by (simp flip: map_map)
  then have "map object_key (objs_of objs) =
      [(''Role'', shootNamespace v, roleName), (''RoleBinding'', shootNamespace v, roleName),
       (''ClusterRole'', '''', shootClusterRoleName v), (''ClusterRoleBinding'', '''', shootClusterRoleName v)]
      @ map (\<lambda>n. (''CustomResourceDefinition'', '''', n)) (crd_names v)"
    using assms(1) crds crd_keys [of crds] by (auto simp: shootObjects_def list_all_iff)
  then show ?thesis
    using distinct_crd_names [of v] by auto
qed


subsection \<open>Flags\<close>

text \<open>The name of a flag: what comes before the equals sign.\<close>

definition flag_name :: "string \<Rightarrow> string" where
  "flag_name s = takeWhile (\<lambda>c. c \<noteq> CHR ''='') s"

lemma flag_name_flag: "CHR ''='' \<notin> set n \<Longrightarrow> flag_name (flag n val) = ''--'' @ n"
proof -
  assume n: "CHR ''='' \<notin> set n"
  have "takeWhile (\<lambda>c. c \<noteq> CHR ''='') (n @ ''='' @ val) = n"
    using n by (subst takeWhile_append2) auto
  then show ?thesis by (simp add: flag_name_def flag_def)
qed

lemma flag_name_no_value: "CHR ''='' \<notin> set s \<Longrightarrow> flag_name s = s"
  unfolding flag_name_def by (subst takeWhile_eq_all_conv) auto

text \<open>The provider configuration's own DNS class is passed on.\<close>

definition own_dns_class :: "Values \<Rightarrow> bool" where
  "own_dns_class v \<longleftrightarrow> dnsChallengeOnShootEnabled v
     \<and> (case cc_DNSChallengeOnShoot (vl_CertConfig v) of None \<Rightarrow> False
        | Some dc \<Rightarrow> ptr_Deref (dcs_DNSClass dc) '''' \<noteq> '''')"

lemma dns_flags:
  "map flag_name (dns_args v) =
     append_if (dnsChallengeOnShootEnabled v) [''--dns''] @ [''--issuer.dns-namespace'']
     @ append_if (own_dns_class v) [''--issuer.dns-class'']"
proof -
  have "flag_name ''--dns=/var/run/secrets/gardener.cloud/shoot/generic-kubeconfig/kubeconfig'' = ''--dns''"
    by (simp add: flag_name_def)
  then show ?thesis
    by (auto simp: dns_args_def own_dns_class_def flag_name_flag append_if_def dnsChallengeOnShootEnabled_def
        split: option.splits)
qed

lemma key_flags:
  "map flag_name (key_args v) =
     [''--default-private-key-algorithm'', ''--default-rsa-private-key-size'', ''--default-ecdsa-private-key-size'']"
  by (simp add: key_args_def Let_def flag_name_flag)

lemma fixed_flags:
  "flag_name ''--namespace=kube-system'' = ''--namespace''"
  "flag_name ''--source=/var/run/secrets/gardener.cloud/shoot/generic-kubeconfig/kubeconfig'' = ''--source''"
  "flag_name ''--use-dnsrecords=true'' = ''--use-dnsrecords''"
  "flag_name ''--allow-target-issuers'' = ''--allow-target-issuers''"
  "flag_name ''--acme-deactivate-authorizations'' = ''--acme-deactivate-authorizations''"
  "flag_name ''--lease-name=shoot-cert-service'' = ''--lease-name''"
  "flag_name ''--lease-resource-lock=leases'' = ''--lease-resource-lock''"
  "flag_name ''--kubeconfig.disable-deploy-crds'' = ''--kubeconfig.disable-deploy-crds''"
  "flag_name ''--source.disable-deploy-crds'' = ''--source.disable-deploy-crds''"
  "flag_name ''--target.disable-deploy-crds'' = ''--target.disable-deploy-crds''"
  by (simp_all add: flag_name_def)

definition flags_before :: "Values \<Rightarrow> string list" where
  "flags_before v = [''--name'']
    @ (if vl_ShootDeployment v then [''--namespace'', ''--source'']
       else [''--namespace'', ''--cert-class'', ''--use-dnsrecords''])
    @ [''--issuer.issuer-namespace'', ''--issuer.default-issuer'']
    @ append_if (0 < sint (ptr_Deref (cfg_DefaultRequestsPerDayQuota (vl_ExtensionConfig v)) 0))
        [''--issuer.default-requests-per-day-quota'']
    @ append_if (RestrictedIssuer v) [''--issuer.default-issuer-domain-ranges'']
    @ append_if (precheckNameservers v \<noteq> '''') [''--issuer.precheck-nameservers'']
    @ append_if (dnsChallengeOnShootEnabled v) [''--dns''] @ [''--issuer.dns-namespace'']"

definition flags_after :: "Values \<Rightarrow> string list" where
  "flags_after v =
    [''--server-port-http'', ''--ingress-cert.targets.pool.size'', ''--service-cert.targets.pool.size'',
     ''--issuer.default.pool.size'']
    @ append_if (propagationTimeout v \<noteq> '''') [''--propagation-timeout'']
    @ append_if (shootIssuersEnabled v) [''--allow-target-issuers'']
    @ append_if (deactivateAuthorizations v) [''--acme-deactivate-authorizations'']
    @ [''--lease-name'', ''--lease-resource-lock'', ''--kubeconfig.disable-deploy-crds'',
       ''--source.disable-deploy-crds'', ''--target.disable-deploy-crds'',
       ''--default-private-key-algorithm'', ''--default-rsa-private-key-size'', ''--default-ecdsa-private-key-size'']"

lemma args_flags:
  "map flag_name (args v) = flags_before v @ append_if (own_dns_class v) [''--issuer.dns-class'']
     @ flags_after v @ append_if (vl_NextGenDNSShootService v) [''--issuer.dns-class'']"
  by (simp add: args_def Let_def flags_before_def flags_after_def dns_flags key_flags flag_name_flag fixed_flags)

definition all_flags_before :: "string list" where
  "all_flags_before = [''--name'', ''--namespace'', ''--source'', ''--cert-class'', ''--use-dnsrecords'',
    ''--issuer.issuer-namespace'', ''--issuer.default-issuer'', ''--issuer.default-requests-per-day-quota'',
    ''--issuer.default-issuer-domain-ranges'', ''--issuer.precheck-nameservers'', ''--dns'', ''--issuer.dns-namespace'']"

definition all_flags_after :: "string list" where
  "all_flags_after = [''--server-port-http'', ''--ingress-cert.targets.pool.size'', ''--service-cert.targets.pool.size'',
    ''--issuer.default.pool.size'', ''--propagation-timeout'', ''--allow-target-issuers'',
    ''--acme-deactivate-authorizations'', ''--lease-name'', ''--lease-resource-lock'',
    ''--kubeconfig.disable-deploy-crds'', ''--source.disable-deploy-crds'', ''--target.disable-deploy-crds'',
    ''--default-private-key-algorithm'', ''--default-rsa-private-key-size'', ''--default-ecdsa-private-key-size'']"

lemma all_flags_distinct: "distinct (all_flags_before @ ''--issuer.dns-class'' # all_flags_after)"
  by code_simp

lemma flags_subseq: "subseq (flags_before v) all_flags_before" "subseq (flags_after v) all_flags_after"
  unfolding flags_before_def all_flags_before_def flags_after_def all_flags_after_def append_if_def
  by (auto simp del: char.inject)

lemma subseq_distinct: "subseq xs ys \<Longrightarrow> distinct ys \<Longrightarrow> distinct xs \<and> set xs \<subseteq> set ys"
proof (induction rule: list_emb.induct)
  case (list_emb_Cons2 x y xs ys)
  then show ?case by auto
qed auto

lemma args_flags_distinct_iff:
  "distinct (map flag_name (args v)) \<longleftrightarrow> \<not> (own_dns_class v \<and> vl_NextGenDNSShootService v)"
proof -
  have d: "distinct (flags_before v)" "distinct (flags_after v)"
      "set (flags_before v) \<inter> set (flags_after v) = {}"
      "''--issuer.dns-class'' \<notin> set (flags_before v) \<union> set (flags_after v)"
    using all_flags_distinct subseq_distinct [OF flags_subseq(1) [of v]]
      subseq_distinct [OF flags_subseq(2) [of v]]
    by auto
  then show ?thesis
    unfolding args_flags by (auto simp: append_if_def)
qed


subsection \<open>No panics\<close>

lemma createIssuers_no_panic: "createIssuers v \<noteq> Panic p"
  by (auto simp: createIssuers_eq rbind_Panic_iff collectIssuers_no_panic)

lemma createDeployment_no_panic: "createDeployment X D v \<noteq> Panic p"
  by (auto simp: createDeployment_def issuersChecksum_def rbind_Panic_iff collectIssuers_no_panic)

lemma seedObjects_no_panic: "seedObjects X D v \<noteq> Panic p"
  by (auto simp: seedObjects_def rbind_Panic_iff createIssuers_no_panic createDeployment_no_panic
      simp del: removeNilObjects.simps)

lemma getShootCRDs_no_panic: "getShootCRDs X D v \<noteq> Panic p"
  unfolding getShootCRDs_def by (rule rmap_no_panic) (auto simp: rbind_Panic_iff stringToCRD_def)

lemma shootObjects_no_panic: "shootObjects X D v \<noteq> Panic p"
  by (auto simp: shootObjects_def rbind_Panic_iff getShootCRDs_no_panic)

lemma gardenOrSeedObjects_no_panic:
  assumes "assets_law D"
  shows "gardenOrSeedObjects X D v \<noteq> Panic p"
proof -
  obtain crds where crds: "getShootCRDs X D v = Ok crds"
    "list_all (\<lambda>c. om_Namespace (crd_Meta c) = '''' \<and> om_Annotations (crd_Meta c) \<noteq> None
       \<and> om_Labels (crd_Meta c) = [ShootNoCleanup X \<mapsto> ''true'']) crds"
    using getShootCRDs_assets [OF assms] by blast
  then obtain crds' where "rmap (keepCRD X) crds = Ok crds'"
    using keepCRDs_Ok [OF crds(2)] by blast
  then show ?thesis
    using crds(1) by (auto simp: gardenOrSeedObjects_def rbind_Panic_iff createIssuers_no_panic
        createDeployment_no_panic simp del: removeNilObjects.simps)
qed

subsection \<open>Nil pointers\<close>

lemma removeNilObjects_filter: "removeNilObjects os = filter (\<lambda>x. x \<noteq> NilInterface) os"
  by (induction os) auto

lemma createIssuers_no_nil: "createIssuers v = Ok (objs, is) \<Longrightarrow> TypedNil k \<in> set objs \<Longrightarrow> P"
  by (auto simp: createIssuers_eq rbind_Ok_iff)

lemma seedObjects_typed_nil:
  assumes "seedObjects X D v = Ok (objs, is)"
  shows "TypedNil ''ConfigMap'' \<in> set objs \<longleftrightarrow> caCertificates v = ''''"
    and "TypedNil ''VerticalPodAutoscaler'' \<in> set objs \<longleftrightarrow> \<not> vl_ShootDeployment v"
    and "TypedNil ''PrometheusRule'' \<in> set objs \<longleftrightarrow> certExpirationAlertDays v = 0"
  using assms
  by (auto simp: seedObjects_def rbind_Ok_iff removeNilObjects_filter as_object_def
      createCACertificatesConfigMap_def createVPA_def createPrometheusRule_def Let_def
      simp del: removeNilObjects.simps elim: createIssuers_no_nil split: option.splits if_splits)

subsection \<open>Issuers on the shoot\<close>

definition crds_of :: "kobj list \<Rightarrow> CRD list" where
  "crds_of os = concat (map (\<lambda>x. case x of KCRD c \<Rightarrow> [c] | _ \<Rightarrow> []) os)"

lemma crds_of_map_KCRD: "crds_of (map KCRD cs) = cs"
  by (induction cs) (auto simp: crds_of_def)

lemma crds_of_simps [simp]:
  "crds_of [] = []" "crds_of (x # os) = (case x of KCRD c \<Rightarrow> [c] | _ \<Rightarrow> []) @ crds_of os"
  "crds_of (map KCRD cs) = cs"
  using crds_of_map_KCRD by (simp_all add: crds_of_def)

definition granted_resources :: "Role \<Rightarrow> string list" where
  "granted_resources r = concat (map pr_Resources (ro_Rules r))"

lemma shootObjects_crd_names:
  assumes "shootObjects X D v = Ok objs" "assets_law D"
  shows "map crd_name (crds_of (objs_of objs)) = crd_names v"
proof -
  obtain crds where crds: "getShootCRDs X D v = Ok crds" "map crd_name crds = crd_names v"
    using getShootCRDs_assets [OF assms(2)] by blast
  have "objs_of (map (Obj \<circ> KCRD) crds) = map KCRD crds"
    by (simp flip: map_map)
  then show ?thesis
    using assms(1) crds by (auto simp: shootObjects_def)
qed

lemma granted_issuers: "''issuers'' \<in> set (granted_resources (createShootClusterRole v)) \<longleftrightarrow> shootIssuersEnabled v"
  by (simp add: granted_resources_def createShootClusterRole_def Let_def policy_rule_def append_if_def)

lemma arg_target_issuers: "''--allow-target-issuers'' \<in> set (args v) \<longleftrightarrow> shootIssuersEnabled v"
proof
  assume "''--allow-target-issuers'' \<in> set (args v)"
  then have "flag_name ''--allow-target-issuers'' \<in> set (map flag_name (args v))"
    by auto
  then show "shootIssuersEnabled v"
    unfolding args_flags fixed_flags flags_before_def flags_after_def
    by (auto simp: append_if_def split: if_splits)
qed (simp add: args_def Let_def)


subsection \<open>Checksums\<close>

definition hex_digit :: "nat \<Rightarrow> char" where
  "hex_digit i = ''0123456789abcdef'' ! i"

lemma hex_digit_inj: "i < 16 \<Longrightarrow> j < 16 \<Longrightarrow> hex_digit i = hex_digit j \<longleftrightarrow> i = j"
  unfolding hex_digit_def by (rule nth_eq_iff_index_eq) simp_all

lemma hex_of_bytes_simps:
  "hex_of_bytes [] = []"
  "hex_of_bytes (c # s) = hex_digit ((of_char c :: nat) div 16) # hex_digit ((of_char c :: nat) mod 16) # hex_of_bytes s"
  unfolding hex_of_bytes_def hex_digit_def Let_def by (simp_all only: list.map concat.simps append.simps)

lemma hex_of_bytes_inj: "hex_of_bytes s = hex_of_bytes t \<Longrightarrow> s = t"
proof (induction s arbitrary: t)
  case Nil
  then show ?case by (cases t) (simp_all add: hex_of_bytes_simps)
next
  case (Cons c s)
  then obtain d t' where t: "t = d # t'"
    by (cases t) (simp_all add: hex_of_bytes_simps)
  let ?n = "of_char c :: nat" and ?m = "of_char d :: nat"
  have less: "?n div 16 < 16" "?m div 16 < 16"
    using nat_of_char_less_256 [of c] nat_of_char_less_256 [of d] by (simp_all only: less_mult_imp_div_less)
  have eqs: "hex_digit (?n div 16) = hex_digit (?m div 16)" "hex_digit (?n mod 16) = hex_digit (?m mod 16)"
    and tail: "hex_of_bytes s = hex_of_bytes t'"
    using Cons.prems by (simp_all only: t hex_of_bytes_simps list.inject)
  have "?n div 16 = ?m div 16" "?n mod 16 = ?m mod 16"
    using eqs less by (simp_all only: hex_digit_inj mod_less_divisor zero_less_numeral)
  then have "?n = ?m" by (metis div_mult_mod_eq)
  then show ?case using Cons.IH [OF tail] t by simp
qed

text \<open>Two different inputs with the same image.\<close>

definition collide :: "('a \<Rightarrow> 'b) \<Rightarrow> 'a \<Rightarrow> 'a \<Rightarrow> bool" where
  "collide f x y \<longleftrightarrow> x \<noteq> y \<and> f x = f y"

lemma createDeployment_checksum:
  assumes "createDeployment X D v = Ok d" "createDeployment X D w = Ok e"
    and "collectIssuers v = Ok is" "collectIssuers w = Ok js"
    and "dp_TemplateAnnotations d = dp_TemplateAnnotations e"
  shows "\<exists>x y. marshalIssuers D is = Inr x \<and> marshalIssuers D js = Inr y
    \<and> (is = js \<or> collide (marshalIssuers D) is js \<or> collide (sha256 X) x y)"
proof -
  obtain x y where x: "marshalIssuers D is = Inr x" "dp_TemplateAnnotations d = [''checksum/issuers'' \<mapsto> hex_of_bytes (sha256 X x)]"
    and y: "marshalIssuers D js = Inr y" "dp_TemplateAnnotations e = [''checksum/issuers'' \<mapsto> hex_of_bytes (sha256 X y)]"
    using assms(1-4) by (auto simp: createDeployment_def issuersChecksum_def rbind_Ok_iff)
  have "[''checksum/issuers'' \<mapsto> hex_of_bytes (sha256 X x)] ''checksum/issuers''
      = [''checksum/issuers'' \<mapsto> hex_of_bytes (sha256 X y)] ''checksum/issuers''"
    using assms(5) x(2) y(2) by simp
  then have "sha256 X x = sha256 X y"
    by (auto dest: hex_of_bytes_inj)
  then show ?thesis
    using x(1) y(1) by (auto simp: collide_def)
qed

subsection \<open>A concrete instance of the libraries\<close>

definition sample_crd :: "string \<Rightarrow> CRD" where
  "sample_crd n = \<lparr>crd_Meta = (meta n '''')\<lparr>om_Annotations := Some [''generated'' \<mapsto> ''yes'']\<rparr>, crd_Spec = []\<rparr>"

definition sample_deploy :: deploy_extern where
  "sample_deploy = \<lparr>marshalIssuers = (\<lambda>is. Inr (concat (map i_Name is))),
     unmarshalCRD = (\<lambda>s. Inr (sample_crd s)),
     AddAllAndSerialize = (\<lambda>os. Inr (concat (map kind_of (objs_of os)))),
     findImages = (\<lambda>names. Inr [CertManagementImageName \<mapsto> ''cert-controller-manager:v1'']),
     validateSecretDataKeys = (\<lambda>data. if data ''privateKey'' = None then Some (ErrMsg ''no privateKey'') else None),
     decodeCertConfig = (\<lambda>raw. Inr sample_cert_config),
     crdCertificates = ''certificates.cert.gardener.cloud'',
     crdRevocations = ''certificaterevocations.cert.gardener.cloud'',
     crdIssuers = ''issuers.cert.gardener.cloud'',
     certDashboardJSON = ''{}''\<rparr>"

lemma sample_assets_law: "assets_law sample_deploy"
  by (simp add: assets_law_def crd_document_def sample_deploy_def sample_crd_def)

lemma sample_createDeployment:
  assumes "createIssuers v = Ok (objs, is)"
  obtains d where "createDeployment X sample_deploy v = Ok d"
  using createIssuers_OkD [OF assms] that
  by (auto simp: createDeployment_def issuersChecksum_def sample_deploy_def)

lemma sample_seedObjects:
  obtains objs "is" where "seedObjects X sample_deploy sample_values = Ok (objs, is)"
proof -
  obtain iobjs "is" where i: "createIssuers sample_values = Ok (iobjs, is)"
    by (rule sample_createIssuers)
  then obtain d where "createDeployment X sample_deploy sample_values = Ok d"
    by (rule sample_createDeployment)
  with i show ?thesis
    using that by (auto simp: seedObjects_def simp del: removeNilObjects.simps)
qed

lemma sample_gardenObjects:
  obtains objs "is" where "gardenOrSeedObjects X sample_deploy sample_garden_values = Ok (objs, is)"
proof -
  have "collectIssuers sample_garden_values = Ok [gardenIssuer sample_garden_values]"
    by (simp add: collectIssuers_def sample_garden_values_def emptyValues_def)
  then obtain iobjs where i: "createIssuers sample_garden_values = Ok (iobjs, [gardenIssuer sample_garden_values])"
    by (auto simp: createIssuers_eq)
  then obtain d where d: "createDeployment X sample_deploy sample_garden_values = Ok d"
    by (rule sample_createDeployment)
  obtain crds where crds: "getShootCRDs X sample_deploy sample_garden_values = Ok crds"
    "list_all (\<lambda>c. om_Namespace (crd_Meta c) = '''' \<and> om_Annotations (crd_Meta c) \<noteq> None
       \<and> om_Labels (crd_Meta c) = [ShootNoCleanup X \<mapsto> ''true'']) crds"
    using getShootCRDs_assets [OF sample_assets_law] by blast
  obtain crds' where "rmap (keepCRD X) crds = Ok crds'"
    using keepCRDs_Ok [OF crds(2)] by blast
  then show ?thesis
    using that i d crds(1) by (auto simp: gardenOrSeedObjects_def simp del: removeNilObjects.simps)
qed

subsection \<open>Properties\<close>

text \<open>C12: The objects deployed for a shoot's control plane form a coherent whole: there is one
  deployment, it selects its own pods, its service account, volumes, mounts and config maps exist,
  roles are bound to that service account and exist, and the service, monitor, disruption budget and
  autoscaler refer to it.\<close>

theorem seed_objects_coherent:
  assumes "seedObjects X D v = Ok (objs, is)"
  shows "coherent (objs_of objs)"
  by (rule seedObjects_coherent [OF assms])

theorem seed_objects_coherent_witness:
  "\<exists>objs is. seedObjects sample_extern sample_deploy sample_values = Ok (objs, is) \<and> coherent (objs_of objs)"
proof -
  obtain objs "is" where ok: "seedObjects sample_extern sample_deploy sample_values = Ok (objs, is)"
    by (rule sample_seedObjects)
  show ?thesis by (intro exI conjI) (rule ok, rule seed_objects_coherent [OF ok])
qed

text \<open>C13: The objects deployed to a garden or a seed form a coherent whole as well, including the roles
  for the resources the controller works on.\<close>

theorem garden_objects_coherent:
  assumes "gardenOrSeedObjects X D v = Ok (objs, is)" "\<not> vl_ShootDeployment v"
    and "vl_CertClass v = ''garden'' \<or> vl_CertClass v = ''seed''"
  shows "coherent (objs_of objs)"
  by (rule gardenOrSeedObjects_coherent [OF assms])

theorem garden_objects_coherent_witness:
  "\<exists>objs is. gardenOrSeedObjects sample_extern sample_deploy sample_garden_values = Ok (objs, is)
     \<and> coherent (objs_of objs)"
proof -
  obtain objs "is" where ok: "gardenOrSeedObjects sample_extern sample_deploy sample_garden_values = Ok (objs, is)"
    by (rule sample_gardenObjects)
  have "coherent (objs_of objs)"
    by (rule garden_objects_coherent [OF ok]) (simp_all add: sample_garden_values_def emptyValues_def)
  with ok show ?thesis by (intro exI conjI)
qed

text \<open>C14: No managed resource holds two objects of the same kind, namespace and name, whatever the
  settings, if the issuers of the provider configuration have distinct names.\<close>

theorem managed_objects_distinct:
  assumes "assets_law D" "distinct (map ic_Name (cc_Issuers (vl_CertConfig v)))"
  shows "(case seedObjects X D v of Ok (objs, is) \<Rightarrow> distinct (map object_key (objs_of objs)) | _ \<Rightarrow> True)
    \<and> (case shootObjects X D v of Ok objs \<Rightarrow> distinct (map object_key (objs_of objs)) | _ \<Rightarrow> True)
    \<and> (case gardenOrSeedObjects X D (v\<lparr>vl_ShootDeployment := False\<rparr>) of
           Ok (objs, is) \<Rightarrow> distinct (map object_key (objs_of objs)) | _ \<Rightarrow> True)"
  using assms seedObjects_keys_distinct shootObjects_keys_distinct gardenOrSeedObjects_keys_distinct
  by (auto split: result.splits)

theorem managed_objects_distinct_witness:
  "\<exists>objs is. seedObjects sample_extern sample_deploy sample_values = Ok (objs, is)
     \<and> distinct (map object_key (objs_of objs))"
proof -
  obtain objs "is" where ok: "seedObjects sample_extern sample_deploy sample_values = Ok (objs, is)"
    by (rule sample_seedObjects)
  have "distinct (map ic_Name (cc_Issuers (vl_CertConfig sample_values)))"
    by (simp add: sample_values_def sample_cert_config_def)
  from managed_objects_distinct [OF sample_assets_law this, of sample_extern] ok
  show ?thesis by auto
qed


text \<open>The flags of the controller name each setting once, except that the DNS class is given twice
  when the provider configuration has one for the DNS challenge on the shoot and the next-generation
  DNS controller is in use.\<close>

theorem flags_distinct:
  "distinct (map flag_name (args v)) = (\<not> (own_dns_class v \<and> vl_NextGenDNSShootService v))"
  by (rule args_flags_distinct_iff)

text \<open>Issuers on the shoot are enabled consistently: the flag of the controller, its permission on
  the shoot's issuers and the custom resource definition of issuers are all there or all missing.\<close>

theorem shoot_issuers_consistent:
  assumes "shootObjects X D v = Ok objs" "assets_law D" "vl_ShootDeployment v"
  shows "(''--allow-target-issuers'' \<in> set (args v)) = shootIssuersEnabled v
    \<and> (''issuers'' \<in> set (granted_resources (createShootClusterRole v))) = shootIssuersEnabled v
    \<and> (''issuers.cert.gardener.cloud'' \<in> set (map crd_name (crds_of (objs_of objs)))) = shootIssuersEnabled v"
  unfolding shootObjects_crd_names [OF assms(1,2)]
  using arg_target_issuers granted_issuers assms(3) by (simp add: crd_names_def append_if_def)

theorem shoot_issuers_consistent_witness:
  "\<exists>objs. shootObjects sample_extern sample_deploy sample_values = Ok objs
     \<and> ''issuers.cert.gardener.cloud'' \<notin> set (map crd_name (crds_of (objs_of objs)))"
proof -
  obtain crds where "getShootCRDs sample_extern sample_deploy sample_values = Ok crds"
    using getShootCRDs_assets [OF sample_assets_law] by blast
  then obtain objs where ok: "shootObjects sample_extern sample_deploy sample_values = Ok objs"
    by (auto simp: shootObjects_def)
  have "vl_ShootDeployment sample_values" "\<not> shootIssuersEnabled sample_values"
    by (simp_all add: sample_values_def sample_cert_config_def emptyCertConfig_def shootIssuersEnabled_def)
  with shoot_issuers_consistent [OF ok sample_assets_law] ok show ?thesis by blast
qed

text \<open>C38: The checksum on the pods follows the issuers: if two deployments have equal pod annotations, so that a
  change from one to the other does not restart the pods, then their issuers are the same, unless the
  marshaller takes these very two lists of issuers to the same text, or SHA-256 the two different texts
  of them to the same checksum.\<close>

theorem checksum_tracks_issuers:
  assumes "createDeployment X D v = Ok d" "createDeployment X D w = Ok e"
    and "collectIssuers v = Ok is" "collectIssuers w = Ok js"
    and "dp_TemplateAnnotations d = dp_TemplateAnnotations e"
  shows "\<exists>x y. marshalIssuers D is = Inr x \<and> marshalIssuers D js = Inr y
    \<and> (is = js \<or> collide (marshalIssuers D) is js \<or> collide (sha256 X) x y)"
  by (rule createDeployment_checksum [OF assms])

text \<open>With a hash of four bytes the annotations of two deployments with different issuers are equal, and
  the two texts that were hashed are told.\<close>

definition short_hash :: extern where
  "short_hash = sample_extern\<lparr>sha256 := take 4\<rparr>"

definition sample_values_alone :: Values where
  "sample_values_alone = sample_values\<lparr>vl_CertConfig := emptyCertConfig\<rparr>"

theorem checksum_tracks_issuers_witness:
  "\<exists>d e is js. createDeployment short_hash sample_deploy sample_values = Ok d
     \<and> createDeployment short_hash sample_deploy sample_values_alone = Ok e
     \<and> dp_TemplateAnnotations d = dp_TemplateAnnotations e
     \<and> collectIssuers sample_values = Ok is \<and> collectIssuers sample_values_alone = Ok js \<and> is \<noteq> js
     \<and> collide (sha256 short_hash) ''gardenalice'' ''garden''"
proof -
  obtain iobjs "is" where i: "createIssuers sample_values = Ok (iobjs, is)"
    by (rule sample_createIssuers)
  then obtain d where d: "createDeployment short_hash sample_deploy sample_values = Ok d"
    by (rule sample_createDeployment)
  from i have c: "collectIssuers sample_values = Ok is"
    using createIssuers_OkD by blast
  let ?js = "[gardenIssuer sample_values_alone]"
  have c': "collectIssuers sample_values_alone = Ok ?js"
    by (simp add: collectIssuers_eq user_issuers_def sample_values_alone_def emptyCertConfig_def)
  then obtain e where e: "createDeployment short_hash sample_deploy sample_values_alone = Ok e"
    by (simp add: createDeployment_def issuersChecksum_def sample_deploy_def)
  have names: "map i_Name is = [''garden'', ''alice'']" "map i_Name ?js = [''garden'']"
    using collectIssuers_names [OF c] collectIssuers_names [OF c']
    by (simp_all add: sample_values_alone_def sample_defs user_issuers_def)
  then have marshalled: "marshalIssuers sample_deploy is = Inr ''gardenalice''" "marshalIssuers sample_deploy ?js = Inr ''garden''"
    by (simp_all add: sample_deploy_def)
  have annotations: "dp_TemplateAnnotations d = dp_TemplateAnnotations e"
    using d e marshalled by (auto simp: createDeployment_def issuersChecksum_def c c' short_hash_def)
  have differ: "is \<noteq> ?js" using names by auto
  have "collide (sha256 short_hash) ''gardenalice'' ''garden''"
    using checksum_tracks_issuers [OF d e c c' annotations] marshalled differ
    by (auto simp: collide_def [of "marshalIssuers sample_deploy"])
  then show ?thesis
    using d e c c' annotations differ by blast
qed

text \<open>The list given to the serialiser still holds nil pointers: \<open>removeNilObjects\<close> compares
  interfaces with nil, and the interface that holds a nil pointer is not nil.\<close>

theorem nil_pointers_remain:
  assumes "seedObjects X D v = Ok (objs, is)"
  shows "(TypedNil ''ConfigMap'' \<in> set objs) = (caCertificates v = '''')
    \<and> (TypedNil ''PrometheusRule'' \<in> set objs) = (certExpirationAlertDays v = 0)"
  using seedObjects_typed_nil [OF assms] by blast

theorem nil_pointers_remain_witness:
  "\<exists>objs is. seedObjects sample_extern sample_deploy sample_values = Ok (objs, is)
     \<and> TypedNil ''ConfigMap'' \<notin> set objs"
proof -
  obtain objs "is" where ok: "seedObjects sample_extern sample_deploy sample_values = Ok (objs, is)"
    by (rule sample_seedObjects)
  have "caCertificates sample_values \<noteq> ''''"
    by (simp add: caCertificates_def sample_values_def sample_configuration_def sample_acme_def)
  with nil_pointers_remain [OF ok] ok show ?thesis by blast
qed


end
