(* ===== verification/World.thy ===== *)
theory World
  imports Deployer_Issuers
begin

text \<open>
  The outside of the controllers: every call to an API server is an event of the trace, and an
  environment answers each call, depending on all that happened before. An operation takes the world
  to its result and the world after it, so that what it calls, in which order and with which
  arguments is what its trace says.
\<close>

subsection \<open>Events\<close>

datatype event =
    GetCluster string \<comment> \<open>namespace\<close>
  | GetExtension string string \<comment> \<open>namespace and name\<close>
  | ReconcileShootAccessSecret string string \<comment> \<open>\<open>NewShootAccessSecret(name, namespace).Reconcile\<close>\<close>
  | GetSecret string string
  | NewHandlerSupport string
  | LoadEABHmacKey string string string string \<comment> \<open>namespace, issuer, key id, secret\<close>
  | CreateManagedResource string string string string bool
      \<comment> \<open>namespace, name, class, data and \<open>keepObjects\<close>\<close>
  | DeleteManagedResource string string
  | WaitUntilDeleted string string int \<comment> \<open>namespace, name, timeout\<close>
  | SetKeepObjects string string bool
  | GetManagedResource string string
  | PatchManagedResourceFinalizers string string "string list"
  | DeleteSecret string string
  | PatchExtensionStatus string string "NamedResourceReference list"
  | PatchExtensionAnnotations string string labels
  | ListGardens
  | ListExtensions string
  | ListIssuers string
  | ApplyCertificate Certificate \<comment> \<open>create or merge patch\<close>
  | MergePatchCertificate string string \<comment> \<open>the call of the library that ends in \<open>ApplyCertificate\<close>, namespace and name\<close>
  | DeleteCertificate string string
  | CreateGardenClient string \<comment> \<open>a step of building the client\<close>
  | GetSeed string
  | GetCredentials string \<comment> \<open>by object reference, in the virtual garden\<close>
  | DeployCredentials string string string \<comment> \<open>credentials, and the secret's namespace and name\<close>
  | InnerHealthCheck string string

type_synonym history = "event list"

text \<open>The calls that change something outside.\<close>

fun is_write :: "event \<Rightarrow> bool" where
  "is_write (ReconcileShootAccessSecret _ _) = True"
| "is_write (CreateManagedResource _ _ _ _ _) = True"
| "is_write (DeleteManagedResource _ _) = True"
| "is_write (SetKeepObjects _ _ _) = True"
| "is_write (PatchManagedResourceFinalizers _ _ _) = True"
| "is_write (DeleteSecret _ _) = True"
| "is_write (PatchExtensionStatus _ _ _) = True"
| "is_write (PatchExtensionAnnotations _ _ _) = True"
| "is_write (ApplyCertificate _) = True"
| "is_write (DeleteCertificate _ _) = True"
| "is_write (DeployCredentials _ _ _) = True"
| "is_write _ = False"

subsection \<open>The environment\<close>

text \<open>
  What \<open>controllerutils.CreateOrGetAndMergePatch\<close> does with the callback it is given is the library's
  matter, and so a part of the environment: on which objects the callback runs one after the other
  (\<open>None\<close> is the object that was passed, \<open>Some c\<close> the certificate as the API server has it), and whether
  the library then fails or writes what a last run of the callback, on one more such object, leaves.
\<close>

datatype patch_answer =
    PatchFails "Certificate option list" goerr
  | PatchWrites "Certificate option list" "Certificate option"

text \<open>
  The answers of the outside: for a call that returns an error only, \<open>e_call\<close>; for the reads, what
  they read. A method that is called on a nil pointer of a library's type may return an error or nil, or
  panic (\<open>e_nil\<close>). The clock and the process environment belong to it.
\<close>

record env =
  e_call :: "history \<Rightarrow> event \<Rightarrow> goerr option"
  e_nil :: "history \<Rightarrow> event \<Rightarrow> unit result"
  e_cluster :: "history \<Rightarrow> string \<Rightarrow> goerr + Cluster"
  e_extension :: "history \<Rightarrow> string \<Rightarrow> string \<Rightarrow> goerr + Extension"
  e_secret :: "history \<Rightarrow> string \<Rightarrow> string \<Rightarrow> goerr option \<times> labels"
  e_gardens :: "history \<Rightarrow> goerr + Garden list"
  e_extensions :: "history \<Rightarrow> string \<Rightarrow> goerr + Extension list"
  e_issuers :: "history \<Rightarrow> string \<Rightarrow> goerr + (string \<times> string \<times> string option) list"
    \<comment> \<open>name, state and message\<close>
  e_patch :: "history \<Rightarrow> string \<Rightarrow> string \<Rightarrow> patch_answer" \<comment> \<open>namespace and name\<close>
  e_seed :: "history \<Rightarrow> string \<Rightarrow> goerr + Seed"
  e_health :: "history \<Rightarrow> string \<Rightarrow> string \<Rightarrow> goerr + (string \<times> string)"
    \<comment> \<open>status and detail of the inner health check\<close>
  e_now :: "history \<Rightarrow> int"
  e_getenv :: "string \<Rightarrow> string"

record world =
  trace :: history
  gardenClient :: bool \<comment> \<open>whether \<open>actuator.gardenClient\<close> is set\<close>

definition initial :: world where
  "initial = \<lparr>trace = [], gardenClient = False\<rparr>"

subsection \<open>Operations\<close>

type_synonym 'a io = "world \<Rightarrow> 'a result \<times> world"

definition ret :: "'a \<Rightarrow> 'a io" where
  "ret a w = (Ok a, w)"

text \<open>A pure computation: its error or panic is the operation's.\<close>

definition pure_res :: "'a result \<Rightarrow> 'a io" where
  "pure_res r w = (r, w)"

definition fail :: "goerr \<Rightarrow> 'a io" where
  "fail e w = (Error e, w)"

text \<open>\<open>x, err := m(); if err != nil { return err }\<close>\<close>

definition bind :: "'a io \<Rightarrow> ('a \<Rightarrow> 'b io) \<Rightarrow> 'b io" where
  "bind m f w = (case m w of
     (Ok a, w') \<Rightarrow> f a w'
   | (Error e, w') \<Rightarrow> (Error e, w')
   | (Panic p, w') \<Rightarrow> (Panic p, w'))"

text \<open>The same, wrapping the error.\<close>

definition wrapping :: "string \<Rightarrow> 'a io \<Rightarrow> 'a io" where
  "wrapping s m w = (case m w of (r, w') \<Rightarrow> (wrap_err s r, w'))"

text \<open>\<open>x, err := m()\<close>: the error becomes a value.\<close>

definition attempt :: "'a io \<Rightarrow> (goerr + 'a) io" where
  "attempt m w = (case m w of
     (Ok a, w') \<Rightarrow> (Ok (Inr a), w')
   | (Error e, w') \<Rightarrow> (Ok (Inl e), w')
   | (Panic p, w') \<Rightarrow> (Panic p, w'))"

text \<open>A call: the event is appended, the environment answers from the history before it.\<close>

definition call :: "event \<Rightarrow> (history \<Rightarrow> goerr + 'a) \<Rightarrow> 'a io" where
  "call e answer w = (lib (answer (trace w)), w\<lparr>trace := trace w @ [e]\<rparr>)"

definition invoke :: "env \<Rightarrow> event \<Rightarrow> unit io" where
  "invoke E e w = (res_of (e_call E (trace w) e), w\<lparr>trace := trace w @ [e]\<rparr>)"

text \<open>The call of a method on a nil pointer.\<close>

definition invoke_nil :: "env \<Rightarrow> event \<Rightarrow> unit io" where
  "invoke_nil E e w = (e_nil E (trace w) e, w\<lparr>trace := trace w @ [e]\<rparr>)"

definition get_world :: "world io" where
  "get_world w = (Ok w, w)"

definition set_gardenClient :: "unit io" where
  "set_gardenClient w = (Ok (), w\<lparr>gardenClient := True\<rparr>)"

definition execute :: "'a io \<Rightarrow> 'a result" where
  "execute m = fst (m initial)"

definition events :: "'a io \<Rightarrow> event list" where
  "events m = trace (snd (m initial))"

subsection \<open>How operations execute\<close>

lemma ret_run [io_simps]: "ret a w = (Ok a, w)"
  by (simp add: ret_def)

lemma pure_res_run [io_simps]: "pure_res r w = (r, w)"
  by (simp add: pure_res_def)

lemma fail_run [io_simps]: "fail e w = (Error e, w)"
  by (simp add: fail_def)

lemma bind_run [io_simps]:
  "bind m f w = (case m w of (Ok a, w') \<Rightarrow> f a w' | (Error e, w') \<Rightarrow> (Error e, w') | (Panic p, w') \<Rightarrow> (Panic p, w'))"
  by (simp add: bind_def)

lemma wrapping_run [io_simps]: "wrapping s m w = (case m w of (r, w') \<Rightarrow> (wrap_err s r, w'))"
  by (simp add: wrapping_def)

lemma attempt_run [io_simps]:
  "attempt m w = (case m w of (Ok a, w') \<Rightarrow> (Ok (Inr a), w') | (Error e, w') \<Rightarrow> (Ok (Inl e), w')
     | (Panic p, w') \<Rightarrow> (Panic p, w'))"
  by (simp add: attempt_def)

lemma call_run [io_simps]: "call e answer w = (lib (answer (trace w)), w\<lparr>trace := trace w @ [e]\<rparr>)"
  by (simp add: call_def)

lemma invoke_run [io_simps]: "invoke E e w = (res_of (e_call E (trace w) e), w\<lparr>trace := trace w @ [e]\<rparr>)"
  by (simp add: invoke_def)

lemma invoke_nil_run [io_simps]: "invoke_nil E e w = (e_nil E (trace w) e, w\<lparr>trace := trace w @ [e]\<rparr>)"
  by (simp add: invoke_nil_def)

lemma get_world_run [io_simps]: "get_world w = (Ok w, w)"
  by (simp add: get_world_def)

lemma set_gardenClient_run [io_simps]: "set_gardenClient w = (Ok (), w\<lparr>gardenClient := True\<rparr>)"
  by (simp add: set_gardenClient_def)

text \<open>When an operation succeeds.\<close>

named_theorems ok_iffs "when operations succeed"

lemma bind_Ok_iff [ok_iffs]:
  "bind m f w = (Ok b, w'') \<longleftrightarrow> (\<exists>a w'. m w = (Ok a, w') \<and> f a w' = (Ok b, w''))"
  by (auto simp: bind_def split: prod.splits result.splits)

lemma basic_Ok_iff [ok_iffs]:
  "ret a w = (Ok b, w') \<longleftrightarrow> b = a \<and> w' = w"
  "pure_res r w = (Ok b, w') \<longleftrightarrow> r = Ok b \<and> w' = w"
  "fail e w = (Ok b, w') \<longleftrightarrow> False"
  "get_world w = (Ok x, w') \<longleftrightarrow> x = w \<and> w' = w"
  "set_gardenClient w = (Ok u, w') \<longleftrightarrow> w' = w\<lparr>gardenClient := True\<rparr>"
  by (auto simp: ret_def pure_res_def fail_def get_world_def set_gardenClient_def)

lemma call_Ok_iff [ok_iffs]:
  "call e answer w = (Ok b, w') \<longleftrightarrow> answer (trace w) = Inr b \<and> w' = w\<lparr>trace := trace w @ [e]\<rparr>"
  by (auto simp: call_def)

lemma invoke_Ok_iff [ok_iffs]:
  "invoke E e w = (Ok u, w') \<longleftrightarrow> e_call E (trace w) e = None \<and> w' = w\<lparr>trace := trace w @ [e]\<rparr>"
  by (cases "e_call E (trace w) e") (auto simp: invoke_def)

lemma attempt_Ok_iff [ok_iffs]:
  "attempt m w = (Ok r, w') \<longleftrightarrow> (\<exists>a. r = Inr a \<and> m w = (Ok a, w')) \<or> (\<exists>e. r = Inl e \<and> m w = (Error e, w'))"
  by (auto simp: attempt_def split: prod.splits result.splits)

lemma wrapping_Ok_iff [ok_iffs]: "wrapping s m w = (Ok a, w') \<longleftrightarrow> m w = (Ok a, w')"
  by (auto simp: wrapping_def split: prod.splits)

lemma res_of_Ok_iff [simp]: "res_of e = Ok u \<longleftrightarrow> e = None"
  by (cases e) auto

lemma res_of_no_panic [simp]: "res_of e \<noteq> Panic p"
  by (cases e) auto

subsection \<open>What an operation calls\<close>

text \<open>\<open>emits P m\<close>: \<open>m\<close> only appends to the trace, and only events that satisfy \<open>P\<close>.\<close>

definition emits :: "(event \<Rightarrow> bool) \<Rightarrow> 'a io \<Rightarrow> bool" where
  "emits P m \<longleftrightarrow> (\<forall>w. \<exists>evs. trace (snd (m w)) = trace w @ evs \<and> list_all P evs)"

lemma emits_ret [appends_intros]: "emits P (ret a)"
  by (auto simp: emits_def ret_def)

lemma emits_pure [appends_intros]: "emits P (pure_res r)"
  by (auto simp: emits_def pure_res_def)

lemma emits_fail [appends_intros]: "emits P (fail e)"
  by (auto simp: emits_def fail_def)

lemma emits_call [appends_intros]: "P e \<Longrightarrow> emits P (call e answer)"
  by (auto simp: emits_def call_def)

lemma emits_invoke [appends_intros]: "P e \<Longrightarrow> emits P (invoke E e)"
  by (auto simp: emits_def invoke_def)

lemma emits_invoke_nil [appends_intros]: "P e \<Longrightarrow> emits P (invoke_nil E e)"
  by (auto simp: emits_def invoke_nil_def)

lemma emits_get_world [appends_intros]: "emits P get_world"
  by (auto simp: emits_def get_world_def)

lemma emits_set_gardenClient [appends_intros]: "emits P set_gardenClient"
  by (auto simp: emits_def set_gardenClient_def)

text \<open>The continuation may rely on the value the operation returned.\<close>

lemma emits_bind_ok:
  assumes "emits P m" "\<And>a w w'. m w = (Ok a, w') \<Longrightarrow> emits P (f a)"
  shows "emits P (bind m f)"
  unfolding emits_def
proof
  fix w
  obtain r w' evs where m: "m w = (r, w')" "trace w' = trace w @ evs" "list_all P evs"
    using assms(1) unfolding emits_def by (metis prod.collapse)
  show "\<exists>evs. trace (snd (bind m f w)) = trace w @ evs \<and> list_all P evs"
  proof (cases r)
    case (Ok a)
    obtain evs' where "trace (snd (f a w')) = trace w' @ evs'" "list_all P evs'"
      using assms(2) m(1) Ok unfolding emits_def by blast
    then show ?thesis using m Ok by (auto simp: bind_def intro!: exI [of _ "evs @ evs'"])
  qed (use m in \<open>auto simp: bind_def\<close>)
qed

lemma emits_bind [appends_intros]: "emits P m \<Longrightarrow> (\<And>a. emits P (f a)) \<Longrightarrow> emits P (bind m f)"
  by (rule emits_bind_ok)

lemma emits_wrapping [appends_intros]: "emits P m \<Longrightarrow> emits P (wrapping s m)"
  by (auto simp: emits_def wrapping_def split: prod.splits) (metis snd_conv)

lemma emits_attempt [appends_intros]:
  assumes "emits P m"
  shows "emits P (attempt m)"
proof -
  have "snd (attempt m w) = snd (m w)" for w
    by (auto simp: attempt_def split: prod.splits result.splits)
  then show ?thesis using assms by (simp add: emits_def)
qed

lemma emits_if [appends_intros]: "(c \<Longrightarrow> emits P m) \<Longrightarrow> (\<not> c \<Longrightarrow> emits P n) \<Longrightarrow> emits P (if c then m else n)"
  by simp

lemma emits_option [appends_intros]:
  "(x = None \<Longrightarrow> emits P m) \<Longrightarrow> (\<And>a. x = Some a \<Longrightarrow> emits P (f a)) \<Longrightarrow>
     emits P (case x of None \<Rightarrow> m | Some a \<Rightarrow> f a)"
  by (cases x) auto

lemma emits_sum [appends_intros]:
  "(\<And>e. x = Inl e \<Longrightarrow> emits P (f e)) \<Longrightarrow> (\<And>a. x = Inr a \<Longrightarrow> emits P (g a)) \<Longrightarrow>
     emits P (case x of Inl e \<Rightarrow> f e | Inr a \<Rightarrow> g a)"
  by (cases x) auto

lemma emits_prod [appends_intros]:
  "(\<And>a b. x = (a, b) \<Longrightarrow> emits P (f a b)) \<Longrightarrow> emits P (case x of (a, b) \<Rightarrow> f a b)"
  by (cases x) auto

lemma emits_mono: "emits P m \<Longrightarrow> (\<And>e. P e \<Longrightarrow> Q e) \<Longrightarrow> emits Q m"
  unfolding emits_def by (metis list.pred_mono_strong)

lemma emitsD: "emits P m \<Longrightarrow> m w = (r, w') \<Longrightarrow> \<exists>evs. trace w' = trace w @ evs \<and> list_all P evs"
  unfolding emits_def by (metis snd_conv)

lemma emits_events: "emits P m \<Longrightarrow> list_all P (events m)"
proof -
  assume "emits P m"
  then obtain evs where "trace (snd (m initial)) = trace initial @ evs" "list_all P evs"
    unfolding emits_def by blast
  then show ?thesis by (simp add: events_def initial_def)
qed

subsection \<open>Panics\<close>

named_theorems no_panic_intros "operations that do not panic"

definition no_panic :: "'a io \<Rightarrow> bool" where
  "no_panic m \<longleftrightarrow> (\<forall>w p. fst (m w) \<noteq> Panic p)"

lemma no_panic_basic [no_panic_intros]:
  "no_panic (ret a)" "no_panic (fail e)" "no_panic (invoke E ev)" "no_panic get_world"
  "no_panic set_gardenClient"
  by (auto simp: no_panic_def io_simps)

lemma no_panic_call [no_panic_intros]: "no_panic (call e answer)"
  by (auto simp: no_panic_def io_simps)

lemma no_panic_pure [no_panic_intros]: "(\<And>p. r \<noteq> Panic p) \<Longrightarrow> no_panic (pure_res r)"
  by (auto simp: no_panic_def io_simps)

text \<open>The continuation may rely on the value the operation returned.\<close>

lemma no_panic_bind_ok:
  assumes "no_panic m" "\<And>a w w'. m w = (Ok a, w') \<Longrightarrow> no_panic (f a)"
  shows "no_panic (bind m f)"
  unfolding no_panic_def
proof (intro allI)
  fix w p
  obtain r w' where m: "m w = (r, w')" by (cases "m w")
  show "fst (bind m f w) \<noteq> Panic p"
  proof (cases r)
    case (Ok a)
    then show ?thesis using assms(2) [of w a w'] m by (simp add: bind_def no_panic_def)
  next
    case (Panic q)
    then show ?thesis using assms(1) m unfolding no_panic_def by (metis fst_conv)
  qed (use m in \<open>simp add: bind_def\<close>)
qed

lemma no_panic_bind [no_panic_intros]: "no_panic m \<Longrightarrow> (\<And>a. no_panic (f a)) \<Longrightarrow> no_panic (bind m f)"
  by (rule no_panic_bind_ok)

lemma no_panic_wrapping [no_panic_intros]: "no_panic m \<Longrightarrow> no_panic (wrapping s m)"
  unfolding no_panic_def wrapping_def by (auto split: prod.splits) (metis fst_conv)+

lemma no_panic_attempt [no_panic_intros]: "no_panic m \<Longrightarrow> no_panic (attempt m)"
  unfolding no_panic_def attempt_def by (auto split: prod.splits result.splits) (metis fst_conv)+

lemma no_panic_if [no_panic_intros]: "(c \<Longrightarrow> no_panic m) \<Longrightarrow> (\<not> c \<Longrightarrow> no_panic n) \<Longrightarrow> no_panic (if c then m else n)"
  by simp

lemma no_panic_option [no_panic_intros]:
  "(x = None \<Longrightarrow> no_panic m) \<Longrightarrow> (\<And>a. x = Some a \<Longrightarrow> no_panic (f a)) \<Longrightarrow>
     no_panic (case x of None \<Rightarrow> m | Some a \<Rightarrow> f a)"
  by (cases x) auto

lemma no_panic_sum [no_panic_intros]:
  "(\<And>e. x = Inl e \<Longrightarrow> no_panic (f e)) \<Longrightarrow> (\<And>a. x = Inr a \<Longrightarrow> no_panic (g a)) \<Longrightarrow>
     no_panic (case x of Inl e \<Rightarrow> f e | Inr a \<Rightarrow> g a)"
  by (cases x) auto

lemma no_panic_prod [no_panic_intros]:
  "(\<And>a b. x = (a, b) \<Longrightarrow> no_panic (f a b)) \<Longrightarrow> no_panic (case x of (a, b) \<Rightarrow> f a b)"
  by (cases x) auto

lemma no_panic_execute: "no_panic m \<Longrightarrow> execute m \<noteq> Panic p"
  by (simp add: no_panic_def execute_def)

subsection \<open>Quiet environments\<close>

text \<open>An environment in which every call succeeds, for evaluating the model.\<close>

definition sample_env :: env where
  "sample_env = \<lparr>e_call = (\<lambda>h e. None), e_nil = (\<lambda>h e. Panic nil_deref), e_cluster = (\<lambda>h ns. Inr sample_cluster),
     e_extension = (\<lambda>h ns n. Inl (NotFound n)), e_secret = (\<lambda>h ns n. (None, [''privateKey'' \<mapsto> ''KEY''])),
     e_gardens = (\<lambda>h. Inr [\<lparr>ga_VirtualDomains = [''virtual.example.com''],
        ga_IngressDomains = [''runtime.example.com''], ga_DNSProviders = Some [(''aws-route53'', ''dns-secret'')]\<rparr>]),
     e_extensions = (\<lambda>h ns. Inr []), e_issuers = (\<lambda>h ns. Inr []), e_patch = (\<lambda>h ns n. PatchWrites [] None),
     e_seed = (\<lambda>h n. Inr \<lparr>sd_Name = n, sd_IngressDomain = Some ''ingress.example.com'',
        sd_DNSProvider = Some (''aws-route53'', Some ''credentials'')\<rparr>),
     e_health = (\<lambda>h ns n. Inr (''True'', '''')), e_now = (\<lambda>h. 0), e_getenv = (\<lambda>n. ''cert-ns'')\<rparr>"

lemma sample_env_simps [simp]:
  "e_call sample_env h e = None" "e_cluster sample_env h ns = Inr sample_cluster"
  "e_extension sample_env h ns n = Inl (NotFound n)"
  "e_secret sample_env h ns n = (None, [''privateKey'' \<mapsto> ''KEY''])"
  "e_extensions sample_env h ns = Inr []" "e_issuers sample_env h ns = Inr []"
  "e_patch sample_env h ns n = PatchWrites [] None" "e_now sample_env h = 0" "e_getenv sample_env n = ''cert-ns''"
  "e_health sample_env h ns n = Inr (''True'', '''')"
  by (simp_all add: sample_env_def)

lemma sample_cluster_simps [simp]:
  "cl_Shoot sample_cluster = Some sample_shoot" "\<not> cl_IsHibernated sample_cluster"
  by (simp_all add: sample_cluster_def)


end
