(* ===== verification/Deployer_Ops.thy ===== *)
theory Deployer_Ops
  imports Deployer_Objects World
begin

text \<open>
  The operations of the deployer that talk to the API server (\<open>deployer_seed.go\<close>,
  \<open>deployer_shoot.go\<close>, \<open>deployer_gardenorseed.go\<close>): they build the objects, check the secrets the
  issuers refer to, and create, delete and drop the managed resources.
\<close>

subsection \<open>Checking the secrets of the issuers\<close>

text \<open>The errors of one check are collected, not returned: the body of \<open>validateACMEIssuerSecret\<close>.\<close>

definition checkPrivateKeySecret ::
    "env \<Rightarrow> deploy_extern \<Rightarrow> Values \<Rightarrow> string \<Rightarrow> string \<Rightarrow> goerr list io" where
  "checkPrivateKeySecret E D v issuerName secretName =
    bind (call (GetSecret (vl_Namespace v) secretName) (\<lambda>h. Inr (e_secret E h (vl_Namespace v) secretName)))
    (\<lambda>(err, data).
    ret ((case err of None \<Rightarrow> []
          | Some e \<Rightarrow> [Wrap (''failed to read secret for issuer '' @ issuerName) e])
       @ (case validateSecretDataKeys D data of None \<Rightarrow> []
          | Some e \<Rightarrow> [Wrap (''failed to validate ACME private key secret for issuer '' @ issuerName) e])))"

text \<open>An error of \<open>NewHandlerSupport\<close> is collected as well: the next call is then made on a nil pointer.\<close>

definition checkEABSecret ::
    "env \<Rightarrow> Values \<Rightarrow> string \<Rightarrow> ExternalAccountBinding \<Rightarrow> goerr list io" where
  "checkEABSecret E v issuerName eab =
    (let LoadKey = LoadEABHmacKey (vl_Namespace v) issuerName (eb_KeyID eab) (eb_KeySecretName eab) in
    bind (attempt (invoke E (NewHandlerSupport (vl_Namespace v)))) (\<lambda>support.
    bind (attempt (case support of Inl _ \<Rightarrow> invoke_nil E LoadKey | Inr _ \<Rightarrow> invoke E LoadKey)) (\<lambda>load.
    ret ((case support of Inl e \<Rightarrow> [Wrap ''failed to create support for EAB key secret validation'' e] | Inr _ \<Rightarrow> [])
       @ (case load of Inl e \<Rightarrow> [Wrap (''failed to validate EAB key secret for issuer '' @ issuerName) e] | Inr _ \<Rightarrow> [])))))"

definition validateACMEIssuerSecret ::
    "env \<Rightarrow> deploy_extern \<Rightarrow> Values \<Rightarrow> string \<Rightarrow> ACME \<Rightarrow> goerr list io" where
  "validateACMEIssuerSecret E D v issuerName acme =
    bind (if ac_PrivateKeySecretName acme \<noteq> ''''
          then checkPrivateKeySecret E D v issuerName (ac_PrivateKeySecretName acme) else ret []) (\<lambda>errs1.
    bind (case ac_ExternalAccountBinding acme of
            None \<Rightarrow> ret []
          | Some eab \<Rightarrow> (if eb_KeySecretName eab \<noteq> '''' then checkEABSecret E v issuerName eab else ret [])) (\<lambda>errs2.
    ret (errs1 @ errs2)))"

fun validateIssuerSecretsLoop ::
    "env \<Rightarrow> deploy_extern \<Rightarrow> Values \<Rightarrow> Issuer list \<Rightarrow> goerr list \<Rightarrow> goerr list io" where
  "validateIssuerSecretsLoop E D v [] errs = ret errs"
| "validateIssuerSecretsLoop E D v (issuer # issuers) errs =
    (case i_ACME issuer of
       None \<Rightarrow> validateIssuerSecretsLoop E D v issuers errs
     | Some acme \<Rightarrow>
         bind (validateACMEIssuerSecret E D v (i_Name issuer) acme) (\<lambda>more.
         validateIssuerSecretsLoop E D v issuers (errs @ more)))"

definition validateIssuerSecrets :: "env \<Rightarrow> deploy_extern \<Rightarrow> Values \<Rightarrow> Issuer list \<Rightarrow> unit io" where
  "validateIssuerSecrets E D v issuers =
    bind (validateIssuerSecretsLoop E D v issuers []) (\<lambda>errs. pure_res (res_of (errors_Join errs)))"

subsection \<open>Deploying\<close>

definition DeployShootManagedResource :: "env \<Rightarrow> extern \<Rightarrow> deploy_extern \<Rightarrow> Values \<Rightarrow> unit io" where
  "DeployShootManagedResource E X D v =
    (if \<not> vl_ShootDeployment v then fail (ErrMsg ''only supported for shoot deployment'')
     else
       bind (pure_res (shootObjects X D v)) (\<lambda>objects.
       bind (pure_res (lib (AddAllAndSerialize D objects))) (\<lambda>data.
       invoke E (CreateManagedResource (vl_Namespace v) CertManagementResourceNameShoot '''' data False))))"

definition DeploySeedManagedResource :: "env \<Rightarrow> extern \<Rightarrow> deploy_extern \<Rightarrow> Values \<Rightarrow> unit io" where
  "DeploySeedManagedResource E X D v =
    (if \<not> vl_ShootDeployment v then fail (ErrMsg ''only supported for shoot deployment'')
     else
       bind (pure_res (seedObjects X D v)) (\<lambda>(objects, issuers).
       bind (pure_res (lib (AddAllAndSerialize D objects))) (\<lambda>data.
       bind (wrapping ''failed to validate issuer secrets'' (validateIssuerSecrets E D v issuers)) (\<lambda>_.
       invoke E (CreateManagedResource (vl_Namespace v) CertManagementResourceNameSeed
         (SeedResourceManagerClass X) data False)))))"

definition DeployGardenOrSeedManagedResource :: "env \<Rightarrow> extern \<Rightarrow> deploy_extern \<Rightarrow> Values \<Rightarrow> unit io" where
  "DeployGardenOrSeedManagedResource E X D v =
    (if vl_ShootDeployment v then fail (ErrMsg ''not supported for shoot deployment'')
     else
       bind (pure_res (gardenOrSeedObjects X D v)) (\<lambda>(objects, issuers).
       bind (pure_res (lib (AddAllAndSerialize D objects))) (\<lambda>data.
       bind (wrapping ''failed to validate issuer secrets'' (validateIssuerSecrets E D v issuers)) (\<lambda>_.
       invoke E (CreateManagedResource (vl_Namespace v) (resourceNameGardenOrSeed v)
         (SeedResourceManagerClass X) data False)))))"

subsection \<open>Deleting\<close>

definition deleteAndWait :: "env \<Rightarrow> string \<Rightarrow> string \<Rightarrow> int \<Rightarrow> unit io" where
  "deleteAndWait E ns name timeout =
    bind (invoke E (DeleteManagedResource ns name)) (\<lambda>_. invoke E (WaitUntilDeleted ns name timeout))"

definition DeleteSeedManagedResourceAndWait :: "env \<Rightarrow> Values \<Rightarrow> int \<Rightarrow> unit io" where
  "DeleteSeedManagedResourceAndWait E v timeout =
    bind (invoke E (DeleteSecret (vl_Namespace v) shootAccessSecretName)) (\<lambda>_.
    deleteAndWait E (vl_Namespace v) CertManagementResourceNameSeed timeout)"

definition DeleteShootManagedResourceAndWait :: "env \<Rightarrow> Values \<Rightarrow> int \<Rightarrow> unit io" where
  "DeleteShootManagedResourceAndWait E v timeout =
    (if \<not> vl_ShootDeployment v then fail (ErrMsg ''only supported for shoot deployment'')
     else deleteAndWait E (vl_Namespace v) CertManagementResourceNameShoot timeout)"

definition DeleteGardenOrSeedManagedResourceAndWait :: "env \<Rightarrow> Values \<Rightarrow> int \<Rightarrow> unit io" where
  "DeleteGardenOrSeedManagedResourceAndWait E v timeout =
    deleteAndWait E (vl_Namespace v) (resourceNameGardenOrSeed v) timeout"

text \<open>Dropping the managed resource removes its finalizers.\<close>

definition DropShootManagedResource :: "env \<Rightarrow> Values \<Rightarrow> unit io" where
  "DropShootManagedResource E v =
    (if \<not> vl_ShootDeployment v then fail (ErrMsg ''only supported for shoot deployment'')
     else
       bind (invoke E (GetManagedResource (vl_Namespace v) CertManagementResourceNameShoot)) (\<lambda>_.
       invoke E (PatchManagedResourceFinalizers (vl_Namespace v) CertManagementResourceNameShoot [])))"

subsection \<open>The image\<close>

definition PrepareCertManagementImage :: "deploy_extern \<Rightarrow> string result" where
  "PrepareCertManagementImage D =
    rbind (wrap_err (''failed to find image version for '' @ CertManagementImageName)
             (lib (findImages D [CertManagementImageName]))) (\<lambda>images.
    (case images CertManagementImageName of
       None \<Rightarrow> Error (ErrMsg (''failed to find image version for '' @ CertManagementImageName))
     | Some img \<Rightarrow> Ok img))"

subsection \<open>The life of a managed resource\<close>

text \<open>Whether a managed resource is wanted, by the last call that created or deleted it.\<close>

fun mr_step :: "string \<times> string \<Rightarrow> bool \<Rightarrow> event \<Rightarrow> bool" where
  "mr_step k b (CreateManagedResource ns n _ _ _) = (if (ns, n) = k then True else b)"
| "mr_step k b (DeleteManagedResource ns n) = (if (ns, n) = k then False else b)"
| "mr_step k b _ = b"

definition mr_wanted :: "string \<times> string \<Rightarrow> bool \<Rightarrow> event list \<Rightarrow> bool" where
  "mr_wanted k b h = foldl (mr_step k) b h"

lemma mr_wanted_append: "mr_wanted k b (h @ h') = mr_wanted k (mr_wanted k b h) h'"
  by (simp add: mr_wanted_def)

text \<open>The only change an event makes, if any, is to create (to delete) the managed resource \<open>k\<close>.\<close>

fun creates_only :: "string \<times> string \<Rightarrow> event \<Rightarrow> bool" where
  "creates_only k (CreateManagedResource ns n _ _ _) = ((ns, n) = k)"
| "creates_only k e = (\<not> is_write e)"

fun deletes_only :: "string \<times> string \<Rightarrow> event \<Rightarrow> bool" where
  "deletes_only k (CreateManagedResource _ _ _ _ _) = False"
| "deletes_only k (DeleteManagedResource ns n) = ((ns, n) = k)"
| "deletes_only k (DeleteSecret ns _) = (ns = fst k)"
| "deletes_only k e = (\<not> is_write e)"

lemma mr_wanted_creates_only: "list_all (creates_only k) evs \<Longrightarrow> b \<Longrightarrow> mr_wanted k b evs"
proof (induction evs arbitrary: b)
  case Nil
  then show ?case by (simp add: mr_wanted_def)
next
  case (Cons e evs)
  then have "mr_step k b e" by (cases e) auto
  with Cons show ?case by (simp add: mr_wanted_def)
qed

text \<open>
  The contract between the actuators and the deployer: deploying succeeds only by creating the
  managed resource, as its last and only change; removing it deletes it and waits.
\<close>

definition deploys :: "string \<times> string \<Rightarrow> unit io \<Rightarrow> bool" where
  "deploys k m \<longleftrightarrow> (\<forall>w b. case m w of
       (Ok _, w') \<Rightarrow> mr_wanted k b (trace w')
     | (_, w') \<Rightarrow> (mr_wanted k b (trace w) \<longrightarrow> mr_wanted k b (trace w')))"

definition removes :: "string \<times> string \<Rightarrow> unit io \<Rightarrow> bool" where
  "removes k m \<longleftrightarrow> (\<forall>w b. case m w of (Ok _, w') \<Rightarrow> \<not> mr_wanted k b (trace w') | _ \<Rightarrow> True)"

locale managed_resource =
  fixes deploy :: "unit io" and remove :: "unit io" and key :: "string \<times> string"
  assumes deploy_success: "deploy w = (Ok (), w') \<Longrightarrow>
      \<exists>evs cls data keep. trace w' = trace w @ evs @ [CreateManagedResource (fst key) (snd key) cls data keep]"
    and deploy_only: "emits (creates_only key) deploy"
    and remove_success: "remove w = (Ok (), w') \<Longrightarrow>
      \<exists>evs t. trace w' = trace w @ evs @ [DeleteManagedResource (fst key) (snd key), WaitUntilDeleted (fst key) (snd key) t]"
    and remove_only: "emits (deletes_only key) remove"
begin

lemma wanted_after_deploy: "deploy w = (Ok (), w') \<Longrightarrow> mr_wanted key b (trace w')"
  using deploy_success [of w w'] by (auto simp: mr_wanted_append) (simp add: mr_wanted_def)

lemma unwanted_after_remove: "remove w = (Ok (), w') \<Longrightarrow> \<not> mr_wanted key b (trace w')"
  using remove_success [of w w'] by (auto simp: mr_wanted_append) (simp add: mr_wanted_def)

text \<open>Deploying again, successfully or not, never takes the managed resource away.\<close>

lemma deploy_keeps:
  assumes "mr_wanted key b (trace w)"
  shows "mr_wanted key b (trace (snd (deploy w)))"
proof -
  obtain evs where "trace (snd (deploy w)) = trace w @ evs" "list_all (creates_only key) evs"
    using deploy_only unfolding emits_def by blast
  then show ?thesis using assms by (simp add: mr_wanted_append mr_wanted_creates_only)
qed

lemma deploys_deploy: "deploys key deploy"
  unfolding deploys_def
proof (intro allI)
  fix w b
  show "case deploy w of (Ok _, w') \<Rightarrow> mr_wanted key b (trace w')
     | (_, w') \<Rightarrow> (mr_wanted key b (trace w) \<longrightarrow> mr_wanted key b (trace w'))"
    using wanted_after_deploy [of w _ b] deploy_keeps [of b w]
    by (cases "deploy w") (auto split: result.splits)
qed

lemma removes_remove: "removes key remove"
  using unwanted_after_remove by (auto simp: removes_def split: prod.splits result.splits)

end

lemma emits_validateACMEIssuerSecret [appends_intros]:
  assumes "\<And>n. P (GetSecret (vl_Namespace v) n)" "P (NewHandlerSupport (vl_Namespace v))"
    "\<And>i k n. P (LoadEABHmacKey (vl_Namespace v) i k n)"
  shows "emits P (validateACMEIssuerSecret E D v issuerName acme)"
  unfolding validateACMEIssuerSecret_def checkPrivateKeySecret_def checkEABSecret_def Let_def
  by (intro appends_intros assms)

lemma emits_validateIssuerSecrets [appends_intros]:
  assumes "\<And>n. P (GetSecret (vl_Namespace v) n)" "P (NewHandlerSupport (vl_Namespace v))"
    "\<And>i k n. P (LoadEABHmacKey (vl_Namespace v) i k n)"
  shows "emits P (validateIssuerSecrets E D v issuers)"
proof -
  have "emits P (validateIssuerSecretsLoop E D v issuers errs)" for errs
    by (induction issuers arbitrary: errs) (auto split: option.splits intro!: appends_intros assms)
  then show ?thesis
    unfolding validateIssuerSecrets_def by (intro appends_intros)
qed

lemma emits_deploy [appends_intros]:
  assumes "\<And>d. P (CreateManagedResource (vl_Namespace v) n c d False)"
    "\<And>n. P (GetSecret (vl_Namespace v) n)" "P (NewHandlerSupport (vl_Namespace v))"
    "\<And>i k n. P (LoadEABHmacKey (vl_Namespace v) i k n)"
  shows "n = CertManagementResourceNameShoot \<Longrightarrow> c = '''' \<Longrightarrow> emits P (DeployShootManagedResource E X D v)"
    and "n = CertManagementResourceNameSeed \<Longrightarrow> c = SeedResourceManagerClass X \<Longrightarrow>
      emits P (DeploySeedManagedResource E X D v)"
    and "n = resourceNameGardenOrSeed v \<Longrightarrow> c = SeedResourceManagerClass X \<Longrightarrow>
      emits P (DeployGardenOrSeedManagedResource E X D v)"
  using assms unfolding DeployShootManagedResource_def DeploySeedManagedResource_def
    DeployGardenOrSeedManagedResource_def
  by (intro appends_intros; simp)+

lemma emits_deleteAndWait [appends_intros]:
  "P (DeleteManagedResource ns n) \<Longrightarrow> P (WaitUntilDeleted ns n t) \<Longrightarrow> emits P (deleteAndWait E ns n t)"
  unfolding deleteAndWait_def by (intro appends_intros)


text \<open>Creating is the last call of a successful deployment, and is preceded by checks only.\<close>

lemma DeployShoot_success:
  assumes "DeployShootManagedResource E X D v w = (Ok (), w')"
  obtains objs data where "vl_ShootDeployment v" "shootObjects X D v = Ok objs" "AddAllAndSerialize D objs = Inr data"
    "trace w' = trace w @ [CreateManagedResource (vl_Namespace v) CertManagementResourceNameShoot '''' data False]"
  using assms
  by (auto simp: DeployShootManagedResource_def ok_iffs split: if_splits)

text \<open>A check of a secret, in the namespace.\<close>

fun secret_check :: "string \<Rightarrow> event \<Rightarrow> bool" where
  "secret_check ns (GetSecret ns' _) = (ns' = ns)"
| "secret_check ns (NewHandlerSupport ns') = (ns' = ns)"
| "secret_check ns (LoadEABHmacKey ns' _ _ _) = (ns' = ns)"
| "secret_check ns _ = False"

lemma validateIssuerSecrets_checks:
  assumes "validateIssuerSecrets E D v is w = (r, w')"
  shows "\<exists>evs. trace w' = trace w @ evs \<and> list_all (secret_check (vl_Namespace v)) evs"
  by (rule emitsD [OF emits_validateIssuerSecrets assms]) simp_all

lemma DeploySeed_success:
  assumes "DeploySeedManagedResource E X D v w = (Ok (), w')"
  obtains objs "is" data evs w1 where "vl_ShootDeployment v" "seedObjects X D v = Ok (objs, is)"
    "AddAllAndSerialize D objs = Inr data"
    "validateIssuerSecrets E D v is w = (Ok (), w1)" "list_all (secret_check (vl_Namespace v)) evs"
    "trace w1 = trace w @ evs"
    "trace w' = trace w @ evs @ [CreateManagedResource (vl_Namespace v) CertManagementResourceNameSeed
       (SeedResourceManagerClass X) data False]"
proof -
  obtain objs "is" data w1 where 1: "vl_ShootDeployment v" "seedObjects X D v = Ok (objs, is)"
    "AddAllAndSerialize D objs = Inr data" and w1: "validateIssuerSecrets E D v is w = (Ok (), w1)"
    and t: "trace w' = trace w1 @ [CreateManagedResource (vl_Namespace v) CertManagementResourceNameSeed
       (SeedResourceManagerClass X) data False]"
    using assms by (auto simp: DeploySeedManagedResource_def ok_iffs split: if_splits)
  obtain evs where "trace w1 = trace w @ evs" "list_all (secret_check (vl_Namespace v)) evs"
    using validateIssuerSecrets_checks [OF w1] by blast
  with 1 w1 t show ?thesis using that by auto
qed

lemma DeployGardenOrSeed_success:
  assumes "DeployGardenOrSeedManagedResource E X D v w = (Ok (), w')"
  obtains objs "is" data evs w1 where "\<not> vl_ShootDeployment v" "gardenOrSeedObjects X D v = Ok (objs, is)"
    "AddAllAndSerialize D objs = Inr data"
    "validateIssuerSecrets E D v is w = (Ok (), w1)" "list_all (secret_check (vl_Namespace v)) evs"
    "trace w1 = trace w @ evs"
    "trace w' = trace w @ evs @ [CreateManagedResource (vl_Namespace v) (resourceNameGardenOrSeed v)
       (SeedResourceManagerClass X) data False]"
proof -
  obtain objs "is" data w1 where 1: "\<not> vl_ShootDeployment v" "gardenOrSeedObjects X D v = Ok (objs, is)"
    "AddAllAndSerialize D objs = Inr data" and w1: "validateIssuerSecrets E D v is w = (Ok (), w1)"
    and t: "trace w' = trace w1 @ [CreateManagedResource (vl_Namespace v) (resourceNameGardenOrSeed v)
       (SeedResourceManagerClass X) data False]"
    using assms by (auto simp: DeployGardenOrSeedManagedResource_def ok_iffs split: if_splits)
  obtain evs where "trace w1 = trace w @ evs" "list_all (secret_check (vl_Namespace v)) evs"
    using validateIssuerSecrets_checks [OF w1] by blast
  with 1 w1 t show ?thesis using that by auto
qed

lemma deleteAndWait_success:
  "deleteAndWait E ns n t w = (Ok (), w') \<Longrightarrow>
     trace w' = trace w @ [DeleteManagedResource ns n, WaitUntilDeleted ns n t]"
  by (auto simp: deleteAndWait_def ok_iffs)

interpretation shoot_mr: managed_resource "DeployShootManagedResource E X D v"
  "DeleteShootManagedResourceAndWait E v t" "(vl_Namespace v, CertManagementResourceNameShoot)"
  for E :: env and X :: extern and D :: deploy_extern and v :: Values and t :: int
proof unfold_locales
  fix w w'
  show "DeployShootManagedResource E X D v w = (Ok (), w') \<Longrightarrow> \<exists>evs cls data keep. trace w' = trace w @ evs
      @ [CreateManagedResource (fst (vl_Namespace v, CertManagementResourceNameShoot))
           (snd (vl_Namespace v, CertManagementResourceNameShoot)) cls data keep]"
    by (erule DeployShoot_success) auto
  show "DeleteShootManagedResourceAndWait E v t w = (Ok (), w') \<Longrightarrow> \<exists>evs t. trace w' = trace w @ evs
      @ [DeleteManagedResource (fst (vl_Namespace v, CertManagementResourceNameShoot))
           (snd (vl_Namespace v, CertManagementResourceNameShoot)),
         WaitUntilDeleted (fst (vl_Namespace v, CertManagementResourceNameShoot))
           (snd (vl_Namespace v, CertManagementResourceNameShoot)) t]"
    by (auto simp: DeleteShootManagedResourceAndWait_def fail_def dest!: deleteAndWait_success split: if_splits)
  show "emits (creates_only (vl_Namespace v, CertManagementResourceNameShoot)) (DeployShootManagedResource E X D v)"
    by (rule emits_deploy) simp_all
  show "emits (deletes_only (vl_Namespace v, CertManagementResourceNameShoot)) (DeleteShootManagedResourceAndWait E v t)"
    unfolding DeleteShootManagedResourceAndWait_def by (intro appends_intros) simp_all
qed

interpretation seed_mr: managed_resource "DeploySeedManagedResource E X D v"
  "DeleteSeedManagedResourceAndWait E v t" "(vl_Namespace v, CertManagementResourceNameSeed)"
  for E :: env and X :: extern and D :: deploy_extern and v :: Values and t :: int
proof unfold_locales
  fix w w'
  show "DeploySeedManagedResource E X D v w = (Ok (), w') \<Longrightarrow> \<exists>evs cls data keep. trace w' = trace w @ evs
      @ [CreateManagedResource (fst (vl_Namespace v, CertManagementResourceNameSeed))
           (snd (vl_Namespace v, CertManagementResourceNameSeed)) cls data keep]"
    by (erule DeploySeed_success) auto
  show "DeleteSeedManagedResourceAndWait E v t w = (Ok (), w') \<Longrightarrow> \<exists>evs t. trace w' = trace w @ evs
      @ [DeleteManagedResource (fst (vl_Namespace v, CertManagementResourceNameSeed))
           (snd (vl_Namespace v, CertManagementResourceNameSeed)),
         WaitUntilDeleted (fst (vl_Namespace v, CertManagementResourceNameSeed))
           (snd (vl_Namespace v, CertManagementResourceNameSeed)) t]"
    by (auto simp: DeleteSeedManagedResourceAndWait_def ok_iffs dest!: deleteAndWait_success)
  show "emits (creates_only (vl_Namespace v, CertManagementResourceNameSeed)) (DeploySeedManagedResource E X D v)"
    by (rule emits_deploy) simp_all
  show "emits (deletes_only (vl_Namespace v, CertManagementResourceNameSeed)) (DeleteSeedManagedResourceAndWait E v t)"
    unfolding DeleteSeedManagedResourceAndWait_def by (intro appends_intros) simp_all
qed

interpretation garden_mr: managed_resource "DeployGardenOrSeedManagedResource E X D v"
  "DeleteGardenOrSeedManagedResourceAndWait E v t" "(vl_Namespace v, resourceNameGardenOrSeed v)"
  for E :: env and X :: extern and D :: deploy_extern and v :: Values and t :: int
proof unfold_locales
  fix w w'
  show "DeployGardenOrSeedManagedResource E X D v w = (Ok (), w') \<Longrightarrow> \<exists>evs cls data keep. trace w' = trace w @ evs
      @ [CreateManagedResource (fst (vl_Namespace v, resourceNameGardenOrSeed v))
           (snd (vl_Namespace v, resourceNameGardenOrSeed v)) cls data keep]"
    by (erule DeployGardenOrSeed_success) auto
  show "DeleteGardenOrSeedManagedResourceAndWait E v t w = (Ok (), w') \<Longrightarrow> \<exists>evs t. trace w' = trace w @ evs
      @ [DeleteManagedResource (fst (vl_Namespace v, resourceNameGardenOrSeed v))
           (snd (vl_Namespace v, resourceNameGardenOrSeed v)),
         WaitUntilDeleted (fst (vl_Namespace v, resourceNameGardenOrSeed v))
           (snd (vl_Namespace v, resourceNameGardenOrSeed v)) t]"
    by (auto simp: DeleteGardenOrSeedManagedResourceAndWait_def dest!: deleteAndWait_success)
  show "emits (creates_only (vl_Namespace v, resourceNameGardenOrSeed v)) (DeployGardenOrSeedManagedResource E X D v)"
    by (rule emits_deploy) simp_all
  show "emits (deletes_only (vl_Namespace v, resourceNameGardenOrSeed v)) (DeleteGardenOrSeedManagedResourceAndWait E v t)"
    unfolding DeleteGardenOrSeedManagedResourceAndWait_def by (intro appends_intros) simp_all
qed


subsection \<open>No panics\<close>

text \<open>
  Support for the check of an external account binding can be created, or the check of the key may be
  called without it.
\<close>

definition support_safe :: "env \<Rightarrow> bool" where
  "support_safe E \<longleftrightarrow> (\<forall>h ns. e_call E h (NewHandlerSupport ns) = None)
     \<or> (\<forall>h ns i k n p. e_nil E h (LoadEABHmacKey ns i k n) \<noteq> Panic p)"

text \<open>An issuer whose external account binding, if it has any, does not refer to a secret.\<close>

definition no_eab_secret :: "Issuer \<Rightarrow> bool" where
  "no_eab_secret i \<longleftrightarrow> (\<forall>a eab. i_ACME i = Some a \<longrightarrow> ac_ExternalAccountBinding a = Some eab \<longrightarrow> eb_KeySecretName eab = '''')"

lemma no_panic_checkEABSecret:
  assumes "support_safe E"
  shows "no_panic (checkEABSecret E v n eab)"
  unfolding checkEABSecret_def Let_def
proof (rule no_panic_bind_ok, intro no_panic_intros)
  fix support w w'
  assume "attempt (invoke E (NewHandlerSupport (vl_Namespace v))) w = (Ok support, w')"
  then have "support = Inr () \<or> (\<forall>h ns i k n p. e_nil E h (LoadEABHmacKey ns i k n) \<noteq> Panic p)"
    using assms by (auto simp: support_safe_def attempt_Ok_iff invoke_run)
  then have "no_panic (case support of Inl _ \<Rightarrow> invoke_nil E (LoadEABHmacKey (vl_Namespace v) n (eb_KeyID eab) (eb_KeySecretName eab))
      | Inr _ \<Rightarrow> invoke E (LoadEABHmacKey (vl_Namespace v) n (eb_KeyID eab) (eb_KeySecretName eab)))"
    by (cases support) (auto simp: no_panic_basic, simp add: no_panic_def invoke_nil_run)
  then show "no_panic (bind (attempt (case support of
         Inl _ \<Rightarrow> invoke_nil E (LoadEABHmacKey (vl_Namespace v) n (eb_KeyID eab) (eb_KeySecretName eab))
       | Inr _ \<Rightarrow> invoke E (LoadEABHmacKey (vl_Namespace v) n (eb_KeyID eab) (eb_KeySecretName eab)))) (\<lambda>load.
    ret ((case support of Inl e \<Rightarrow> [Wrap ''failed to create support for EAB key secret validation'' e] | Inr _ \<Rightarrow> [])
       @ (case load of Inl e \<Rightarrow> [Wrap (''failed to validate EAB key secret for issuer '' @ n) e] | Inr _ \<Rightarrow> []))))"
    by (rule no_panic_bind [OF no_panic_attempt]) (intro no_panic_intros)
qed

lemma no_panic_validateACMEIssuerSecret:
  assumes "support_safe E \<or> (\<forall>eab. ac_ExternalAccountBinding a = Some eab \<longrightarrow> eb_KeySecretName eab = '''')"
  shows "no_panic (validateACMEIssuerSecret E D v n a)"
proof -
  have "no_panic (case ac_ExternalAccountBinding a of None \<Rightarrow> ret []
      | Some eab \<Rightarrow> (if eb_KeySecretName eab \<noteq> '''' then checkEABSecret E v n eab else ret []))"
    using assms by (intro no_panic_intros) (auto intro: no_panic_checkEABSecret)
  then show ?thesis
    unfolding validateACMEIssuerSecret_def checkPrivateKeySecret_def
    by (rule no_panic_bind [rotated, OF no_panic_bind]) (intro no_panic_intros)+
qed

lemma no_panic_validateIssuerSecrets:
  assumes "support_safe E \<or> list_all no_eab_secret is"
  shows "no_panic (validateIssuerSecrets E D v is)"
proof -
  have "no_panic (validateIssuerSecretsLoop E D v is errs)" for errs
    using assms
  proof (induction "is" arbitrary: errs)
    case (Cons i "is")
    then show ?case
      by (auto split: option.splits intro!: no_panic_bind no_panic_validateACMEIssuerSecret simp: no_eab_secret_def)
  qed (simp add: no_panic_basic)
  then show ?thesis
    unfolding validateIssuerSecrets_def by (intro no_panic_intros) simp_all
qed

lemma no_panic_DeployShoot [no_panic_intros]: "no_panic (DeployShootManagedResource E X D v)"
  unfolding DeployShootManagedResource_def
  by (intro no_panic_intros) (simp_all add: shootObjects_no_panic)

lemma no_panic_DeploySeed: "support_safe E \<Longrightarrow> no_panic (DeploySeedManagedResource E X D v)"
  unfolding DeploySeedManagedResource_def
  by (intro no_panic_intros no_panic_validateIssuerSecrets) (simp_all add: seedObjects_no_panic)

text \<open>A garden or seed has the extension's own issuer only, which has no external account binding.\<close>

lemma no_panic_DeployGardenOrSeed [no_panic_intros]:
  assumes "assets_law D"
  shows "no_panic (DeployGardenOrSeedManagedResource E X D v)"
proof -
  have "no_panic (bind (pure_res (gardenOrSeedObjects X D v)) (\<lambda>(objects, issuers).
       bind (pure_res (lib (AddAllAndSerialize D objects))) (\<lambda>data.
       bind (wrapping ''failed to validate issuer secrets'' (validateIssuerSecrets E D v issuers)) (\<lambda>_.
       invoke E (CreateManagedResource (vl_Namespace v) (resourceNameGardenOrSeed v) (SeedResourceManagerClass X) data False)))))"
    if "\<not> vl_ShootDeployment v"
  proof (rule no_panic_bind_ok)
    show "no_panic (pure_res (gardenOrSeedObjects X D v))"
      by (intro no_panic_intros) (simp add: gardenOrSeedObjects_no_panic assms)
    fix r :: "client_object list \<times> Issuer list" and w w' :: world
    assume "pure_res (gardenOrSeedObjects X D v) w = (Ok r, w')"
    then obtain objs "is" where r: "r = (objs, is)" "gardenOrSeedObjects X D v = Ok (objs, is)"
      by (cases r) (auto simp: basic_Ok_iff)
    then obtain iobjs where "createIssuers v = Ok (iobjs, is)"
      by (auto simp: gardenOrSeedObjects_def rbind_Ok_iff simp del: removeNilObjects.simps)
    then have "is = [gardenIssuer v]"
      using that createIssuers_OkD by (fastforce simp: collectIssuers_def)
    then have "list_all no_eab_secret is"
      by (auto simp: no_eab_secret_def gardenIssuer_def)
    then show "no_panic (case r of (objects, issuers) \<Rightarrow>
       bind (pure_res (lib (AddAllAndSerialize D objects))) (\<lambda>data.
       bind (wrapping ''failed to validate issuer secrets'' (validateIssuerSecrets E D v issuers)) (\<lambda>_.
       invoke E (CreateManagedResource (vl_Namespace v) (resourceNameGardenOrSeed v) (SeedResourceManagerClass X) data False))))"
      unfolding r(1) prod.case by (intro no_panic_intros no_panic_validateIssuerSecrets) simp_all
  qed
  then show ?thesis
    unfolding DeployGardenOrSeedManagedResource_def by (intro no_panic_if no_panic_basic) simp
qed

lemma no_panic_deletions [no_panic_intros]:
  "no_panic (deleteAndWait E ns n t)" "no_panic (DeleteSeedManagedResourceAndWait E v t)"
  "no_panic (DeleteShootManagedResourceAndWait E v t)" "no_panic (DeleteGardenOrSeedManagedResourceAndWait E v t)"
  "no_panic (DropShootManagedResource E v)"
  unfolding DeleteSeedManagedResourceAndWait_def DeleteShootManagedResourceAndWait_def
    DeleteGardenOrSeedManagedResourceAndWait_def DropShootManagedResource_def deleteAndWait_def
  by (intro no_panic_intros)+

lemma PrepareCertManagementImage_no_panic: "PrepareCertManagementImage D \<noteq> Panic p"
  by (auto simp: PrepareCertManagementImage_def rbind_Panic_iff split: option.splits)

subsection \<open>What a successful check of the secrets means\<close>

definition key_secret_valid :: "env \<Rightarrow> deploy_extern \<Rightarrow> string \<Rightarrow> history \<Rightarrow> string \<Rightarrow> bool" where
  "key_secret_valid E D ns tr n \<longleftrightarrow> (\<exists>h r data. tr = h @ GetSecret ns n # r
     \<and> e_secret E h ns n = (None, data) \<and> validateSecretDataKeys D data = None)"

definition eab_secret_valid :: "env \<Rightarrow> string \<Rightarrow> history \<Rightarrow> string \<Rightarrow> ExternalAccountBinding \<Rightarrow> bool" where
  "eab_secret_valid E ns tr i eab \<longleftrightarrow> (\<exists>h r. tr = h @ LoadEABHmacKey ns i (eb_KeyID eab) (eb_KeySecretName eab) # r
     \<and> e_call E h (LoadEABHmacKey ns i (eb_KeyID eab) (eb_KeySecretName eab)) = None)"

text \<open>The trace \<open>tr\<close> shows that the secrets of the issuer were read and found valid.\<close>

definition issuer_checked :: "env \<Rightarrow> deploy_extern \<Rightarrow> string \<Rightarrow> history \<Rightarrow> Issuer \<Rightarrow> bool" where
  "issuer_checked E D ns tr i \<longleftrightarrow> (case i_ACME i of None \<Rightarrow> True | Some a \<Rightarrow>
     (ac_PrivateKeySecretName a = '''' \<or> key_secret_valid E D ns tr (ac_PrivateKeySecretName a))
   \<and> (case ac_ExternalAccountBinding a of None \<Rightarrow> True | Some eab \<Rightarrow>
        eb_KeySecretName eab = '''' \<or> eab_secret_valid E ns tr (i_Name i) eab))"

lemma key_secret_valid_append: "key_secret_valid E D ns tr n \<Longrightarrow> key_secret_valid E D ns (tr @ r) n"
  unfolding key_secret_valid_def by fastforce

lemma eab_secret_valid_append: "eab_secret_valid E ns tr i eab \<Longrightarrow> eab_secret_valid E ns (tr @ r) i eab"
  unfolding eab_secret_valid_def by fastforce

lemma issuer_checked_append: "issuer_checked E D ns tr i \<Longrightarrow> issuer_checked E D ns (tr @ r) i"
  by (auto simp: issuer_checked_def intro: key_secret_valid_append eab_secret_valid_append split: option.splits)

lemma not_Inl: "(\<forall>e. x \<noteq> Inl e) \<longleftrightarrow> x = Inr ()"
  by (cases x) auto

lemma validateACMEIssuerSecret_Nil:
  assumes "validateACMEIssuerSecret E D v (i_Name i) a w = (Ok [], w')" "i_ACME i = Some a"
  shows "issuer_checked E D (vl_Namespace v) (trace w') i"
proof -
  obtain w1 where 1: "(if ac_PrivateKeySecretName a \<noteq> ''''
      then checkPrivateKeySecret E D v (i_Name i) (ac_PrivateKeySecretName a) else ret []) w = (Ok [], w1)"
    and 2: "(case ac_ExternalAccountBinding a of None \<Rightarrow> ret []
      | Some eab \<Rightarrow> (if eb_KeySecretName eab \<noteq> '''' then checkEABSecret E v (i_Name i) eab else ret [])) w1 = (Ok [], w')"
    using assms(1) by (auto simp: validateACMEIssuerSecret_def ok_iffs)
  have "emits (\<lambda>_. True) (case ac_ExternalAccountBinding a of None \<Rightarrow> ret []
      | Some eab \<Rightarrow> (if eb_KeySecretName eab \<noteq> '''' then checkEABSecret E v (i_Name i) eab else ret []))"
    unfolding checkEABSecret_def Let_def by (intro appends_intros TrueI)
  from emitsD [OF this 2] obtain evs where w': "trace w' = trace w1 @ evs" by blast
  have "key_secret_valid E D (vl_Namespace v) (trace w1) (ac_PrivateKeySecretName a)"
    if "ac_PrivateKeySecretName a \<noteq> ''''"
    using 1 that by (auto simp: checkPrivateKeySecret_def ok_iffs key_secret_valid_def split: prod.splits option.splits)
  moreover have "eab_secret_valid E (vl_Namespace v) (trace w') (i_Name i) eab"
    if eab: "ac_ExternalAccountBinding a = Some eab" "eb_KeySecretName eab \<noteq> ''''" for eab
  proof -
    obtain l w2 where l: "attempt (invoke E (LoadEABHmacKey (vl_Namespace v) (i_Name i) (eb_KeyID eab)
        (eb_KeySecretName eab))) w2 = (Ok l, w')" and "\<exists>u. l = Inr u"
      using 2 eab by (auto simp: checkEABSecret_def Let_def bind_Ok_iff basic_Ok_iff not_Inl split: sum.splits)
    then show ?thesis
      by (auto simp: attempt_Ok_iff invoke_Ok_iff eab_secret_valid_def)
  qed
  ultimately show ?thesis
    using assms(2) by (auto simp: issuer_checked_def w' intro: key_secret_valid_append split: option.splits)
qed

lemma validateIssuerSecretsLoop_Nil:
  "validateIssuerSecretsLoop E D v is errs w = (Ok [], w') \<Longrightarrow>
     errs = [] \<and> list_all (issuer_checked E D (vl_Namespace v) (trace w')) is"
proof (induction "is" arbitrary: errs w)
  case Nil
  then show ?case by (simp add: ok_iffs)
next
  case (Cons i "is")
  show ?case
  proof (cases "i_ACME i")
    case None
    then show ?thesis using Cons by (auto simp: issuer_checked_def)
  next
    case (Some a)
    obtain more w1 where 1: "validateACMEIssuerSecret E D v (i_Name i) a w = (Ok more, w1)"
      and 2: "validateIssuerSecretsLoop E D v is (errs @ more) w1 = (Ok [], w')"
      using Cons.prems Some by (auto simp: ok_iffs)
    have rest: "errs = []" "more = []" "list_all (issuer_checked E D (vl_Namespace v) (trace w')) is"
      using Cons.IH [OF 2] by auto
    have "emits (\<lambda>_. True) (validateIssuerSecretsLoop E D v is errs)" for errs
      by (induction "is" arbitrary: errs) (auto split: option.splits intro!: appends_intros)
    from emitsD [OF this 2] obtain evs where "trace w' = trace w1 @ evs" by blast
    then show ?thesis
      using validateACMEIssuerSecret_Nil [of E D v i a w w1] 1 rest Some
      by (simp add: issuer_checked_append)
  qed
qed

lemma validateIssuerSecrets_Ok:
  "validateIssuerSecrets E D v is w = (Ok (), w') \<Longrightarrow>
     list_all (issuer_checked E D (vl_Namespace v) (trace w')) is"
  using validateIssuerSecretsLoop_Nil
  by (fastforce simp: validateIssuerSecrets_def ok_iffs errors_Join_def split: if_splits)

subsection \<open>All secrets are checked, whatever their checks say\<close>

definition acme_checks :: "string \<Rightarrow> string \<Rightarrow> ACME \<Rightarrow> event list" where
  "acme_checks ns n a =
     append_if (ac_PrivateKeySecretName a \<noteq> '''') [GetSecret ns (ac_PrivateKeySecretName a)]
   @ (case ac_ExternalAccountBinding a of
        None \<Rightarrow> []
      | Some eab \<Rightarrow> append_if (eb_KeySecretName eab \<noteq> '''')
          [NewHandlerSupport ns, LoadEABHmacKey ns n (eb_KeyID eab) (eb_KeySecretName eab)])"

definition issuer_checks :: "string \<Rightarrow> Issuer \<Rightarrow> event list" where
  "issuer_checks ns i = (case i_ACME i of None \<Rightarrow> [] | Some a \<Rightarrow> acme_checks ns (i_Name i) a)"

text \<open>A secret of the issuer can never be read, or never passes its check.\<close>

definition acme_secret_invalid :: "env \<Rightarrow> deploy_extern \<Rightarrow> string \<Rightarrow> string \<Rightarrow> ACME \<Rightarrow> bool" where
  "acme_secret_invalid E D ns n a \<longleftrightarrow>
     ac_PrivateKeySecretName a \<noteq> ''''
       \<and> (\<forall>h err data. e_secret E h ns (ac_PrivateKeySecretName a) = (err, data)
            \<longrightarrow> err \<noteq> None \<or> validateSecretDataKeys D data \<noteq> None)
   \<or> (\<exists>eab. ac_ExternalAccountBinding a = Some eab \<and> eb_KeySecretName eab \<noteq> ''''
       \<and> ((\<forall>h. e_call E h (NewHandlerSupport ns) \<noteq> None)
          \<or> (\<forall>h. e_call E h (LoadEABHmacKey ns n (eb_KeyID eab) (eb_KeySecretName eab)) \<noteq> None)))"

definition secret_invalid :: "env \<Rightarrow> deploy_extern \<Rightarrow> string \<Rightarrow> Issuer \<Rightarrow> bool" where
  "secret_invalid E D ns i \<longleftrightarrow> (\<exists>a. i_ACME i = Some a \<and> acme_secret_invalid E D ns (i_Name i) a)"

text \<open>The error is about a secret of the issuer \<open>n\<close>.\<close>

definition reports :: "string \<Rightarrow> goerr \<Rightarrow> bool" where
  "reports n e \<longleftrightarrow> (\<exists>e'. e = Wrap (''failed to read secret for issuer '' @ n) e'
     \<or> e = Wrap (''failed to validate ACME private key secret for issuer '' @ n) e'
     \<or> e = Wrap ''failed to create support for EAB key secret validation'' e'
     \<or> e = Wrap (''failed to validate EAB key secret for issuer '' @ n) e')"

lemma checkPrivateKeySecret_Ok:
  assumes "checkPrivateKeySecret E D v n s w = (Ok errs, w')"
  shows "trace w' = trace w @ [GetSecret (vl_Namespace v) s]"
    and "(\<And>h err data. e_secret E h (vl_Namespace v) s = (err, data) \<Longrightarrow> err \<noteq> None \<or> validateSecretDataKeys D data \<noteq> None)
      \<Longrightarrow> \<exists>e\<in>set errs. reports n e"
proof -
  obtain err data where s: "e_secret E (trace w) (vl_Namespace v) s = (err, data)"
    by (cases "e_secret E (trace w) (vl_Namespace v) s")
  then have errs: "errs = (case err of None \<Rightarrow> []
          | Some e \<Rightarrow> [Wrap (''failed to read secret for issuer '' @ n) e])
       @ (case validateSecretDataKeys D data of None \<Rightarrow> []
          | Some e \<Rightarrow> [Wrap (''failed to validate ACME private key secret for issuer '' @ n) e])"
    and t: "trace w' = trace w @ [GetSecret (vl_Namespace v) s]"
    using assms by (auto simp: checkPrivateKeySecret_def ok_iffs)
  show "trace w' = trace w @ [GetSecret (vl_Namespace v) s]" by (rule t)
  assume "\<And>h err data. e_secret E h (vl_Namespace v) s = (err, data) \<Longrightarrow> err \<noteq> None \<or> validateSecretDataKeys D data \<noteq> None"
  from this [OF s] show "\<exists>e\<in>set errs. reports n e"
    by (auto simp: errs reports_def)
qed

lemma checkEABSecret_Ok:
  assumes "checkEABSecret E v n eab w = (Ok errs, w')"
  shows "trace w' = trace w @ [NewHandlerSupport (vl_Namespace v),
      LoadEABHmacKey (vl_Namespace v) n (eb_KeyID eab) (eb_KeySecretName eab)]"
    and "(\<forall>h. e_call E h (NewHandlerSupport (vl_Namespace v)) \<noteq> None)
       \<or> (\<forall>h. e_call E h (LoadEABHmacKey (vl_Namespace v) n (eb_KeyID eab) (eb_KeySecretName eab)) \<noteq> None)
      \<Longrightarrow> \<exists>e\<in>set errs. reports n e"
proof -
  let ?load = "LoadEABHmacKey (vl_Namespace v) n (eb_KeyID eab) (eb_KeySecretName eab)"
  obtain support w1 load where 1: "attempt (invoke E (NewHandlerSupport (vl_Namespace v))) w = (Ok support, w1)"
    and 2: "attempt (case support of Inl _ \<Rightarrow> invoke_nil E ?load | Inr _ \<Rightarrow> invoke E ?load) w1 = (Ok load, w')"
    and errs: "errs = (case support of Inl e \<Rightarrow> [Wrap ''failed to create support for EAB key secret validation'' e] | Inr _ \<Rightarrow> [])
       @ (case load of Inl e \<Rightarrow> [Wrap (''failed to validate EAB key secret for issuer '' @ n) e] | Inr _ \<Rightarrow> [])"
    using assms unfolding checkEABSecret_def Let_def bind_Ok_iff basic_Ok_iff by blast
  have "trace w1 = trace w @ [NewHandlerSupport (vl_Namespace v)]"
    using 1 by (auto simp: attempt_Ok_iff invoke_run)
  moreover have "trace w' = trace w1 @ [?load]"
    using 2 by (cases support) (auto simp: attempt_Ok_iff invoke_run invoke_nil_run)
  ultimately show "trace w' = trace w @ [NewHandlerSupport (vl_Namespace v), ?load]" by simp
  assume "(\<forall>h. e_call E h (NewHandlerSupport (vl_Namespace v)) \<noteq> None) \<or> (\<forall>h. e_call E h ?load \<noteq> None)"
  then have "(\<exists>e. support = Inl e) \<or> (\<exists>e. load = Inl e)"
    using 1 2 by (cases support) (fastforce simp: attempt_Ok_iff invoke_Ok_iff)+
  then show "\<exists>e\<in>set errs. reports n e"
    by (auto simp: errs reports_def)
qed

lemma validateACMEIssuerSecret_Ok:
  assumes "validateACMEIssuerSecret E D v n a w = (Ok errs, w')"
  shows "trace w' = trace w @ acme_checks (vl_Namespace v) n a"
    and "acme_secret_invalid E D (vl_Namespace v) n a \<Longrightarrow> \<exists>e\<in>set errs. reports n e"
proof -
  obtain errs1 w1 errs2 where 1: "(if ac_PrivateKeySecretName a \<noteq> ''''
      then checkPrivateKeySecret E D v n (ac_PrivateKeySecretName a) else ret []) w = (Ok errs1, w1)"
    and 2: "(case ac_ExternalAccountBinding a of None \<Rightarrow> ret []
      | Some eab \<Rightarrow> (if eb_KeySecretName eab \<noteq> '''' then checkEABSecret E v n eab else ret [])) w1 = (Ok errs2, w')"
    and errs: "errs = errs1 @ errs2"
    using assms by (auto simp: validateACMEIssuerSecret_def bind_Ok_iff basic_Ok_iff)
  have "trace w1 = trace w @ append_if (ac_PrivateKeySecretName a \<noteq> '''') [GetSecret (vl_Namespace v) (ac_PrivateKeySecretName a)]"
    using 1 by (auto simp: append_if_def ret_run dest: checkPrivateKeySecret_Ok(1) split: if_splits)
  moreover have "trace w' = trace w1 @ (case ac_ExternalAccountBinding a of None \<Rightarrow> [] | Some eab \<Rightarrow>
      append_if (eb_KeySecretName eab \<noteq> '''') [NewHandlerSupport (vl_Namespace v),
        LoadEABHmacKey (vl_Namespace v) n (eb_KeyID eab) (eb_KeySecretName eab)])"
    using 2 by (auto simp: append_if_def ret_run dest: checkEABSecret_Ok(1) split: if_splits option.splits)
  ultimately show "trace w' = trace w @ acme_checks (vl_Namespace v) n a"
    by (simp add: acme_checks_def)
  assume "acme_secret_invalid E D (vl_Namespace v) n a"
  then consider "ac_PrivateKeySecretName a \<noteq> ''''" "\<And>h err data. e_secret E h (vl_Namespace v) (ac_PrivateKeySecretName a) = (err, data)
      \<Longrightarrow> err \<noteq> None \<or> validateSecretDataKeys D data \<noteq> None"
    | eab where "ac_ExternalAccountBinding a = Some eab" "eb_KeySecretName eab \<noteq> ''''"
      "(\<forall>h. e_call E h (NewHandlerSupport (vl_Namespace v)) \<noteq> None)
       \<or> (\<forall>h. e_call E h (LoadEABHmacKey (vl_Namespace v) n (eb_KeyID eab) (eb_KeySecretName eab)) \<noteq> None)"
    unfolding acme_secret_invalid_def by blast
  then show "\<exists>e\<in>set errs. reports n e"
  proof cases
    case 1
    with \<open>(if _ then _ else _) w = (Ok errs1, w1)\<close> have "\<exists>e\<in>set errs1. reports n e"
      using checkPrivateKeySecret_Ok(2) [of E D v n "ac_PrivateKeySecretName a" w errs1 w1] by simp
    then show ?thesis by (auto simp: errs)
  next
    case 2
    then have "\<exists>e\<in>set errs2. reports n e"
      using checkEABSecret_Ok(2) [of E v n eab w1 errs2 w'] \<open>(case _ of None \<Rightarrow> _ | Some eab \<Rightarrow> _) w1 = _\<close> by simp
    then show ?thesis by (auto simp: errs)
  qed
qed

lemma validateIssuerSecretsLoop_Ok:
  "validateIssuerSecretsLoop E D v is errs w = (Ok es, w') \<Longrightarrow>
     trace w' = trace w @ concat (map (issuer_checks (vl_Namespace v)) is) \<and> set errs \<subseteq> set es
   \<and> (\<forall>i\<in>set is. secret_invalid E D (vl_Namespace v) i \<longrightarrow> (\<exists>e\<in>set es. reports (i_Name i) e))"
proof (induction "is" arbitrary: errs w)
  case Nil
  then show ?case by (simp add: ret_run)
next
  case (Cons i "is")
  show ?case
  proof (cases "i_ACME i")
    case None
    then show ?thesis using Cons by (auto simp: issuer_checks_def secret_invalid_def)
  next
    case (Some a)
    obtain more w1 where 1: "validateACMEIssuerSecret E D v (i_Name i) a w = (Ok more, w1)"
      and 2: "validateIssuerSecretsLoop E D v is (errs @ more) w1 = (Ok es, w')"
      using Cons.prems Some by (auto simp: bind_Ok_iff)
    note here = validateACMEIssuerSecret_Ok [OF 1] and rest = Cons.IH [OF 2]
    then show ?thesis
      using Some by (fastforce simp: issuer_checks_def [of _ i] secret_invalid_def [of E D _ i])
  qed
qed

lemma validateIssuerSecretsLoop_no_error: "fst (validateIssuerSecretsLoop E D v is errs w) \<noteq> Error e"
proof (induction "is" arbitrary: errs w)
  case Nil
  then show ?case by (simp add: ret_run)
next
  case (Cons i "is")
  have key: "fst (checkPrivateKeySecret E D v n s w) \<noteq> Error e" for n s w
    by (auto simp: checkPrivateKeySecret_def io_simps split: prod.splits)
  have eab: "fst (checkEABSecret E v n b w) \<noteq> Error e" for n b w
    by (auto simp: checkEABSecret_def Let_def io_simps split: prod.splits result.splits sum.splits)
  have "fst (validateACMEIssuerSecret E D v n a w) \<noteq> Error e" for n a w
    using key [of n "ac_PrivateKeySecretName a" w] eab
    by (auto simp: validateACMEIssuerSecret_def bind_run ret_run split: prod.splits result.splits option.splits)
      (metis fst_conv)+
  then show ?case
    using Cons by (auto simp: bind_run split: option.splits prod.splits result.splits) (metis fst_conv)+
qed

text \<open>If support is safe, every check is made, and every issuer with an invalid secret is reported.\<close>

lemma validateIssuerSecrets_all:
  assumes "support_safe E"
  obtains es w' where "validateIssuerSecrets E D v is w = (res_of (errors_Join es), w')"
    "trace w' = trace w @ concat (map (issuer_checks (vl_Namespace v)) is)"
    "\<And>i. i \<in> set is \<Longrightarrow> secret_invalid E D (vl_Namespace v) i \<Longrightarrow> \<exists>e\<in>set es. reports (i_Name i) e"
proof -
  obtain r w' where r: "validateIssuerSecretsLoop E D v is [] w = (r, w')"
    by (cases "validateIssuerSecretsLoop E D v is [] w")
  have "r \<noteq> Error e" for e
    using validateIssuerSecretsLoop_no_error [of E D v "is" "[]" w e] r by simp
  moreover have "r \<noteq> Panic p" for p
  proof
    assume "r = Panic p"
    then have "fst (validateIssuerSecrets E D v is w) = Panic p"
      using r by (simp add: validateIssuerSecrets_def bind_run)
    then show False
      using no_panic_validateIssuerSecrets [of E "is" D v] assms unfolding no_panic_def by blast
  qed
  ultimately obtain es where es: "r = Ok es" by (cases r) auto
  show thesis
    by (rule that [of es w']) (use r es validateIssuerSecretsLoop_Ok [of E D v "is" "[]" w es w'] in
        \<open>auto simp: validateIssuerSecrets_def bind_run pure_res_run\<close>)
qed

lemma validateIssuerSecrets_trace:
  "validateIssuerSecrets E D v is w = (Ok (), w') \<Longrightarrow> trace w' = trace w @ concat (map (issuer_checks (vl_Namespace v)) is)"
  using validateIssuerSecretsLoop_Ok by (fastforce simp: validateIssuerSecrets_def ok_iffs)

text \<open>What a successful deployment in the seed has called, and what the answers to its checks were.\<close>

lemma DeploySeed_checked:
  assumes "DeploySeedManagedResource E X D v w = (Ok (), w')"
  obtains objs "is" data where "seedObjects X D v = Ok (objs, is)" "AddAllAndSerialize D objs = Inr data"
    "trace w' = trace w @ concat (map (issuer_checks (vl_Namespace v)) is)
       @ [CreateManagedResource (vl_Namespace v) CertManagementResourceNameSeed (SeedResourceManagerClass X) data False]"
    "list_all (issuer_checked E D (vl_Namespace v) (trace w')) is"
proof -
  obtain objs "is" data evs w1 where 1: "seedObjects X D v = Ok (objs, is)" "AddAllAndSerialize D objs = Inr data"
    and w1: "validateIssuerSecrets E D v is w = (Ok (), w1)" "trace w1 = trace w @ evs"
    and w': "trace w' = trace w @ evs @ [CreateManagedResource (vl_Namespace v) CertManagementResourceNameSeed
       (SeedResourceManagerClass X) data False]"
    using assms by (rule DeploySeed_success)
  have "evs = concat (map (issuer_checks (vl_Namespace v)) is)"
    using validateIssuerSecrets_trace [OF w1(1)] w1(2) by simp
  moreover have "list_all (issuer_checked E D (vl_Namespace v) (trace w')) is"
    using validateIssuerSecrets_Ok [OF w1(1)] issuer_checked_append w1(2) w' append.assoc
    by (metis (no_types, lifting) list.pred_mono_strong)
  ultimately show thesis
    using that 1 w' by simp
qed

subsection \<open>Evaluating the operations\<close>

lemma sample_validateIssuerSecrets:
  "\<exists>w'. validateIssuerSecrets sample_env sample_deploy v is w = (Ok (), w')"
proof -
  have acme: "\<exists>w'. validateACMEIssuerSecret sample_env sample_deploy v n a w = (Ok [], w')" for n a w
    by (auto simp: validateACMEIssuerSecret_def checkPrivateKeySecret_def checkEABSecret_def Let_def io_simps
        sample_env_def sample_deploy_def split: option.splits)
  have "\<exists>w'. validateIssuerSecretsLoop sample_env sample_deploy v is [] w = (Ok [], w')" for w
  proof (induction "is" arbitrary: w)
    case Nil
    then show ?case by (simp add: ret_run)
  next
    case (Cons i "is")
    show ?case
    proof (cases "i_ACME i")
      case (Some a)
      obtain w1 where "validateACMEIssuerSecret sample_env sample_deploy v (i_Name i) a w = (Ok [], w1)"
        using acme by blast
      then show ?thesis using Cons [of w1] Some by (simp add: bind_run)
    qed (use Cons in simp)
  qed
  then show ?thesis
    by (auto simp: validateIssuerSecrets_def ok_iffs errors_Join_def)
qed

lemma sample_DeploySeed_any:
  assumes "collectIssuers v = Ok is" "vl_ShootDeployment v"
  shows "\<exists>w'. DeploySeedManagedResource sample_env X sample_deploy v w = (Ok (), w')"
proof -
  have i: "createIssuers v = Ok (map Obj (concat (map (issuer_objs v) is)), is)"
    by (simp add: createIssuers_eq assms(1))
  then obtain d where "createDeployment X sample_deploy v = Ok d"
    by (rule sample_createDeployment)
  with i obtain objs where "seedObjects X sample_deploy v = Ok (objs, is)"
    by (auto simp: seedObjects_def simp del: removeNilObjects.simps)
  moreover obtain w1 where "validateIssuerSecrets sample_env sample_deploy v is w = (Ok (), w1)"
    using sample_validateIssuerSecrets by blast
  ultimately show ?thesis
    using assms(2) by (auto simp: DeploySeedManagedResource_def ok_iffs sample_deploy_def sample_env_def)
qed

lemma sample_DeploySeed:
  obtains w' where "DeploySeedManagedResource sample_env sample_extern sample_deploy sample_values w = (Ok (), w')"
proof -
  obtain iobjs "is" where "createIssuers sample_values = Ok (iobjs, is)"
    by (rule sample_createIssuers)
  then have "collectIssuers sample_values = Ok is"
    using createIssuers_OkD by blast
  then show ?thesis
    using sample_DeploySeed_any [of sample_values "is"] that by (auto simp: sample_values_def)
qed

lemma sample_DeployShoot_any:
  assumes "vl_ShootDeployment v"
  shows "\<exists>w'. DeployShootManagedResource sample_env X sample_deploy v w = (Ok (), w')"
proof -
  obtain crds where "getShootCRDs X sample_deploy v = Ok crds"
    using getShootCRDs_assets [OF sample_assets_law] by blast
  then obtain objs where "shootObjects X sample_deploy v = Ok objs"
    by (auto simp: shootObjects_def)
  then show ?thesis
    using assms by (auto simp: DeployShootManagedResource_def ok_iffs sample_deploy_def sample_env_def)
qed

subsection \<open>Properties\<close>

text \<open>When the seed deployment returns without error, it was for a shoot, it created exactly the
  managed resource of the serialised objects as its last call, all it called before were checks of
  secrets in its namespace, and every secret the issuers refer to was read and found valid.\<close>

theorem seed_deployment_complete:
  assumes "DeploySeedManagedResource E X D v w = (Ok (), w')"
  shows "\<exists>objs is data evs. seedObjects X D v = Ok (objs, is) \<and> AddAllAndSerialize D objs = Inr data
    \<and> trace w' = trace w @ evs @ [CreateManagedResource (vl_Namespace v) CertManagementResourceNameSeed
         (SeedResourceManagerClass X) data False]
    \<and> list_all (secret_check (vl_Namespace v)) evs
    \<and> list_all (issuer_checked E D (vl_Namespace v) (trace w')) is"
proof -
  obtain objs "is" data evs w1 where 1: "seedObjects X D v = Ok (objs, is)"
    "AddAllAndSerialize D objs = Inr data" "list_all (secret_check (vl_Namespace v)) evs"
    "trace w' = trace w @ evs @ [CreateManagedResource (vl_Namespace v) CertManagementResourceNameSeed
       (SeedResourceManagerClass X) data False]"
    and w1: "validateIssuerSecrets E D v is w = (Ok (), w1)" "trace w1 = trace w @ evs"
    using assms by (rule DeploySeed_success)
  have "list_all (issuer_checked E D (vl_Namespace v) (trace w1)) is"
    by (rule validateIssuerSecrets_Ok [OF w1(1)])
  moreover have "issuer_checked E D (vl_Namespace v) (trace w1) i \<Longrightarrow> issuer_checked E D (vl_Namespace v) (trace w') i" for i
    using issuer_checked_append 1(4) w1(2) by (metis append.assoc)
  ultimately show ?thesis using 1 by (blast intro: list.pred_mono_strong)
qed

theorem seed_deployment_complete_witness:
  "\<exists>w' data evs. DeploySeedManagedResource sample_env sample_extern sample_deploy sample_values initial = (Ok (), w')
     \<and> trace w' = evs @ [CreateManagedResource ''shoot--dev--foo'' CertManagementResourceNameSeed ''seed'' data False]"
proof -
  obtain w' where ok: "DeploySeedManagedResource sample_env sample_extern sample_deploy sample_values initial = (Ok (), w')"
    by (rule sample_DeploySeed)
  obtain data evs where "trace w' = trace initial @ evs @ [CreateManagedResource (vl_Namespace sample_values)
      CertManagementResourceNameSeed (SeedResourceManagerClass sample_extern) data False]"
    using seed_deployment_complete [OF ok] by blast
  moreover have "vl_Namespace sample_values = ''shoot--dev--foo''" "SeedResourceManagerClass sample_extern = ''seed''"
    by (simp_all add: sample_values_def sample_extern_def)
  ultimately show ?thesis using ok by (auto simp: initial_def)
qed

text \<open>C39: An issuer one of whose secrets can never be read or never passes its check keeps the seed's
  managed resource from being created: the deployment fails after checking the secrets of all issuers, and
  has called nothing else; its error reports every issuer with such a secret. (If support for the check of
  external account bindings cannot be created, the check must tolerate that.)\<close>

theorem invalid_secret_blocks_deployment:
  assumes "vl_ShootDeployment v" "seedObjects X D v = Ok (objs, is)" "AddAllAndSerialize D objs = Inr data"
    and "support_safe E" "i \<in> set is" "secret_invalid E D (vl_Namespace v) i"
  shows "\<exists>es w'. DeploySeedManagedResource E X D v w = (Error (Wrap ''failed to validate issuer secrets'' (Joined es)), w')
    \<and> trace w' = trace w @ concat (map (issuer_checks (vl_Namespace v)) is)
    \<and> (\<forall>j\<in>set is. secret_invalid E D (vl_Namespace v) j \<longrightarrow> (\<exists>e\<in>set es. reports (i_Name j) e))"
proof -
  obtain es w' where es: "validateIssuerSecrets E D v is w = (res_of (errors_Join es), w')"
    "trace w' = trace w @ concat (map (issuer_checks (vl_Namespace v)) is)"
    "\<And>i. i \<in> set is \<Longrightarrow> secret_invalid E D (vl_Namespace v) i \<Longrightarrow> \<exists>e\<in>set es. reports (i_Name i) e"
    using validateIssuerSecrets_all [OF assms(4)] by metis
  then have "es \<noteq> []" using assms(5,6) by force
  then show ?thesis
    using assms(1-3) es by (auto simp: DeploySeedManagedResource_def io_simps errors_Join_def)
qed

theorem invalid_secret_blocks_deployment_witness:
  "\<exists>E es w'. DeploySeedManagedResource E sample_extern sample_deploy sample_values initial
     = (Error (Wrap ''failed to validate issuer secrets'' (Joined es)), w')
     \<and> GetSecret ''shoot--dev--foo'' ''ref-my-key'' \<in> set (trace w') \<and> (\<exists>e\<in>set es. reports ''alice'' e)"
proof -
  let ?E = "sample_env\<lparr>e_secret := \<lambda>h ns n. (Some (NotFound n), Map.empty)\<rparr>"
  obtain objs "is" where objs: "seedObjects sample_extern sample_deploy sample_values = Ok (objs, is)"
    by (rule sample_seedObjects)
  then have "collectIssuers sample_values = Ok is"
    by (auto simp: seedObjects_def rbind_Ok_iff dest!: createIssuers_OkD simp del: removeNilObjects.simps)
  then obtain ms where ms: "is = gardenIssuer sample_values # ms"
    "rmap (userIssuer sample_values) (user_issuers sample_values) = Ok ms"
    by (rule collectIssuers_shootD) (simp add: sample_values_def)
  have "rmap (userIssuer sample_values) (user_issuers sample_values) = Ok ms \<Longrightarrow>
      \<exists>i a. ms = [i] \<and> i_Name i = ''alice'' \<and> i_ACME i = Some a \<and> ac_PrivateKeySecretName a = ''ref-my-key''"
    by (auto simp: sample_defs user_issuers_def userIssuer_def lookupReferencedSecret_def ReferencedResourcesPrefix_def)
  with ms(2) obtain i a where i: "ms = [i]" "i_Name i = ''alice''" "i_ACME i = Some a" "ac_PrivateKeySecretName a = ''ref-my-key''"
    by blast
  then have inv: "secret_invalid ?E sample_deploy (vl_Namespace sample_values) i"
    by (simp add: secret_invalid_def acme_secret_invalid_def)
  have safe: "support_safe ?E" by (simp add: support_safe_def)
  have mem: "i \<in> set is" using ms(1) i(1) by simp
  have v: "vl_ShootDeployment sample_values" "vl_Namespace sample_values = ''shoot--dev--foo''"
    by (simp_all add: sample_values_def)
  obtain data where data: "AddAllAndSerialize sample_deploy objs = Inr data"
    by (simp add: sample_deploy_def)
  obtain es w' where r: "DeploySeedManagedResource ?E sample_extern sample_deploy sample_values initial
     = (Error (Wrap ''failed to validate issuer secrets'' (Joined es)), w')"
    "trace w' = trace initial @ concat (map (issuer_checks (vl_Namespace sample_values)) is)" "\<exists>e\<in>set es. reports ''alice'' e"
    using invalid_secret_blocks_deployment [OF v(1) objs data safe mem inv, of initial] mem inv i(2) by fastforce
  have "GetSecret ''shoot--dev--foo'' ''ref-my-key'' \<in> set (issuer_checks ''shoot--dev--foo'' i)"
    by (simp add: issuer_checks_def acme_checks_def append_if_def i)
  then have "GetSecret ''shoot--dev--foo'' ''ref-my-key'' \<in> set (trace w')"
    using mem by (auto simp: r(2) v(2))
  then show ?thesis using r by blast
qed

text \<open>Where it does not tolerate that: if support cannot be created and the check dereferences it, the
  check of an external account binding panics, although the error was noticed.\<close>

theorem missing_support_panics:
  assumes "e_call E (trace w) (NewHandlerSupport (vl_Namespace v)) = Some e"
    and "\<And>h ev. e_nil E h ev = Panic nil_deref"
  shows "fst (checkEABSecret E v n eab w) = Panic nil_deref"
  using assms by (simp add: checkEABSecret_def Let_def io_simps)

text \<open>An operation for the other kind of deployment is refused before it calls anything.\<close>

theorem wrong_kind_refused:
  "DeployShootManagedResource E X D (v\<lparr>vl_ShootDeployment := False\<rparr>) w = (Error (ErrMsg ''only supported for shoot deployment''), w)
   \<and> DeploySeedManagedResource E X D (v\<lparr>vl_ShootDeployment := False\<rparr>) w = (Error (ErrMsg ''only supported for shoot deployment''), w)
   \<and> DeployGardenOrSeedManagedResource E X D (v\<lparr>vl_ShootDeployment := True\<rparr>) w = (Error (ErrMsg ''not supported for shoot deployment''), w)
   \<and> DeleteShootManagedResourceAndWait E (v\<lparr>vl_ShootDeployment := False\<rparr>) t w = (Error (ErrMsg ''only supported for shoot deployment''), w)
   \<and> DropShootManagedResource E (v\<lparr>vl_ShootDeployment := False\<rparr>) w = (Error (ErrMsg ''only supported for shoot deployment''), w)"
  by (simp add: DeployShootManagedResource_def DeploySeedManagedResource_def DeployGardenOrSeedManagedResource_def
      DeleteShootManagedResourceAndWait_def DropShootManagedResource_def fail_def)

text \<open>Each of the three managed resources is wanted after a successful deployment and no longer wanted
  after a successful removal, and a deployment that fails never takes it away.\<close>

theorem managed_resource_life:
  "deploys (vl_Namespace v, CertManagementResourceNameShoot) (DeployShootManagedResource E X D v)
   \<and> removes (vl_Namespace v, CertManagementResourceNameShoot) (DeleteShootManagedResourceAndWait E v t)
   \<and> deploys (vl_Namespace v, CertManagementResourceNameSeed) (DeploySeedManagedResource E X D v)
   \<and> removes (vl_Namespace v, CertManagementResourceNameSeed) (DeleteSeedManagedResourceAndWait E v t)
   \<and> deploys (vl_Namespace v, resourceNameGardenOrSeed v) (DeployGardenOrSeedManagedResource E X D v)
   \<and> removes (vl_Namespace v, resourceNameGardenOrSeed v) (DeleteGardenOrSeedManagedResourceAndWait E v t)"
  by (intro conjI shoot_mr.deploys_deploy shoot_mr.removes_remove seed_mr.deploys_deploy
      seed_mr.removes_remove garden_mr.deploys_deploy garden_mr.removes_remove)

end
