(* ===== verification/Controller_Common.thy ===== *)
theory Controller_Common
  imports Deployer_Ops
begin

text \<open>
  What the two controllers share: decoding the provider configuration
  (\<open>shared/certconfigdecoder.go\<close>), the options they are added with, and the contract of
  gardener's \<open>extension.Actuator\<close> that both actuators implement.
\<close>

definition FinalizerSuffix :: string where "FinalizerSuffix = ''shoot-cert-service''"
definition EnvLeaderElectionNamespace :: string where "EnvLeaderElectionNamespace = ''LEADER_ELECTION_NAMESPACE''"

subsection \<open>Provider configuration\<close>

definition DecodeAndValidateProviderConfig ::
    "extern \<Rightarrow> deploy_extern \<Rightarrow> Extension \<Rightarrow> Cluster option \<Rightarrow> CertConfig result" where
  "DecodeAndValidateProviderConfig X D ex cluster =
    (case ex_ProviderConfig ex of
       None \<Rightarrow> Ok emptyCertConfig
     | Some raw \<Rightarrow>
        (case decodeCertConfig D raw of
           Inl err \<Rightarrow> Error (ErrMsg (''failed to decode provider config: '' @ err_text err))
         | Inr certConfig \<Rightarrow>
            (let errs = ValidateCertConfig X certConfig cluster in
             if 0 < length errs then Error (toAggregate X errs) else Ok certConfig)))"

lemma DecodeAndValidate_no_panic: "DecodeAndValidateProviderConfig X D ex cl \<noteq> Panic p"
  by (simp add: DecodeAndValidateProviderConfig_def Let_def split: option.splits sum.splits)

lemma DecodeAndValidate_valid:
  "DecodeAndValidateProviderConfig X D ex cl = Ok cc \<Longrightarrow> ValidateCertConfig X cc cl = []"
proof -
  have "ValidateCertConfig X emptyCertConfig cl = []"
    by (cases cl) (simp_all add: ValidateCertConfig_def emptyCertConfig_def validateIssuers_def
        validateDNSChallengeOnShoot_def validatePrecheckNameservers_def)
  then show "DecodeAndValidateProviderConfig X D ex cl = Ok cc \<Longrightarrow> ValidateCertConfig X cc cl = []"
    by (auto simp: DecodeAndValidateProviderConfig_def Let_def split: option.splits sum.splits if_splits)
qed

text \<open>
  What the configuration of an Extension is: the empty one, if it has none, and else what its provider
  configuration says.
\<close>

definition provider_config :: "deploy_extern \<Rightarrow> Extension \<Rightarrow> CertConfig \<Rightarrow> bool" where
  "provider_config D ex cc \<longleftrightarrow> (case ex_ProviderConfig ex of
     None \<Rightarrow> cc = emptyCertConfig
   | Some raw \<Rightarrow> decodeCertConfig D raw = Inr cc)"

lemma DecodeAndValidate_decodes: "DecodeAndValidateProviderConfig X D ex cl = Ok cc \<Longrightarrow> provider_config D ex cc"
  by (auto simp: DecodeAndValidateProviderConfig_def provider_config_def Let_def split: option.splits sum.splits if_splits)

lemma DecodeAndValidate_Ok_iff:
  "DecodeAndValidateProviderConfig X D ex cl = Ok cc \<longleftrightarrow> provider_config D ex cc \<and> ValidateCertConfig X cc cl = []"
proof
  assume "provider_config D ex cc \<and> ValidateCertConfig X cc cl = []"
  then show "DecodeAndValidateProviderConfig X D ex cl = Ok cc"
    by (auto simp: DecodeAndValidateProviderConfig_def provider_config_def split: option.splits)
qed (blast intro: DecodeAndValidate_decodes DecodeAndValidate_valid)

subsection \<open>Options\<close>

record AddOptions =
  ao_ServiceConfig :: Configuration
  ao_IgnoreOperationAnnotation :: bool
  ao_ExtensionClasses :: "string list"

text \<open>What is watched besides Extension resources.\<close>

datatype watch = NoWatch | WatchDNSServiceExtension | WatchGarden

text \<open>The arguments of \<open>extension.Add\<close>.\<close>

record AddArgs =
  aa_ServiceConfig :: Configuration \<comment> \<open>of the actuator\<close>
  aa_Name :: string
  aa_FinalizerSuffix :: string
  aa_Resync :: int
  aa_IgnoreOperationAnnotation :: bool \<comment> \<open>of the default predicates\<close>
  aa_Type :: string
  aa_ExtensionClasses :: "string list"
  aa_Watch :: watch

subsection \<open>The contract of an actuator\<close>

text \<open>
  An actuator manages a managed resource (\<open>key\<close>) for each Extension. After reconciling or restoring
  it is wanted, after deleting, force-deleting or migrating it is not, and migrating first marks the
  objects in the shoot to be kept.
\<close>

locale actuator =
  fixes E :: env
    and reconcile delete forceDelete restore migrate :: "Extension \<Rightarrow> unit io"
    and key :: "Extension \<Rightarrow> string \<times> string"
  assumes reconcile_wanted: "reconcile ex w = (Ok (), w') \<Longrightarrow> mr_wanted (key ex) b (trace w')"
    and delete_unwanted: "delete ex w = (Ok (), w') \<Longrightarrow> \<not> mr_wanted (key ex) b (trace w')"
    and forceDelete_eq: "forceDelete ex = delete ex"
    and restore_eq: "restore ex = reconcile ex"
    and migrate_eq: "migrate ex =
      bind (invoke E (SetKeepObjects (ex_Namespace ex) CertManagementResourceNameShoot True)) (\<lambda>_. delete ex)"
    and delete_appends: "emits (\<lambda>_. True) (delete ex)"
begin

lemma restore_wanted: "restore ex w = (Ok (), w') \<Longrightarrow> mr_wanted (key ex) b (trace w')"
  by (simp add: restore_eq reconcile_wanted)

lemma migrate_unwanted: "migrate ex w = (Ok (), w') \<Longrightarrow> \<not> mr_wanted (key ex) b (trace w')"
  by (auto simp: migrate_eq bind_Ok_iff dest: delete_unwanted)

text \<open>Nothing is deleted in a migration before the objects are marked.\<close>

lemma migrate_keeps_first:
  "\<exists>evs. trace (snd (migrate ex w)) = trace w @ SetKeepObjects (ex_Namespace ex) CertManagementResourceNameShoot True # evs"
proof -
  let ?e = "SetKeepObjects (ex_Namespace ex) CertManagementResourceNameShoot True"
  let ?w = "w\<lparr>trace := trace w @ [?e]\<rparr>"
  obtain evs where "trace (snd (delete ex ?w)) = trace ?w @ evs"
    using delete_appends unfolding emits_def by blast
  then show ?thesis
    by (cases "e_call E (trace w) ?e") (auto simp: migrate_eq io_simps)
qed

text \<open>A life: reconciled any number of times and then deleted, nothing is wanted any more.\<close>

lemma reconcile_delete: "bind (reconcile ex) (\<lambda>_. delete ex) w = (Ok (), w') \<Longrightarrow> \<not> mr_wanted (key ex) b (trace w')"
  by (auto simp: bind_Ok_iff dest: delete_unwanted)

end

end
