(* ===== verification/Shoot_Controller.thy ===== *)
theory Shoot_Controller
  imports Controller_Common
begin

text \<open>
  \<open>pkg/controller/extension/shoot\<close>: the controller of the Extension resources of shoots. Its
  actuator deploys a managed resource into the shoot and one next to the shoot's control plane.
\<close>

definition shoot_Type :: string where "shoot_Type = ''shoot-cert-service''"
definition shoot_ControllerName :: string where "shoot_ControllerName = ''shoot-cert-service''"
definition dnsServiceExtensionName :: string where "dnsServiceExtensionName = ''shoot-dns-service''"

definition useNextGenerationControllerAnnotation :: string where
  "useNextGenerationControllerAnnotation = ''service.dns.extensions.gardener.cloud/use-next-generation-controller''"

definition minute :: int where "minute = 60 * 10 ^ 9" \<comment> \<open>nanoseconds\<close>

subsection \<open>The values of a deployment\<close>

definition isNextGenDNSShootServiceEnabled :: "env \<Rightarrow> string \<Rightarrow> bool io" where
  "isNextGenDNSShootServiceEnabled E namespace =
    bind (attempt (call (GetExtension namespace dnsServiceExtensionName)
                     (\<lambda>h. e_extension E h namespace dnsServiceExtensionName))) (\<lambda>r.
    case r of
      Inl err \<Rightarrow> (if isNotFound err then ret False
                  else fail (Wrap ''fetching shoot-dns-service extension failed'' err))
    | Inr dnsExtension \<Rightarrow>
        ret (ex_Annotations dnsExtension useNextGenerationControllerAnnotation = Some ''true''))"

text \<open>
  \<open>createValues\<close>; the result is \<open>None\<close> for a nil pointer. The number of replicas is cut to 32
  bits. A cluster without a shoot is dereferenced.
\<close>

definition shoot_initialValues :: "Configuration \<Rightarrow> CertConfig \<Rightarrow> string \<Rightarrow> Values" where
  "shoot_initialValues cfg certConfig namespace = emptyValues\<lparr>vl_ExtensionConfig := cfg,
     vl_CertConfig := certConfig, vl_Namespace := namespace, vl_ShootDeployment := True, vl_Replicas := 1\<rparr>"

definition restrictedDomains :: "Values \<Rightarrow> Cluster \<Rightarrow> string option result" where
  "restrictedDomains values cluster =
    (if RestrictedIssuer values then
       (case cl_Shoot cluster of
          None \<Rightarrow> Panic nil_deref
        | Some sh \<Rightarrow> (case sh_DNS sh of
              Some (Some domain) \<Rightarrow> Ok (Some domain)
            | _ \<Rightarrow> Ok None))
     else Ok (Some (vl_RestrictedDomains values)))"

definition shoot_createValues ::
    "env \<Rightarrow> deploy_extern \<Rightarrow> Configuration \<Rightarrow> CertConfig \<Rightarrow> Cluster \<Rightarrow> string \<Rightarrow> Values option io" where
  "shoot_createValues E D cfg certConfig cluster namespace =
    bind (isNextGenDNSShootServiceEnabled E namespace) (\<lambda>nextGen.
    let values = (shoot_initialValues cfg certConfig namespace)
          \<lparr>vl_NextGenDNSShootService := nextGen, vl_Replicas := ucast (cl_GetReplicas cluster)\<rparr> in
    bind (pure_res (restrictedDomains values cluster)) (\<lambda>domains.
    case domains of
      None \<Rightarrow> ret None
    | Some ds \<Rightarrow>
        bind (invoke E (ReconcileShootAccessSecret ShootAccessSecretName namespace)) (\<lambda>_.
        bind (pure_res (case cl_Shoot cluster of None \<Rightarrow> Panic nil_deref | Some sh \<Rightarrow> Ok (sh_Resources sh))) (\<lambda>resources.
        bind (pure_res (PrepareCertManagementImage D)) (\<lambda>img.
        ret (Some (values\<lparr>vl_RestrictedDomains := ds,
                     vl_GenericTokenKubeconfigSecretName := cl_GenericTokenKubeconfigSecretName cluster,
                     vl_Resources := resources, vl_Image := img\<rparr>)))))))"

subsection \<open>Parts of the operations\<close>

definition createSeedResourcesForShoot :: "env \<Rightarrow> extern \<Rightarrow> deploy_extern \<Rightarrow> Values \<Rightarrow> unit io" where
  "createSeedResourcesForShoot E X D values = DeploySeedManagedResource E X D values"

definition createShootResourcesForShoot :: "env \<Rightarrow> extern \<Rightarrow> deploy_extern \<Rightarrow> Values \<Rightarrow> unit io" where
  "createShootResourcesForShoot E X D values = DeployShootManagedResource E X D values"

text \<open>Deletions know the namespace and the kind of deployment only.\<close>

definition deletionValues :: "string \<Rightarrow> Values" where
  "deletionValues namespace = emptyValues\<lparr>vl_Namespace := namespace, vl_ShootDeployment := True\<rparr>"

definition deleteSeedResourcesForShoot :: "env \<Rightarrow> string \<Rightarrow> unit io" where
  "deleteSeedResourcesForShoot E namespace =
    DeleteSeedManagedResourceAndWait E (deletionValues namespace) (2 * minute)"

definition deleteShootResourcesForShoot :: "env \<Rightarrow> string \<Rightarrow> unit io" where
  "deleteShootResourcesForShoot E namespace =
    DeleteShootManagedResourceAndWait E (deletionValues namespace) (2 * minute)"

definition dropShootResourcesForShoot :: "env \<Rightarrow> string \<Rightarrow> unit io" where
  "dropShootResourcesForShoot E namespace = DropShootManagedResource E (deletionValues namespace)"

definition statusResources :: "CertConfig \<Rightarrow> NamedResourceReference list" where
  "statusResources certConfig =
    map (\<lambda>issuerConfig. let name = ''extension-shoot-cert-service-issuer-'' @ ic_Name issuerConfig in
      \<lparr>nrr_Name = name, nrr_Kind = ''Secret'', nrr_RefName = name, nrr_APIVersion = ''v1''\<rparr>)
      (cc_Issuers certConfig)"

definition shoot_updateStatus :: "env \<Rightarrow> Extension \<Rightarrow> CertConfig \<Rightarrow> unit io" where
  "shoot_updateStatus E ex certConfig =
    invoke E (PatchExtensionStatus (ex_Namespace ex) (ex_Name ex) (statusResources certConfig))"

text \<open>Values computed for a chart that is no longer rendered; the function has no caller.\<close>

definition createShootIssuersValues :: "Configuration \<Rightarrow> CertConfig \<Rightarrow> string \<rightharpoonup> bool" where
  "createShootIssuersValues cfg certConfig =
    [''enabled'' \<mapsto> (case cc_ShootIssuers certConfig of
       Some s \<Rightarrow> ssi_Enabled s
     | None \<Rightarrow> (case cfg_ShootIssuers cfg of Some s \<Rightarrow> si_Enabled s | None \<Rightarrow> False))]"

text \<open>Two more functions without a caller: reading the seed from the virtual garden, and its client.\<close>

definition shoot_fetchSeedFromVirtualGarden :: "env \<Rightarrow> string \<Rightarrow> Seed io" where
  "shoot_fetchSeedFromVirtualGarden E seedName =
    wrapping (''failed to get seed '' @ seedName) (call (GetSeed seedName) (\<lambda>h. e_seed E h seedName))"

definition shoot_createGardenClient :: "env \<Rightarrow> unit io" where
  "shoot_createGardenClient E =
    bind (wrapping ''failed to read garden kubeconfig'' (invoke E (CreateGardenClient ''kubeconfig''))) (\<lambda>_.
    bind (wrapping ''failed to add kubernetes scheme'' (invoke E (CreateGardenClient ''kubernetes''))) (\<lambda>_.
    bind (wrapping ''failed to add gardencorev1beta1 scheme'' (invoke E (CreateGardenClient ''gardencorev1beta1''))) (\<lambda>_.
    invoke E (CreateGardenClient ''client''))))"

subsection \<open>Operations\<close>

definition deref :: "'a option \<Rightarrow> 'a result" where
  "deref p = (case p of None \<Rightarrow> Panic nil_deref | Some x \<Rightarrow> Ok x)"

definition shoot_Reconcile ::
    "env \<Rightarrow> extern \<Rightarrow> deploy_extern \<Rightarrow> Configuration \<Rightarrow> Extension \<Rightarrow> unit io" where
  "shoot_Reconcile E X D cfg ex =
    (let namespace = ex_Namespace ex in
     bind (call (GetCluster namespace) (\<lambda>h. e_cluster E h namespace)) (\<lambda>cluster.
     bind (pure_res (DecodeAndValidateProviderConfig X D ex (Some cluster))) (\<lambda>certConfig.
     bind (shoot_createValues E D cfg certConfig cluster namespace) (\<lambda>valuesPtr.
     bind (if \<not> cl_IsHibernated cluster
           then bind (pure_res (deref valuesPtr)) (\<lambda>values. createShootResourcesForShoot E X D values)
           else ret ()) (\<lambda>_.
     bind (pure_res (deref valuesPtr)) (\<lambda>values.
     bind (createSeedResourcesForShoot E X D values) (\<lambda>_.
     shoot_updateStatus E ex certConfig)))))))"

text \<open>The shoot is being deleted for more than ten minutes, as far as the cluster can be read.\<close>

definition deletingForLong :: "(goerr + Cluster) \<Rightarrow> int \<Rightarrow> bool" where
  "deletingForLong cluster now =
    (case cluster of
       Inl _ \<Rightarrow> False
     | Inr cl \<Rightarrow> (case cl_Shoot cl of
           None \<Rightarrow> False
         | Some sh \<Rightarrow> (case sh_DeletionTimestamp sh of
               None \<Rightarrow> False
             | Some t \<Rightarrow> now - t > 10 * minute)))"

definition shoot_Delete :: "env \<Rightarrow> Extension \<Rightarrow> unit io" where
  "shoot_Delete E ex =
    (let namespace = ex_Namespace ex in
     bind (attempt (deleteShootResourcesForShoot E namespace)) (\<lambda>r.
     bind (case r of
             Inr _ \<Rightarrow> ret ()
           | Inl err \<Rightarrow>
               bind (attempt (call (GetCluster namespace) (\<lambda>h. e_cluster E h namespace))) (\<lambda>cluster.
               bind get_world (\<lambda>w.
               if deletingForLong cluster (e_now E (trace w))
               then dropShootResourcesForShoot E namespace
               else fail err))) (\<lambda>_.
     deleteSeedResourcesForShoot E namespace)))"

definition shoot_ForceDelete :: "env \<Rightarrow> Extension \<Rightarrow> unit io" where
  "shoot_ForceDelete E ex = shoot_Delete E ex"

definition shoot_Restore ::
    "env \<Rightarrow> extern \<Rightarrow> deploy_extern \<Rightarrow> Configuration \<Rightarrow> Extension \<Rightarrow> unit io" where
  "shoot_Restore E X D cfg ex = shoot_Reconcile E X D cfg ex"

definition shoot_Migrate :: "env \<Rightarrow> Extension \<Rightarrow> unit io" where
  "shoot_Migrate E ex =
    bind (invoke E (SetKeepObjects (ex_Namespace ex) CertManagementResourceNameShoot True)) (\<lambda>_.
    shoot_Delete E ex)"

subsection \<open>Adding the controller\<close>

definition shoot_AddToManagerWithOptions :: "AddOptions \<Rightarrow> AddOptions \<Rightarrow> AddArgs result" where
  "shoot_AddToManagerWithOptions DefaultAddOptions opts =
    (if ExtensionClassGarden \<in> set (ao_ExtensionClasses opts)
     then Error (ErrMsg (''controller \"'' @ shoot_ControllerName @ ''\" for type \"'' @ shoot_Type
            @ ''\" is not supported for extension class \"'' @ ExtensionClassGarden @ ''\"''))
     else Ok \<lparr>aa_ServiceConfig = ao_ServiceConfig opts, aa_Name = shoot_ControllerName,
       aa_FinalizerSuffix = FinalizerSuffix, aa_Resync = 0,
       aa_IgnoreOperationAnnotation = ao_IgnoreOperationAnnotation DefaultAddOptions,
       aa_Type = shoot_Type, aa_ExtensionClasses = [ExtensionClassShoot], aa_Watch = WatchDNSServiceExtension\<rparr>)"

definition shoot_AddToManager :: "AddOptions \<Rightarrow> AddArgs result" where
  "shoot_AddToManager DefaultAddOptions = shoot_AddToManagerWithOptions DefaultAddOptions DefaultAddOptions"

text \<open>A reconcile request: namespace and name.\<close>

definition mapDNSServiceExtensionToCertServiceExtension :: "Extension option \<Rightarrow> (string \<times> string) list" where
  "mapDNSServiceExtensionToCertServiceExtension ex =
    (case ex of
       None \<Rightarrow> []
     | Some e \<Rightarrow> (if ex_Name e \<noteq> dnsServiceExtensionName then [] else [(ex_Namespace e, shoot_Type)]))"

text \<open>The predicate on events; a missing annotation reads as the empty string.\<close>

definition annotation :: "Extension \<Rightarrow> string \<Rightarrow> string" where
  "annotation ex k = ptr_Deref (ex_Annotations ex k) ''''"

definition dnsPredicate_Create :: "Extension option \<Rightarrow> bool" where
  "dnsPredicate_Create obj = (case obj of None \<Rightarrow> False | Some e \<Rightarrow> ex_Name e = dnsServiceExtensionName)"

definition dnsPredicate_Update :: "Extension option \<Rightarrow> Extension option \<Rightarrow> bool" where
  "dnsPredicate_Update old new =
    (case new of
       None \<Rightarrow> False
     | Some e \<Rightarrow>
         (if ex_Name e \<noteq> dnsServiceExtensionName then False
          else (let oldValue = (case old of None \<Rightarrow> '''' | Some o' \<Rightarrow> annotation o' useNextGenerationControllerAnnotation)
                in oldValue \<noteq> annotation e useNextGenerationControllerAnnotation)))"

definition dnsPredicate_Delete :: "Extension option \<Rightarrow> bool" where
  "dnsPredicate_Delete obj = False"

definition dnsPredicate_Generic :: "Extension option \<Rightarrow> bool" where
  "dnsPredicate_Generic obj = False"

subsection \<open>The values\<close>

lemma not_restricted_initially: "\<not> RestrictedIssuer ((shoot_initialValues cfg cc ns)\<lparr>vl_NextGenDNSShootService := n, vl_Replicas := r\<rparr>)"
  by (simp add: RestrictedIssuer_def shoot_initialValues_def emptyValues_def)

lemma restrictedDomains_initially:
  "restrictedDomains ((shoot_initialValues cfg cc ns)\<lparr>vl_NextGenDNSShootService := n, vl_Replicas := r\<rparr>) cluster = Ok (Some '''')"
  using not_restricted_initially by (simp add: restrictedDomains_def) (simp add: shoot_initialValues_def emptyValues_def)

lemma isNextGen_Ok:
  "isNextGenDNSShootServiceEnabled E ns w = (Ok b, w') \<Longrightarrow>
     trace w' = trace w @ [GetExtension ns dnsServiceExtensionName]"
  by (cases "e_extension E (trace w) ns dnsServiceExtensionName")
    (auto simp: isNextGenDNSShootServiceEnabled_def io_simps split: if_splits)

lemma shoot_createValues_Ok:
  assumes "shoot_createValues E D cfg cc cluster ns w = (Ok vp, w')"
  obtains v sh where "vp = Some v" "cl_Shoot cluster = Some sh"
    "trace w' = trace w @ [GetExtension ns dnsServiceExtensionName, ReconcileShootAccessSecret ShootAccessSecretName ns]"
    "vl_ExtensionConfig v = cfg" "vl_CertConfig v = cc" "vl_Namespace v = ns" "vl_ShootDeployment v"
    "vl_Resources v = sh_Resources sh" "vl_RestrictedDomains v = ''''"
    "vl_Replicas v = ucast (cl_GetReplicas cluster)" "vl_CertClass v = ''''"
    "PrepareCertManagementImage D = Ok (vl_Image v)"
    "vl_GenericTokenKubeconfigSecretName v = cl_GenericTokenKubeconfigSecretName cluster"
proof -
  obtain n w1 where w1: "isNextGenDNSShootServiceEnabled E ns w = (Ok n, w1)"
    and rest: "bind (invoke E (ReconcileShootAccessSecret ShootAccessSecretName ns)) (\<lambda>_.
        bind (pure_res (case cl_Shoot cluster of None \<Rightarrow> Panic nil_deref | Some sh \<Rightarrow> Ok (sh_Resources sh))) (\<lambda>resources.
        bind (pure_res (PrepareCertManagementImage D)) (\<lambda>img.
        ret (Some (((shoot_initialValues cfg cc ns)\<lparr>vl_NextGenDNSShootService := n, vl_Replicas := ucast (cl_GetReplicas cluster)\<rparr>)
          \<lparr>vl_RestrictedDomains := '''', vl_GenericTokenKubeconfigSecretName := cl_GenericTokenKubeconfigSecretName cluster,
           vl_Resources := resources, vl_Image := img\<rparr>))))) w1 = (Ok vp, w')"
    using assms by (auto simp: shoot_createValues_def ok_iffs Let_def restrictedDomains_initially)
  then obtain sh img where sh: "cl_Shoot cluster = Some sh" "PrepareCertManagementImage D = Ok img"
    and w': "w' = w1\<lparr>trace := trace w1 @ [ReconcileShootAccessSecret ShootAccessSecretName ns]\<rparr>"
    and vp: "vp = Some (((shoot_initialValues cfg cc ns)\<lparr>vl_NextGenDNSShootService := n, vl_Replicas := ucast (cl_GetReplicas cluster)\<rparr>)
          \<lparr>vl_RestrictedDomains := '''', vl_GenericTokenKubeconfigSecretName := cl_GenericTokenKubeconfigSecretName cluster,
           vl_Resources := sh_Resources sh, vl_Image := img\<rparr>)"
    by (auto simp: ok_iffs split: option.splits)
  show thesis
    by (rule that [OF vp sh(1)])
      (simp_all add: w' isNextGen_Ok [OF w1] shoot_initialValues_def emptyValues_def sh)
qed

subsection \<open>Reconciling\<close>

lemma shoot_Reconcile_Ok:
  assumes "shoot_Reconcile E X D cfg ex w = (Ok (), w')"
  obtains cluster cc v wv wd where
    "e_cluster E (trace w) (ex_Namespace ex) = Inr cluster"
    "DecodeAndValidateProviderConfig X D ex (Some cluster) = Ok cc"
    "shoot_createValues E D cfg cc cluster (ex_Namespace ex) (w\<lparr>trace := trace w @ [GetCluster (ex_Namespace ex)]\<rparr>) = (Ok (Some v), wv)"
    "(if cl_IsHibernated cluster then wd = wv else DeployShootManagedResource E X D v wv = (Ok (), wd))"
    "\<exists>ws. DeploySeedManagedResource E X D v wd = (Ok (), ws)
       \<and> trace w' = trace ws @ [PatchExtensionStatus (ex_Namespace ex) (ex_Name ex) (statusResources cc)]"
proof -
  obtain cluster cc vp wv wd where 1:
    "e_cluster E (trace w) (ex_Namespace ex) = Inr cluster"
    "DecodeAndValidateProviderConfig X D ex (Some cluster) = Ok cc"
    and v: "shoot_createValues E D cfg cc cluster (ex_Namespace ex) (w\<lparr>trace := trace w @ [GetCluster (ex_Namespace ex)]\<rparr>) = (Ok vp, wv)"
    and d: "(if \<not> cl_IsHibernated cluster
           then bind (pure_res (deref vp)) (\<lambda>values. createShootResourcesForShoot E X D values)
           else ret ()) wv = (Ok (), wd)"
    and s: "bind (pure_res (deref vp)) (\<lambda>values. bind (createSeedResourcesForShoot E X D values) (\<lambda>_.
     shoot_updateStatus E ex cc)) wd = (Ok (), w')"
    using assms by (auto simp: shoot_Reconcile_def Let_def ok_iffs simp del: if_splits)
  obtain val where "vp = Some val"
    using v by (rule shoot_createValues_Ok)
  then show thesis
    using 1 v d s that
    by (auto simp: deref_def ok_iffs createShootResourcesForShoot_def createSeedResourcesForShoot_def
        shoot_updateStatus_def split: if_splits)
qed

text \<open>The values were built for a namespace from a configuration, a provider configuration and a cluster.\<close>

definition shoot_values :: "Configuration \<Rightarrow> CertConfig \<Rightarrow> Cluster \<Rightarrow> string \<Rightarrow> Values \<Rightarrow> bool" where
  "shoot_values cfg cc cluster ns v \<longleftrightarrow>
     vl_ExtensionConfig v = cfg \<and> vl_CertConfig v = cc \<and> vl_Namespace v = ns \<and> vl_ShootDeployment v
   \<and> (\<exists>sh. cl_Shoot cluster = Some sh \<and> vl_Resources v = sh_Resources sh)
   \<and> vl_Replicas v = ucast (cl_GetReplicas cluster)
   \<and> vl_GenericTokenKubeconfigSecretName v = cl_GenericTokenKubeconfigSecretName cluster"

text \<open>The call that creates the shoot's managed resource, which holds the objects of the values.\<close>

definition shoot_creation :: "extern \<Rightarrow> deploy_extern \<Rightarrow> Values \<Rightarrow> event \<Rightarrow> bool" where
  "shoot_creation X D v e \<longleftrightarrow> (\<exists>objs data. shootObjects X D v = Ok objs \<and> AddAllAndSerialize D objs = Inr data
     \<and> e = CreateManagedResource (vl_Namespace v) CertManagementResourceNameShoot '''' data False)"

lemma shoot_Reconcile_trace:
  assumes "shoot_Reconcile E X D cfg ex w = (Ok (), w')"
  obtains cluster cc v objs "is" data shootCalls where "e_cluster E (trace w) (ex_Namespace ex) = Inr cluster"
    "provider_config D ex cc" "ValidateCertConfig X cc (Some cluster) = []"
    "shoot_values cfg cc cluster (ex_Namespace ex) v"
    "seedObjects X D v = Ok (objs, is)" "AddAllAndSerialize D objs = Inr data"
    "list_all (issuer_checked E D (ex_Namespace ex) (trace w')) is"
    "if cl_IsHibernated cluster then shootCalls = [] else \<exists>e. shootCalls = [e] \<and> shoot_creation X D v e"
    "trace w' = trace w @ [GetCluster (ex_Namespace ex), GetExtension (ex_Namespace ex) dnsServiceExtensionName,
       ReconcileShootAccessSecret ShootAccessSecretName (ex_Namespace ex)]
     @ shootCalls @ concat (map (issuer_checks (ex_Namespace ex)) is)
     @ [CreateManagedResource (ex_Namespace ex) CertManagementResourceNameSeed (SeedResourceManagerClass X) data False,
        PatchExtensionStatus (ex_Namespace ex) (ex_Name ex) (statusResources cc)]"
proof -
  let ?ns = "ex_Namespace ex"
  obtain cluster cc v wv wd where 1: "e_cluster E (trace w) ?ns = Inr cluster"
    "DecodeAndValidateProviderConfig X D ex (Some cluster) = Ok cc"
    and v: "shoot_createValues E D cfg cc cluster ?ns (w\<lparr>trace := trace w @ [GetCluster ?ns]\<rparr>) = (Ok (Some v), wv)"
    and d: "if cl_IsHibernated cluster then wd = wv else DeployShootManagedResource E X D v wv = (Ok (), wd)"
    and s: "\<exists>ws. DeploySeedManagedResource E X D v wd = (Ok (), ws)
       \<and> trace w' = trace ws @ [PatchExtensionStatus ?ns (ex_Name ex) (statusResources cc)]"
    using assms by (rule shoot_Reconcile_Ok)
  have wv: "trace wv = trace w @ [GetCluster ?ns, GetExtension ?ns dnsServiceExtensionName,
      ReconcileShootAccessSecret ShootAccessSecretName ?ns]" and ns: "vl_Namespace v = ?ns"
    and vals: "shoot_values cfg cc cluster ?ns v"
    using v by (rule shoot_createValues_Ok; simp add: shoot_values_def)+
  obtain shootCalls where sh: "trace wd = trace wv @ shootCalls"
    "if cl_IsHibernated cluster then shootCalls = [] else \<exists>e. shootCalls = [e] \<and> shoot_creation X D v e"
    using d by (cases "cl_IsHibernated cluster") (auto simp: shoot_creation_def elim!: DeployShoot_success)
  obtain ws where ws: "DeploySeedManagedResource E X D v wd = (Ok (), ws)"
    "trace w' = trace ws @ [PatchExtensionStatus ?ns (ex_Name ex) (statusResources cc)]"
    using s by blast
  from ws(1) obtain objs "is" data where o: "seedObjects X D v = Ok (objs, is)" "AddAllAndSerialize D objs = Inr data"
    and t: "trace ws = trace wd @ concat (map (issuer_checks ?ns) is)
       @ [CreateManagedResource ?ns CertManagementResourceNameSeed (SeedResourceManagerClass X) data False]"
    and c: "list_all (issuer_checked E D ?ns (trace ws)) is"
    unfolding ns [symmetric] by (rule DeploySeed_checked)
  have "list_all (issuer_checked E D ?ns (trace w')) is"
    using c by (auto simp: ws(2) list_all_iff intro: issuer_checked_append)
  with 1 vals o sh(2) wv sh(1) ws(2) t show thesis
    by (intro that [of cluster cc v objs "is" data shootCalls])
      (auto dest: DecodeAndValidate_decodes DecodeAndValidate_valid)
qed

lemma statusResources_names:
  "map nrr_RefName (statusResources cc) = map (\<lambda>ic. issuerSecretName (ic_Name ic)) (cc_Issuers cc)"
  by (simp add: statusResources_def issuerSecretName_def Let_def)

subsection \<open>Deleting\<close>

lemma shoot_Delete_unwanted:
  assumes "shoot_Delete E ex w = (Ok (), w')"
  shows "\<not> mr_wanted (ex_Namespace ex, CertManagementResourceNameSeed) b (trace w')"
proof -
  obtain w1 where "DeleteSeedManagedResourceAndWait E (deletionValues (ex_Namespace ex)) (2 * minute) w1 = (Ok (), w')"
    using assms by (auto simp: shoot_Delete_def Let_def bind_Ok_iff deleteSeedResourcesForShoot_def)
  then have "\<not> mr_wanted (vl_Namespace (deletionValues (ex_Namespace ex)), CertManagementResourceNameSeed) b (trace w')"
    by (rule seed_mr.unwanted_after_remove)
  then show ?thesis by (simp add: deletionValues_def)
qed

lemma deletionValues_sel [simp]: "vl_Namespace (deletionValues ns) = ns" "vl_ShootDeployment (deletionValues ns)"
  by (simp_all add: deletionValues_def)

text \<open>The writes of an operation stay in a namespace.\<close>

fun in_namespace :: "string \<Rightarrow> event \<Rightarrow> bool" where
  "in_namespace ns (ReconcileShootAccessSecret _ ns') = (ns' = ns)"
| "in_namespace ns (CreateManagedResource ns' _ _ _ _) = (ns' = ns)"
| "in_namespace ns (DeleteManagedResource ns' _) = (ns' = ns)"
| "in_namespace ns (SetKeepObjects ns' _ _) = (ns' = ns)"
| "in_namespace ns (PatchManagedResourceFinalizers ns' _ _) = (ns' = ns)"
| "in_namespace ns (DeleteSecret ns' _) = (ns' = ns)"
| "in_namespace ns (PatchExtensionStatus ns' _ _) = (ns' = ns)"
| "in_namespace ns e = (\<not> is_write e)"

lemma emits_shoot_Delete [appends_intros]: "emits (in_namespace (ex_Namespace ex)) (shoot_Delete E ex)"
  unfolding shoot_Delete_def Let_def deleteShootResourcesForShoot_def dropShootResourcesForShoot_def
    deleteSeedResourcesForShoot_def DeleteShootManagedResourceAndWait_def DropShootManagedResource_def
    DeleteSeedManagedResourceAndWait_def
  by (intro appends_intros) simp_all

lemma emits_shoot_createValues:
  assumes "\<And>e. \<not> is_write e \<Longrightarrow> P e" "P (ReconcileShootAccessSecret ShootAccessSecretName ns)"
  shows "emits P (shoot_createValues E D cfg cc cluster ns)"
  unfolding shoot_createValues_def isNextGenDNSShootServiceEnabled_def Let_def
  by (intro appends_intros) (simp_all add: assms)

lemma deref_run: "pure_res (deref p) w = (Ok a, w') \<Longrightarrow> p = Some a"
  by (auto simp: pure_res_def deref_def split: option.splits)

text \<open>The calls of a reconciliation: reads, the access secret, at most the two managed resources, and the
  status.\<close>

definition reconcile_events :: "(event \<Rightarrow> bool) \<Rightarrow> Extension \<Rightarrow> bool" where
  "reconcile_events P ex \<longleftrightarrow> (\<forall>e. \<not> is_write e \<longrightarrow> P e)
     \<and> P (ReconcileShootAccessSecret ShootAccessSecretName (ex_Namespace ex))
     \<and> (\<forall>n c d. n \<in> {CertManagementResourceNameShoot, CertManagementResourceNameSeed} \<longrightarrow>
          P (CreateManagedResource (ex_Namespace ex) n c d False))
     \<and> (\<forall>r. P (PatchExtensionStatus (ex_Namespace ex) (ex_Name ex) r))"

lemma emits_shoot_deployments:
  assumes P: "reconcile_events P ex" and v: "\<And>v. vp = Some v \<Longrightarrow> vl_Namespace v = ex_Namespace ex"
  shows "emits P
     (bind (if \<not> cl_IsHibernated cluster
           then bind (pure_res (deref vp)) (\<lambda>values. createShootResourcesForShoot E X D values)
           else ret ()) (\<lambda>_.
      bind (pure_res (deref vp)) (\<lambda>values.
      bind (createSeedResourcesForShoot E X D values) (\<lambda>_. shoot_updateStatus E ex cc))))"
proof -
  have "emits P (DeployShootManagedResource E X D a)" "emits P (DeploySeedManagedResource E X D a)"
    if "pure_res (deref vp) w = (Ok a, w')" for a w w'
    using P v[OF deref_run[OF that]] unfolding reconcile_events_def
    by (auto intro!: emits_deploy(1,2))
  then show ?thesis
    unfolding createShootResourcesForShoot_def createSeedResourcesForShoot_def shoot_updateStatus_def
    using P unfolding reconcile_events_def
    by (intro emits_bind_ok [of _ "pure_res _"] emits_bind [of _ "if _ then _ else _"] emits_if
        emits_bind emits_pure emits_ret emits_invoke) auto
qed

lemma emits_shoot_Reconcile_events:
  assumes "reconcile_events P ex"
  shows "emits P (shoot_Reconcile E X D cfg ex)"
proof -
  have "P (GetCluster (ex_Namespace ex))" "\<And>cfg cc cluster. emits P (shoot_createValues E D cfg cc cluster (ex_Namespace ex))"
    using assms unfolding reconcile_events_def by (auto intro!: emits_shoot_createValues)
  then show ?thesis
    unfolding shoot_Reconcile_def Let_def
    by (intro emits_bind_ok [OF emits_call] emits_bind [OF emits_pure] emits_bind_ok emits_shoot_deployments [OF assms])
      (auto elim: shoot_createValues_Ok)
qed

lemma emits_shoot_Reconcile [appends_intros]:
  "emits (in_namespace (ex_Namespace ex)) (shoot_Reconcile E X D cfg ex)"
proof (rule emits_shoot_Reconcile_events)
  have "in_namespace ns e" if "\<not> is_write e" for ns e
    using that by (cases e) simp_all
  then show "reconcile_events (in_namespace (ex_Namespace ex)) ex"
    by (simp add: reconcile_events_def)
qed

subsection \<open>No panics\<close>

text \<open>The clusters of the environment have a shoot, as those of a shoot's namespace do.\<close>

definition clusters_have_shoots :: "env \<Rightarrow> bool" where
  "clusters_have_shoots E \<longleftrightarrow> (\<forall>h ns c. e_cluster E h ns = Inr c \<longrightarrow> cl_Shoot c \<noteq> None)"

lemma no_panic_shoot_createValues:
  "cl_Shoot cluster \<noteq> None \<Longrightarrow> no_panic (shoot_createValues E D cfg cc cluster ns)"
  unfolding shoot_createValues_def isNextGenDNSShootServiceEnabled_def Let_def restrictedDomains_initially
  by (intro no_panic_intros) (auto simp: PrepareCertManagementImage_no_panic)

lemma no_panic_shoot_Reconcile:
  assumes "clusters_have_shoots E" "support_safe E"
  shows "no_panic (shoot_Reconcile E X D cfg ex)"
proof -
  have some: "\<exists>v. vp = Some v" if "shoot_createValues E D cfg cc cluster ns w = (Ok vp, w')" for cc cluster ns vp w w'
    using that by (rule shoot_createValues_Ok) simp
  show ?thesis
    unfolding shoot_Reconcile_def Let_def
  proof (intro no_panic_bind_ok [of "call _ _"] no_panic_call)
    fix cluster w w'
    assume "call (GetCluster (ex_Namespace ex)) (\<lambda>h. e_cluster E h (ex_Namespace ex)) w = (Ok cluster, w')"
    then have "cl_Shoot cluster \<noteq> None"
      using assms unfolding clusters_have_shoots_def by (auto simp: call_Ok_iff)
    then show "no_panic (bind (pure_res (DecodeAndValidateProviderConfig X D ex (Some cluster))) (\<lambda>certConfig.
     bind (shoot_createValues E D cfg certConfig cluster (ex_Namespace ex)) (\<lambda>valuesPtr.
     bind (if \<not> cl_IsHibernated cluster
           then bind (pure_res (deref valuesPtr)) (\<lambda>values. createShootResourcesForShoot E X D values)
           else ret ()) (\<lambda>_.
     bind (pure_res (deref valuesPtr)) (\<lambda>values.
     bind (createSeedResourcesForShoot E X D values) (\<lambda>_.
     shoot_updateStatus E ex certConfig))))))"
      by (intro no_panic_bind no_panic_pure DecodeAndValidate_no_panic
          no_panic_bind_ok [of "shoot_createValues _ _ _ _ _ _"] no_panic_shoot_createValues)
        (auto dest!: some simp: deref_def createShootResourcesForShoot_def createSeedResourcesForShoot_def
          shoot_updateStatus_def intro!: no_panic_intros no_panic_DeploySeed assms(2))
  qed
qed

lemma no_panic_shoot_Delete: "no_panic (shoot_Delete E ex)"
  unfolding shoot_Delete_def Let_def deleteShootResourcesForShoot_def dropShootResourcesForShoot_def
    deleteSeedResourcesForShoot_def
  by (intro no_panic_intros)


lemma sint_truncated: "sint (ucast (x :: go_int) :: go_int32) = signed_take_bit 31 (sint x)"
  by transfer (simp add: signed_take_bit_take_bit)

text \<open>The time a cluster's shoot is being deleted since.\<close>

definition deletion_timestamp :: "goerr + Cluster \<Rightarrow> int option" where
  "deletion_timestamp r = (case r of Inl _ \<Rightarrow> None | Inr c \<Rightarrow> Option.bind (cl_Shoot c) sh_DeletionTimestamp)"

subsection \<open>The actuator\<close>

lemma shoot_Reconcile_wanted:
  assumes "shoot_Reconcile E X D cfg ex w = (Ok (), w')"
  shows "mr_wanted (ex_Namespace ex, CertManagementResourceNameSeed) b (trace w')"
proof -
  obtain cluster cc v wv wd where
    v: "shoot_createValues E D cfg cc cluster (ex_Namespace ex) (w\<lparr>trace := trace w @ [GetCluster (ex_Namespace ex)]\<rparr>) = (Ok (Some v), wv)"
    and s: "\<exists>ws. DeploySeedManagedResource E X D v wd = (Ok (), ws)
       \<and> trace w' = trace ws @ [PatchExtensionStatus (ex_Namespace ex) (ex_Name ex) (statusResources cc)]"
    using assms by (rule shoot_Reconcile_Ok)
  have "vl_Namespace v = ex_Namespace ex"
    using v by (rule shoot_createValues_Ok) simp
  moreover obtain ws where "DeploySeedManagedResource E X D v wd = (Ok (), ws)"
    and w': "trace w' = trace ws @ [PatchExtensionStatus (ex_Namespace ex) (ex_Name ex) (statusResources cc)]"
    using s by blast
  then have "mr_wanted (vl_Namespace v, CertManagementResourceNameSeed) b (trace ws)"
    by (intro seed_mr.wanted_after_deploy)
  ultimately show ?thesis
    by (simp add: w' mr_wanted_append) (simp add: mr_wanted_def)
qed

interpretation shoot_actuator: actuator E "shoot_Reconcile E X D cfg" "shoot_Delete E" "shoot_ForceDelete E"
  "shoot_Restore E X D cfg" "shoot_Migrate E" "\<lambda>ex. (ex_Namespace ex, CertManagementResourceNameSeed)"
  for E :: env and X :: extern and D :: deploy_extern and cfg :: Configuration
proof unfold_locales
  fix ex :: Extension
  show "emits (\<lambda>_. True) (shoot_Delete E ex)"
    by (rule emits_mono [OF emits_shoot_Delete]) simp
qed (auto simp: shoot_Reconcile_wanted shoot_Delete_unwanted shoot_ForceDelete_def shoot_Restore_def shoot_Migrate_def)

subsection \<open>Evaluation\<close>

definition sample_extension :: Extension where
  "sample_extension = \<lparr>ex_Name = ''shoot-cert-service'', ex_Namespace = ''shoot--dev--foo'', ex_Annotations = Map.empty,
     ex_DeletionTimestamp = None, ex_Type = ''shoot-cert-service'', ex_Class = None, ex_ProviderConfig = None,
     ex_StatusResources = []\<rparr>"

lemma sample_clusters: "clusters_have_shoots sample_env"
  by (simp add: clusters_have_shoots_def sample_env_def sample_cluster_def)

lemma sample_support: "support_safe sample_env"
  by (simp add: support_safe_def)

lemma sample_shoot_createValues:
  obtains v w' where "shoot_createValues sample_env sample_deploy cfg cc sample_cluster ns w = (Ok (Some v), w')"
proof -
  have img: "PrepareCertManagementImage sample_deploy = Ok ''cert-controller-manager:v1''"
    by (simp add: PrepareCertManagementImage_def sample_deploy_def CertManagementImageName_def)
  have "\<exists>v w'. shoot_createValues sample_env sample_deploy cfg cc sample_cluster ns w = (Ok (Some v), w')"
    by (simp add: shoot_createValues_def isNextGenDNSShootServiceEnabled_def io_simps Let_def
        restrictedDomains_initially img)
  then show ?thesis using that by blast
qed

lemma sample_shoot_Reconcile:
  obtains w' where "shoot_Reconcile sample_env sample_extern sample_deploy cfg sample_extension w = (Ok (), w')"
proof -
  let ?w = "w\<lparr>trace := trace w @ [GetCluster ''shoot--dev--foo'']\<rparr>"
  obtain v wv where v: "shoot_createValues sample_env sample_deploy cfg emptyCertConfig
      sample_cluster ''shoot--dev--foo'' ?w = (Ok (Some v), wv)"
    by (rule sample_shoot_createValues)
  then have "vl_ShootDeployment v" "vl_CertConfig v = emptyCertConfig"
    by (auto elim: shoot_createValues_Ok)
  then have "\<exists>is. collectIssuers v = Ok is"
    unfolding collectIssuers_Ok_iff by (simp add: user_issuers_def emptyCertConfig_def)
  then obtain "is" where is_ok: "collectIssuers v = Ok is" ..
  obtain wd where wd: "DeployShootManagedResource sample_env sample_extern sample_deploy v wv = (Ok (), wd)"
    using sample_DeployShoot_any [OF \<open>vl_ShootDeployment v\<close>] by blast
  obtain ws where ws: "DeploySeedManagedResource sample_env sample_extern sample_deploy v wd = (Ok (), ws)"
    using sample_DeploySeed_any [OF is_ok \<open>vl_ShootDeployment v\<close>] by blast
  have "\<exists>w'. shoot_Reconcile sample_env sample_extern sample_deploy cfg sample_extension w = (Ok (), w')"
    using v wd ws by (simp add: shoot_Reconcile_def Let_def io_simps sample_extension_def DecodeAndValidateProviderConfig_def
        deref_def createShootResourcesForShoot_def createSeedResourcesForShoot_def shoot_updateStatus_def)
  then show ?thesis using that by blast
qed


subsection \<open>Properties\<close>

text \<open>C3: A successful reconciliation of a shoot calls, in this order: read the cluster and the DNS
  extension, reconcile the access secret, create the shoot's managed resource unless the shoot is
  hibernated, check every secret of every issuer, in the order of the issuers, create the seed's managed resource,
  and patch the status with one secret per configured issuer. The provider configuration is the one
  of the Extension and is valid for the cluster that was read, the values were built from both, the managed resources
  hold the serialised objects of these values, and every check of a secret was successful.\<close>

theorem shoot_reconcile_calls:
  assumes "shoot_Reconcile E X D cfg ex w = (Ok (), w')"
  shows "\<exists>cluster cc v objs is data shootCalls. let ns = ex_Namespace ex in
      e_cluster E (trace w) ns = Inr cluster
    \<and> provider_config D ex cc \<and> ValidateCertConfig X cc (Some cluster) = []
    \<and> shoot_values cfg cc cluster ns v
    \<and> seedObjects X D v = Ok (objs, is) \<and> AddAllAndSerialize D objs = Inr data
    \<and> trace w' = trace w @ [GetCluster ns, GetExtension ns dnsServiceExtensionName,
         ReconcileShootAccessSecret ShootAccessSecretName ns]
       @ shootCalls @ concat (map (issuer_checks ns) is)
       @ [CreateManagedResource ns CertManagementResourceNameSeed (SeedResourceManagerClass X) data False,
          PatchExtensionStatus ns (ex_Name ex) (statusResources cc)]
    \<and> (if cl_IsHibernated cluster then shootCalls = [] else \<exists>e. shootCalls = [e] \<and> shoot_creation X D v e)
    \<and> list_all (issuer_checked E D ns (trace w')) is"
  using assms unfolding Let_def by (rule shoot_Reconcile_trace) blast

theorem shoot_reconcile_calls_witness:
  "\<exists>w' cluster. shoot_Reconcile sample_env sample_extern sample_deploy sample_configuration sample_extension initial = (Ok (), w')
     \<and> e_cluster sample_env [] ''shoot--dev--foo'' = Inr cluster
     \<and> last (trace w') = PatchExtensionStatus ''shoot--dev--foo'' ''shoot-cert-service'' []"
proof -
  obtain w' where ok: "shoot_Reconcile sample_env sample_extern sample_deploy sample_configuration sample_extension initial = (Ok (), w')"
    by (rule sample_shoot_Reconcile)
  obtain cluster cc where "e_cluster sample_env (trace initial) (ex_Namespace sample_extension) = Inr cluster"
    "provider_config sample_deploy sample_extension cc"
    "last (trace w') = PatchExtensionStatus (ex_Namespace sample_extension) (ex_Name sample_extension) (statusResources cc)"
    using shoot_reconcile_calls [OF ok] unfolding Let_def by force
  then show ?thesis
    using ok by (auto simp: sample_extension_def provider_config_def statusResources_def emptyCertConfig_def)
qed

text \<open>C30: Every change the shoot actuator makes outside lies in the namespace of the Extension, whatever
  the environment answers and whether or not the operation succeeds.\<close>

theorem shoot_actuator_confined:
  "list_all (in_namespace (ex_Namespace ex)) (events (shoot_Reconcile E X D cfg ex))
   \<and> list_all (in_namespace (ex_Namespace ex)) (events (shoot_Delete E ex))
   \<and> list_all (in_namespace (ex_Namespace ex)) (events (shoot_Migrate E ex))"
proof -
  have "emits (in_namespace (ex_Namespace ex)) (shoot_Migrate E ex)"
    unfolding shoot_Migrate_def by (intro appends_intros) simp
  then show ?thesis
    by (intro conjI emits_events emits_shoot_Reconcile emits_shoot_Delete)
qed

text \<open>C31: Reconciling, restoring, deleting (also by force) and migrating a shoot's Extension never panic, if
  the clusters of the namespaces have a shoot and either support for the check of external account
  bindings can always be created or the check can be called without it, which the code does when it
  cannot.\<close>

theorem shoot_actuator_no_panic:
  assumes "clusters_have_shoots E" "support_safe E"
  shows "execute (shoot_Reconcile E X D cfg ex) \<noteq> Panic p \<and> execute (shoot_Restore E X D cfg ex) \<noteq> Panic p
    \<and> execute (shoot_Delete E ex) \<noteq> Panic p \<and> execute (shoot_ForceDelete E ex) \<noteq> Panic p
    \<and> execute (shoot_Migrate E ex) \<noteq> Panic p"
proof -
  have "no_panic (shoot_Migrate E ex)"
    unfolding shoot_Migrate_def by (intro no_panic_intros no_panic_shoot_Delete)
  then show ?thesis
    unfolding shoot_Restore_def shoot_ForceDelete_def
    by (intro conjI no_panic_execute no_panic_shoot_Reconcile assms no_panic_shoot_Delete)
qed

theorem shoot_actuator_no_panic_witness:
  "clusters_have_shoots sample_env \<and> support_safe sample_env
   \<and> execute (shoot_Restore sample_env sample_extern sample_deploy sample_configuration sample_extension) \<noteq> Panic nil_deref"
  using shoot_actuator_no_panic [OF sample_clusters sample_support] sample_clusters sample_support by blast

text \<open>C22: The actuator of shoots keeps gardener's contract: reconciled or restored, the seed's managed
  resource is wanted; deleted or migrated, it is not; and migrating marks the shoot's objects to be
  kept before it deletes anything.\<close>

theorem shoot_actuator_contract:
  "(case shoot_Reconcile E X D cfg ex w of
       (Ok _, w') \<Rightarrow> mr_wanted (ex_Namespace ex, CertManagementResourceNameSeed) b (trace w') | _ \<Rightarrow> True)
   \<and> (case shoot_Restore E X D cfg ex w of
       (Ok _, w') \<Rightarrow> mr_wanted (ex_Namespace ex, CertManagementResourceNameSeed) b (trace w') | _ \<Rightarrow> True)
   \<and> (case shoot_ForceDelete E ex w of
       (Ok _, w') \<Rightarrow> \<not> mr_wanted (ex_Namespace ex, CertManagementResourceNameSeed) b (trace w') | _ \<Rightarrow> True)
   \<and> (case shoot_Migrate E ex w of
       (Ok _, w') \<Rightarrow> \<not> mr_wanted (ex_Namespace ex, CertManagementResourceNameSeed) b (trace w') | _ \<Rightarrow> True)
   \<and> (\<exists>evs. trace (snd (shoot_Migrate E ex w))
        = trace w @ SetKeepObjects (ex_Namespace ex) CertManagementResourceNameShoot True # evs)"
proof -
  note facts = shoot_actuator.reconcile_wanted shoot_actuator.restore_wanted
    shoot_actuator.delete_unwanted shoot_actuator.migrate_unwanted
  show ?thesis
    by (intro conjI shoot_actuator.migrate_keeps_first)
      (auto split: prod.splits result.splits dest: facts simp: shoot_ForceDelete_def)
qed


text \<open>When the shoot's managed resource cannot be deleted, its finalizers are removed and the seed's
  resources are deleted only if the cluster says that the shoot has been deleting for more than ten
  minutes; otherwise the error is returned and nothing else is deleted.\<close>

theorem shoot_delete_drops_after_ten_minutes:
  assumes "deleteShootResourcesForShoot E (ex_Namespace ex) w = (Error err, w1)"
    and "w2 = w1\<lparr>trace := trace w1 @ [GetCluster (ex_Namespace ex)]\<rparr>"
  shows "shoot_Delete E ex w =
    (case deletion_timestamp (e_cluster E (trace w1) (ex_Namespace ex)) of
       Some t \<Rightarrow>
         (if 600 * 10 ^ 9 < e_now E (trace w2) - t
          then bind (DropShootManagedResource E (deletionValues (ex_Namespace ex)))
                 (\<lambda>_. deleteSeedResourcesForShoot E (ex_Namespace ex)) w2
          else (Error err, w2))
     | None \<Rightarrow> (Error err, w2))"
  using assms
  by (cases "e_cluster E (trace w1) (ex_Namespace ex)")
    (auto simp: shoot_Delete_def Let_def io_simps deletingForLong_def deletion_timestamp_def
      dropShootResourcesForShoot_def minute_def split: option.splits)

theorem shoot_delete_drops_after_ten_minutes_witness:
  "\<exists>E err w'. shoot_Delete E sample_extension initial = (Error err, w')
     \<and> DeleteManagedResource ''shoot--dev--foo'' CertManagementResourceNameSeed \<notin> set (trace w')"
proof -
  let ?E = "sample_env\<lparr>e_call := \<lambda>h e. Some (Foreign ''timeout'')\<rparr>"
  let ?w1 = "\<lparr>trace = [DeleteManagedResource ''shoot--dev--foo'' CertManagementResourceNameShoot], gardenClient = False\<rparr>"
  let ?w2 = "?w1\<lparr>trace := trace ?w1 @ [GetCluster (ex_Namespace sample_extension)]\<rparr>"
  have "deleteShootResourcesForShoot ?E (ex_Namespace sample_extension) initial = (Error (Foreign ''timeout''), ?w1)"
    by (simp add: deleteShootResourcesForShoot_def DeleteShootManagedResourceAndWait_def deleteAndWait_def io_simps
        initial_def sample_extension_def)
  from shoot_delete_drops_after_ten_minutes [OF this refl]
  have "shoot_Delete ?E sample_extension initial = (Error (Foreign ''timeout''), ?w2)"
    by (simp add: deletion_timestamp_def sample_shoot_def)
  then show ?thesis
    by (intro exI conjI) (assumption, simp add: CertManagementResourceNameSeed_def CertManagementResourceNameShoot_def)
qed

text \<open>The value of \<open>restrictIssuer\<close> has no effect: the values of a shoot's deployment never carry
  restricted domains, and the controller never gets the flag that restricts its default issuer.\<close>

theorem restrict_issuer_without_effect:
  assumes "shoot_createValues E D cfg cc cluster ns w = (Ok (Some v), w')"
  shows "vl_RestrictedDomains v = '''' \<and> \<not> RestrictedIssuer v
    \<and> ''--issuer.default-issuer-domain-ranges'' \<notin> set (map flag_name (args v))"
proof -
  have "vl_RestrictedDomains v = ''''"
    using assms by (rule shoot_createValues_Ok) simp
  then have "\<not> RestrictedIssuer v"
    by (simp add: RestrictedIssuer_def)
  then show ?thesis
    using \<open>vl_RestrictedDomains v = ''''\<close>
    by (auto simp: args_flags flags_before_def flags_after_def append_if_def)
qed

theorem restrict_issuer_without_effect_witness:
  "\<exists>v w'. shoot_createValues sample_env sample_deploy (sample_configuration\<lparr>cfg_RestrictIssuer := Some True\<rparr>)
       emptyCertConfig sample_cluster ''ns'' initial = (Ok (Some v), w') \<and> \<not> RestrictedIssuer v"
proof -
  obtain v w' where ok: "shoot_createValues sample_env sample_deploy (sample_configuration\<lparr>cfg_RestrictIssuer := Some True\<rparr>)
       emptyCertConfig sample_cluster ''ns'' initial = (Ok (Some v), w')"
    by (rule sample_shoot_createValues)
  then show ?thesis using restrict_issuer_without_effect [OF ok] by blast
qed

text \<open>The number of replicas survives the conversion to 32 bits when it fits into them.\<close>

theorem replicas_preserved:
  assumes "shoot_createValues E D cfg cc cluster ns w = (Ok (Some v), w')"
    and "- (2 ^ 31) \<le> sint (cl_GetReplicas cluster)" "sint (cl_GetReplicas cluster) < 2 ^ 31"
  shows "sint (vl_Replicas v) = sint (cl_GetReplicas cluster)"
proof -
  have "vl_Replicas v = ucast (cl_GetReplicas cluster)"
    using assms(1) by (rule shoot_createValues_Ok) simp
  then have "sint (vl_Replicas v) = signed_take_bit 31 (sint (cl_GetReplicas cluster))"
    by (simp add: sint_truncated)
  then show ?thesis
    using assms(2,3) by (simp add: signed_take_bit_int_eq_self)
qed

theorem replicas_preserved_witness:
  "\<exists>v w'. shoot_createValues sample_env sample_deploy sample_configuration emptyCertConfig sample_cluster ''ns'' initial
       = (Ok (Some v), w') \<and> sint (vl_Replicas v) = 1"
proof -
  obtain v w' where ok: "shoot_createValues sample_env sample_deploy sample_configuration
       emptyCertConfig sample_cluster ''ns'' initial = (Ok (Some v), w')"
    by (rule sample_shoot_createValues)
  have "sint (cl_GetReplicas sample_cluster) = 1"
    by (simp add: sample_cluster_def)
  then show ?thesis using replicas_preserved [OF ok] ok by auto
qed

text \<open>C10: Once the provider configuration of a shoot's Extension has passed decoding and validation and the
  values are built, the deployer can collect the issuers: their references resolve.\<close>

theorem reconcile_issuers_resolve:
  assumes "dns1123_law X"
    and "DecodeAndValidateProviderConfig X D ex (Some cluster) = Ok cc"
    and "shoot_createValues E D cfg cc cluster ns w = (Ok (Some v), w')"
  shows "\<exists>is. collectIssuers v = Ok is \<and> distinct (map i_Name is)"
proof -
  obtain sh where v: "cl_Shoot cluster = Some sh" "vl_CertConfig v = cc" "vl_Resources v = sh_Resources sh" "vl_ShootDeployment v"
    using assms(3) by (rule shoot_createValues_Ok) blast
  have ok: "shoot_config_ok X cluster cc"
    using DecodeAndValidate_valid [OF assms(2)] by (simp add: ValidateCertConfig_shoot_iff [OF assms(1)])
  have "list_all (issuer_refs_ok (vl_Resources v)) (user_issuers v)"
    using ok v
    by (auto simp: shoot_config_ok_def issuers_ok_def issuer_ok_def issuer_refs_ok_def user_issuers_def
        list_all_iff secret_in_def secret_reference_def option.pred_set split: option.splits)
  then obtain "is" where "collectIssuers v = Ok is"
    using collectIssuers_Ok_iff by blast
  then show ?thesis
    using collectIssuers_distinct ok v(2) by (auto simp: shoot_config_ok_def issuers_ok_def)
qed

theorem reconcile_issuers_resolve_witness:
  "\<exists>v w' is. shoot_createValues sample_env sample_deploy sample_configuration emptyCertConfig sample_cluster ''ns'' initial
       = (Ok (Some v), w') \<and> collectIssuers v = Ok is"
proof -
  obtain v w' where ok: "shoot_createValues sample_env sample_deploy sample_configuration
       emptyCertConfig sample_cluster ''ns'' initial = (Ok (Some v), w')"
    by (rule sample_shoot_createValues)
  have "DecodeAndValidateProviderConfig sample_extern sample_deploy sample_extension (Some sample_cluster) = Ok emptyCertConfig"
    by (simp add: DecodeAndValidateProviderConfig_def sample_extension_def)
  from reconcile_issuers_resolve [OF sample_dns1123_law this ok] ok show ?thesis by blast
qed

text \<open>An update of an Extension triggers a reconciliation exactly when it is the DNS service's
  Extension and its annotation for the next-generation controller reads differently than before; the
  request is for the certificate service's Extension of the same namespace.\<close>

theorem dns_service_updates_mapped:
  "dnsPredicate_Update old (Some new) =
     (ex_Name new = ''shoot-dns-service''
      \<and> annotation new useNextGenerationControllerAnnotation
         \<noteq> (case old of None \<Rightarrow> '''' | Some x \<Rightarrow> annotation x useNextGenerationControllerAnnotation))
   \<and> mapDNSServiceExtensionToCertServiceExtension (Some new) =
       (if ex_Name new = ''shoot-dns-service'' then [(ex_Namespace new, ''shoot-cert-service'')] else [])
   \<and> \<not> dnsPredicate_Update old None \<and> \<not> dnsPredicate_Delete obj \<and> \<not> dnsPredicate_Generic obj"
  by (auto simp: dnsPredicate_Update_def dnsPredicate_Delete_def dnsPredicate_Generic_def
      mapDNSServiceExtensionToCertServiceExtension_def dnsServiceExtensionName_def shoot_Type_def Let_def
      split: option.splits)


end
