(* ===== verification/Health_Check.thy ===== *)
theory Health_Check
  imports Controller_Common Shoot_Controller "HOL-Library.AList" "HOL-Library.Char_ord" "HOL-Library.List_Lexorder"
begin

text \<open>
  \<open>pkg/controller/healthcheck\<close>: the health check of a shoot's Extension. It wraps the check of the
  seed's managed resource and adds a look at the issuers of the namespace.
\<close>

subsection \<open>Registration\<close>

text \<open>Thirty seconds, in nanoseconds.\<close>

definition defaultSyncPeriod :: go_int where
  "defaultSyncPeriod = 1000000000 * 30"

record HealthCheckAddOptions =
  hao_HealthCheckConfig :: HealthCheckConfig
  hao_MaxConcurrentReconciles :: int

definition health_DefaultAddOptions :: HealthCheckAddOptions where
  "health_DefaultAddOptions =
    \<lparr>hao_HealthCheckConfig = \<lparr>hcc_SyncPeriod = defaultSyncPeriod\<rparr>, hao_MaxConcurrentReconciles = 0\<rparr>"

text \<open>
  The check runs only for clusters whose shoot has a DNS domain; \<open>None\<close> stands for an object that is
  not a cluster. A cluster without a shoot is dereferenced.
\<close>

definition preCheckFunc :: "Cluster option \<Rightarrow> bool result" where
  "preCheckFunc clusterObj =
    (case clusterObj of
       None \<Rightarrow> Ok False
     | Some cluster \<Rightarrow>
         rbind (deref (cl_Shoot cluster)) (\<lambda>shoot.
         Ok (case sh_DNS shoot of Some (Some domain) \<Rightarrow> True | _ \<Rightarrow> False)))"

text \<open>
  The arguments of \<open>healthcheck.DefaultRegistration\<close>: the extension type, the options, and for the one
  condition type the managed resource checked inside.
\<close>

record HealthRegistration =
  hr_Type :: string
  hr_Options :: HealthCheckAddOptions
  hr_Conditions :: "(string \<times> string) list"

definition ShootControlPlaneHealthy :: string where
  "ShootControlPlaneHealthy = ''ControlPlaneHealthy''"

definition RegisterHealthChecks :: "HealthCheckAddOptions \<Rightarrow> HealthRegistration" where
  "RegisterHealthChecks opts = \<lparr>hr_Type = shoot_Type, hr_Options = opts,
     hr_Conditions = [(ShootControlPlaneHealthy, CertManagementResourceNameSeed)]\<rparr>"

definition health_AddToManager :: "HealthCheckAddOptions \<Rightarrow> HealthRegistration" where
  "health_AddToManager DefaultAddOptions = RegisterHealthChecks DefaultAddOptions"

subsection \<open>The wrapper\<close>

text \<open>The inner check: whether it takes a source client, the client and the names it got.\<close>

record InnerCheck =
  inner_isSourceClient :: bool
  inner_sourceClient :: "string option"
  inner_logger :: "(string \<times> string) option"

record IssuerWrapperHealthChecker =
  hw_logger :: string
  hw_sourceClient :: "string option"
  hw_inner :: InnerCheck

definition NewIssuerWrapperHealthChecker :: "InnerCheck \<Rightarrow> IssuerWrapperHealthChecker" where
  "NewIssuerWrapperHealthChecker inner = \<lparr>hw_logger = '''', hw_sourceClient = None, hw_inner = inner\<rparr>"

definition InjectSourceClient :: "string \<Rightarrow> IssuerWrapperHealthChecker \<Rightarrow> IssuerWrapperHealthChecker" where
  "InjectSourceClient sourceClient h =
    (let h' = h\<lparr>hw_sourceClient := Some sourceClient\<rparr> in
     if inner_isSourceClient (hw_inner h')
     then h'\<lparr>hw_inner := (hw_inner h')\<lparr>inner_sourceClient := Some sourceClient\<rparr>\<rparr>
     else h')"

definition SetLoggerSuffix :: "string \<Rightarrow> string \<Rightarrow> IssuerWrapperHealthChecker \<Rightarrow> IssuerWrapperHealthChecker" where
  "SetLoggerSuffix provider extension h =
    h\<lparr>hw_logger := provider @ ''-'' @ extension @ ''-healthcheck-issuer'',
      hw_inner := (hw_inner h)\<lparr>inner_logger := Some (provider, extension)\<rparr>\<rparr>"

subsection \<open>The check\<close>

definition ConditionTrue :: string where "ConditionTrue = ''True''"
definition ConditionFalse :: string where "ConditionFalse = ''False''"
definition StateReady :: string where "StateReady = ''Ready''"

record SingleCheckResult =
  scr_Status :: string
  scr_Detail :: string

definition issuerMessage :: "string \<Rightarrow> string option \<Rightarrow> string" where
  "issuerMessage state message =
    ''state='' @ [CHR 0x27] @ state @ [CHR 0x27]
    @ (case message of None \<Rightarrow> '''' | Some m \<Rightarrow> '', message='' @ m)"

text \<open>The loop over the issuers (name, state and message), filling the map.\<close>

fun collectNotReady ::
    "(string \<times> string \<times> string option) list \<Rightarrow> (string \<times> string) list \<Rightarrow> (string \<times> string) list" where
  "collectNotReady [] notReady = notReady"
| "collectNotReady ((name, state, message) # items) notReady =
    (if state \<noteq> StateReady
     then collectNotReady items (AList.update name (issuerMessage state message) notReady)
     else collectNotReady items notReady)"

text \<open>\<open>fmt\<close> prints a map with its keys in order.\<close>

definition sortedEntries :: "(string \<times> string) list \<Rightarrow> (string \<times> string) list" where
  "sortedEntries m = sort_key fst m"

definition showMap :: "(string \<times> string) list \<Rightarrow> string" where
  "showMap m = ''map['' @ joinStr '' '' (map (\<lambda>(k, v). k @ '':'' @ v) (sortedEntries m)) @ '']''"

definition issuersDetail :: "(string \<times> string \<times> string option) list \<Rightarrow> string" where
  "issuersDetail items =
    (let notReady = collectNotReady items [] in
     show_nat (length notReady) @ ''/'' @ show_nat (length items) @ '' issuers not ready: '' @ showMap notReady)"

definition health_Check :: "env \<Rightarrow> IssuerWrapperHealthChecker \<Rightarrow> string \<Rightarrow> string \<Rightarrow> SingleCheckResult io" where
  "health_Check E h namespace name =
    bind (call (InnerHealthCheck namespace name) (\<lambda>tr. e_health E tr namespace name)) (\<lambda>(status, detail).
    if status = ConditionFalse then ret \<lparr>scr_Status = status, scr_Detail = detail\<rparr>
    else
      bind (pure_res (deref (hw_sourceClient h))) (\<lambda>_.
      bind (attempt (call (ListIssuers namespace) (\<lambda>tr. e_issuers E tr namespace))) (\<lambda>r.
      case r of
        Inl err \<Rightarrow> fail (ErrMsg (''check issuers failed. Unable to retrieve list of issuers in namespace '' @ [CHR 0x27]
            @ namespace @ [CHR 0x27] @ '': '' @ err_text err))
      | Inr items \<Rightarrow>
          (if 0 < length (collectNotReady items [])
           then ret \<lparr>scr_Status = ConditionFalse, scr_Detail = issuersDetail items\<rparr>
           else ret \<lparr>scr_Status = ConditionTrue, scr_Detail = ''''\<rparr>))))"

subsection \<open>The map of issuers that are not ready\<close>

definition not_ready :: "string \<times> string \<times> string option \<Rightarrow> bool" where
  "not_ready i \<longleftrightarrow> fst (snd i) \<noteq> StateReady"

lemma collectNotReady_keys:
  "fst ` set (collectNotReady items m) = fst ` set m \<union> fst ` set (filter not_ready items)"
  by (induction items m rule: collectNotReady.induct) (auto simp: not_ready_def dom_update image_iff)

lemma collectNotReady_distinct: "distinct (map fst m) \<Longrightarrow> distinct (map fst (collectNotReady items m))"
  by (induction items m rule: collectNotReady.induct) (auto simp: distinct_update)

text \<open>With distinct names, as Kubernetes objects of one namespace have, no entry is overwritten.\<close>

lemma collectNotReady_lookup:
  "distinct (map fst items) \<Longrightarrow>
     map_of (collectNotReady items m) n =
       (case map_of items n of
          Some (state, message) \<Rightarrow> (if state \<noteq> StateReady then Some (issuerMessage state message) else map_of m n)
        | None \<Rightarrow> map_of m n)"
proof (induction items m rule: collectNotReady.induct)
  case (1 m)
  then show ?case by simp
next
  case (2 name state message items m)
  then have "n = name \<Longrightarrow> map_of items n = None"
    by (auto simp: map_of_eq_None_iff)
  with 2 show ?case by (auto simp: update_conv' split: option.splits)
qed

lemma collectNotReady_Nil_iff: "collectNotReady items [] = [] \<longleftrightarrow> list_all (\<lambda>i. \<not> not_ready i) items"
proof -
  have "collectNotReady items [] = [] \<longleftrightarrow> fst ` set (collectNotReady items []) = {}"
    by simp
  also have "\<dots> \<longleftrightarrow> filter not_ready items = []"
    by (simp add: collectNotReady_keys del: set_filter)
  also have "\<dots> \<longleftrightarrow> list_all (\<lambda>i. \<not> not_ready i) items"
    by (simp only: filter_empty_conv list_all_iff)
  finally show ?thesis .
qed

lemma sortedEntries_strict: "distinct (map fst m) \<Longrightarrow> sorted_wrt (<) (map fst (sortedEntries m))"
  by (simp add: sortedEntries_def strict_sorted_iff distinct_map inj_on_def)

subsection \<open>Properties\<close>

text \<open>The verdict of the health check on every branch: the error and a false verdict of the inner
  check are passed on; if the issuers cannot be listed, that is the error; otherwise the Extension is
  healthy exactly if every issuer is ready, and nothing but reads is called.\<close>

theorem health_verdict:
  assumes "hw_sourceClient h \<noteq> None"
  shows "fst (health_Check E h ns n w) =
      (case e_health E (trace w) ns n of
         Inl err \<Rightarrow> Error err
       | Inr (status, detail) \<Rightarrow>
           (if status = ConditionFalse then Ok \<lparr>scr_Status = ConditionFalse, scr_Detail = detail\<rparr>
            else (case e_issuers E (trace w @ [InnerHealthCheck ns n]) ns of
               Inl err \<Rightarrow> Error (ErrMsg (''check issuers failed. Unable to retrieve list of issuers in namespace '' @ [CHR 0x27]
                   @ ns @ [CHR 0x27] @ '': '' @ err_text err))
             | Inr items \<Rightarrow>
                 (if list_all (\<lambda>i. fst (snd i) = ''Ready'') items
                  then Ok \<lparr>scr_Status = ConditionTrue, scr_Detail = ''''\<rparr>
                  else Ok \<lparr>scr_Status = ConditionFalse, scr_Detail = issuersDetail items\<rparr>))))
    \<and> list_all (\<lambda>e. \<not> is_write e) (events (health_Check E h ns n))"
proof
  have ready: "collectNotReady items [] = [] \<longleftrightarrow> list_all (\<lambda>i. fst (snd i) = ''Ready'') items" for items
    unfolding collectNotReady_Nil_iff by (simp add: not_ready_def StateReady_def)
  obtain c where "hw_sourceClient h = Some c" using assms by blast
  then show "fst (health_Check E h ns n w) =
      (case e_health E (trace w) ns n of
         Inl err \<Rightarrow> Error err
       | Inr (status, detail) \<Rightarrow>
           (if status = ConditionFalse then Ok \<lparr>scr_Status = ConditionFalse, scr_Detail = detail\<rparr>
            else (case e_issuers E (trace w @ [InnerHealthCheck ns n]) ns of
               Inl err \<Rightarrow> Error (ErrMsg (''check issuers failed. Unable to retrieve list of issuers in namespace '' @ [CHR 0x27]
                   @ ns @ [CHR 0x27] @ '': '' @ err_text err))
             | Inr items \<Rightarrow>
                 (if list_all (\<lambda>i. fst (snd i) = ''Ready'') items
                  then Ok \<lparr>scr_Status = ConditionTrue, scr_Detail = ''''\<rparr>
                  else Ok \<lparr>scr_Status = ConditionFalse, scr_Detail = issuersDetail items\<rparr>))))"
    by (auto simp: health_Check_def io_simps deref_def ready split: sum.splits)
  have "emits (\<lambda>e. \<not> is_write e) (health_Check E h ns n)"
    unfolding health_Check_def by (intro appends_intros) simp_all
  then show "list_all (\<lambda>e. \<not> is_write e) (events (health_Check E h ns n))"
    by (rule emits_events)
qed

theorem health_verdict_witness:
  "fst (health_Check sample_env \<lparr>hw_logger = '''', hw_sourceClient = Some ''seed'', hw_inner =
        \<lparr>inner_isSourceClient = False, inner_sourceClient = None, inner_logger = None\<rparr>\<rparr> ''ns'' ''ex'' initial)
     = Ok \<lparr>scr_Status = ''True'', scr_Detail = ''''\<rparr>"
  by (subst conjunct1 [OF health_verdict]) (simp_all add: ConditionTrue_def ConditionFalse_def)

text \<open>C24: The detail of a failed check tells each issuer that is not ready once, in the order of their
  names and with its own state and message, and counts them, if the issuers have distinct names.\<close>

theorem health_detail:
  assumes "distinct (map fst items)"
  shows "let entries = sortedEntries (collectNotReady items []) in
      sorted_wrt (<) (map fst entries)
    \<and> set entries = (\<lambda>(name, state, message). (name, issuerMessage state message)) ` set (filter not_ready items)
    \<and> issuersDetail items = show_nat (length (filter not_ready items)) @ ''/'' @ show_nat (length items)
        @ '' issuers not ready: map['' @ joinStr '' '' (map (\<lambda>(k, v). k @ '':'' @ v) entries) @ '']''"
proof -
  let ?m = "collectNotReady items []"
  have d: "distinct (map fst ?m)"
    by (rule collectNotReady_distinct) simp
  have "set ?m = (\<lambda>(name, state, message). (name, issuerMessage state message)) ` set (filter not_ready items)"
  proof (intro set_eqI)
    fix x :: "string \<times> string"
    obtain n t where x: "x = (n, t)" by (cases x)
    have "x \<in> set ?m \<longleftrightarrow> map_of ?m n = Some t"
      using d by (simp add: x)
    also have "\<dots> \<longleftrightarrow> (\<exists>state message. map_of items n = Some (state, message) \<and> state \<noteq> StateReady
        \<and> t = issuerMessage state message)"
      by (auto simp: collectNotReady_lookup [OF assms] split: option.splits)
    also have "\<dots> \<longleftrightarrow> x \<in> (\<lambda>(name, state, message). (name, issuerMessage state message)) ` set (filter not_ready items)"
      using assms by (auto simp: x not_ready_def image_iff)
    finally show "x \<in> set ?m \<longleftrightarrow> x \<in> (\<lambda>(name, state, message). (name, issuerMessage state message)) ` set (filter not_ready items)" .
  qed
  moreover have "length ?m = length (filter not_ready items)"
  proof -
    have "length ?m = card (fst ` set ?m)"
      using d by (metis distinct_card length_map list.set_map)
    also have "\<dots> = card (fst ` set (filter not_ready items))"
      by (simp add: collectNotReady_keys)
    also have "\<dots> = length (filter not_ready items)"
      using assms by (metis distinct_card distinct_map_filter length_map list.set_map)
    finally show ?thesis .
  qed
  moreover have "set (sortedEntries ?m) = set ?m"
    by (simp add: sortedEntries_def)
  ultimately show ?thesis
    using sortedEntries_strict [OF d] by (simp add: Let_def issuersDetail_def showMap_def)
qed

theorem health_detail_witness:
  "issuersDetail [(''b'', ''Error'', Some ''gone''), (''c'', ''Ready'', None), (''a'', ''Pending'', None)]
     = ''2/3 issuers not ready: map[a:state='' @ [CHR 0x27] @ ''Pending'' @ [CHR 0x27] @ '' b:state='' @ [CHR 0x27] @ ''Error''
       @ [CHR 0x27] @ '', message=gone]''"
proof -
  have "distinct (map fst [(''b'', ''Error'', Some ''gone''), (''c'', ''Ready'', None), (''a'', ''Pending'', None)])"
    by simp
  moreover have "show_nat (Suc (Suc 0)) = ''2''" "show_nat (Suc (Suc (Suc 0))) = ''3''"
    by (subst show_nat.simps; simp add: digit_char_def dec_digits_def)+
  ultimately show ?thesis
    using health_detail by (simp add: Let_def sortedEntries_def issuerMessage_def StateReady_def not_ready_def)
qed

end
