(* ===== verification/Controlplane_Certs.thy ===== *)
theory Controlplane_Certs
  imports Controller_Common
begin

text \<open>
  \<open>controlplane/gardencert.go\<close>, \<open>controlplane/controlplanecert.go\<close> and the hash of
  \<open>controlplane/add.go\<close>: the certificates of a garden and of a seed's control plane, the annotation
  that records what the garden's certificate was made from, and their deletion.
\<close>

definition ManagedByLabel :: string where "ManagedByLabel = ''service.cert.extensions.gardener.cloud/managed-by''"
definition ManagedByValue :: string where "ManagedByValue = ''gardener-extension-shoot-cert-service''"
definition ExtensionClassLabel :: string where
  "ExtensionClassLabel = ''service.cert.extensions.gardener.cloud/extension-class''"
definition SecretNameGardenCert :: string where "SecretNameGardenCert = ''tls''"
definition SecretNameControlPlaneCert :: string where "SecretNameControlPlaneCert = ''ingress-wildcard-cert''"
definition GardenRelevantDataHashAnnotation :: string where
  "GardenRelevantDataHashAnnotation = ''garden-relevant-data-hash''"

subsection \<open>The hash of a garden's domains\<close>

text \<open>
  The bytes written to the hash: each domain followed by a zero byte. Writing to a hash never fails.
\<close>

definition hash_input :: "Garden \<Rightarrow> string" where
  "hash_input garden =
     concat (map (\<lambda>domain. domain @ [CHR 0x00]) (ga_VirtualDomains garden))
     @ concat (map (\<lambda>domain. domain @ [CHR 0x00]) (ga_IngressDomains garden))"

definition calcGardenRelevantDataHash :: "extern \<Rightarrow> Garden \<Rightarrow> string" where
  "calcGardenRelevantDataHash X garden = hex_of_bytes (sha256 X (hash_input garden))"

subsection \<open>The garden's certificate\<close>

text \<open>The two loops that collect the DNS names, with the set of the domains met before.\<close>

fun collectDNSNames :: "string list \<Rightarrow> string set \<times> string list \<Rightarrow> string set \<times> string list" where
  "collectDNSNames [] st = st"
| "collectDNSNames (domain # domains) (dnsNameSet, dnsNames) =
    (if domain \<notin> dnsNameSet
     then collectDNSNames domains (insert domain dnsNameSet, dnsNames @ [''*.'' @ domain])
     else collectDNSNames domains (dnsNameSet, dnsNames))"

definition gardenDNSNames :: "Garden \<Rightarrow> string list" where
  "gardenDNSNames garden =
    snd (collectDNSNames (ga_IngressDomains garden) (collectDNSNames (ga_VirtualDomains garden) ({}, [])))"

interpretation dns_loop: seen_loop collectDNSNames "\<lambda>domain. ''*.'' @ domain"
  by unfold_locales auto

definition gardenCert_newCertificate :: Certificate where
  "gardenCert_newCertificate = newCertificateObject SecretNameGardenCert GardenNamespace"

text \<open>
  The mutate function. The existing certificate keeps what is not set; a garden with a DNS section
  but no provider is an index out of range.
\<close>

definition gardenCert_labels :: "extern \<Rightarrow> labels" where
  "gardenCert_labels X = [GardenRole X \<mapsto> GardenRoleGardenWildcardCert X, ManagedByLabel \<mapsto> ManagedByValue,
     ExtensionClassLabel \<mapsto> ExtensionClassGarden]"

definition gardenCert_mutate :: "extern \<Rightarrow> Garden \<Rightarrow> string list \<Rightarrow> Certificate \<Rightarrow> Certificate result" where
  "gardenCert_mutate X garden dnsNames cert =
    rbind (case ga_DNSProviders garden of
             None \<Rightarrow> Ok ((ce_Annotations cert)(AnnotClass \<mapsto> ''garden''))
           | Some [] \<Rightarrow> Panic ''index out of range''
           | Some ((ty, secret) # _) \<Rightarrow>
               Ok ((ce_Annotations cert)(AnnotClass \<mapsto> ''garden'', AnnotDNSRecordProviderType X \<mapsto> ty,
                     AnnotDNSRecordSecretRef \<mapsto> secret, AnnotDNSRecordClass X \<mapsto> ExtensionClassGarden))) (\<lambda>annotations.
    Ok (cert\<lparr>ce_DNSNames := dnsNames, ce_SecretLabels := gardenCert_labels X,
             ce_SecretRef := Some (SecretNameGardenCert, GardenNamespace),
             ce_Annotations := annotations,
             ce_Labels := ce_Labels cert ++ gardenCert_labels X\<rparr>))"

text \<open>
  A call of gardener's \<open>controllerutils.CreateOrGetAndMergePatch\<close> with an object and a callback that
  changes it. The library is not part of the repository: how often the callback runs, on which states
  of the object, and whether the result is written is the answer of the environment, whatever it is.
  A panic or an error of the callback is one of the call.
\<close>

definition base_of :: "Certificate \<Rightarrow> Certificate option \<Rightarrow> Certificate" where
  "base_of obj base = (case base of None \<Rightarrow> obj | Some c \<Rightarrow> c)"

definition CreateOrGetAndMergePatch ::
    "env \<Rightarrow> Certificate \<Rightarrow> (Certificate \<Rightarrow> Certificate result) \<Rightarrow> unit io" where
  "CreateOrGetAndMergePatch E obj mutate =
    (let ns = ce_Namespace obj; n = ce_Name obj; run = (\<lambda>base. mutate (base_of obj base)) in
     bind (call (MergePatchCertificate ns n) (\<lambda>h. Inr (e_patch E h ns n))) (\<lambda>answer.
     case answer of
       PatchFails bases err \<Rightarrow> bind (pure_res (rmap run bases)) (\<lambda>_. fail err)
     | PatchWrites bases base \<Rightarrow>
         bind (pure_res (rmap run bases)) (\<lambda>_.
         bind (pure_res (run base)) (\<lambda>cert.
         invoke E (ApplyCertificate cert)))))"

text \<open>The extension's annotations as the API server has them after the patch.\<close>

definition patchHashAnnotation :: "env \<Rightarrow> extern \<Rightarrow> Extension \<Rightarrow> Garden option \<Rightarrow> unit io" where
  "patchHashAnnotation E X ex garden =
    invoke E (PatchExtensionAnnotations (ex_Namespace ex) (ex_Name ex)
      (case garden of
         Some g \<Rightarrow> (ex_Annotations ex)(GardenRelevantDataHashAnnotation \<mapsto> calcGardenRelevantDataHash X g)
       | None \<Rightarrow> (ex_Annotations ex)(GardenRelevantDataHashAnnotation := None)))"

definition gardenCert_delete :: "env \<Rightarrow> extern \<Rightarrow> Extension \<Rightarrow> unit io" where
  "gardenCert_delete E X ex =
    bind (attempt (invoke E (DeleteCertificate (ce_Namespace gardenCert_newCertificate) (ce_Name gardenCert_newCertificate)))) (\<lambda>r.
    case r of
      Inl err \<Rightarrow> (if isNotFound err then ret () else fail (Wrap ''failed to delete certificate'' err))
    | Inr _ \<Rightarrow> (if ex_DeletionTimestamp ex \<noteq> None then ret () else patchHashAnnotation E X ex None))"

definition gardenCert_reconcile :: "env \<Rightarrow> extern \<Rightarrow> Extension \<Rightarrow> unit io" where
  "gardenCert_reconcile E X ex =
    bind (wrapping ''failed to list gardens'' (call ListGardens (e_gardens E))) (\<lambda>items.
    case items of
      [] \<Rightarrow> ret ()
    | [garden] \<Rightarrow>
        (let dnsNames = gardenDNSNames garden in
         if length dnsNames = 0 then gardenCert_delete E X ex
         else
           bind (wrapping ''failed to create or update certificate''
                  (CreateOrGetAndMergePatch E gardenCert_newCertificate (gardenCert_mutate X garden dnsNames))) (\<lambda>_.
           patchHashAnnotation E X ex (Some garden)))
    | _ \<Rightarrow> fail (ErrMsg ''multiple gardens found, only one is supported''))"

subsection \<open>The control plane's certificate\<close>

text \<open>The handler's fields: domain, provider type, and the credentials to deploy, if any.\<close>

record controlPlaneCert =
  cpc_domain :: string
  cpc_dnsProviderType :: string
  cpc_credentials :: "string option"

definition cpCert_newCertificate :: Certificate where
  "cpCert_newCertificate = newCertificateObject SecretNameControlPlaneCert GardenNamespace"

definition dnsProviderSecretName :: string where
  "dnsProviderSecretName = SecretNameControlPlaneCert @ ''-dns-provider''"

definition cpCert_labels :: "extern \<Rightarrow> labels" where
  "cpCert_labels X = [GardenRole X \<mapsto> GardenRoleControlPlaneWildcardCert X, ManagedByLabel \<mapsto> ManagedByValue]"

definition cpCert_mutate :: "extern \<Rightarrow> controlPlaneCert \<Rightarrow> Certificate \<Rightarrow> Certificate result" where
  "cpCert_mutate X r cert =
    (let dnsName = ''*.'' @ cpc_domain r in
     Ok (cert\<lparr>ce_Annotations := [AnnotClass \<mapsto> ''seed'', AnnotDNSRecordProviderType X \<mapsto> cpc_dnsProviderType r,
                AnnotDNSRecordSecretRef \<mapsto> GardenNamespace @ ''/'' @ dnsProviderSecretName],
              ce_Labels := cpCert_labels X,
              ce_CommonName := (if length dnsName \<le> 64 then Some dnsName else None),
              ce_DNSNames := (if length dnsName \<le> 64 then [] else [dnsName]),
              ce_SecretLabels := cpCert_labels X,
              ce_SecretRef := Some (SecretNameControlPlaneCert, GardenNamespace)\<rparr>))"

definition cpCert_reconcile :: "env \<Rightarrow> extern \<Rightarrow> controlPlaneCert \<Rightarrow> unit io" where
  "cpCert_reconcile E X r =
    bind (case cpc_credentials r of
            None \<Rightarrow> ret ()
          | Some creds \<Rightarrow> wrapping ''failed to deploy DNS provider secret''
              (invoke E (DeployCredentials creds GardenNamespace dnsProviderSecretName))) (\<lambda>_.
    wrapping ''failed to create or update certificate''
      (CreateOrGetAndMergePatch E cpCert_newCertificate (cpCert_mutate X r)))"

text \<open>Two deletions, each ignoring that the object is not there.\<close>

definition deleteIgnoringNotFound :: "env \<Rightarrow> event \<Rightarrow> unit io" where
  "deleteIgnoringNotFound E e =
    bind (attempt (invoke E e)) (\<lambda>r. case r of
      Inl err \<Rightarrow> (case ignoreNotFound (Some err) of None \<Rightarrow> ret () | Some err' \<Rightarrow> fail err)
    | Inr _ \<Rightarrow> ret ())"

definition cpCert_delete :: "env \<Rightarrow> unit io" where
  "cpCert_delete E =
    bind (wrapping ''failed to delete certificate''
            (deleteIgnoringNotFound E (DeleteCertificate (ce_Namespace cpCert_newCertificate) (ce_Name cpCert_newCertificate)))) (\<lambda>_.
    wrapping ''failed to delete secret''
      (deleteIgnoringNotFound E (DeleteSecret GardenNamespace dnsProviderSecretName)))"

subsection \<open>DNS names and their hash\<close>

lemma gardenDNSNames_eq:
  "gardenDNSNames g = map (\<lambda>d. ''*.'' @ d) (first_occ {} (ga_VirtualDomains g @ ga_IngressDomains g))"
  by (simp add: gardenDNSNames_def dns_loop.loop_eq first_occ_append)

lemma gardenDNSNames_Nil_iff:
  "gardenDNSNames g = [] \<longleftrightarrow> ga_VirtualDomains g = [] \<and> ga_IngressDomains g = []"
  by (simp add: gardenDNSNames_eq first_occ_Nil_iff)

lemma hash_input_eq: "hash_input g = concat (map (\<lambda>d. d @ [CHR 0x00]) (ga_VirtualDomains g @ ga_IngressDomains g))"
  by (simp add: hash_input_def)

text \<open>Terminated strings can be told apart if they do not contain the terminator.\<close>

lemma terminated_inj:
  assumes "list_all (\<lambda>d. c \<notin> set d) xs" "list_all (\<lambda>d. c \<notin> set d) ys"
    and "concat (map (\<lambda>d. d @ [c]) xs) = concat (map (\<lambda>d. d @ [c]) ys)"
  shows "xs = ys"
  using assms
proof (induction xs arbitrary: ys)
  case Nil
  then show ?case by (cases ys) auto
next
  case (Cons x xs)
  then obtain y ys' where ys: "ys = y # ys'" by (cases ys) auto
  have eq: "x @ c # concat (map (\<lambda>d. d @ [c]) xs) = y @ c # concat (map (\<lambda>d. d @ [c]) ys')"
    using Cons.prems(3) ys by simp
  have "x = takeWhile (\<lambda>a. a \<noteq> c) (x @ c # concat (map (\<lambda>d. d @ [c]) xs))"
    using Cons.prems(1) by (subst takeWhile_append2) auto
  also have "\<dots> = takeWhile (\<lambda>a. a \<noteq> c) (y @ c # concat (map (\<lambda>d. d @ [c]) ys'))"
    by (simp add: eq)
  also have "\<dots> = y"
    using Cons.prems(2) ys by (subst takeWhile_append2) auto
  finally have "x = y" .
  then show ?case using Cons.IH [of ys'] Cons.prems ys eq by auto
qed

definition no_NUL :: "Garden \<Rightarrow> bool" where
  "no_NUL g \<longleftrightarrow> list_all (\<lambda>d. CHR 0x00 \<notin> set d) (ga_VirtualDomains g @ ga_IngressDomains g)"

lemma hash_determines_names:
  assumes "no_NUL g" "no_NUL h" "calcGardenRelevantDataHash X g = calcGardenRelevantDataHash X h"
  shows "gardenDNSNames g = gardenDNSNames h \<or> collide (sha256 X) (hash_input g) (hash_input h)"
proof -
  have sha: "sha256 X (hash_input g) = sha256 X (hash_input h)"
    using assms(3) by (auto simp: calcGardenRelevantDataHash_def dest: hex_of_bytes_inj)
  show ?thesis
  proof (cases "hash_input g = hash_input h")
    case True
    then have "ga_VirtualDomains g @ ga_IngressDomains g = ga_VirtualDomains h @ ga_IngressDomains h"
      by (intro terminated_inj [of "CHR 0x00"])
        (use assms(1,2) in \<open>simp_all only: hash_input_eq no_NUL_def\<close>)
    then show ?thesis by (simp add: gardenDNSNames_eq)
  next
    case False
    then show ?thesis using sha unfolding collide_def by blast
  qed
qed

subsection \<open>Reconciling the garden's certificate\<close>

lemma CreateOrGetAndMergePatch_Ok:
  "CreateOrGetAndMergePatch E obj mutate w = (Ok u, w') \<longleftrightarrow>
    (let ns = ce_Namespace obj; n = ce_Name obj in
     \<exists>bases base certs cert. e_patch E (trace w) ns n = PatchWrites bases base
       \<and> rmap (\<lambda>b. mutate (base_of obj b)) bases = Ok certs \<and> mutate (base_of obj base) = Ok cert
       \<and> e_call E (trace w @ [MergePatchCertificate ns n]) (ApplyCertificate cert) = None
       \<and> w' = w\<lparr>trace := trace w @ [MergePatchCertificate ns n, ApplyCertificate cert]\<rparr>)"
  by (cases "e_patch E (trace w) (ce_Namespace obj) (ce_Name obj)")
    (auto simp: CreateOrGetAndMergePatch_def ok_iffs Let_def)

text \<open>
  A certificate as a garden wants it: a wildcard for each of its domains, each once; the labels of the
  secret, which are labels of the certificate too; and the secret.
\<close>

definition garden_certificate_ok :: "extern \<Rightarrow> Garden \<Rightarrow> Certificate \<Rightarrow> bool" where
  "garden_certificate_ok X g cert \<longleftrightarrow>
     distinct (ce_DNSNames cert)
   \<and> set (ce_DNSNames cert) = (\<lambda>d. ''*.'' @ d) ` (set (ga_VirtualDomains g) \<union> set (ga_IngressDomains g))
   \<and> ce_SecretLabels cert = [GardenRole X \<mapsto> GardenRoleGardenWildcardCert X,
       ''service.cert.extensions.gardener.cloud/managed-by'' \<mapsto> ''gardener-extension-shoot-cert-service'',
       ''service.cert.extensions.gardener.cloud/extension-class'' \<mapsto> ''garden'']
   \<and> ce_SecretLabels cert \<subseteq>\<^sub>m ce_Labels cert
   \<and> ce_SecretRef cert = Some (''tls'', ''garden'')"

lemma gardenDNSNames_distinct: "distinct (gardenDNSNames g)"
  by (simp add: gardenDNSNames_eq distinct_map inj_on_def)

lemma set_gardenDNSNames:
  "set (gardenDNSNames g) = (\<lambda>d. ''*.'' @ d) ` (set (ga_VirtualDomains g) \<union> set (ga_IngressDomains g))"
  by (simp add: gardenDNSNames_eq)

lemma gardenCert_mutate_ok: "gardenCert_mutate X g (gardenDNSNames g) c = Ok cert \<Longrightarrow> garden_certificate_ok X g cert"
  by (auto simp: gardenCert_mutate_def garden_certificate_ok_def rbind_Ok_iff gardenDNSNames_distinct set_gardenDNSNames
      gardenCert_labels_def ManagedByLabel_def ManagedByValue_def ExtensionClassLabel_def ExtensionClassGarden_def
      SecretNameGardenCert_def GardenNamespace_def)

lemma gardenCert_mutate_cases:
  "(\<exists>cert. gardenCert_mutate X g n c = Ok cert) \<longleftrightarrow> ga_DNSProviders g \<noteq> Some []"
  by (auto simp: gardenCert_mutate_def split: option.splits list.splits prod.splits)

lemma gardenCert_reconcile_Ok:
  assumes "gardenCert_reconcile E X ex w = (Ok (), w')" "e_gardens E (trace w) = Inr [g]" "gardenDNSNames g \<noteq> []"
  shows "\<exists>cert. garden_certificate_ok X g cert
    \<and> trace w' = trace w @ [ListGardens, MergePatchCertificate GardenNamespace SecretNameGardenCert, ApplyCertificate cert,
        PatchExtensionAnnotations (ex_Namespace ex) (ex_Name ex)
          ((ex_Annotations ex)(GardenRelevantDataHashAnnotation \<mapsto> calcGardenRelevantDataHash X g))]"
  using assms gardenCert_mutate_ok
  by (fastforce simp: gardenCert_reconcile_def ok_iffs Let_def CreateOrGetAndMergePatch_Ok patchHashAnnotation_def
      gardenCert_newCertificate_def newCertificateObject_def)

text \<open>What the certificate operations call concerns certificates and the extension's annotations only.\<close>

text \<open>An environment in which a certificate that is patched is one of that name and namespace.\<close>

fun patched_certificates :: "patch_answer \<Rightarrow> Certificate option list" where
  "patched_certificates (PatchFails bases err) = bases"
| "patched_certificates (PatchWrites bases base) = bases @ [base]"

definition certificates_named :: "env \<Rightarrow> bool" where
  "certificates_named E \<longleftrightarrow>
     (\<forall>h ns n c. Some c \<in> set (patched_certificates (e_patch E h ns n)) \<longrightarrow> ce_Namespace c = ns \<and> ce_Name c = n)"

lemma certificates_namedD:
  assumes "certificates_named E" "e_patch E h (ce_Namespace obj) (ce_Name obj) = PatchWrites bases base"
  shows "ce_Namespace (base_of obj base) = ce_Namespace obj" "ce_Name (base_of obj base) = ce_Name obj"
proof -
  have "ce_Namespace c = ce_Namespace obj \<and> ce_Name c = ce_Name obj" if "base = Some c" for c
  proof -
    have "Some c \<in> set (patched_certificates (e_patch E h (ce_Namespace obj) (ce_Name obj)))"
      by (simp add: assms(2) that)
    then show ?thesis using assms(1) unfolding certificates_named_def by blast
  qed
  from this [of "the base"] show "ce_Namespace (base_of obj base) = ce_Namespace obj" "ce_Name (base_of obj base) = ce_Name obj"
    by (cases base; simp add: base_of_def)+
qed

fun garden_cert_event :: "Extension \<Rightarrow> event \<Rightarrow> bool" where
  "garden_cert_event ex (ApplyCertificate c) = (ce_Namespace c = GardenNamespace \<and> ce_Name c = SecretNameGardenCert)"
| "garden_cert_event ex (DeleteCertificate ns n) = (ns = GardenNamespace \<and> n = SecretNameGardenCert)"
| "garden_cert_event ex (PatchExtensionAnnotations ns n _) = (ns = ex_Namespace ex \<and> n = ex_Name ex)"
| "garden_cert_event ex e = (\<not> is_write e)"

lemma gardenCert_object [simp]:
  "ce_Name gardenCert_newCertificate = SecretNameGardenCert" "ce_Namespace gardenCert_newCertificate = GardenNamespace"
  "ce_Name cpCert_newCertificate = SecretNameControlPlaneCert" "ce_Namespace cpCert_newCertificate = GardenNamespace"
  by (simp_all add: gardenCert_newCertificate_def cpCert_newCertificate_def newCertificateObject_def)

lemma emits_CreateOrGetAndMergePatch:
  assumes "certificates_named E" "P (MergePatchCertificate (ce_Namespace obj) (ce_Name obj))"
    and "\<And>c cert. mutate c = Ok cert \<Longrightarrow> ce_Namespace c = ce_Namespace obj \<Longrightarrow> ce_Name c = ce_Name obj \<Longrightarrow>
      P (ApplyCertificate cert)"
  shows "emits P (CreateOrGetAndMergePatch E obj mutate)"
  unfolding CreateOrGetAndMergePatch_def Let_def
proof (rule emits_bind_ok, rule emits_call, rule assms(2))
  fix answer and w w' :: world
  assume a: "call (MergePatchCertificate (ce_Namespace obj) (ce_Name obj))
      (\<lambda>h. Inr (e_patch E h (ce_Namespace obj) (ce_Name obj))) w = (Ok answer, w')"
  have "P (ApplyCertificate cert)"
    if "answer = PatchWrites bases base" "pure_res (mutate (base_of obj base)) v = (Ok cert, v')"
    for bases base cert and v v' :: world
  proof (rule assms(3))
    show "mutate (base_of obj base) = Ok cert"
      using that(2) by (simp add: basic_Ok_iff)
    show "ce_Namespace (base_of obj base) = ce_Namespace obj" "ce_Name (base_of obj base) = ce_Name obj"
      using certificates_namedD [OF assms(1)] a that(1) by (auto simp: call_Ok_iff)
  qed
  then show "emits P (case answer of
       PatchFails bases err \<Rightarrow> bind (pure_res (rmap (\<lambda>base. mutate (base_of obj base)) bases)) (\<lambda>_. fail err)
     | PatchWrites bases base \<Rightarrow>
         bind (pure_res (rmap (\<lambda>base. mutate (base_of obj base)) bases)) (\<lambda>_.
         bind (pure_res (mutate (base_of obj base))) (\<lambda>cert. invoke E (ApplyCertificate cert))))"
    by (cases answer)
      (auto intro!: emits_bind [OF emits_pure] emits_bind_ok [OF emits_pure] emits_fail emits_invoke)
qed

lemma mutate_keeps_name:
  "gardenCert_mutate X g n c = Ok cert \<Longrightarrow> ce_Namespace cert = ce_Namespace c \<and> ce_Name cert = ce_Name c"
  "cpCert_mutate X r c = Ok cert \<Longrightarrow> ce_Namespace cert = ce_Namespace c \<and> ce_Name cert = ce_Name c"
  by (auto simp: gardenCert_mutate_def cpCert_mutate_def Let_def rbind_Ok_iff)

lemma emits_gardenCert_delete: "emits (garden_cert_event ex) (gardenCert_delete E X ex)"
  unfolding gardenCert_delete_def patchHashAnnotation_def by (intro appends_intros) simp_all

lemma emits_list [appends_intros]:
  "emits P a \<Longrightarrow> (\<And>x. emits P (b x)) \<Longrightarrow> (\<And>x y r. emits P (c x y r)) \<Longrightarrow>
     emits P (case xs of [] \<Rightarrow> a | [x] \<Rightarrow> b x | x # y # r \<Rightarrow> c x y r)"
  by (auto split: list.splits)

lemma emits_gardenCert_reconcile:
  "certificates_named E \<Longrightarrow> emits (garden_cert_event ex) (gardenCert_reconcile E X ex)"
  unfolding gardenCert_reconcile_def patchHashAnnotation_def Let_def
  by (intro appends_intros emits_gardenCert_delete emits_CreateOrGetAndMergePatch)
    (auto dest: mutate_keeps_name)

fun cp_cert_event :: "event \<Rightarrow> bool" where
  "cp_cert_event (ApplyCertificate c) = (ce_Namespace c = GardenNamespace \<and> ce_Name c = SecretNameControlPlaneCert)"
| "cp_cert_event (DeleteCertificate ns n) = (ns = GardenNamespace \<and> n = SecretNameControlPlaneCert)"
| "cp_cert_event (DeleteSecret ns n) = (ns = GardenNamespace \<and> n = dnsProviderSecretName)"
| "cp_cert_event (DeployCredentials _ ns n) = (ns = GardenNamespace \<and> n = dnsProviderSecretName)"
| "cp_cert_event e = (\<not> is_write e)"

lemma emits_cpCert_reconcile: "certificates_named E \<Longrightarrow> emits cp_cert_event (cpCert_reconcile E X r)"
  unfolding cpCert_reconcile_def
  by (intro appends_intros emits_CreateOrGetAndMergePatch) (auto dest: mutate_keeps_name)

lemma emits_cpCert_delete: "emits cp_cert_event (cpCert_delete E)"
  unfolding cpCert_delete_def deleteIgnoringNotFound_def by (intro appends_intros) simp_all

subsection \<open>No panics\<close>

lemma no_panic_gardenCert_delete: "no_panic (gardenCert_delete E X ex)"
  unfolding gardenCert_delete_def patchHashAnnotation_def by (intro no_panic_intros)

definition gardens_have_providers :: "env \<Rightarrow> bool" where
  "gardens_have_providers E \<longleftrightarrow>
     (\<forall>h gs. e_gardens E h = Inr gs \<longrightarrow> list_all (\<lambda>g. ga_DNSProviders g \<noteq> Some []) gs)"

lemma no_panic_CreateOrGetAndMergePatch:
  "(\<And>c p. mutate c \<noteq> Panic p) \<Longrightarrow> no_panic (CreateOrGetAndMergePatch E obj mutate)"
  unfolding CreateOrGetAndMergePatch_def Let_def
  by (intro no_panic_bind no_panic_call)
    (auto split: patch_answer.split intro!: no_panic_bind no_panic_pure no_panic_basic rmap_no_panic)

lemma gardenCert_mutate_no_panic: "ga_DNSProviders g \<noteq> Some [] \<Longrightarrow> gardenCert_mutate X g n c \<noteq> Panic p"
  using gardenCert_mutate_cases [of X g n c] by auto

lemma no_panic_gardenCert_reconcile:
  assumes "gardens_have_providers E"
  shows "no_panic (gardenCert_reconcile E X ex)"
  unfolding gardenCert_reconcile_def
proof (rule no_panic_bind_ok)
  fix gs w w'
  assume "wrapping ''failed to list gardens'' (call ListGardens (e_gardens E)) w = (Ok gs, w')"
  then have gs: "list_all (\<lambda>g. ga_DNSProviders g \<noteq> Some []) gs"
    using assms by (auto simp: ok_iffs gardens_have_providers_def)
  have one: "no_panic (let dnsNames = gardenDNSNames g in
         if length dnsNames = 0 then gardenCert_delete E X ex
         else
           bind (wrapping ''failed to create or update certificate''
                  (CreateOrGetAndMergePatch E gardenCert_newCertificate (gardenCert_mutate X g dnsNames))) (\<lambda>_.
           patchHashAnnotation E X ex (Some g)))" if "ga_DNSProviders g \<noteq> Some []" for g
    unfolding Let_def patchHashAnnotation_def
    by (intro no_panic_intros no_panic_gardenCert_delete no_panic_CreateOrGetAndMergePatch gardenCert_mutate_no_panic that)
  consider "gs = []" | g where "gs = [g]" | g g' r where "gs = g # g' # r"
    by (cases gs rule: list.exhaust; cases "tl gs" rule: list.exhaust) auto
  then show "no_panic (case gs of [] \<Rightarrow> ret () | [garden] \<Rightarrow> let dnsNames = gardenDNSNames garden in
         if length dnsNames = 0 then gardenCert_delete E X ex
         else
           bind (wrapping ''failed to create or update certificate''
                  (CreateOrGetAndMergePatch E gardenCert_newCertificate (gardenCert_mutate X garden dnsNames))) (\<lambda>_.
           patchHashAnnotation E X ex (Some garden))
    | _ \<Rightarrow> fail (ErrMsg ''multiple gardens found, only one is supported''))"
  proof cases
    case 2
    then show ?thesis using one gs by simp
  qed (simp_all add: no_panic_basic)
qed (intro no_panic_intros)

lemma no_panic_cpCert [no_panic_intros]: "no_panic (cpCert_reconcile E X r)" "no_panic (cpCert_delete E)"
  unfolding cpCert_reconcile_def cpCert_delete_def deleteIgnoringNotFound_def
  by (intro no_panic_intros no_panic_CreateOrGetAndMergePatch; simp add: cpCert_mutate_def Let_def)+

text \<open>None of these operations creates or deletes a managed resource.\<close>

fun mr_event :: "event \<Rightarrow> bool" where
  "mr_event (CreateManagedResource _ _ _ _ _) = True"
| "mr_event (DeleteManagedResource _ _) = True"
| "mr_event _ = False"

lemma mr_wanted_other: "list_all (\<lambda>e. \<not> mr_event e) evs \<Longrightarrow> mr_wanted k b (h @ evs) = mr_wanted k b h"
proof (induction evs arbitrary: h)
  case Nil
  then show ?case by simp
next
  case (Cons e evs)
  have "mr_wanted k b (h @ e # evs) = mr_wanted k b ((h @ [e]) @ evs)" by simp
  also have "\<dots> = mr_wanted k b (h @ [e])" by (rule Cons.IH) (use Cons.prems in simp)
  also have "\<dots> = mr_wanted k b h" using Cons.prems by (cases e) (simp_all add: mr_wanted_def)
  finally show ?case .
qed

lemma mr_wanted_kept:
  assumes "emits (\<lambda>e. \<not> mr_event e) m" "m w = (r, w')"
  shows "mr_wanted k b (trace w') = mr_wanted k b (trace w)"
  using emitsD [OF assms] by (auto simp: mr_wanted_other)

lemma no_mr_CreateOrGetAndMergePatch [appends_intros]:
  "emits (\<lambda>e. \<not> mr_event e) (CreateOrGetAndMergePatch E obj mutate)"
  unfolding CreateOrGetAndMergePatch_def Let_def
  by (intro emits_bind emits_call) (auto split: patch_answer.split intro!: emits_bind emits_pure emits_fail emits_invoke)

lemma no_mr_gardenCert [appends_intros]:
  "emits (\<lambda>e. \<not> mr_event e) (gardenCert_delete E X ex)" "emits (\<lambda>e. \<not> mr_event e) (gardenCert_reconcile E X ex)"
proof -
  show d: "emits (\<lambda>e. \<not> mr_event e) (gardenCert_delete E X ex)"
    unfolding gardenCert_delete_def patchHashAnnotation_def by (intro appends_intros) simp_all
  show "emits (\<lambda>e. \<not> mr_event e) (gardenCert_reconcile E X ex)"
    unfolding gardenCert_reconcile_def patchHashAnnotation_def Let_def by (intro appends_intros d) simp_all
qed

lemma no_mr_cpCert [appends_intros]:
  "emits (\<lambda>e. \<not> mr_event e) (cpCert_delete E)" "emits (\<lambda>e. \<not> mr_event e) (cpCert_reconcile E X r)"
  unfolding cpCert_delete_def deleteIgnoringNotFound_def cpCert_reconcile_def
  by (intro appends_intros; simp)+

end
