(* ===== verification/Controlplane_Controller.thy ===== *)
theory Controlplane_Controller
  imports Controlplane_Certs Shoot_Controller
begin

text \<open>
  \<open>pkg/controller/extension/controlplane\<close>: the controller of the Extension resources of a garden or a
  seed. Its actuator deploys one managed resource and, if asked to, the wildcard certificate.
\<close>

definition cp_Type :: string where "cp_Type = ''controlplane-cert-service''"
definition cp_ControllerName :: string where "cp_ControllerName = ''controlplane-cert-service''"
definition EnvSeedName :: string where "EnvSeedName = ''SEED_NAME''"

subsection \<open>The values of a deployment\<close>

definition isGardenDeployment :: "Extension \<Rightarrow> bool" where
  "isGardenDeployment ex \<longleftrightarrow> GetExtensionClassOrDefault (ex_Class ex) = ExtensionClassGarden"

definition setValuesForGardenOrSeed :: "env \<Rightarrow> Extension \<Rightarrow> Values \<Rightarrow> Values" where
  "setValuesForGardenOrSeed E ex values =
    (if isGardenDeployment ex then values\<lparr>vl_CertClass := ''garden''\<rparr>
     else values\<lparr>vl_CertClass := ''seed'', vl_Namespace := e_getenv E EnvLeaderElectionNamespace\<rparr>)"

definition cp_createValues ::
    "env \<Rightarrow> deploy_extern \<Rightarrow> Configuration \<Rightarrow> CertConfig \<Rightarrow> string \<Rightarrow> Extension \<Rightarrow> Values result" where
  "cp_createValues E D cfg certConfig namespace ex =
    (let values = setValuesForGardenOrSeed E ex
           (emptyValues\<lparr>vl_ExtensionConfig := cfg, vl_CertConfig := certConfig, vl_Namespace := namespace,
             vl_Resources := [], vl_ShootDeployment := False, vl_GardenDeployment := isGardenDeployment ex,
             vl_Replicas := 1\<rparr>)
     in rbind (PrepareCertManagementImage D) (\<lambda>img. Ok (values\<lparr>vl_Image := img\<rparr>)))"

definition createResourcesForGardenOrSeed :: "env \<Rightarrow> extern \<Rightarrow> deploy_extern \<Rightarrow> Values \<Rightarrow> unit io" where
  "createResourcesForGardenOrSeed E X D values = DeployGardenOrSeedManagedResource E X D values"

definition gardenOrSeedDeletionValues :: "env \<Rightarrow> Extension \<Rightarrow> Values" where
  "gardenOrSeedDeletionValues E ex =
    setValuesForGardenOrSeed E ex (emptyValues\<lparr>vl_Namespace := ex_Namespace ex, vl_ShootDeployment := False\<rparr>)"

definition deleteResourcesForGardenOrSeed :: "env \<Rightarrow> Extension \<Rightarrow> unit io" where
  "deleteResourcesForGardenOrSeed E ex =
    DeleteGardenOrSeedManagedResourceAndWait E (gardenOrSeedDeletionValues E ex) (2 * minute)"

definition cp_updateStatus :: "env \<Rightarrow> Extension \<Rightarrow> CertConfig \<Rightarrow> unit io" where
  "cp_updateStatus E ex certConfig =
    invoke E (PatchExtensionStatus (ex_Namespace ex) (ex_Name ex)
      (map (\<lambda>issuerConfig. let name = ''extension-shoot-cert-service-issuer-'' @ ic_Name issuerConfig in
        \<lparr>nrr_Name = name, nrr_Kind = ''Secret'', nrr_RefName = name, nrr_APIVersion = ''v1''\<rparr>)
        (cc_Issuers certConfig)))"

subsection \<open>The client of the virtual garden\<close>

definition createGardenClient :: "env \<Rightarrow> unit io" where
  "createGardenClient E =
    bind (wrapping ''failed to read garden kubeconfig'' (invoke E (CreateGardenClient ''kubeconfig''))) (\<lambda>_.
    bind (wrapping ''failed to add kubernetes scheme'' (invoke E (CreateGardenClient ''kubernetes''))) (\<lambda>_.
    bind (wrapping ''failed to add gardencorev1beta1 scheme'' (invoke E (CreateGardenClient ''gardencorev1beta1''))) (\<lambda>_.
    bind (wrapping ''failed to add securityv1alpha1 scheme'' (invoke E (CreateGardenClient ''securityv1alpha1''))) (\<lambda>_.
    invoke E (CreateGardenClient ''client'')))))"

text \<open>The client is kept in the actuator once it was created; the lock serialises the callers, which makes
  this one step (\<open>Garden_Client\<close> has the statements and the lock).\<close>

definition getOrCreateGardenClient :: "env \<Rightarrow> unit io" where
  "getOrCreateGardenClient E =
    bind get_world (\<lambda>w.
    if gardenClient w then ret ()
    else bind (createGardenClient E) (\<lambda>_. set_gardenClient))"

definition fetchSeedFromVirtualGarden :: "env \<Rightarrow> string \<Rightarrow> Seed io" where
  "fetchSeedFromVirtualGarden E seedName =
    wrapping (''failed to get seed '' @ seedName) (call (GetSeed seedName) (\<lambda>h. e_seed E h seedName))"

text \<open>The credentials to deploy, if the seed has a DNS provider; a provider without a reference to
  credentials is dereferenced.\<close>

definition getDNSProviderCredentialsDeployer :: "env \<Rightarrow> Seed \<Rightarrow> string option io" where
  "getDNSProviderCredentialsDeployer E seed =
    (case sd_DNSProvider seed of
       None \<Rightarrow> ret None
     | Some (ty, None) \<Rightarrow> pure_res (Panic nil_deref)
     | Some (ty, Some ref) \<Rightarrow> bind (invoke E (GetCredentials ref)) (\<lambda>_. ret (Some ref)))"

text \<open>The handler's fields are read from the seed before the provider is compared with nil.\<close>

definition controlPlaneCertFor :: "Seed \<Rightarrow> (string option \<Rightarrow> controlPlaneCert) result" where
  "controlPlaneCertFor seed =
    rbind (deref (sd_IngressDomain seed)) (\<lambda>domain.
    rbind (deref (sd_DNSProvider seed)) (\<lambda>(ty, _).
    Ok (\<lambda>creds. \<lparr>cpc_domain = domain, cpc_dnsProviderType = ty, cpc_credentials = creds\<rparr>)))"

definition reconcileControlPlaneCert :: "env \<Rightarrow> extern \<Rightarrow> unit io" where
  "reconcileControlPlaneCert E X =
    (let seedName = e_getenv E EnvSeedName in
     bind (getOrCreateGardenClient E) (\<lambda>_.
     bind (wrapping (''failed to get seed '' @ seedName) (fetchSeedFromVirtualGarden E seedName)) (\<lambda>seed.
     bind (pure_res (controlPlaneCertFor seed)) (\<lambda>handler.
     bind (wrapping (''failed to get DNS provider credentials deployer for seed '' @ seedName)
             (getDNSProviderCredentialsDeployer E seed)) (\<lambda>creds.
     cpCert_reconcile E X (handler creds))))))"

subsection \<open>Operations\<close>

text \<open>The part of \<open>Reconcile\<close> that brings the certificate up to date.\<close>

definition certificateStep :: "env \<Rightarrow> extern \<Rightarrow> CertConfig \<Rightarrow> Extension \<Rightarrow> unit io" where
  "certificateStep E X certConfig ex =
    (let generateControlPlaneCertificate = ptr_Deref (cc_GenerateControlPlaneCertificate certConfig) False in
     if isGardenDeployment ex
     then (if generateControlPlaneCertificate then gardenCert_reconcile E X ex else gardenCert_delete E X ex)
     else (if generateControlPlaneCertificate then reconcileControlPlaneCert E X else cpCert_delete E))"

definition cp_Reconcile :: "env \<Rightarrow> extern \<Rightarrow> deploy_extern \<Rightarrow> Configuration \<Rightarrow> Extension \<Rightarrow> unit io" where
  "cp_Reconcile E X D cfg ex =
    bind (pure_res (DecodeAndValidateProviderConfig X D ex None)) (\<lambda>certConfig.
    bind (pure_res (cp_createValues E D cfg certConfig (ex_Namespace ex) ex)) (\<lambda>values.
    bind (createResourcesForGardenOrSeed E X D values) (\<lambda>_.
    bind (certificateStep E X certConfig ex) (\<lambda>_.
    cp_updateStatus E ex certConfig))))"

definition cp_Delete :: "env \<Rightarrow> extern \<Rightarrow> Extension \<Rightarrow> unit io" where
  "cp_Delete E X ex =
    bind (if isGardenDeployment ex then gardenCert_delete E X ex else ret ()) (\<lambda>_.
    deleteResourcesForGardenOrSeed E ex)"

definition cp_ForceDelete :: "env \<Rightarrow> extern \<Rightarrow> Extension \<Rightarrow> unit io" where
  "cp_ForceDelete E X ex = cp_Delete E X ex"

definition cp_Restore :: "env \<Rightarrow> extern \<Rightarrow> deploy_extern \<Rightarrow> Configuration \<Rightarrow> Extension \<Rightarrow> unit io" where
  "cp_Restore E X D cfg ex = cp_Reconcile E X D cfg ex"

definition cp_Migrate :: "env \<Rightarrow> extern \<Rightarrow> Extension \<Rightarrow> unit io" where
  "cp_Migrate E X ex =
    bind (invoke E (SetKeepObjects (ex_Namespace ex) CertManagementResourceNameShoot True)) (\<lambda>_.
    cp_Delete E X ex)"

subsection \<open>Adding the controller\<close>

definition cp_AddToManagerWithOptions :: "AddOptions \<Rightarrow> AddOptions \<Rightarrow> AddArgs result" where
  "cp_AddToManagerWithOptions DefaultAddOptions opts =
    (let garden = ExtensionClassGarden \<in> set (ao_ExtensionClasses opts) in
     Ok \<lparr>aa_ServiceConfig = ao_ServiceConfig opts, aa_Name = cp_ControllerName,
       aa_FinalizerSuffix = FinalizerSuffix, aa_Resync = 0,
       aa_IgnoreOperationAnnotation = ao_IgnoreOperationAnnotation DefaultAddOptions,
       aa_Type = cp_Type,
       aa_ExtensionClasses = (if garden then [ExtensionClassGarden] else [ExtensionClassSeed]),
       aa_Watch = (if garden then WatchGarden else NoWatch)\<rparr>)"

definition cp_AddToManager :: "AddOptions \<Rightarrow> AddArgs result" where
  "cp_AddToManager DefaultAddOptions = cp_AddToManagerWithOptions DefaultAddOptions DefaultAddOptions"

text \<open>
  A predicate of controller-runtime decides on events about objects, which are interface values; the
  watch of gardens is typed and has its events carry pointers to gardens. The adapter stores the
  pointer in the interface, so that a nil pointer is not the nil interface.
\<close>

record 'o event_predicate =
  pf_Create :: "'o \<Rightarrow> bool"
  pf_Update :: "'o \<Rightarrow> 'o \<Rightarrow> bool"
  pf_Delete :: "'o \<Rightarrow> bool"
  pf_Generic :: "'o \<Rightarrow> bool"

datatype garden_object = NoObject | GardenObject "Garden option"

definition typedPredicate_Create :: "garden_object event_predicate \<Rightarrow> Garden option \<Rightarrow> bool" where
  "typedPredicate_Create p obj = pf_Create p (GardenObject obj)"

definition typedPredicate_Update :: "garden_object event_predicate \<Rightarrow> Garden option \<Rightarrow> Garden option \<Rightarrow> bool" where
  "typedPredicate_Update p objOld objNew = pf_Update p (GardenObject objOld) (GardenObject objNew)"

definition typedPredicate_Delete :: "garden_object event_predicate \<Rightarrow> Garden option \<Rightarrow> bool" where
  "typedPredicate_Delete p obj = pf_Delete p (GardenObject obj)"

definition typedPredicate_Generic :: "garden_object event_predicate \<Rightarrow> Garden option \<Rightarrow> bool" where
  "typedPredicate_Generic p obj = pf_Generic p (GardenObject obj)"

definition toTypedPredicate :: "garden_object event_predicate \<Rightarrow> Garden option event_predicate" where
  "toTypedPredicate p = \<lparr>pf_Create = typedPredicate_Create p, pf_Update = typedPredicate_Update p,
     pf_Delete = typedPredicate_Delete p, pf_Generic = typedPredicate_Generic p\<rparr>"

datatype 'o watch_event = CreateEvent 'o | UpdateEvent 'o 'o | DeleteEvent 'o | GenericEvent 'o

fun passes :: "'o event_predicate \<Rightarrow> 'o watch_event \<Rightarrow> bool" where
  "passes p (CreateEvent x) = pf_Create p x"
| "passes p (UpdateEvent x y) = pf_Update p x y"
| "passes p (DeleteEvent x) = pf_Delete p x"
| "passes p (GenericEvent x) = pf_Generic p x"

lemma toTypedPredicate_passes: "passes (toTypedPredicate p) ev \<longleftrightarrow> passes p (map_watch_event GardenObject ev)"
  by (cases ev) (simp_all add: toTypedPredicate_def typedPredicate_Create_def typedPredicate_Update_def
      typedPredicate_Delete_def typedPredicate_Generic_def)

text \<open>
  A change of the garden triggers the Extensions of the garden whose certificate was made from other
  data. An Extension that cannot be decoded ends the loop with no requests at all.
\<close>

fun mapGardenLoop ::
    "extern \<Rightarrow> deploy_extern \<Rightarrow> Garden \<Rightarrow> Extension list \<Rightarrow> (string \<times> string) list \<Rightarrow> (string \<times> string) list" where
  "mapGardenLoop X D garden [] requests = requests"
| "mapGardenLoop X D garden (ex # exs) requests =
    (if ex_Type ex = cp_Type \<and> GetExtensionClassOrDefault (ex_Class ex) = ExtensionClassGarden then
       (case DecodeAndValidateProviderConfig X D ex None of
          Ok certConfig \<Rightarrow>
            (if ptr_Deref (cc_GenerateControlPlaneCertificate certConfig) False then
               (let hash = calcGardenRelevantDataHash X garden in
                if annotation ex GardenRelevantDataHashAnnotation \<noteq> hash
                then mapGardenLoop X D garden exs (requests @ [(GardenNamespace, ex_Name ex)])
                else mapGardenLoop X D garden exs requests)
             else mapGardenLoop X D garden exs requests)
        | _ \<Rightarrow> [])
     else mapGardenLoop X D garden exs requests)"

definition mapGardenToExtension ::
    "env \<Rightarrow> extern \<Rightarrow> deploy_extern \<Rightarrow> Garden \<Rightarrow> (string \<times> string) list io" where
  "mapGardenToExtension E X D garden =
    bind (attempt (call (ListExtensions GardenNamespace) (\<lambda>h. e_extensions E h GardenNamespace))) (\<lambda>r.
    case r of Inl err \<Rightarrow> ret [] | Inr exs \<Rightarrow> ret (mapGardenLoop X D garden exs []))"

subsection \<open>Reconciling and deleting\<close>

text \<open>The managed resource of an Extension: the one a deletion names.\<close>

definition cp_key :: "env \<Rightarrow> Extension \<Rightarrow> string \<times> string" where
  "cp_key E ex = (vl_Namespace (gardenOrSeedDeletionValues E ex), resourceNameGardenOrSeed (gardenOrSeedDeletionValues E ex))"

lemma cp_createValues_Ok:
  assumes "cp_createValues E D cfg cc (ex_Namespace ex) ex = Ok v"
  shows "(vl_Namespace v, resourceNameGardenOrSeed v) = cp_key E ex" "\<not> vl_ShootDeployment v"
    "vl_CertConfig v = cc" "vl_ExtensionConfig v = cfg"
    "vl_CertClass v = (if isGardenDeployment ex then ''garden'' else ''seed'')"
    "vl_GardenDeployment v = isGardenDeployment ex"
proof -
  obtain img where v: "v = (setValuesForGardenOrSeed E ex (emptyValues\<lparr>vl_ExtensionConfig := cfg, vl_CertConfig := cc,
      vl_Namespace := ex_Namespace ex, vl_Resources := [], vl_ShootDeployment := False,
      vl_GardenDeployment := isGardenDeployment ex, vl_Replicas := 1\<rparr>))\<lparr>vl_Image := img\<rparr>"
    using assms unfolding cp_createValues_def Let_def rbind_Ok_iff by auto
  show "(vl_Namespace v, resourceNameGardenOrSeed v) = cp_key E ex" "\<not> vl_ShootDeployment v"
    "vl_CertConfig v = cc" "vl_ExtensionConfig v = cfg"
    "vl_CertClass v = (if isGardenDeployment ex then ''garden'' else ''seed'')"
    "vl_GardenDeployment v = isGardenDeployment ex"
    by (cases "isGardenDeployment ex"; simp add: v setValuesForGardenOrSeed_def cp_key_def
        gardenOrSeedDeletionValues_def resourceNameGardenOrSeed_def emptyValues_def)+
qed

lemma cp_createValues_no_panic: "cp_createValues E D cfg cc ns ex \<noteq> Panic p"
  by (auto simp: cp_createValues_def Let_def rbind_Panic_iff PrepareCertManagementImage_no_panic)

lemma cp_Reconcile_Ok:
  assumes "cp_Reconcile E X D cfg ex w = (Ok (), w')"
  obtains cc v wd wc where
    "DecodeAndValidateProviderConfig X D ex None = Ok cc"
    "cp_createValues E D cfg cc (ex_Namespace ex) ex = Ok v"
    "DeployGardenOrSeedManagedResource E X D v w = (Ok (), wd)"
    "certificateStep E X cc ex wd = (Ok (), wc)"
    "cp_updateStatus E ex cc wc = (Ok (), w')"
  using assms unfolding cp_Reconcile_def createResourcesForGardenOrSeed_def bind_Ok_iff basic_Ok_iff
  by (elim exE conjE) simp

lemma no_mr_gardenClient [appends_intros]:
  "(\<And>s. P (CreateGardenClient s)) \<Longrightarrow> emits P (getOrCreateGardenClient E)"
  unfolding getOrCreateGardenClient_def createGardenClient_def by (intro appends_intros) simp_all

lemma emits_reconcileControlPlaneCert:
  assumes "\<And>s. P (CreateGardenClient s)" "\<And>s. P (GetSeed s)" "\<And>s. P (GetCredentials s)"
    "\<And>r. emits P (cpCert_reconcile E X r)"
  shows "emits P (reconcileControlPlaneCert E X)"
  unfolding reconcileControlPlaneCert_def fetchSeedFromVirtualGarden_def getDNSProviderCredentialsDeployer_def Let_def
  by (intro appends_intros assms)

lemma no_mr_certificateStep: "emits (\<lambda>e. \<not> mr_event e) (certificateStep E X cc ex)"
  unfolding certificateStep_def Let_def
  by (intro appends_intros emits_reconcileControlPlaneCert) simp_all

lemma cp_Reconcile_wanted:
  assumes "cp_Reconcile E X D cfg ex w = (Ok (), w')"
  shows "mr_wanted (cp_key E ex) b (trace w')"
proof -
  obtain cc v wd wc where v: "cp_createValues E D cfg cc (ex_Namespace ex) ex = Ok v"
    and d: "DeployGardenOrSeedManagedResource E X D v w = (Ok (), wd)"
    and c: "certificateStep E X cc ex wd = (Ok (), wc)" and u: "cp_updateStatus E ex cc wc = (Ok (), w')"
    using assms by (rule cp_Reconcile_Ok)
  have "mr_wanted (cp_key E ex) b (trace wd)"
    using garden_mr.wanted_after_deploy [OF d] by (simp add: cp_createValues_Ok(1) [OF v])
  moreover have "emits (\<lambda>e. \<not> mr_event e) (cp_updateStatus E ex cc)"
    unfolding cp_updateStatus_def by (intro appends_intros) simp
  ultimately show ?thesis
    using mr_wanted_kept [OF no_mr_certificateStep c]
      mr_wanted_kept [where m = "cp_updateStatus E ex cc" and w = wc and w' = w' and r = "Ok ()"] u by blast
qed

lemma cp_Delete_unwanted:
  assumes "cp_Delete E X ex w = (Ok (), w')"
  shows "\<not> mr_wanted (cp_key E ex) b (trace w')"
proof -
  obtain w1 where "DeleteGardenOrSeedManagedResourceAndWait E (gardenOrSeedDeletionValues E ex) (2 * minute) w1 = (Ok (), w')"
    using assms unfolding cp_Delete_def bind_Ok_iff deleteResourcesForGardenOrSeed_def by blast
  then show ?thesis unfolding cp_key_def by (rule garden_mr.unwanted_after_remove)
qed

text \<open>The changes an Extension of a garden or seed may cause.\<close>

definition certName :: "Extension \<Rightarrow> string" where
  "certName ex = (if isGardenDeployment ex then SecretNameGardenCert else SecretNameControlPlaneCert)"

fun cp_confined :: "env \<Rightarrow> Extension \<Rightarrow> event \<Rightarrow> bool" where
  "cp_confined E ex (CreateManagedResource ns n _ _ _) = ((ns, n) = cp_key E ex)"
| "cp_confined E ex (DeleteManagedResource ns n) = ((ns, n) = cp_key E ex)"
| "cp_confined E ex (SetKeepObjects ns n _) = (ns = ex_Namespace ex \<and> n = CertManagementResourceNameShoot)"
| "cp_confined E ex (PatchExtensionStatus ns n _) = ((ns, n) = (ex_Namespace ex, ex_Name ex))"
| "cp_confined E ex (PatchExtensionAnnotations ns n _) =
    (isGardenDeployment ex \<and> (ns, n) = (ex_Namespace ex, ex_Name ex))"
| "cp_confined E ex (ApplyCertificate c) = (ce_Namespace c = GardenNamespace \<and> ce_Name c = certName ex)"
| "cp_confined E ex (DeleteCertificate ns n) = (ns = GardenNamespace \<and> n = certName ex)"
| "cp_confined E ex (DeleteSecret ns n) = (\<not> isGardenDeployment ex \<and> ns = GardenNamespace \<and> n = dnsProviderSecretName)"
| "cp_confined E ex (DeployCredentials _ ns n) =
    (\<not> isGardenDeployment ex \<and> ns = GardenNamespace \<and> n = dnsProviderSecretName)"
| "cp_confined E ex e = (\<not> is_write e)"

lemma garden_cert_confined: "isGardenDeployment ex \<Longrightarrow> garden_cert_event ex e \<Longrightarrow> cp_confined E ex e"
  by (cases e) (auto simp: certName_def)




lemma emits_cp_Delete: "emits (cp_confined E ex) (cp_Delete E X ex)"
  unfolding cp_Delete_def deleteResourcesForGardenOrSeed_def DeleteGardenOrSeedManagedResourceAndWait_def
  by (intro appends_intros emits_mono [OF emits_gardenCert_delete garden_cert_confined]) (simp_all add: cp_key_def)

interpretation cp_actuator: actuator E "cp_Reconcile E X D cfg" "cp_Delete E X" "cp_ForceDelete E X"
  "cp_Restore E X D cfg" "cp_Migrate E X" "cp_key E"
  for E :: env and X :: extern and D :: deploy_extern and cfg :: Configuration
proof unfold_locales
  fix ex :: Extension
  show "emits (\<lambda>_. True) (cp_Delete E X ex)"
    by (rule emits_mono [OF emits_cp_Delete]) simp
qed (auto simp: cp_Reconcile_wanted cp_Delete_unwanted cp_ForceDelete_def cp_Restore_def cp_Migrate_def)


subsection \<open>No panics\<close>

text \<open>The seeds of the environment have an ingress domain and a DNS provider with credentials.\<close>

definition seeds_complete :: "env \<Rightarrow> bool" where
  "seeds_complete E \<longleftrightarrow> (\<forall>h n s. e_seed E h n = Inr s \<longrightarrow>
     sd_IngressDomain s \<noteq> None \<and> (\<exists>ty ref. sd_DNSProvider s = Some (ty, Some ref)))"

lemma no_panic_gardenClient [no_panic_intros]: "no_panic (getOrCreateGardenClient E)"
  unfolding getOrCreateGardenClient_def createGardenClient_def by (intro no_panic_intros)

lemma no_panic_reconcileControlPlaneCert:
  assumes "seeds_complete E"
  shows "no_panic (reconcileControlPlaneCert E X)"
  unfolding reconcileControlPlaneCert_def Let_def fetchSeedFromVirtualGarden_def
proof (rule no_panic_bind, rule no_panic_gardenClient, rule no_panic_bind_ok)
  fix u seed w w'
  assume "wrapping (''failed to get seed '' @ e_getenv E EnvSeedName) (wrapping (''failed to get seed '' @ e_getenv E EnvSeedName)
      (call (GetSeed (e_getenv E EnvSeedName)) (\<lambda>h. e_seed E h (e_getenv E EnvSeedName)))) w = (Ok seed, w')"
  then have "e_seed E (trace w) (e_getenv E EnvSeedName) = Inr seed"
    by (simp add: wrapping_Ok_iff call_Ok_iff)
  then obtain domain ty ref where s: "sd_IngressDomain seed = Some domain" "sd_DNSProvider seed = Some (ty, Some ref)"
    using assms unfolding seeds_complete_def by blast
  show "no_panic (bind (pure_res (controlPlaneCertFor seed)) (\<lambda>handler.
     bind (wrapping (''failed to get DNS provider credentials deployer for seed '' @ e_getenv E EnvSeedName)
             (getDNSProviderCredentialsDeployer E seed)) (\<lambda>creds. cpCert_reconcile E X (handler creds))))"
    by (intro no_panic_intros)
      (simp_all add: s controlPlaneCertFor_def deref_def getDNSProviderCredentialsDeployer_def no_panic_intros)
qed (intro no_panic_intros)

lemma no_panic_cp_Delete: "no_panic (cp_Delete E X ex)"
  unfolding cp_Delete_def deleteResourcesForGardenOrSeed_def
  by (intro no_panic_intros no_panic_gardenCert_delete)

lemma no_panic_cp_Reconcile:
  assumes "assets_law D" "gardens_have_providers E" "seeds_complete E"
  shows "no_panic (cp_Reconcile E X D cfg ex)"
  unfolding cp_Reconcile_def createResourcesForGardenOrSeed_def certificateStep_def cp_updateStatus_def Let_def
  by (intro no_panic_intros no_panic_gardenCert_delete no_panic_gardenCert_reconcile assms
      no_panic_reconcileControlPlaneCert DecodeAndValidate_no_panic cp_createValues_no_panic)

subsection \<open>Evaluation\<close>

definition sample_garden_extension :: Extension where
  "sample_garden_extension = \<lparr>ex_Name = ''garden-cert'', ex_Namespace = ''garden'', ex_Annotations = Map.empty,
     ex_DeletionTimestamp = None, ex_Type = ''controlplane-cert-service'', ex_Class = Some ''garden'',
     ex_ProviderConfig = None, ex_StatusResources = []\<rparr>"

definition sample_garden :: Garden where
  "sample_garden = \<lparr>ga_VirtualDomains = [''virtual.example.com''],
     ga_IngressDomains = [''runtime.example.com''], ga_DNSProviders = Some [(''aws-route53'', ''dns-secret'')]\<rparr>"

definition sample_seed :: Seed where
  "sample_seed = \<lparr>sd_Name = ''cert-ns'', sd_IngressDomain = Some ''ingress.example.com'',
     sd_DNSProvider = Some (''aws-route53'', Some ''credentials'')\<rparr>"

lemma sample_env_controlplane [simp]:
  "e_gardens sample_env h = Inr [sample_garden]" "e_seed sample_env h ''cert-ns'' = Inr sample_seed"
  by (simp_all add: sample_env_def sample_garden_def sample_seed_def)

lemma sample_env_laws: "gardens_have_providers sample_env" "seeds_complete sample_env" "certificates_named sample_env"
  by (auto simp: gardens_have_providers_def seeds_complete_def certificates_named_def sample_garden_def)
    (auto simp: sample_env_def)

lemma sample_class: "isGardenDeployment sample_garden_extension"
  by (simp add: isGardenDeployment_def sample_garden_extension_def GetExtensionClassOrDefault_def ExtensionClassGarden_def)

lemma sample_gardenDNSNames: "gardenDNSNames sample_garden = [''*.virtual.example.com'', ''*.runtime.example.com'']"
  by (simp add: gardenDNSNames_def sample_garden_def)

lemma sample_gardenCert_reconcile:
  obtains w' where "gardenCert_reconcile sample_env X sample_garden_extension w = (Ok (), w')"
proof -
  have "\<exists>cert. gardenCert_mutate X sample_garden (gardenDNSNames sample_garden) c = Ok cert" for c
    unfolding gardenCert_mutate_cases by (simp add: sample_garden_def)
  then have "\<exists>w'. CreateOrGetAndMergePatch sample_env gardenCert_newCertificate
      (gardenCert_mutate X sample_garden (gardenDNSNames sample_garden)) w = (Ok (), w')" for w
    by (simp add: CreateOrGetAndMergePatch_Ok)
  then have "\<exists>w'. gardenCert_reconcile sample_env X sample_garden_extension w = (Ok (), w')"
    by (fastforce simp: gardenCert_reconcile_def ok_iffs Let_def patchHashAnnotation_def sample_gardenDNSNames)
  then show ?thesis using that by blast
qed

lemma sample_DeployGardenOrSeed:
  assumes "\<not> vl_ShootDeployment v"
  shows "\<exists>w'. DeployGardenOrSeedManagedResource sample_env sample_extern sample_deploy v w = (Ok (), w')"
proof -
  have "collectIssuers v = Ok [gardenIssuer v]"
    using assms by (simp add: collectIssuers_def)
  then have i: "createIssuers v = Ok (map Obj (issuer_objs v (gardenIssuer v)), [gardenIssuer v])"
    by (simp add: createIssuers_eq)
  then obtain d where d: "createDeployment sample_extern sample_deploy v = Ok d"
    by (rule sample_createDeployment)
  obtain crds where crds: "getShootCRDs sample_extern sample_deploy v = Ok crds"
    "list_all (\<lambda>c. om_Namespace (crd_Meta c) = '''' \<and> om_Annotations (crd_Meta c) \<noteq> None
       \<and> om_Labels (crd_Meta c) = [ShootNoCleanup sample_extern \<mapsto> ''true'']) crds"
    using getShootCRDs_assets [OF sample_assets_law] by blast
  obtain crds' where "rmap (keepCRD sample_extern) crds = Ok crds'"
    using keepCRDs_Ok [OF crds(2)] by blast
  then obtain objs where objs: "gardenOrSeedObjects sample_extern sample_deploy v = Ok (objs, [gardenIssuer v])"
    using i d crds(1) by (auto simp: gardenOrSeedObjects_def simp del: removeNilObjects.simps)
  obtain w1 where "validateIssuerSecrets sample_env sample_deploy v [gardenIssuer v] w = (Ok (), w1)"
    using sample_validateIssuerSecrets by blast
  then show ?thesis
    using assms objs by (auto simp: DeployGardenOrSeedManagedResource_def ok_iffs sample_deploy_def)
qed

lemma sample_decode: "DecodeAndValidateProviderConfig X D sample_garden_extension None = Ok emptyCertConfig"
  by (simp add: DecodeAndValidateProviderConfig_def sample_garden_extension_def)

lemma sample_cp_Reconcile:
  obtains w' where "cp_Reconcile sample_env sample_extern sample_deploy cfg sample_garden_extension w = (Ok (), w')"
proof -
  have "PrepareCertManagementImage sample_deploy = Ok ''cert-controller-manager:v1''"
    by (simp add: PrepareCertManagementImage_def sample_deploy_def CertManagementImageName_def)
  then obtain v where v: "cp_createValues sample_env sample_deploy cfg emptyCertConfig
      (ex_Namespace sample_garden_extension) sample_garden_extension = Ok v"
    by (simp add: cp_createValues_def Let_def)
  obtain wd where "DeployGardenOrSeedManagedResource sample_env sample_extern sample_deploy v w = (Ok (), wd)"
    using sample_DeployGardenOrSeed [OF cp_createValues_Ok(2) [OF v]] by blast
  moreover have "cc_GenerateControlPlaneCertificate emptyCertConfig = None"
    by (simp add: emptyCertConfig_def)
  ultimately have "\<exists>w'. cp_Reconcile sample_env sample_extern sample_deploy cfg sample_garden_extension w = (Ok (), w')"
    using v by (simp add: cp_Reconcile_def createResourcesForGardenOrSeed_def io_simps sample_decode certificateStep_def
        sample_class gardenCert_delete_def cp_updateStatus_def patchHashAnnotation_def)
  then show ?thesis using that by blast
qed


subsection \<open>Events of the garden\<close>

text \<open>
  The Extensions a garden's event may concern; those of them that cannot be used because their provider
  configuration cannot be decoded or is invalid; and those that want a certificate but have it for other
  data.
\<close>

definition concerns :: "Extension \<Rightarrow> bool" where
  "concerns ex \<longleftrightarrow> ex_Type ex = ''controlplane-cert-service'' \<and> ex_Class ex = Some ''garden''"

definition unusable :: "deploy_extern \<Rightarrow> Extension \<Rightarrow> bool" where
  "unusable D ex \<longleftrightarrow> concerns ex \<and> \<not> (\<exists>cc. provider_config D ex cc \<and> runtime_config_ok cc)"

definition outdated :: "extern \<Rightarrow> deploy_extern \<Rightarrow> Garden \<Rightarrow> Extension \<Rightarrow> bool" where
  "outdated X D g ex \<longleftrightarrow> concerns ex
     \<and> (\<exists>cc. provider_config D ex cc \<and> runtime_config_ok cc \<and> cc_GenerateControlPlaneCertificate cc = Some True)
     \<and> annotation ex ''garden-relevant-data-hash'' \<noteq> calcGardenRelevantDataHash X g"

lemma concerns_iff:
  "concerns ex \<longleftrightarrow> ex_Type ex = cp_Type \<and> GetExtensionClassOrDefault (ex_Class ex) = ExtensionClassGarden"
  by (cases "ex_Class ex") (simp_all add: concerns_def cp_Type_def GetExtensionClassOrDefault_def ExtensionClassGarden_def
      ExtensionClassShoot_def)

lemma ptr_Deref_bool: "ptr_Deref b False \<longleftrightarrow> b = Some True"
  by (cases b) auto

lemma decode_runtime_iff:
  "DecodeAndValidateProviderConfig X D ex None = Ok cc \<longleftrightarrow> provider_config D ex cc \<and> runtime_config_ok cc"
  by (simp add: DecodeAndValidate_Ok_iff ValidateCertConfig_runtime_iff)

lemma provider_config_unique: "provider_config D ex cc \<Longrightarrow> provider_config D ex cc' \<Longrightarrow> cc' = cc"
  by (auto simp: provider_config_def split: option.splits)

lemma mapGardenLoop_eq:
  "mapGardenLoop X D g exs requests =
     (if list_ex (unusable D) exs then []
      else requests @ map (\<lambda>ex. (GardenNamespace, ex_Name ex)) (filter (outdated X D g) exs))"
proof (induction exs arbitrary: requests)
  case Nil
  then show ?case by simp
next
  case (Cons ex exs)
  show ?case
  proof (cases "concerns ex")
    case True
    note c = True [unfolded concerns_iff]
    show ?thesis
    proof (cases "\<exists>cc. DecodeAndValidateProviderConfig X D ex None = Ok cc")
      case True
      then obtain cc where cc: "DecodeAndValidateProviderConfig X D ex None = Ok cc" ..
      then have ok: "provider_config D ex cc" "runtime_config_ok cc" by (simp_all add: decode_runtime_iff)
      then have "outdated X D g ex \<longleftrightarrow> cc_GenerateControlPlaneCertificate cc = Some True
          \<and> annotation ex GardenRelevantDataHashAnnotation \<noteq> calcGardenRelevantDataHash X g" "\<not> unusable D ex"
        using \<open>concerns ex\<close> ok provider_config_unique [OF ok(1)]
        unfolding outdated_def unusable_def GardenRelevantDataHashAnnotation_def by blast+
      then show ?thesis by (simp add: c cc Cons.IH Let_def ptr_Deref_bool)
    next
      case False
      then have "unusable D ex" using \<open>concerns ex\<close> by (auto simp: unusable_def decode_runtime_iff)
      with False show ?thesis by (cases "DecodeAndValidateProviderConfig X D ex None") (simp_all add: c)
    qed
  next
    case False
    then have "\<not> unusable D ex" "\<not> outdated X D g ex" by (simp_all add: unusable_def outdated_def)
    then show ?thesis using False [unfolded concerns_iff] by (auto simp: Cons.IH)
  qed
qed

lemma mapGardenToExtension_run:
  "mapGardenToExtension E X D g w =
    (Ok (case e_extensions E (trace w) GardenNamespace of Inl err \<Rightarrow> [] | Inr exs \<Rightarrow> mapGardenLoop X D g exs []),
     w\<lparr>trace := trace w @ [ListExtensions GardenNamespace]\<rparr>)"
  by (cases "e_extensions E (trace w) GardenNamespace") (simp_all add: mapGardenToExtension_def io_simps)

subsection \<open>Properties\<close>

text \<open>C15: Reconciling the garden's certificate settles: the certificate that was applied names a wildcard
  for every domain of the garden, virtual or of an ingress, each once; it asks for the secret of the
  garden with the three labels of a garden's wildcard certificate, which it carries itself too; and
  however often an event of the same garden occurs later, as long as the Extension keeps the annotations
  that were written, the event does not ask for the Extension again.\<close>

theorem garden_certificate_settles:
  assumes "gardenCert_reconcile E X ex w = (Ok (), w')" "e_gardens E (trace w) = Inr [g]"
    and "ga_VirtualDomains g @ ga_IngressDomains g \<noteq> []"
  shows "\<exists>cert annotations. garden_certificate_ok X g cert
    \<and> trace w' = trace w @ [ListGardens, MergePatchCertificate GardenNamespace SecretNameGardenCert, ApplyCertificate cert,
        PatchExtensionAnnotations (ex_Namespace ex) (ex_Name ex) annotations]
    \<and> (\<forall>E' D v exs requests. e_extensions E' (trace v) GardenNamespace = Inr exs
        \<longrightarrow> (\<forall>ex'\<in>set exs. ex_Name ex' = ex_Name ex \<longrightarrow> ex_Annotations ex' = annotations)
        \<longrightarrow> fst (mapGardenToExtension E' X D g v) = Ok requests
        \<longrightarrow> (GardenNamespace, ex_Name ex) \<notin> set requests)"
proof -
  let ?as = "(ex_Annotations ex)(GardenRelevantDataHashAnnotation \<mapsto> calcGardenRelevantDataHash X g)"
  have "gardenDNSNames g \<noteq> []" using assms(3) by (simp add: gardenDNSNames_Nil_iff)
  then obtain cert where "garden_certificate_ok X g cert"
    "trace w' = trace w @ [ListGardens, MergePatchCertificate GardenNamespace SecretNameGardenCert, ApplyCertificate cert,
        PatchExtensionAnnotations (ex_Namespace ex) (ex_Name ex) ?as]"
    using gardenCert_reconcile_Ok [OF assms(1,2)] by blast
  moreover have current: "\<not> outdated X D g ex'" if "ex_Annotations ex' = ?as" for D ex'
    using that by (simp add: outdated_def annotation_def GardenRelevantDataHashAnnotation_def)
  have "(GardenNamespace, ex_Name ex) \<notin> set (mapGardenLoop X D g exs [])"
    if "\<forall>ex'\<in>set exs. ex_Name ex' = ex_Name ex \<longrightarrow> ex_Annotations ex' = ?as" for D exs
    using that current by (auto simp: mapGardenLoop_eq)
  ultimately show ?thesis
    by (intro exI [of _ cert] exI [of _ ?as]) (auto simp: mapGardenToExtension_run)
qed

theorem garden_certificate_settles_witness:
  "\<exists>w' cert. gardenCert_reconcile sample_env sample_extern sample_garden_extension initial = (Ok (), w')
     \<and> ApplyCertificate cert \<in> set (trace w') \<and> set (ce_DNSNames cert) = {''*.virtual.example.com'', ''*.runtime.example.com''}"
proof -
  obtain w' where ok: "gardenCert_reconcile sample_env sample_extern sample_garden_extension initial = (Ok (), w')"
    by (rule sample_gardenCert_reconcile)
  have "ga_VirtualDomains sample_garden @ ga_IngressDomains sample_garden \<noteq> []"
    by (simp add: sample_garden_def)
  then obtain cert annotations where c: "garden_certificate_ok sample_extern sample_garden cert"
    "trace w' = trace initial @ [ListGardens, MergePatchCertificate GardenNamespace SecretNameGardenCert, ApplyCertificate cert,
        PatchExtensionAnnotations (ex_Namespace sample_garden_extension) (ex_Name sample_garden_extension) annotations]"
    using garden_certificate_settles [OF ok sample_env_controlplane(1)] by blast
  then have "set (ce_DNSNames cert) = {''*.virtual.example.com'', ''*.runtime.example.com''}"
    by (auto simp: garden_certificate_ok_def sample_garden_def)
  moreover have "ApplyCertificate cert \<in> set (trace w')"
    unfolding c(2) by simp
  ultimately show ?thesis using ok by blast
qed

text \<open>C36: An event of the garden lists the Extensions of the namespace \<open>garden\<close> and triggers exactly those
  of the garden that want a certificate and whose recorded hash differs, in the order they are listed; but
  if the list cannot be read, or one Extension of the garden cannot be decoded or is invalid, none is
  triggered.\<close>

theorem garden_events_mapped:
  "mapGardenToExtension E X D g w =
    (Ok (case e_extensions E (trace w) ''garden'' of
           Inl err \<Rightarrow> []
         | Inr exs \<Rightarrow> (if list_ex (unusable D) exs then []
                      else map (\<lambda>ex. (''garden'', ex_Name ex)) (filter (outdated X D g) exs))),
     w\<lparr>trace := trace w @ [ListExtensions ''garden'']\<rparr>)"
  unfolding mapGardenToExtension_run mapGardenLoop_eq append_Nil by (simp only: GardenNamespace_def)

text \<open>C37: The hash of a garden determines the names of its certificate: gardens with the same hash have
  the same DNS names in the same order, however their domains are split between the virtual cluster and the
  ingress, unless SHA-256 has the same value for exactly the two different byte strings that are hashed for them.
  Domain names do not contain zero bytes.\<close>

theorem garden_hash_determines_names:
  assumes "no_NUL g" "no_NUL h" "calcGardenRelevantDataHash X g = calcGardenRelevantDataHash X h"
  shows "gardenDNSNames g = gardenDNSNames h \<or> collide (sha256 X) (hash_input g) (hash_input h)"
  by (rule hash_determines_names [OF assms])

theorem garden_hash_determines_names_witness:
  "\<exists>g h x y. ga_IngressDomains g \<noteq> ga_IngressDomains h \<and> collide (sha256 short_hash) x y
     \<and> calcGardenRelevantDataHash short_hash g = calcGardenRelevantDataHash short_hash h
     \<and> \<not> collide (sha256 short_hash) (hash_input g) (hash_input h) \<and> gardenDNSNames g = gardenDNSNames h"
proof -
  let ?h = "sample_garden\<lparr>ga_VirtualDomains := [''virtual.example.com'', ''runtime.example.com''], ga_IngressDomains := []\<rparr>"
  have input: "hash_input sample_garden = hash_input ?h"
    by (simp add: hash_input_def sample_garden_def)
  have nul: "no_NUL sample_garden" "no_NUL ?h"
    by (simp_all add: no_NUL_def sample_garden_def)
  have hash: "calcGardenRelevantDataHash short_hash sample_garden = calcGardenRelevantDataHash short_hash ?h"
    by (simp add: calcGardenRelevantDataHash_def input)
  have "\<not> collide (sha256 short_hash) (hash_input sample_garden) (hash_input ?h)"
    by (simp add: collide_def input)
  moreover have "ga_IngressDomains sample_garden \<noteq> ga_IngressDomains ?h"
    by (simp add: sample_garden_def)
  moreover have "collide (sha256 short_hash) ''gardenalice'' ''garden''"
    by (simp add: collide_def short_hash_def)
  ultimately show ?thesis
    using garden_hash_determines_names [OF nul hash] hash by blast
qed


text \<open>The hash does not see the DNS provider, which the certificate's annotations name: a change of the provider
  alone goes unnoticed.\<close>

theorem provider_not_hashed:
  "calcGardenRelevantDataHash X (g\<lparr>ga_DNSProviders := Some [(provider, secret)]\<rparr>) = calcGardenRelevantDataHash X g
   \<and> (\<exists>cert. gardenCert_mutate X (g\<lparr>ga_DNSProviders := Some [(provider, secret)]\<rparr>) names base = Ok cert
        \<and> ce_Annotations cert = (ce_Annotations base)(AnnotClass \<mapsto> ''garden'', AnnotDNSRecordProviderType X \<mapsto> provider,
            AnnotDNSRecordSecretRef \<mapsto> secret, AnnotDNSRecordClass X \<mapsto> ''garden''))"
  by (simp add: calcGardenRelevantDataHash_def hash_input_def gardenCert_mutate_def ExtensionClassGarden_def)



text \<open>C32: Reconciling, deleting and migrating the Extension of a garden or a seed never panic, if every
  garden with a DNS section has a provider and every seed an ingress domain and a DNS provider with
  credentials, and the embedded custom resource definitions are annotated.\<close>

theorem controlplane_actuator_no_panic:
  assumes "assets_law D" "gardens_have_providers E" "seeds_complete E"
  shows "execute (cp_Reconcile E X D cfg ex) \<noteq> Panic p \<and> execute (cp_Delete E X ex) \<noteq> Panic p
    \<and> execute (cp_Migrate E X ex) \<noteq> Panic p"
proof -
  have "no_panic (cp_Migrate E X ex)"
    unfolding cp_Migrate_def by (intro no_panic_intros no_panic_cp_Delete)
  then show ?thesis
    by (intro conjI no_panic_execute no_panic_cp_Reconcile assms no_panic_cp_Delete)
qed

theorem controlplane_actuator_no_panic_witness:
  "seeds_complete sample_env
   \<and> execute (cp_Reconcile sample_env sample_extern sample_deploy sample_configuration sample_garden_extension) \<noteq> Panic nil_deref"
  using controlplane_actuator_no_panic [OF sample_assets_law sample_env_laws(1,2)] sample_env_laws(2) by blast

text \<open>The actuator of gardens and seeds keeps gardener's contract: reconciled or restored, its
  managed resource is wanted; deleted, force-deleted or migrated, it is not; both under the same name
  and namespace although a deletion knows the Extension only.\<close>

theorem controlplane_actuator_contract:
  "(case cp_Reconcile E X D cfg ex w of (Ok _, w') \<Rightarrow> mr_wanted (cp_key E ex) b (trace w') | _ \<Rightarrow> True)
   \<and> (case cp_Restore E X D cfg ex w of (Ok _, w') \<Rightarrow> mr_wanted (cp_key E ex) b (trace w') | _ \<Rightarrow> True)
   \<and> (case cp_ForceDelete E X ex w of (Ok _, w') \<Rightarrow> \<not> mr_wanted (cp_key E ex) b (trace w') | _ \<Rightarrow> True)
   \<and> (case cp_Migrate E X ex w of (Ok _, w') \<Rightarrow> \<not> mr_wanted (cp_key E ex) b (trace w') | _ \<Rightarrow> True)
   \<and> cp_key E ex = (if isGardenDeployment ex then (ex_Namespace ex, CertManagementResourceNameGarden)
        else (e_getenv E EnvLeaderElectionNamespace, CertManagementResourceNameSeed))"
proof -
  note facts = cp_actuator.reconcile_wanted cp_actuator.restore_wanted
    cp_actuator.delete_unwanted cp_actuator.migrate_unwanted
  have "cp_key E ex = (if isGardenDeployment ex then (ex_Namespace ex, CertManagementResourceNameGarden)
        else (e_getenv E EnvLeaderElectionNamespace, CertManagementResourceNameSeed))"
    by (simp add: cp_key_def gardenOrSeedDeletionValues_def setValuesForGardenOrSeed_def resourceNameGardenOrSeed_def emptyValues_def)
  moreover have "case cp_ForceDelete E X ex w of (Ok _, w') \<Rightarrow> \<not> mr_wanted (cp_key E ex) b (trace w') | _ \<Rightarrow> True"
    by (auto split: prod.splits result.splits dest: facts simp: cp_ForceDelete_def)
  ultimately show ?thesis
    by (intro conjI) (auto split: prod.splits result.splits dest: facts)
qed

text \<open>The client of the virtual garden is built at most once: a call that succeeds leaves a client
  that every later call returns without any step; a call that fails leaves none, so that the next one
  tries again.\<close>

theorem garden_client_built_once:
  "(case getOrCreateGardenClient E w of
      (Ok _, w') \<Rightarrow> gardenClient w' \<and> getOrCreateGardenClient E w' = (Ok (), w')
    | (_, w') \<Rightarrow> \<not> gardenClient w \<and> \<not> gardenClient w')"
proof (cases "gardenClient w")
  case True
  then show ?thesis by (simp add: getOrCreateGardenClient_def io_simps)
next
  case False
  have keep: "gardenClient (snd (createGardenClient E v)) = gardenClient v" for v
    by (auto simp: createGardenClient_def io_simps split: result.splits prod.splits)
  show ?thesis
    using False keep [of w]
    by (cases "createGardenClient E w")
      (auto simp: getOrCreateGardenClient_def bind_run get_world_run set_gardenClient_run ret_run split: result.splits)
qed

text \<open>A seed without an ingress or without a DNS provider makes the reconciliation of the control
  plane's certificate panic, before the check for a missing provider is reached.\<close>

theorem incomplete_seed_panics:
  assumes "gardenClient w" "e_seed E (trace w) (e_getenv E EnvSeedName) = Inr seed"
    and "sd_IngressDomain seed = None \<or> sd_DNSProvider seed = None"
  shows "fst (reconcileControlPlaneCert E X w) = Panic nil_deref"
  using assms
  by (cases "sd_IngressDomain seed")
    (auto simp: reconcileControlPlaneCert_def getOrCreateGardenClient_def fetchSeedFromVirtualGarden_def io_simps
      controlPlaneCertFor_def deref_def Let_def)

theorem incomplete_seed_panics_witness:
  "\<exists>E. fst (reconcileControlPlaneCert E sample_extern \<lparr>trace = [], gardenClient = True\<rparr>) = Panic nil_deref"
proof -
  let ?E = "sample_env\<lparr>e_seed := \<lambda>h n. Inr \<lparr>sd_Name = n, sd_IngressDomain = Some ''example.com'', sd_DNSProvider = None\<rparr>\<rparr>"
  have "fst (reconcileControlPlaneCert ?E sample_extern \<lparr>trace = [], gardenClient = True\<rparr>) = Panic nil_deref"
    by (rule incomplete_seed_panics [where seed = "\<lparr>sd_Name = e_getenv ?E EnvSeedName, sd_IngressDomain = Some ''example.com'',
        sd_DNSProvider = None\<rparr>"]) simp_all
  then show ?thesis by blast
qed

text \<open>C40: The certificate of a control plane names the wildcard of its domain exactly once: as common name
  if it has at most 64 characters, as DNS name otherwise; it is applied under the fixed name in the
  garden namespace, and its secret carries its labels.\<close>

theorem control_plane_certificate:
  assumes "cpCert_reconcile E X r w = (Ok (), w')" "certificates_named E"
  shows "\<exists>cert h. trace w' = h @ [ApplyCertificate cert]
    \<and> ce_Namespace cert = GardenNamespace \<and> ce_Name cert = SecretNameControlPlaneCert
    \<and> (case ce_CommonName cert of
         Some cn \<Rightarrow> cn = ''*.'' @ cpc_domain r \<and> length cn \<le> 64 \<and> ce_DNSNames cert = []
       | None \<Rightarrow> ce_DNSNames cert = [''*.'' @ cpc_domain r] \<and> 64 < length (''*.'' @ cpc_domain r))
    \<and> ce_Labels cert = ce_SecretLabels cert"
proof -
  obtain w1 where "CreateOrGetAndMergePatch E cpCert_newCertificate (cpCert_mutate X r) w1 = (Ok (), w')"
    using assms(1) by (auto simp: cpCert_reconcile_def bind_Ok_iff wrapping_Ok_iff)
  then obtain c cert h where c: "cpCert_mutate X r c = Ok cert" "trace w' = h @ [ApplyCertificate cert]"
    and n: "ce_Namespace c = GardenNamespace" "ce_Name c = SecretNameControlPlaneCert"
    using assms(2)
    using certificates_namedD [of E _ cpCert_newCertificate]
    by (fastforce simp: CreateOrGetAndMergePatch_Ok Let_def)
  then show ?thesis
    by (intro exI [of _ cert] exI [of _ h]) (auto simp: cpCert_mutate_def Let_def)
qed

theorem control_plane_certificate_witness:
  "\<exists>w' cert. cpCert_reconcile sample_env sample_extern
       \<lparr>cpc_domain = ''example.com'', cpc_dnsProviderType = ''aws'', cpc_credentials = None\<rparr> initial = (Ok (), w')
     \<and> last (trace w') = ApplyCertificate cert \<and> ce_Name cert = ''ingress-wildcard-cert''"
proof -
  let ?r = "\<lparr>cpc_domain = ''example.com'', cpc_dnsProviderType = ''aws'', cpc_credentials = None\<rparr>"
  have "\<exists>w'. cpCert_reconcile sample_env sample_extern ?r initial = (Ok (), w')"
    by (simp add: cpCert_reconcile_def ok_iffs CreateOrGetAndMergePatch_Ok cpCert_mutate_def Let_def)
  then obtain w' where ok: "cpCert_reconcile sample_env sample_extern ?r initial = (Ok (), w')" ..
  then show ?thesis
    using control_plane_certificate [OF ok sample_env_laws(3)]
    by (auto simp: SecretNameControlPlaneCert_def)
qed


end
