(* ===== verification/API_Scheme.thy ===== *)
theory API_Scheme
  imports Service_API
begin

text \<open>
  The registration of the API types with schemes (\<open>register.go\<close> of the four API packages,
  \<open>service/install\<close>, \<open>RegisterDefaults\<close> and \<open>RegisterConversions\<close>, and the scheme of
  \<open>pkg/cmd/options.go\<close>). A scheme is the list of what was registered with it, in order; that the
  library refuses a registration, and how a scheme builder runs its functions, are parameters.
\<close>

subsection \<open>Registrations\<close>

datatype package = Internal | V1alpha1
datatype api_version = APIVersionInternal | Version string
type_synonym group_version = "string \<times> api_version"
type_synonym api_type = "package \<times> string"

text \<open>
  The objects of an API, of any of its types, are a type \<open>'o\<close>. A registered function takes them as
  \<open>interface{}\<close> and asserts their types; \<open>None\<close> is a failed assertion.
\<close>

datatype 'o registration =
    AddKnownTypes group_version "api_type list"
  | AddTypeDefaultingFunc api_type "'o \<Rightarrow> 'o option"
  | AddGeneratedConversionFunc api_type api_type "'o \<Rightarrow> 'o \<Rightarrow> 'o option"
  | SetVersionPriority "group_version list"

type_synonym 'o reg_op = "'o registration list \<Rightarrow> goerr option \<times> 'o registration list"

text \<open>The library: its answer to a registration, and \<open>AddToScheme\<close> of a scheme builder.\<close>

record 'o scheme_lib =
  sl_answer :: "'o registration list \<Rightarrow> 'o registration \<Rightarrow> goerr option"
  sl_AddToScheme :: "'o reg_op list \<Rightarrow> 'o reg_op"

definition register :: "'o scheme_lib \<Rightarrow> 'o registration \<Rightarrow> 'o reg_op" where
  "register L r s = (sl_answer L s r, s @ [r])"

text \<open>\<open>if err := f(s); err != nil { return err }\<close>, one after the other, and \<open>return nil\<close>.\<close>

fun in_turn :: "('s \<Rightarrow> goerr option \<times> 's) list \<Rightarrow> 's \<Rightarrow> goerr option \<times> 's" where
  "in_turn [] s = (None, s)"
| "in_turn (f # fs) s = (case f s of (Some e, s') \<Rightarrow> (Some e, s') | (None, s') \<Rightarrow> in_turn fs s')"

text \<open>\<open>addKnownTypes\<close> ignores that the library may panic, and returns nil.\<close>

definition known_types :: "group_version \<Rightarrow> api_type list \<Rightarrow> 'o reg_op" where
  "known_types gv types s = (None, s @ [AddKnownTypes gv types])"

text \<open>\<open>utilruntime.Must\<close> panics on an error.\<close>

definition must :: "('s \<Rightarrow> goerr option \<times> 's) \<Rightarrow> 's \<Rightarrow> 's result" where
  "must f s = (case f s of (None, s') \<Rightarrow> Ok s' | (Some e, _) \<Rightarrow> Panic (err_text e))"

subsection \<open>The configuration API\<close>

datatype config_object =
    V1CfgACME v1ACME
  | CfgACME ConfigACME
  | V1CfgCA v1CA
  | CfgCA ConfigCA
  | V1CfgConfiguration v1Configuration
  | CfgConfiguration Configuration
  | V1CfgPrivateKeyDefaults v1PrivateKeyDefaults
  | CfgPrivateKeyDefaults PrivateKeyDefaults
  | V1CfgShootIssuers v1ShootIssuers
  | CfgShootIssuers ShootIssuers

fun config_type :: "config_object \<Rightarrow> package \<times> string" where
  "config_type (V1CfgACME _) = (V1alpha1, ''ACME'')"
| "config_type (CfgACME _) = (Internal, ''ACME'')"
| "config_type (V1CfgCA _) = (V1alpha1, ''CA'')"
| "config_type (CfgCA _) = (Internal, ''CA'')"
| "config_type (V1CfgConfiguration _) = (V1alpha1, ''Configuration'')"
| "config_type (CfgConfiguration _) = (Internal, ''Configuration'')"
| "config_type (V1CfgPrivateKeyDefaults _) = (V1alpha1, ''PrivateKeyDefaults'')"
| "config_type (CfgPrivateKeyDefaults _) = (Internal, ''PrivateKeyDefaults'')"
| "config_type (V1CfgShootIssuers _) = (V1alpha1, ''ShootIssuers'')"
| "config_type (CfgShootIssuers _) = (Internal, ''ShootIssuers'')"

definition config_GroupName :: string where
  "config_GroupName = ''shoot-cert-service.extensions.config.gardener.cloud''"

definition config_SchemeGroupVersion :: group_version where
  "config_SchemeGroupVersion = (config_GroupName, APIVersionInternal)"

definition config_Kind :: "string \<Rightarrow> string \<times> string" where
  "config_Kind kind = (fst config_SchemeGroupVersion, kind)"

definition config_Resource :: "string \<Rightarrow> string \<times> string" where
  "config_Resource resource = (fst config_SchemeGroupVersion, resource)"

definition config_addKnownTypes :: "config_object reg_op" where
  "config_addKnownTypes = known_types config_SchemeGroupVersion [(Internal, ''Configuration'')]"

definition config_SchemeBuilder :: "config_object reg_op list" where
  "config_SchemeBuilder = [config_addKnownTypes]"

definition v1config_GroupName :: string where
  "v1config_GroupName = ''shoot-cert-service.extensions.config.gardener.cloud''"

definition v1config_SchemeGroupVersion :: group_version where
  "v1config_SchemeGroupVersion = (v1config_GroupName, Version ''v1alpha1'')"

definition v1config_Kind :: "string \<Rightarrow> string \<times> string" where
  "v1config_Kind kind = (fst v1config_SchemeGroupVersion, kind)"

definition v1config_Resource :: "string \<Rightarrow> string \<times> string" where
  "v1config_Resource resource = (fst v1config_SchemeGroupVersion, resource)"

definition v1config_addKnownTypes :: "config_object reg_op" where
  "v1config_addKnownTypes = known_types v1config_SchemeGroupVersion [(V1alpha1, ''Configuration'')]"

definition config_RegisterDefaults :: "config_object scheme_lib \<Rightarrow> config_object reg_op" where
  "config_RegisterDefaults L s = (None, snd (register L (AddTypeDefaultingFunc (V1alpha1, ''Configuration'')
     (\<lambda>obj. case obj of V1CfgConfiguration c \<Rightarrow> Some (V1CfgConfiguration (SetObjectDefaults_Configuration c))
                      | _ \<Rightarrow> None)) s))"

definition config_addDefaultingFuncs :: "config_object scheme_lib \<Rightarrow> config_object reg_op" where
  "config_addDefaultingFuncs L = config_RegisterDefaults L"

definition config_RegisterConversions :: "config_object scheme_lib \<Rightarrow> config_object reg_op" where
  "config_RegisterConversions L = in_turn (map (register L) [
     AddGeneratedConversionFunc (V1alpha1, ''ACME'') (Internal, ''ACME'')
       (\<lambda>a b. case (a, b) of (V1CfgACME x, CfgACME y) \<Rightarrow> Some (CfgACME (convACME_to_config x y)) | _ \<Rightarrow> None),
     AddGeneratedConversionFunc (Internal, ''ACME'') (V1alpha1, ''ACME'')
       (\<lambda>a b. case (a, b) of (CfgACME x, V1CfgACME y) \<Rightarrow> Some (V1CfgACME (convACME_to_v1 x y)) | _ \<Rightarrow> None),
     AddGeneratedConversionFunc (V1alpha1, ''CA'') (Internal, ''CA'')
       (\<lambda>a b. case (a, b) of (V1CfgCA x, CfgCA y) \<Rightarrow> Some (CfgCA (convCA_to_config x y)) | _ \<Rightarrow> None),
     AddGeneratedConversionFunc (Internal, ''CA'') (V1alpha1, ''CA'')
       (\<lambda>a b. case (a, b) of (CfgCA x, V1CfgCA y) \<Rightarrow> Some (V1CfgCA (convCA_to_v1 x y)) | _ \<Rightarrow> None),
     AddGeneratedConversionFunc (V1alpha1, ''Configuration'') (Internal, ''Configuration'')
       (\<lambda>a b. case (a, b) of (V1CfgConfiguration x, CfgConfiguration y) \<Rightarrow> Some (CfgConfiguration (convConfiguration_to_config x y)) | _ \<Rightarrow> None),
     AddGeneratedConversionFunc (Internal, ''Configuration'') (V1alpha1, ''Configuration'')
       (\<lambda>a b. case (a, b) of (CfgConfiguration x, V1CfgConfiguration y) \<Rightarrow> Some (V1CfgConfiguration (convConfiguration_to_v1 x y)) | _ \<Rightarrow> None),
     AddGeneratedConversionFunc (V1alpha1, ''PrivateKeyDefaults'') (Internal, ''PrivateKeyDefaults'')
       (\<lambda>a b. case (a, b) of (V1CfgPrivateKeyDefaults x, CfgPrivateKeyDefaults y) \<Rightarrow> Some (CfgPrivateKeyDefaults (convPKD_to_config x y)) | _ \<Rightarrow> None),
     AddGeneratedConversionFunc (Internal, ''PrivateKeyDefaults'') (V1alpha1, ''PrivateKeyDefaults'')
       (\<lambda>a b. case (a, b) of (CfgPrivateKeyDefaults x, V1CfgPrivateKeyDefaults y) \<Rightarrow> Some (V1CfgPrivateKeyDefaults (convPKD_to_v1 x y)) | _ \<Rightarrow> None),
     AddGeneratedConversionFunc (V1alpha1, ''ShootIssuers'') (Internal, ''ShootIssuers'')
       (\<lambda>a b. case (a, b) of (V1CfgShootIssuers x, CfgShootIssuers y) \<Rightarrow> Some (CfgShootIssuers (convShootIssuers_to_config x y)) | _ \<Rightarrow> None),
     AddGeneratedConversionFunc (Internal, ''ShootIssuers'') (V1alpha1, ''ShootIssuers'')
       (\<lambda>a b. case (a, b) of (CfgShootIssuers x, V1CfgShootIssuers y) \<Rightarrow> Some (V1CfgShootIssuers (convShootIssuers_to_v1 x y)) | _ \<Rightarrow> None)])"

text \<open>The variable starts with one function; the \<open>init\<close> functions of the package's files, in the order
  of their names, append the others.\<close>

definition v1config_localSchemeBuilder :: "config_object scheme_lib \<Rightarrow> config_object reg_op list" where
  "v1config_localSchemeBuilder L = ([v1config_addKnownTypes] @ [config_addDefaultingFuncs L]) @ [config_RegisterConversions L]"

text \<open>The scheme of \<open>pkg/cmd/options.go\<close>, which decodes the configuration file.\<close>

definition cmd_scheme :: "config_object scheme_lib \<Rightarrow> config_object registration list result" where
  "cmd_scheme L = rbind (must (sl_AddToScheme L config_SchemeBuilder) []) (\<lambda>scheme.
     must (sl_AddToScheme L (v1config_localSchemeBuilder L)) scheme)"

subsection \<open>The provider configuration API\<close>

datatype service_object =
    V1SvcACMEExternalAccountBinding v1ACMEExternalAccountBinding
  | SvcACMEExternalAccountBinding ACMEExternalAccountBinding
  | V1SvcAlerting v1Alerting
  | SvcAlerting Alerting
  | V1SvcCertConfig v1CertConfig
  | SvcCertConfig CertConfig
  | V1SvcDNSChallengeOnShoot v1DNSChallengeOnShoot
  | SvcDNSChallengeOnShoot DNSChallengeOnShoot
  | V1SvcDNSSelection v1DNSSelection
  | SvcDNSSelection DNSSelection
  | V1SvcIssuerConfig v1IssuerConfig
  | SvcIssuerConfig IssuerConfig
  | V1SvcShootIssuers v1SvcShootIssuers
  | SvcShootIssuers SvcShootIssuers

fun service_type :: "service_object \<Rightarrow> package \<times> string" where
  "service_type (V1SvcACMEExternalAccountBinding _) = (V1alpha1, ''ACMEExternalAccountBinding'')"
| "service_type (SvcACMEExternalAccountBinding _) = (Internal, ''ACMEExternalAccountBinding'')"
| "service_type (V1SvcAlerting _) = (V1alpha1, ''Alerting'')"
| "service_type (SvcAlerting _) = (Internal, ''Alerting'')"
| "service_type (V1SvcCertConfig _) = (V1alpha1, ''CertConfig'')"
| "service_type (SvcCertConfig _) = (Internal, ''CertConfig'')"
| "service_type (V1SvcDNSChallengeOnShoot _) = (V1alpha1, ''DNSChallengeOnShoot'')"
| "service_type (SvcDNSChallengeOnShoot _) = (Internal, ''DNSChallengeOnShoot'')"
| "service_type (V1SvcDNSSelection _) = (V1alpha1, ''DNSSelection'')"
| "service_type (SvcDNSSelection _) = (Internal, ''DNSSelection'')"
| "service_type (V1SvcIssuerConfig _) = (V1alpha1, ''IssuerConfig'')"
| "service_type (SvcIssuerConfig _) = (Internal, ''IssuerConfig'')"
| "service_type (V1SvcShootIssuers _) = (V1alpha1, ''ShootIssuers'')"
| "service_type (SvcShootIssuers _) = (Internal, ''ShootIssuers'')"

definition service_GroupName :: string where
  "service_GroupName = ''service.cert.extensions.gardener.cloud''"

definition service_SchemeGroupVersion :: group_version where
  "service_SchemeGroupVersion = (service_GroupName, APIVersionInternal)"

definition service_Resource :: "string \<Rightarrow> string \<times> string" where
  "service_Resource resource = (fst service_SchemeGroupVersion, resource)"

definition service_addKnownTypes :: "service_object reg_op" where
  "service_addKnownTypes = known_types service_SchemeGroupVersion [(Internal, ''CertConfig'')]"

definition service_localSchemeBuilder :: "service_object reg_op list" where
  "service_localSchemeBuilder = [service_addKnownTypes]"

definition v1service_GroupName :: string where
  "v1service_GroupName = ''service.cert.extensions.gardener.cloud''"

definition v1service_SchemeGroupVersion :: group_version where
  "v1service_SchemeGroupVersion = (v1service_GroupName, Version ''v1alpha1'')"

definition v1service_Resource :: "string \<Rightarrow> string \<times> string" where
  "v1service_Resource resource = (fst v1service_SchemeGroupVersion, resource)"

definition v1service_addKnownTypes :: "service_object reg_op" where
  "v1service_addKnownTypes = known_types v1service_SchemeGroupVersion [(V1alpha1, ''CertConfig'')]"

text \<open>There are no defaults for the provider configuration.\<close>

definition service_RegisterDefaults :: "service_object reg_op" where
  "service_RegisterDefaults s = (None, s)"

definition service_addDefaultingFuncs :: "service_object reg_op" where
  "service_addDefaultingFuncs = service_RegisterDefaults"

definition service_RegisterConversions :: "service_object scheme_lib \<Rightarrow> service_object reg_op" where
  "service_RegisterConversions L = in_turn (map (register L) [
     AddGeneratedConversionFunc (V1alpha1, ''ACMEExternalAccountBinding'') (Internal, ''ACMEExternalAccountBinding'')
       (\<lambda>a b. case (a, b) of (V1SvcACMEExternalAccountBinding x, SvcACMEExternalAccountBinding y) \<Rightarrow> Some (SvcACMEExternalAccountBinding (convEAB_to_service x)) | _ \<Rightarrow> None),
     AddGeneratedConversionFunc (Internal, ''ACMEExternalAccountBinding'') (V1alpha1, ''ACMEExternalAccountBinding'')
       (\<lambda>a b. case (a, b) of (SvcACMEExternalAccountBinding x, V1SvcACMEExternalAccountBinding y) \<Rightarrow> Some (V1SvcACMEExternalAccountBinding (convEAB_to_v1 x)) | _ \<Rightarrow> None),
     AddGeneratedConversionFunc (V1alpha1, ''Alerting'') (Internal, ''Alerting'')
       (\<lambda>a b. case (a, b) of (V1SvcAlerting x, SvcAlerting y) \<Rightarrow> Some (SvcAlerting (convAlerting_to_service x)) | _ \<Rightarrow> None),
     AddGeneratedConversionFunc (Internal, ''Alerting'') (V1alpha1, ''Alerting'')
       (\<lambda>a b. case (a, b) of (SvcAlerting x, V1SvcAlerting y) \<Rightarrow> Some (V1SvcAlerting (convAlerting_to_v1 x)) | _ \<Rightarrow> None),
     AddGeneratedConversionFunc (V1alpha1, ''CertConfig'') (Internal, ''CertConfig'')
       (\<lambda>a b. case (a, b) of (V1SvcCertConfig x, SvcCertConfig y) \<Rightarrow> Some (SvcCertConfig (convCertConfig_to_service x y)) | _ \<Rightarrow> None),
     AddGeneratedConversionFunc (Internal, ''CertConfig'') (V1alpha1, ''CertConfig'')
       (\<lambda>a b. case (a, b) of (SvcCertConfig x, V1SvcCertConfig y) \<Rightarrow> Some (V1SvcCertConfig (convCertConfig_to_v1 x y)) | _ \<Rightarrow> None),
     AddGeneratedConversionFunc (V1alpha1, ''DNSChallengeOnShoot'') (Internal, ''DNSChallengeOnShoot'')
       (\<lambda>a b. case (a, b) of (V1SvcDNSChallengeOnShoot x, SvcDNSChallengeOnShoot y) \<Rightarrow> Some (SvcDNSChallengeOnShoot (convDNSChallenge_to_service x)) | _ \<Rightarrow> None),
     AddGeneratedConversionFunc (Internal, ''DNSChallengeOnShoot'') (V1alpha1, ''DNSChallengeOnShoot'')
       (\<lambda>a b. case (a, b) of (SvcDNSChallengeOnShoot x, V1SvcDNSChallengeOnShoot y) \<Rightarrow> Some (V1SvcDNSChallengeOnShoot (convDNSChallenge_to_v1 x)) | _ \<Rightarrow> None),
     AddGeneratedConversionFunc (V1alpha1, ''DNSSelection'') (Internal, ''DNSSelection'')
       (\<lambda>a b. case (a, b) of (V1SvcDNSSelection x, SvcDNSSelection y) \<Rightarrow> Some (SvcDNSSelection (convDNSSelection_to_service x)) | _ \<Rightarrow> None),
     AddGeneratedConversionFunc (Internal, ''DNSSelection'') (V1alpha1, ''DNSSelection'')
       (\<lambda>a b. case (a, b) of (SvcDNSSelection x, V1SvcDNSSelection y) \<Rightarrow> Some (V1SvcDNSSelection (convDNSSelection_to_v1 x)) | _ \<Rightarrow> None),
     AddGeneratedConversionFunc (V1alpha1, ''IssuerConfig'') (Internal, ''IssuerConfig'')
       (\<lambda>a b. case (a, b) of (V1SvcIssuerConfig x, SvcIssuerConfig y) \<Rightarrow> Some (SvcIssuerConfig (convIssuerConfig_to_service x)) | _ \<Rightarrow> None),
     AddGeneratedConversionFunc (Internal, ''IssuerConfig'') (V1alpha1, ''IssuerConfig'')
       (\<lambda>a b. case (a, b) of (SvcIssuerConfig x, V1SvcIssuerConfig y) \<Rightarrow> Some (V1SvcIssuerConfig (convIssuerConfig_to_v1 x)) | _ \<Rightarrow> None),
     AddGeneratedConversionFunc (V1alpha1, ''ShootIssuers'') (Internal, ''ShootIssuers'')
       (\<lambda>a b. case (a, b) of (V1SvcShootIssuers x, SvcShootIssuers y) \<Rightarrow> Some (SvcShootIssuers (convSvcShootIssuers_to_service x)) | _ \<Rightarrow> None),
     AddGeneratedConversionFunc (Internal, ''ShootIssuers'') (V1alpha1, ''ShootIssuers'')
       (\<lambda>a b. case (a, b) of (SvcShootIssuers x, V1SvcShootIssuers y) \<Rightarrow> Some (V1SvcShootIssuers (convSvcShootIssuers_to_v1 x)) | _ \<Rightarrow> None)])"

definition v1service_localSchemeBuilder :: "service_object scheme_lib \<Rightarrow> service_object reg_op list" where
  "v1service_localSchemeBuilder L = [service_addDefaultingFuncs, v1service_addKnownTypes] @ [service_RegisterConversions L]"

definition setVersionPriority :: "service_object scheme_lib \<Rightarrow> service_object reg_op" where
  "setVersionPriority L = register L (SetVersionPriority [v1service_SchemeGroupVersion])"

definition install_schemeBuilder :: "service_object scheme_lib \<Rightarrow> service_object reg_op list" where
  "install_schemeBuilder L = [sl_AddToScheme L (v1service_localSchemeBuilder L),
     sl_AddToScheme L service_localSchemeBuilder, setVersionPriority L]"

definition install_AddToScheme :: "service_object scheme_lib \<Rightarrow> service_object reg_op" where
  "install_AddToScheme L = sl_AddToScheme L (install_schemeBuilder L)"

definition Install :: "service_object scheme_lib \<Rightarrow> service_object registration list
    \<Rightarrow> service_object registration list result" where
  "Install L = must (install_AddToScheme L)"

subsection \<open>What a scheme converts\<close>

text \<open>A conversion between two objects: the function registered for their types, if any.\<close>

fun convert_with :: "('o \<Rightarrow> api_type) \<Rightarrow> 'o registration list \<Rightarrow> 'o \<Rightarrow> 'o \<Rightarrow> 'o option" where
  "convert_with ty [] a b = None"
| "convert_with ty (AddGeneratedConversionFunc s t f # rs) a b =
    (if s = ty a \<and> t = ty b then f a b else convert_with ty rs a b)"
| "convert_with ty (_ # rs) a b = convert_with ty rs a b"

text \<open>
  Documented behaviour of a scheme builder: its functions are applied in order, and the first error
  abandons the attempt. A library that accepts every registration.
\<close>

definition builder_law :: "'o scheme_lib \<Rightarrow> bool" where
  "builder_law L \<longleftrightarrow> (\<forall>fs s. sl_AddToScheme L fs s = in_turn fs s)"

definition accepts_all :: "'o scheme_lib \<Rightarrow> bool" where
  "accepts_all L \<longleftrightarrow> (\<forall>s r. sl_answer L s r = None)"

definition sample_scheme_lib :: "'o scheme_lib" where
  "sample_scheme_lib = \<lparr>sl_answer = (\<lambda>s r. None), sl_AddToScheme = in_turn\<rparr>"

lemma in_turn_map_register:
  "accepts_all L \<Longrightarrow> in_turn (map (register L) rs) s = (None, s @ rs)"
  by (induction rs arbitrary: s) (simp_all add: register_def accepts_all_def)

text \<open>A versioned and an internal object of the same kind are converted into each other without loss:
  both directions are registered, accept the objects, and a conversion and the one back into the
  original object give that object.\<close>

definition inverse_conversions :: "('o \<Rightarrow> api_type) \<Rightarrow> 'o registration list \<Rightarrow> bool" where
  "inverse_conversions ty scheme \<longleftrightarrow> (\<forall>a b. fst (ty a) \<noteq> fst (ty b) \<and> snd (ty a) = snd (ty b) \<longrightarrow>
     (\<exists>b'. convert_with ty scheme a b = Some b' \<and> ty b' = ty b \<and> convert_with ty scheme b' a = Some a))"

definition config_conversions :: "config_object registration list" where
  "config_conversions = snd (config_RegisterConversions sample_scheme_lib [])"

abbreviation config_converts :: "config_object \<Rightarrow> config_object \<Rightarrow> config_object option" where
  "config_converts \<equiv> convert_with config_type config_conversions"

lemma config_conversions_eq:
  "config_converts (V1CfgACME x0) (CfgACME y0) = Some (CfgACME (convACME_to_config x0 y0))"
  "config_converts (CfgACME y0) (V1CfgACME x0) = Some (V1CfgACME (convACME_to_v1 y0 x0))"
  "config_converts (V1CfgCA x1) (CfgCA y1) = Some (CfgCA (convCA_to_config x1 y1))"
  "config_converts (CfgCA y1) (V1CfgCA x1) = Some (V1CfgCA (convCA_to_v1 y1 x1))"
  "config_converts (V1CfgConfiguration x2) (CfgConfiguration y2) = Some (CfgConfiguration (convConfiguration_to_config x2 y2))"
  "config_converts (CfgConfiguration y2) (V1CfgConfiguration x2) = Some (V1CfgConfiguration (convConfiguration_to_v1 y2 x2))"
  "config_converts (V1CfgPrivateKeyDefaults x3) (CfgPrivateKeyDefaults y3) = Some (CfgPrivateKeyDefaults (convPKD_to_config x3 y3))"
  "config_converts (CfgPrivateKeyDefaults y3) (V1CfgPrivateKeyDefaults x3) = Some (V1CfgPrivateKeyDefaults (convPKD_to_v1 y3 x3))"
  "config_converts (V1CfgShootIssuers x4) (CfgShootIssuers y4) = Some (CfgShootIssuers (convShootIssuers_to_config x4 y4))"
  "config_converts (CfgShootIssuers y4) (V1CfgShootIssuers x4) = Some (V1CfgShootIssuers (convShootIssuers_to_v1 y4 x4))"
  by (simp_all add: config_conversions_def config_RegisterConversions_def register_def sample_scheme_lib_def)

text \<open>Two objects of the same kind in different versions.\<close>

lemma config_pairs:
  assumes "fst (config_type a) \<noteq> fst (config_type b)" "snd (config_type a) = snd (config_type b)"
  obtains x y where "a = V1CfgACME x" "b = CfgACME y"
    | x y where "a = CfgACME y" "b = V1CfgACME x"
    | x y where "a = V1CfgCA x" "b = CfgCA y"
    | x y where "a = CfgCA y" "b = V1CfgCA x"
    | x y where "a = V1CfgConfiguration x" "b = CfgConfiguration y"
    | x y where "a = CfgConfiguration y" "b = V1CfgConfiguration x"
    | x y where "a = V1CfgPrivateKeyDefaults x" "b = CfgPrivateKeyDefaults y"
    | x y where "a = CfgPrivateKeyDefaults y" "b = V1CfgPrivateKeyDefaults x"
    | x y where "a = V1CfgShootIssuers x" "b = CfgShootIssuers y"
    | x y where "a = CfgShootIssuers y" "b = V1CfgShootIssuers x"
  using assms by (cases a; cases b; simp)

lemma config_conversions_inverse:
  assumes "convert_with config_type scheme = convert_with config_type config_conversions"
  shows "inverse_conversions config_type scheme"
  unfolding inverse_conversions_def assms
  by (intro allI impI, elim conjE, erule (1) config_pairs)
    (simp_all add: config_conversions_eq nested_conversions cfg_conv.round_trip cfg_conv.round_trip_internal
      reinterpret_inverses [unfolded fun_eq_iff comp_def id_def])

definition service_conversions :: "service_object registration list" where
  "service_conversions = snd (service_RegisterConversions sample_scheme_lib [])"

abbreviation service_converts :: "service_object \<Rightarrow> service_object \<Rightarrow> service_object option" where
  "service_converts \<equiv> convert_with service_type service_conversions"

lemma service_conversions_eq:
  "service_converts (V1SvcACMEExternalAccountBinding x0) (SvcACMEExternalAccountBinding y0) = Some (SvcACMEExternalAccountBinding (convEAB_to_service x0))"
  "service_converts (SvcACMEExternalAccountBinding y0) (V1SvcACMEExternalAccountBinding x0) = Some (V1SvcACMEExternalAccountBinding (convEAB_to_v1 y0))"
  "service_converts (V1SvcAlerting x1) (SvcAlerting y1) = Some (SvcAlerting (convAlerting_to_service x1))"
  "service_converts (SvcAlerting y1) (V1SvcAlerting x1) = Some (V1SvcAlerting (convAlerting_to_v1 y1))"
  "service_converts (V1SvcCertConfig x2) (SvcCertConfig y2) = Some (SvcCertConfig (convCertConfig_to_service x2 y2))"
  "service_converts (SvcCertConfig y2) (V1SvcCertConfig x2) = Some (V1SvcCertConfig (convCertConfig_to_v1 y2 x2))"
  "service_converts (V1SvcDNSChallengeOnShoot x3) (SvcDNSChallengeOnShoot y3) = Some (SvcDNSChallengeOnShoot (convDNSChallenge_to_service x3))"
  "service_converts (SvcDNSChallengeOnShoot y3) (V1SvcDNSChallengeOnShoot x3) = Some (V1SvcDNSChallengeOnShoot (convDNSChallenge_to_v1 y3))"
  "service_converts (V1SvcDNSSelection x4) (SvcDNSSelection y4) = Some (SvcDNSSelection (convDNSSelection_to_service x4))"
  "service_converts (SvcDNSSelection y4) (V1SvcDNSSelection x4) = Some (V1SvcDNSSelection (convDNSSelection_to_v1 y4))"
  "service_converts (V1SvcIssuerConfig x5) (SvcIssuerConfig y5) = Some (SvcIssuerConfig (convIssuerConfig_to_service x5))"
  "service_converts (SvcIssuerConfig y5) (V1SvcIssuerConfig x5) = Some (V1SvcIssuerConfig (convIssuerConfig_to_v1 y5))"
  "service_converts (V1SvcShootIssuers x6) (SvcShootIssuers y6) = Some (SvcShootIssuers (convSvcShootIssuers_to_service x6))"
  "service_converts (SvcShootIssuers y6) (V1SvcShootIssuers x6) = Some (V1SvcShootIssuers (convSvcShootIssuers_to_v1 y6))"
  by (simp_all add: service_conversions_def service_RegisterConversions_def register_def sample_scheme_lib_def)

text \<open>Two objects of the same kind in different versions.\<close>

lemma service_pairs:
  assumes "fst (service_type a) \<noteq> fst (service_type b)" "snd (service_type a) = snd (service_type b)"
  obtains x y where "a = V1SvcACMEExternalAccountBinding x" "b = SvcACMEExternalAccountBinding y"
    | x y where "a = SvcACMEExternalAccountBinding y" "b = V1SvcACMEExternalAccountBinding x"
    | x y where "a = V1SvcAlerting x" "b = SvcAlerting y"
    | x y where "a = SvcAlerting y" "b = V1SvcAlerting x"
    | x y where "a = V1SvcCertConfig x" "b = SvcCertConfig y"
    | x y where "a = SvcCertConfig y" "b = V1SvcCertConfig x"
    | x y where "a = V1SvcDNSChallengeOnShoot x" "b = SvcDNSChallengeOnShoot y"
    | x y where "a = SvcDNSChallengeOnShoot y" "b = V1SvcDNSChallengeOnShoot x"
    | x y where "a = V1SvcDNSSelection x" "b = SvcDNSSelection y"
    | x y where "a = SvcDNSSelection y" "b = V1SvcDNSSelection x"
    | x y where "a = V1SvcIssuerConfig x" "b = SvcIssuerConfig y"
    | x y where "a = SvcIssuerConfig y" "b = V1SvcIssuerConfig x"
    | x y where "a = V1SvcShootIssuers x" "b = SvcShootIssuers y"
    | x y where "a = SvcShootIssuers y" "b = V1SvcShootIssuers x"
  using assms by (cases a; cases b; simp)

lemma service_conversions_inverse:
  assumes "convert_with service_type scheme = convert_with service_type service_conversions"
  shows "inverse_conversions service_type scheme"
  unfolding inverse_conversions_def assms
  by (intro allI impI, elim conjE, erule (1) service_pairs)
    (simp_all add: service_conversions_eq cc_conv.round_trip cc_conv.round_trip_internal
      nested_service_inverses [unfolded fun_eq_iff comp_def id_def]
      issuer_config_inverses [unfolded fun_eq_iff comp_def id_def])

lemma sample_accepts_all [simp]: "accepts_all sample_scheme_lib"
  by (simp add: accepts_all_def sample_scheme_lib_def)

lemma convert_with_skip:
  "convert_with ty (xs @ [AddKnownTypes g k, SetVersionPriority p]) a b = convert_with ty xs a b"
proof (induction xs)
  case (Cons r rs)
  then show ?case by (cases r) simp_all
qed simp

lemma registered_conversions:
  "accepts_all L \<Longrightarrow> config_RegisterConversions L s = (None, s @ config_conversions)"
  "accepts_all L' \<Longrightarrow> service_RegisterConversions L' s' = (None, s' @ service_conversions)"
  by (simp_all only: config_conversions_def service_conversions_def config_RegisterConversions_def
      service_RegisterConversions_def in_turn_map_register sample_accepts_all append_Nil snd_conv)

text \<open>C34: The schemes of the process are complete: both initialisations succeed if the library accepts
  every registration; afterwards both versions of both APIs are known and the configuration has its
  defaults; and any two objects of the same kind in different versions, of every struct type of the
  APIs, are converted into each other, by the functions registered for their types, without loss.\<close>

theorem schemes_convert_all_types:
  assumes "builder_law L" "accepts_all L" "builder_law L'" "accepts_all L'"
  shows "\<exists>sc ss. cmd_scheme L = Ok sc \<and> Install L' [] = Ok ss
    \<and> AddKnownTypes config_SchemeGroupVersion [(Internal, ''Configuration'')] \<in> set sc
    \<and> AddKnownTypes v1config_SchemeGroupVersion [(V1alpha1, ''Configuration'')] \<in> set sc
    \<and> AddKnownTypes service_SchemeGroupVersion [(Internal, ''CertConfig'')] \<in> set ss
    \<and> AddKnownTypes v1service_SchemeGroupVersion [(V1alpha1, ''CertConfig'')] \<in> set ss
    \<and> (\<exists>f. AddTypeDefaultingFunc (V1alpha1, ''Configuration'') f \<in> set sc
          \<and> (\<forall>c. f (V1CfgConfiguration c) = Some (V1CfgConfiguration (SetDefaults_Configuration c))))
    \<and> inverse_conversions config_type sc \<and> inverse_conversions service_type ss"
proof -
  let ?f = "\<lambda>obj. case obj of V1CfgConfiguration c \<Rightarrow> Some (V1CfgConfiguration (SetObjectDefaults_Configuration c))
                      | _ \<Rightarrow> None"
  let ?known1 = "AddKnownTypes config_SchemeGroupVersion [(Internal, ''Configuration'')]"
  let ?known2 = "AddKnownTypes v1config_SchemeGroupVersion [(V1alpha1, ''Configuration'')]"
  let ?known3 = "AddKnownTypes service_SchemeGroupVersion [(Internal, ''CertConfig'')]"
  let ?known4 = "AddKnownTypes v1service_SchemeGroupVersion [(V1alpha1, ''CertConfig'')]"
  let ?sc = "[?known1, ?known2, AddTypeDefaultingFunc (V1alpha1, ''Configuration'') ?f] @ config_conversions"
  let ?ss = "?known4 # service_conversions @ [?known3, SetVersionPriority [v1service_SchemeGroupVersion]]"
  have sc: "cmd_scheme L = Ok ?sc"
    using assms(1,2)
    by (simp add: cmd_scheme_def must_def builder_law_def config_SchemeBuilder_def config_addKnownTypes_def
        known_types_def v1config_localSchemeBuilder_def v1config_addKnownTypes_def config_addDefaultingFuncs_def
        config_RegisterDefaults_def register_def registered_conversions)
  have ss: "Install L' [] = Ok ?ss"
    using assms(3,4)
    by (simp add: Install_def install_AddToScheme_def must_def builder_law_def install_schemeBuilder_def service_localSchemeBuilder_def
        v1service_localSchemeBuilder_def service_addDefaultingFuncs_def service_RegisterDefaults_def
        v1service_addKnownTypes_def service_addKnownTypes_def known_types_def setVersionPriority_def
        registered_conversions) (simp add: register_def accepts_all_def)
  have "inverse_conversions config_type ?sc" "inverse_conversions service_type ?ss"
    by (rule config_conversions_inverse, simp add: fun_eq_iff)
      (rule service_conversions_inverse, simp add: fun_eq_iff convert_with_skip)
  moreover have "?known1 \<in> set ?sc" "?known2 \<in> set ?sc" "?known3 \<in> set ?ss" "?known4 \<in> set ?ss"
    "AddTypeDefaultingFunc (V1alpha1, ''Configuration'') ?f \<in> set ?sc"
    by simp_all
  moreover have "\<forall>c. ?f (V1CfgConfiguration c) = Some (V1CfgConfiguration (SetDefaults_Configuration c))"
    by (simp add: SetObjectDefaults_Configuration_def)
  ultimately show ?thesis
    using sc ss by blast
qed

theorem schemes_convert_all_types_witness:
  "\<exists>sc. cmd_scheme sample_scheme_lib = Ok sc \<and> inverse_conversions config_type sc"
proof -
  have "builder_law (sample_scheme_lib :: config_object scheme_lib)"
    "builder_law (sample_scheme_lib :: service_object scheme_lib)"
    by (simp_all add: builder_law_def sample_scheme_lib_def)
  then show ?thesis
    using schemes_convert_all_types [OF _ sample_accepts_all _ sample_accepts_all] by blast
qed

end
