(* ===== verification/Cmd_Options.thy ===== *)
theory Cmd_Options
  imports Config_Validation Health_Check Controlplane_Controller API_Scheme "HOL-Library.Multiset"
begin

text \<open>
  \<open>pkg/cmd/options.go\<close> and \<open>cmd/gardener-extension-shoot-cert-service/app\<close>: the options of the
  certificate service, and the start of the process, which copies the completed options into the
  default options of the controllers and adds them to the manager.
\<close>

subsection \<open>Options of the certificate service\<close>

record CertificateServiceConfig =
  csc_config :: Configuration

record CertificateServiceOptions =
  cso_ConfigLocation :: string
  cso_config :: "CertificateServiceConfig option"

text \<open>
  Reading a file and parsing it into the versioned type are library functions. The decoder of the
  scheme defaults the versioned object with the registered function and converts it with the
  registered conversion.
\<close>

record cmd_extern =
  readFile :: "string \<Rightarrow> goerr + string"
  parseConfiguration :: "string \<Rightarrow> goerr + v1Configuration"

definition decodeConfiguration :: "cmd_extern \<Rightarrow> string \<Rightarrow> Configuration \<Rightarrow> Configuration result" where
  "decodeConfiguration C data into =
    rbind (lib (parseConfiguration C data)) (\<lambda>obj.
    Ok (convConfiguration_to_config (SetObjectDefaults_Configuration obj) into))"

definition AddFlags_default :: CertificateServiceOptions where
  "AddFlags_default = \<lparr>cso_ConfigLocation = '''', cso_config = None\<rparr>"

text \<open>
  \<open>Complete\<close> returns the options it changed; on an error they are unchanged. The outer option is that
  of the validation: \<open>None\<close> if it does not return.
\<close>

definition cso_Complete ::
    "extern \<Rightarrow> cmd_extern \<Rightarrow> CertificateServiceOptions \<Rightarrow> CertificateServiceOptions result option" where
  "cso_Complete X C opts =
    (if cso_ConfigLocation opts = '''' then Some (Error (ErrMsg ''config location is not set''))
     else
       (case rbind (lib (readFile C (cso_ConfigLocation opts))) (\<lambda>data.
               decodeConfiguration C data emptyConfiguration) of
          Error e \<Rightarrow> Some (Error e)
        | Panic p \<Rightarrow> Some (Panic p)
        | Ok config \<Rightarrow>
            (case ValidateConfiguration X config of
               None \<Rightarrow> None
             | Some errs \<Rightarrow>
                 Some (if 0 < length errs then Error (toAggregate X errs)
                       else Ok (opts\<lparr>cso_config := Some \<lparr>csc_config = config\<rparr>\<rparr>)))))"

definition cso_Completed :: "CertificateServiceOptions \<Rightarrow> CertificateServiceConfig option" where
  "cso_Completed opts = cso_config opts"

text \<open>Writing through a pointer gives the new value.\<close>

definition csc_Apply :: "CertificateServiceConfig \<Rightarrow> Configuration \<Rightarrow> Configuration" where
  "csc_Apply c config = csc_config c"

definition csc_ApplyHealthCheckConfig :: "CertificateServiceConfig \<Rightarrow> HealthCheckConfig \<Rightarrow> HealthCheckConfig" where
  "csc_ApplyHealthCheckConfig c config =
    (case cfg_HealthCheckConfig (csc_config c) of Some h \<Rightarrow> h | None \<Rightarrow> config)"

subsection \<open>Controllers\<close>

text \<open>
  The switches, in order; the names of the two generic controllers are constants of gardener. An
  entry is the controller's name and what adds it to the manager.
\<close>

datatype controller = ShootController | ControlplaneController | HealthcheckController | HeartbeatController

definition ControllerSwitches :: "string \<Rightarrow> string \<Rightarrow> (string \<times> controller) list" where
  "ControllerSwitches healthcheckName heartbeatName =
    [(shoot_ControllerName, ShootController), (cp_ControllerName, ControlplaneController),
     (healthcheckName, HealthcheckController), (heartbeatName, HeartbeatController)]"

subsection \<open>The process\<close>

definition ExtensionName :: string where "ExtensionName = ''extension-shoot-cert-service''"

text \<open>The default values of the options.\<close>

record AppDefaults =
  ad_LeaderElection :: bool
  ad_LeaderElectionID :: string
  ad_LeaderElectionNamespace :: string
  ad_ShootMaxConcurrentReconciles :: int
  ad_ControlplaneMaxConcurrentReconciles :: int
  ad_HealthMaxConcurrentReconciles :: int
  ad_HeartbeatExtensionName :: string
  ad_HeartbeatRenewIntervalSeconds :: int
  ad_HeartbeatNamespace :: string
  ad_FlagPrefixes :: "string list" \<comment> \<open>the prefixes of the aggregated options, in order\<close>

definition NewOptions :: "(string \<Rightarrow> string) \<Rightarrow> (string \<Rightarrow> string) \<Rightarrow> AppDefaults" where
  "NewOptions getenv LeaderElectionNameID = \<lparr>
     ad_LeaderElection = True,
     ad_LeaderElectionID = LeaderElectionNameID ExtensionName,
     ad_LeaderElectionNamespace = getenv EnvLeaderElectionNamespace,
     ad_ShootMaxConcurrentReconciles = 5,
     ad_ControlplaneMaxConcurrentReconciles = 1,
     ad_HealthMaxConcurrentReconciles = 5,
     ad_HeartbeatExtensionName = ExtensionName,
     ad_HeartbeatRenewIntervalSeconds = 30,
     ad_HeartbeatNamespace = getenv EnvLeaderElectionNamespace,
     ad_FlagPrefixes = ['''', '''', '''', '''', ''controlplane-'', '''', ''healthcheck-'', ''heartbeat-'', '''', '''']\<rparr>"

text \<open>The completed options the process reads.\<close>

record AppOptions =
  ao_certOptions :: CertificateServiceOptions
  ao_shootMaxConcurrentReconciles :: int
  ao_controlPlaneMaxConcurrentReconciles :: int
  ao_healthMaxConcurrentReconciles :: int
  ao_heartbeatOptions :: "string \<times> int \<times> string"
  ao_reconcileIgnoreOperationAnnotation :: bool
  ao_generalExtensionClasses :: "string list"
  ao_disabledControllers :: "string list"

text \<open>The package variables \<open>DefaultAddOptions\<close> of the four controllers.\<close>

record globals =
  gl_shoot :: AddOptions
  gl_shootMaxConcurrentReconciles :: int
  gl_controlplane :: AddOptions
  gl_controlplaneMaxConcurrentReconciles :: int
  gl_healthcheck :: HealthCheckAddOptions
  gl_heartbeat :: "string \<times> int \<times> string"

definition emptyAddOptions :: AddOptions where
  "emptyAddOptions = \<lparr>ao_ServiceConfig = emptyConfiguration, ao_IgnoreOperationAnnotation = False, ao_ExtensionClasses = []\<rparr>"

definition initialGlobals :: globals where
  "initialGlobals = \<lparr>gl_shoot = emptyAddOptions, gl_shootMaxConcurrentReconciles = 0,
     gl_controlplane = emptyAddOptions, gl_controlplaneMaxConcurrentReconciles = 0,
     gl_healthcheck = health_DefaultAddOptions, gl_heartbeat = ('''', 0, '''')\<rparr>"

text \<open>The assignments between the creation of the manager and the start of the controllers.\<close>

definition applyOptions :: "AppOptions \<Rightarrow> CertificateServiceConfig \<Rightarrow> globals \<Rightarrow> globals" where
  "applyOptions opts ctrlConfig g0 =
    (let g1 = g0\<lparr>gl_healthcheck := (gl_healthcheck g0)\<lparr>hao_HealthCheckConfig :=
                  csc_ApplyHealthCheckConfig ctrlConfig (hao_HealthCheckConfig (gl_healthcheck g0))\<rparr>\<rparr>;
         g2 = g1\<lparr>gl_shoot := (gl_shoot g1)\<lparr>ao_ServiceConfig := csc_Apply ctrlConfig (ao_ServiceConfig (gl_shoot g1))\<rparr>\<rparr>;
         g3 = g2\<lparr>gl_controlplane := (gl_controlplane g2)\<lparr>ao_ServiceConfig :=
                  csc_Apply ctrlConfig (ao_ServiceConfig (gl_controlplane g2))\<rparr>\<rparr>;
         g4 = g3\<lparr>gl_shootMaxConcurrentReconciles := ao_shootMaxConcurrentReconciles opts\<rparr>;
         g5 = g4\<lparr>gl_controlplaneMaxConcurrentReconciles := ao_controlPlaneMaxConcurrentReconciles opts\<rparr>;
         g6 = g5\<lparr>gl_healthcheck := (gl_healthcheck g5)\<lparr>hao_MaxConcurrentReconciles := ao_healthMaxConcurrentReconciles opts\<rparr>\<rparr>;
         g7 = g6\<lparr>gl_shoot := (gl_shoot g6)\<lparr>ao_IgnoreOperationAnnotation := ao_reconcileIgnoreOperationAnnotation opts\<rparr>\<rparr>;
         g8 = g7\<lparr>gl_controlplane := (gl_controlplane g7)\<lparr>ao_IgnoreOperationAnnotation := ao_reconcileIgnoreOperationAnnotation opts\<rparr>\<rparr>;
         g9 = g8\<lparr>gl_heartbeat := ao_heartbeatOptions opts\<rparr>;
         g10 = g9\<lparr>gl_controlplane := (gl_controlplane g9)\<lparr>ao_ExtensionClasses := ao_generalExtensionClasses opts\<rparr>\<rparr>
     in g10\<lparr>gl_shoot := (gl_shoot g10)\<lparr>ao_ExtensionClasses := ao_generalExtensionClasses opts\<rparr>\<rparr>)"

text \<open>
  What the process calls in gardener and controller-runtime: the manager, the schemes, and adding a
  controller. The names of the generic controllers are constants of gardener. The switches are handed to the
  library, which selects those that are not disabled and adds them in an order of its own.
\<close>

record app_extern =
  manager_New :: "int \<times> int \<Rightarrow> string list \<Rightarrow> goerr option"
  addToScheme :: "string \<Rightarrow> goerr option" \<comment> \<open>by the package of the API\<close>
  service_scheme :: "service_object scheme_lib"
  extension_Add :: "AddArgs \<Rightarrow> int \<Rightarrow> goerr option"
  healthcheck_Register :: "HealthRegistration \<Rightarrow> goerr option"
  heartbeat_Add :: "string \<times> int \<times> string \<Rightarrow> goerr option"
  manager_Start :: "goerr option"
  healthcheck_name :: string
  heartbeat_name :: string
  switch_select :: "(string \<times> controller) list \<Rightarrow> string list \<Rightarrow> (string \<times> controller) list"

text \<open>What was added: the arguments and the number of concurrent reconciliations of an Extension controller.\<close>

datatype added =
    AddedExtension AddArgs int
  | AddedHealthcheck HealthRegistration
  | AddedHeartbeat "string \<times> int \<times> string"

definition when_ok :: "goerr option \<Rightarrow> 'a \<Rightarrow> 'a result" where
  "when_ok err a = (case err of None \<Rightarrow> Ok a | Some e \<Rightarrow> Error e)"

definition addController :: "app_extern \<Rightarrow> globals \<Rightarrow> controller \<Rightarrow> added result" where
  "addController A g c =
    (case c of
       ShootController \<Rightarrow>
         rbind (shoot_AddToManager (gl_shoot g)) (\<lambda>args.
         when_ok (extension_Add A args (gl_shootMaxConcurrentReconciles g))
           (AddedExtension args (gl_shootMaxConcurrentReconciles g)))
     | ControlplaneController \<Rightarrow>
         rbind (cp_AddToManager (gl_controlplane g)) (\<lambda>args.
         when_ok (extension_Add A args (gl_controlplaneMaxConcurrentReconciles g))
           (AddedExtension args (gl_controlplaneMaxConcurrentReconciles g)))
     | HealthcheckController \<Rightarrow>
         (let reg = health_AddToManager (gl_healthcheck g) in when_ok (healthcheck_Register A reg) (AddedHealthcheck reg))
     | HeartbeatController \<Rightarrow> when_ok (heartbeat_Add A (gl_heartbeat g)) (AddedHeartbeat (gl_heartbeat g)))"

text \<open>The four APIs the manager's scheme is extended with, in order; one of them is the repository's.\<close>

definition updateScheme :: "goerr option \<Rightarrow> unit result" where
  "updateScheme err = wrap_err ''could not update manager scheme'' (res_of err)"

definition managerSchemes :: "app_extern \<Rightarrow> unit result" where
  "managerSchemes A =
    rbind (updateScheme (addToScheme A ''extensionscontroller'')) (\<lambda>_.
    rbind (updateScheme (fst (install_AddToScheme (service_scheme A) []))) (\<lambda>_.
    rbind (updateScheme (addToScheme A ''certv1alpha1'')) (\<lambda>_.
    updateScheme (addToScheme A ''operatorv1alpha1''))))"

text \<open>The controllers that \<open>AddToManager\<close> of the completed switches adds, in order.\<close>

definition enabledControllers :: "app_extern \<Rightarrow> AppOptions \<Rightarrow> controller list" where
  "enabledControllers A opts =
    map snd (switch_select A (ControllerSwitches (healthcheck_name A) (heartbeat_name A)) (ao_disabledControllers opts))"

text \<open>
  \<open>run\<close>: the result is what was added before the manager was started, or the error; the globals are
  those after the assignments.
\<close>

definition app_run :: "app_extern \<Rightarrow> AppOptions \<Rightarrow> globals \<Rightarrow> added list result \<times> globals" where
  "app_run A opts g =
    (case rbind (wrap_err ''could not instantiate controller-manager''
                   (res_of (manager_New A (100, 130) [''Secret'', ''ConfigMap'']))) (\<lambda>_.
          rbind (managerSchemes A) (\<lambda>_.
          deref (cso_Completed (ao_certOptions opts)))) of
       Error e \<Rightarrow> (Error e, g)
     | Panic p \<Rightarrow> (Panic p, g)
     | Ok ctrlConfig \<Rightarrow>
         (let g' = applyOptions opts ctrlConfig g in
          (rbind (wrap_err ''could not add controllers to manager'' (rmap (addController A g') (enabledControllers A opts))) (\<lambda>added.
           rbind (wrap_err ''error running manager'' (res_of (manager_Start A))) (\<lambda>_. Ok added)), g')))"

text \<open>
  \<open>RunE\<close> of the command: the aggregated options are completed in order, those of the certificate
  service among them, then the heartbeat options are validated.
\<close>

record aggregated =
  ag_completeBefore :: "goerr option"
  ag_completeAfter :: "goerr option"
  ag_validateHeartbeat :: "goerr option"

definition app_RunE ::
    "extern \<Rightarrow> cmd_extern \<Rightarrow> app_extern \<Rightarrow> aggregated \<Rightarrow> AppOptions \<Rightarrow> globals \<Rightarrow> (added list result \<times> globals) option" where
  "app_RunE X C A G opts g =
    (let completed =
       (case ag_completeBefore G of
          Some e \<Rightarrow> Some (Error e)
        | None \<Rightarrow>
            (case cso_Complete X C (ao_certOptions opts) of
               None \<Rightarrow> None
             | Some r \<Rightarrow> Some (rbind r (\<lambda>o'. when_ok (ag_completeAfter G) o'))))
     in case completed of
          None \<Rightarrow> None
        | Some (Error e) \<Rightarrow> Some (Error (Wrap ''error completing options'' e), g)
        | Some (Panic p) \<Rightarrow> Some (Panic p, g)
        | Some (Ok o') \<Rightarrow>
            (case ag_validateHeartbeat G of
               Some e \<Rightarrow> Some (Error e, g)
             | None \<Rightarrow> Some (app_run A (opts\<lparr>ao_certOptions := o'\<rparr>) g)))"

subsection \<open>Completing the options\<close>

lemma decodeConfiguration_Ok:
  "decodeConfiguration C data into = Ok config \<longleftrightarrow>
     (\<exists>obj. parseConfiguration C data = Inr obj
        \<and> config = convConfiguration_to_config (SetObjectDefaults_Configuration obj) into)"
  by (auto simp: decodeConfiguration_def rbind_Ok_iff lib_def split: sum.splits)

lemma decoded_restrictIssuer:
  "decodeConfiguration C data into = Ok config \<Longrightarrow> cfg_RestrictIssuer config \<noteq> None"
  by (auto simp: decodeConfiguration_Ok convConfiguration_to_config_def SetObjectDefaults_Configuration_def
      SetDefaults_Configuration_def)

lemma applyOptions_sel:
  "ao_ServiceConfig (gl_shoot (applyOptions opts c g)) = csc_config c"
  "ao_ServiceConfig (gl_controlplane (applyOptions opts c g)) = csc_config c"
  "ao_ExtensionClasses (gl_shoot (applyOptions opts c g)) = ao_generalExtensionClasses opts"
  "ao_ExtensionClasses (gl_controlplane (applyOptions opts c g)) = ao_generalExtensionClasses opts"
  "hao_HealthCheckConfig (gl_healthcheck (applyOptions opts c g)) =
     (case cfg_HealthCheckConfig (csc_config c) of Some h \<Rightarrow> h | None \<Rightarrow> hao_HealthCheckConfig (gl_healthcheck g))"
  by (simp_all add: applyOptions_def csc_Apply_def csc_ApplyHealthCheckConfig_def Let_def)


subsection \<open>What a successful run has added\<close>

text \<open>What each controller is added with, for the completed options and a configuration.\<close>

fun added_for :: "AppOptions \<Rightarrow> Configuration \<Rightarrow> controller \<Rightarrow> added" where
  "added_for opts config ShootController =
    AddedExtension \<lparr>aa_ServiceConfig = config, aa_Name = ''shoot-cert-service'', aa_FinalizerSuffix = ''shoot-cert-service'',
      aa_Resync = 0, aa_IgnoreOperationAnnotation = ao_reconcileIgnoreOperationAnnotation opts,
      aa_Type = ''shoot-cert-service'', aa_ExtensionClasses = [''shoot''], aa_Watch = WatchDNSServiceExtension\<rparr>
      (ao_shootMaxConcurrentReconciles opts)"
| "added_for opts config ControlplaneController =
    AddedExtension \<lparr>aa_ServiceConfig = config, aa_Name = ''controlplane-cert-service'', aa_FinalizerSuffix = ''shoot-cert-service'',
      aa_Resync = 0, aa_IgnoreOperationAnnotation = ao_reconcileIgnoreOperationAnnotation opts,
      aa_Type = ''controlplane-cert-service'',
      aa_ExtensionClasses = [if ''garden'' \<in> set (ao_generalExtensionClasses opts) then ''garden'' else ''seed''],
      aa_Watch = (if ''garden'' \<in> set (ao_generalExtensionClasses opts) then WatchGarden else NoWatch)\<rparr>
      (ao_controlPlaneMaxConcurrentReconciles opts)"
| "added_for opts config HealthcheckController =
    AddedHealthcheck \<lparr>hr_Type = ''shoot-cert-service'',
      hr_Options = \<lparr>hao_HealthCheckConfig = (case cfg_HealthCheckConfig config of
            Some h \<Rightarrow> h | None \<Rightarrow> \<lparr>hcc_SyncPeriod = 30 * 1000000000\<rparr>),
        hao_MaxConcurrentReconciles = ao_healthMaxConcurrentReconciles opts\<rparr>,
      hr_Conditions = [(''ControlPlaneHealthy'', ''extension-shoot-cert-service-seed'')]\<rparr>"
| "added_for opts config HeartbeatController = AddedHeartbeat (ao_heartbeatOptions opts)"

text \<open>The library takes it; and the one controller that cannot be added for gardens is not to be.\<close>

fun accepts :: "app_extern \<Rightarrow> added \<Rightarrow> bool" where
  "accepts A (AddedExtension arguments n) = (extension_Add A arguments n = None)"
| "accepts A (AddedHealthcheck reg) = (healthcheck_Register A reg = None)"
| "accepts A (AddedHeartbeat h) = (heartbeat_Add A h = None)"

definition addable :: "app_extern \<Rightarrow> AppOptions \<Rightarrow> Configuration \<Rightarrow> controller \<Rightarrow> bool" where
  "addable A opts config ctl \<longleftrightarrow> accepts A (added_for opts config ctl)
     \<and> \<not> (ctl = ShootController \<and> ''garden'' \<in> set (ao_generalExtensionClasses opts))"

lemma applyOptions_more:
  "ao_IgnoreOperationAnnotation (gl_shoot (applyOptions opts c g)) = ao_reconcileIgnoreOperationAnnotation opts"
  "ao_IgnoreOperationAnnotation (gl_controlplane (applyOptions opts c g)) = ao_reconcileIgnoreOperationAnnotation opts"
  "gl_shootMaxConcurrentReconciles (applyOptions opts c g) = ao_shootMaxConcurrentReconciles opts"
  "gl_controlplaneMaxConcurrentReconciles (applyOptions opts c g) = ao_controlPlaneMaxConcurrentReconciles opts"
  "hao_MaxConcurrentReconciles (gl_healthcheck (applyOptions opts c g)) = ao_healthMaxConcurrentReconciles opts"
  "gl_heartbeat (applyOptions opts c g) = ao_heartbeatOptions opts"
  by (simp_all add: applyOptions_def Let_def)

lemma addController_Ok_iff:
  "addController A (applyOptions opts c initialGlobals) ctl = Ok a \<longleftrightarrow>
     addable A opts (csc_config c) ctl \<and> a = added_for opts (csc_config c) ctl"
proof (cases ctl)
  case HealthcheckController
  have "gl_healthcheck (applyOptions opts c initialGlobals) =
      \<lparr>hao_HealthCheckConfig = (case cfg_HealthCheckConfig (csc_config c) of
            Some h \<Rightarrow> h | None \<Rightarrow> \<lparr>hcc_SyncPeriod = 30 * 1000000000\<rparr>),
       hao_MaxConcurrentReconciles = ao_healthMaxConcurrentReconciles opts\<rparr>"
    by (rule HealthCheckAddOptions.equality)
      (auto simp: applyOptions_sel applyOptions_more initialGlobals_def health_DefaultAddOptions_def defaultSyncPeriod_def
        split: option.split)
  then show ?thesis
    by (auto simp: HealthcheckController addController_def Let_def when_ok_def addable_def health_AddToManager_def
        RegisterHealthChecks_def shoot_Type_def ShootControlPlaneHealthy_def CertManagementResourceNameSeed_def
        split: option.splits)
qed (auto simp: addController_def rbind_Ok_iff when_ok_def addable_def shoot_AddToManager_def shoot_AddToManagerWithOptions_def
    cp_AddToManager_def cp_AddToManagerWithOptions_def applyOptions_sel applyOptions_more Let_def shoot_Type_def cp_Type_def
    shoot_ControllerName_def cp_ControllerName_def FinalizerSuffix_def ExtensionClassGarden_def ExtensionClassShoot_def
    ExtensionClassSeed_def split: option.splits)

text \<open>When the process runs without error.\<close>

definition run_succeeds :: "app_extern \<Rightarrow> AppOptions \<Rightarrow> Configuration \<Rightarrow> bool" where
  "run_succeeds A opts config \<longleftrightarrow>
     manager_New A (100, 130) [''Secret'', ''ConfigMap''] = None
   \<and> addToScheme A ''extensionscontroller'' = None \<and> fst (install_AddToScheme (service_scheme A) []) = None
   \<and> addToScheme A ''certv1alpha1'' = None \<and> addToScheme A ''operatorv1alpha1'' = None
   \<and> list_all (addable A opts config) (enabledControllers A opts)
   \<and> manager_Start A = None"

lemma managerSchemes_Ok_iff:
  "managerSchemes A = Ok u \<longleftrightarrow> addToScheme A ''extensionscontroller'' = None
     \<and> fst (install_AddToScheme (service_scheme A) []) = None
     \<and> addToScheme A ''certv1alpha1'' = None \<and> addToScheme A ''operatorv1alpha1'' = None"
  by (simp add: managerSchemes_def updateScheme_def rbind_Ok_iff)

lemma rmap_addController_Ok_iff:
  "rmap (addController A (applyOptions opts c initialGlobals)) ctls = Ok added \<longleftrightarrow>
     list_all (addable A opts (csc_config c)) ctls \<and> added = map (added_for opts (csc_config c)) ctls"
  by (induction ctls arbitrary: added) (auto simp: rbind_Ok_iff addController_Ok_iff)

lemma app_run_Ok_iff:
  assumes "cso_config (ao_certOptions opts) = Some c"
  shows "app_run A opts initialGlobals = (Ok added, g') \<longleftrightarrow>
     run_succeeds A opts (csc_config c) \<and> added = map (added_for opts (csc_config c)) (enabledControllers A opts)
     \<and> g' = applyOptions opts c initialGlobals"
proof -
  let ?start = "rbind (wrap_err ''could not instantiate controller-manager'' (res_of (manager_New A (100, 130) [''Secret'', ''ConfigMap''])))
      (\<lambda>_. rbind (managerSchemes A) (\<lambda>_. deref (cso_Completed (ao_certOptions opts))))"
  have start: "?start = Ok c' \<longleftrightarrow> manager_New A (100, 130) [''Secret'', ''ConfigMap''] = None \<and> (\<exists>u. managerSchemes A = Ok u) \<and> c' = c" for c'
    using assms by (auto simp: rbind_Ok_iff cso_Completed_def deref_def)
  show ?thesis
  proof (cases "?start = Ok c")
    case True
    have "run_succeeds A opts (csc_config c) \<longleftrightarrow> list_all (addable A opts (csc_config c)) (enabledControllers A opts) \<and> manager_Start A = None"
      using True unfolding start run_succeeds_def managerSchemes_Ok_iff by blast
    then show ?thesis
      unfolding app_run_def True result.case Let_def by (auto simp: rbind_Ok_iff rmap_addController_Ok_iff)
  next
    case False
    then have "\<not> run_succeeds A opts (csc_config c)"
      unfolding start run_succeeds_def managerSchemes_Ok_iff by blast
    moreover have "\<not> (\<exists>c'. ?start = Ok c')" using False start by blast
    ultimately show ?thesis
      by (cases ?start) (simp_all add: app_run_def)
  qed
qed

text \<open>
  What the library promises of the selection: of switches with different names, exactly those are
  selected that are not disabled, in any order. The names of the four controllers differ.
\<close>

definition switches_law :: "app_extern \<Rightarrow> bool" where
  "switches_law A \<longleftrightarrow>
     (\<forall>switches disabled. distinct (map fst switches) \<longrightarrow>
        mset (switch_select A switches disabled) = mset (filter (\<lambda>(name, _). name \<notin> set disabled) switches))
   \<and> distinct [''shoot-cert-service'', ''controlplane-cert-service'', healthcheck_name A, heartbeat_name A]"

lemma enabledControllers_mset:
  assumes "switches_law A"
  shows "mset (enabledControllers A opts) = mset (map snd (filter (\<lambda>(name, _). name \<notin> set (ao_disabledControllers opts))
    [(''shoot-cert-service'', ShootController), (''controlplane-cert-service'', ControlplaneController),
     (healthcheck_name A, HealthcheckController), (heartbeat_name A, HeartbeatController)]))"
proof -
  let ?sw = "ControllerSwitches (healthcheck_name A) (heartbeat_name A)"
  have sw: "?sw = [(''shoot-cert-service'', ShootController), (''controlplane-cert-service'', ControlplaneController),
     (healthcheck_name A, HealthcheckController), (heartbeat_name A, HeartbeatController)]"
    by (simp add: ControllerSwitches_def shoot_ControllerName_def cp_ControllerName_def)
  have "distinct (map fst ?sw)"
    using assms unfolding sw switches_law_def by simp
  then have "mset (switch_select A ?sw (ao_disabledControllers opts))
      = mset (filter (\<lambda>(name, _). name \<notin> set (ao_disabledControllers opts)) ?sw)"
    using assms unfolding switches_law_def by blast
  then show ?thesis unfolding enabledControllers_def sw mset_map by (simp only:)
qed

subsection \<open>Evaluation\<close>

definition sample_v1Configuration :: v1Configuration where
  "sample_v1Configuration = \<lparr>vcfg_TypeMeta = emptyTypeMeta, vcfg_IssuerName = ''garden'', vcfg_RestrictIssuer = None,
     vcfg_DefaultRequestsPerDayQuota = None, vcfg_ShootIssuers = None, vcfg_ACME = None,
     vcfg_CA = Some \<lparr>vca_Certificate = ''B'', vca_CertificateKey = ''B''\<rparr>, vcfg_HealthCheckConfig = None,
     vcfg_PrivateKeyDefaults = None, vcfg_InClusterACMEServerNamespaceMatchLabel = Map.empty\<rparr>"

definition sample_cmd :: cmd_extern where
  "sample_cmd = \<lparr>readFile = (\<lambda>p. Inr p), parseConfiguration = (\<lambda>d. Inr sample_v1Configuration)\<rparr>"

definition sample_app :: app_extern where
  "sample_app = \<lparr>manager_New = (\<lambda>qps objs. None), addToScheme = (\<lambda>s. None), service_scheme = sample_scheme_lib,
     extension_Add = (\<lambda>a n. None), healthcheck_Register = (\<lambda>r. None), heartbeat_Add = (\<lambda>h. None), manager_Start = None,
     healthcheck_name = ''healthcheck'', heartbeat_name = ''heartbeat'',
     switch_select = (\<lambda>switches disabled. rev (filter (\<lambda>(name, _). name \<notin> set disabled) switches))\<rparr>"

definition sample_opts :: AppOptions where
  "sample_opts = \<lparr>ao_certOptions = \<lparr>cso_ConfigLocation = ''config.yaml'', cso_config = Some \<lparr>csc_config = sample_configuration\<rparr>\<rparr>,
     ao_shootMaxConcurrentReconciles = 5, ao_controlPlaneMaxConcurrentReconciles = 1, ao_healthMaxConcurrentReconciles = 5,
     ao_heartbeatOptions = (ExtensionName, 30, ''ns''), ao_reconcileIgnoreOperationAnnotation = False,
     ao_generalExtensionClasses = [''shoot'', ''seed''], ao_disabledControllers = [''heartbeat'']\<rparr>"

lemma sample_switches_law: "switches_law sample_app"
  by (simp add: switches_law_def sample_app_def)

lemma sample_install: "fst (install_AddToScheme sample_scheme_lib []) = None"
  by (simp add: install_AddToScheme_def sample_scheme_lib_def install_schemeBuilder_def v1service_localSchemeBuilder_def
      service_localSchemeBuilder_def v1service_addKnownTypes_def service_addKnownTypes_def known_types_def
      service_addDefaultingFuncs_def service_RegisterDefaults_def service_RegisterConversions_def setVersionPriority_def
      register_def)

lemma sample_run_succeeds:
  "''garden'' \<notin> set (ao_generalExtensionClasses opts) \<Longrightarrow> run_succeeds sample_app opts config"
proof -
  have "accepts sample_app a" for a
    by (cases a) (simp_all add: sample_app_def)
  moreover assume "''garden'' \<notin> set (ao_generalExtensionClasses opts)"
  ultimately have "list_all (addable sample_app opts config) ctls" for ctls
    by (simp add: list_all_iff addable_def)
  then show ?thesis
    by (simp add: run_succeeds_def) (simp add: sample_app_def sample_install)
qed

lemma sample_app_run:
  "app_run sample_app sample_opts initialGlobals =
     (Ok (map (added_for sample_opts sample_configuration) [HealthcheckController, ControlplaneController, ShootController]),
      applyOptions sample_opts \<lparr>csc_config = sample_configuration\<rparr> initialGlobals)"
proof -
  have "run_succeeds sample_app sample_opts sample_configuration"
    by (rule sample_run_succeeds) (simp add: sample_opts_def)
  moreover have "enabledControllers sample_app sample_opts = [HealthcheckController, ControlplaneController, ShootController]"
    by (simp add: enabledControllers_def sample_app_def sample_opts_def ControllerSwitches_def shoot_ControllerName_def
        cp_ControllerName_def)
  ultimately show ?thesis
    by (subst app_run_Ok_iff [of _ "\<lparr>csc_config = sample_configuration\<rparr>"]) (simp_all add: sample_opts_def)
qed

lemma cso_Complete_total:
  assumes "pem_consumes X"
  shows "\<exists>r. cso_Complete X C opts = Some r
    \<and> (\<forall>opts'. r = Ok opts' \<longleftrightarrow> cso_ConfigLocation opts \<noteq> ''''
         \<and> (\<exists>data obj. readFile C (cso_ConfigLocation opts) = Inr data \<and> parseConfiguration C data = Inr obj
              \<and> (let config = convConfiguration_to_config (SetObjectDefaults_Configuration obj) emptyConfiguration
                 in config_ok X config \<and> cfg_RestrictIssuer config \<noteq> None
                    \<and> opts' = opts\<lparr>cso_config := Some \<lparr>csc_config = config\<rparr>\<rparr>)))"
proof (cases "cso_ConfigLocation opts = ''''")
  case True
  then show ?thesis by (simp add: cso_Complete_def)
next
  case loc: False
  let ?r = "rbind (lib (readFile C (cso_ConfigLocation opts))) (\<lambda>data. decodeConfiguration C data emptyConfiguration)"
  have r: "?r = Ok config \<longleftrightarrow> (\<exists>data obj. readFile C (cso_ConfigLocation opts) = Inr data
      \<and> parseConfiguration C data = Inr obj
      \<and> config = convConfiguration_to_config (SetObjectDefaults_Configuration obj) emptyConfiguration)" for config
    by (auto simp: rbind_Ok_iff decodeConfiguration_Ok lib_def split: sum.splits)
  have set: "?r = Ok config \<Longrightarrow> cfg_RestrictIssuer config \<noteq> None" for config
    by (auto simp: rbind_Ok_iff dest: decoded_restrictIssuer)
  show ?thesis
  proof (cases ?r)
    case (Ok config)
    obtain es where "ValidateConfiguration X config = Some es" "es = [] \<longleftrightarrow> config_ok X config"
      using ValidateConfiguration_total [OF assms] by blast
    then have "cso_Complete X C opts = Some (if config_ok X config then Ok (opts\<lparr>cso_config := Some \<lparr>csc_config = config\<rparr>\<rparr>)
        else Error (toAggregate X es))"
      using loc Ok by (simp add: cso_Complete_def)
    moreover obtain data obj where "readFile C (cso_ConfigLocation opts) = Inr data"
      "parseConfiguration C data = Inr obj"
      "config = convConfiguration_to_config (SetObjectDefaults_Configuration obj) emptyConfiguration"
      using r Ok by blast
    ultimately show ?thesis using loc set [OF Ok] by (auto simp: Let_def)
  next
    case (Error e)
    then have "\<not> (\<exists>config. ?r = Ok config)" by simp
    then show ?thesis using loc Error unfolding r by (auto simp: cso_Complete_def)
  next
    case (Panic p)
    then have "\<not> (\<exists>config. ?r = Ok config)" by simp
    then show ?thesis using loc Panic unfolding r by (auto simp: cso_Complete_def)
  qed
qed

subsection \<open>Properties\<close>

text \<open>C25: Completing the options always returns. It succeeds exactly if a location is set, the file can be
  read and parsed, and the defaulted and converted configuration is valid; the options then hold that
  configuration and are otherwise unchanged.\<close>

theorem options_completed:
  assumes "pem_consumes X"
  shows "\<exists>r. cso_Complete X C opts = Some r
    \<and> (\<forall>opts'. r = Ok opts' \<longleftrightarrow> cso_ConfigLocation opts \<noteq> ''''
         \<and> (\<exists>data obj. readFile C (cso_ConfigLocation opts) = Inr data \<and> parseConfiguration C data = Inr obj
              \<and> (let config = convConfiguration_to_config (SetObjectDefaults_Configuration obj) emptyConfiguration
                 in config_ok X config \<and> cfg_RestrictIssuer config \<noteq> None
                    \<and> opts' = opts\<lparr>cso_config := Some \<lparr>csc_config = config\<rparr>\<rparr>)))"
  by (rule cso_Complete_total [OF assms])

theorem options_completed_witness:
  "\<exists>r. cso_Complete sample_extern sample_cmd (AddFlags_default\<lparr>cso_ConfigLocation := ''config.yaml''\<rparr>) = Some (Ok r)
     \<and> cso_config r \<noteq> None"
proof -
  let ?o = "AddFlags_default\<lparr>cso_ConfigLocation := ''config.yaml''\<rparr>"
  let ?config = "convConfiguration_to_config (SetObjectDefaults_Configuration sample_v1Configuration) emptyConfiguration"
  have trim: "trimSpace ''B'' = ''B''" by code_simp
  then have ok: "config_ok sample_extern ?config" "cfg_RestrictIssuer ?config \<noteq> None"
    by (simp_all add: config_ok_def emptyConfiguration_def first_cert_ok_def key_ok_def sample_extern_def
        convConfiguration_to_config_def SetObjectDefaults_Configuration_def SetDefaults_Configuration_def
        sample_v1Configuration_def asConfigCA_def)
  obtain r where r: "cso_Complete sample_extern sample_cmd ?o = Some r"
    "r = Ok opts' \<longleftrightarrow> cso_ConfigLocation ?o \<noteq> ''''
         \<and> (\<exists>data obj. readFile sample_cmd (cso_ConfigLocation ?o) = Inr data \<and> parseConfiguration sample_cmd data = Inr obj
              \<and> (let config = convConfiguration_to_config (SetObjectDefaults_Configuration obj) emptyConfiguration
                 in config_ok sample_extern config \<and> cfg_RestrictIssuer config \<noteq> None
                    \<and> opts' = ?o\<lparr>cso_config := Some \<lparr>csc_config = config\<rparr>\<rparr>))" for opts'
    using options_completed [OF sample_pem_consumes, of sample_cmd ?o] by blast
  have "r = Ok (?o\<lparr>cso_config := Some \<lparr>csc_config = ?config\<rparr>\<rparr>)"
    unfolding r(2) Let_def using ok by (simp add: sample_cmd_def)
  then show ?thesis using r(1) by simp
qed

text \<open>C26: When the process runs, exactly the controllers whose names are not disabled were added, each once, and
  with what it needs: the two controllers of Extensions with the completed configuration, the
  reconciler's option, their own names, types, watches and numbers of concurrent reconciliations, the
  shoot's for the class of shoots, the other one for gardens if the process is responsible for them and for seeds
  otherwise; the health check of the seed's managed resource with the configured period or every thirty
  seconds; and the heartbeat with its options.\<close>

theorem run_applies_options:
  assumes "switches_law A"
    and "app_run A opts initialGlobals = (Ok added, g')" "cso_config (ao_certOptions opts) = Some c"
  shows "mset added = mset (map (\<lambda>(name, ctl). added_for opts (csc_config c) ctl)
     (filter (\<lambda>(name, _). name \<notin> set (ao_disabledControllers opts))
       [(''shoot-cert-service'', ShootController), (''controlplane-cert-service'', ControlplaneController),
        (healthcheck_name A, HealthcheckController), (heartbeat_name A, HeartbeatController)]))"
proof -
  have "added = map (added_for opts (csc_config c)) (enabledControllers A opts)"
    using assms(2) by (simp add: app_run_Ok_iff [OF assms(3)])
  then have "mset added = image_mset (added_for opts (csc_config c)) (mset (enabledControllers A opts))"
    by simp
  then show ?thesis
    unfolding enabledControllers_mset [OF assms(1)] by (simp only: mset_map image_mset.compositionality comp_def case_prod_unfold)
qed

theorem run_applies_options_witness:
  "\<exists>added g'. app_run sample_app sample_opts initialGlobals = (Ok added, g')
     \<and> mset added = {#added_for sample_opts sample_configuration ShootController,
         added_for sample_opts sample_configuration ControlplaneController,
         added_for sample_opts sample_configuration HealthcheckController#}"
proof -
  have "cso_config (ao_certOptions sample_opts) = Some \<lparr>csc_config = sample_configuration\<rparr>"
    by (simp add: sample_opts_def)
  from run_applies_options [OF sample_switches_law sample_app_run this]
  have "mset (map (added_for sample_opts sample_configuration) [HealthcheckController, ControlplaneController, ShootController])
      = {#added_for sample_opts sample_configuration ShootController,
         added_for sample_opts sample_configuration ControlplaneController,
         added_for sample_opts sample_configuration HealthcheckController#}"
    by (simp add: sample_opts_def sample_app_def del: added_for.simps)
  then show ?thesis using sample_app_run by blast
qed

text \<open>A process responsible for gardens does not start unless the controller of shoots is disabled.\<close>

theorem garden_excludes_shoot_controller:
  assumes "ExtensionClassGarden \<in> set (ao_generalExtensionClasses opts)" "ShootController \<in> set (enabledControllers A opts)"
  shows "fst (app_run A opts g) \<noteq> Ok added"
proof
  assume "fst (app_run A opts g) = Ok added"
  then obtain c where "rmap (addController A (applyOptions opts c g)) (enabledControllers A opts) = Ok added"
    by (auto simp: app_run_def Let_def rbind_Ok_iff split: result.splits)
  then obtain a where "addController A (applyOptions opts c g) ShootController = Ok a"
    using assms(2) by (auto simp: rmap_Ok_iff list_all2_conv_all_nth in_set_conv_nth)
  then show False
    using assms(1) by (simp add: addController_def shoot_AddToManager_def shoot_AddToManagerWithOptions_def applyOptions_sel)
qed

theorem garden_excludes_shoot_controller_witness:
  "fst (app_run sample_app (sample_opts\<lparr>ao_generalExtensionClasses := [''garden'']\<rparr>) initialGlobals) \<noteq> Ok []"
  by (rule garden_excludes_shoot_controller)
    (simp_all add: sample_app_def sample_opts_def enabledControllers_def ControllerSwitches_def shoot_ControllerName_def
      cp_ControllerName_def ExtensionClassGarden_def)


end
