(* ===== verification/Cluster_Scheme.thy ===== *)
theory Cluster_Scheme
  imports Deployer_Objects API_Scheme
begin

text \<open>
  \<open>pkg/client/scheme.go\<close>: the scheme and the serialiser for the clusters that objects are deployed to,
  the registry the deployer serialises with, and the types and places of the deployed objects. What
  the libraries' \<open>AddToScheme\<close> functions register is a parameter; the theorem about the deployed
  objects assumes the types their packages document.
\<close>

subsection \<open>The scheme\<close>

text \<open>A Go type: the import path of its package and its name. A scheme knows a list of them.\<close>

type_synonym go_type = "string \<times> string"
type_synonym scheme_op = "go_type list \<Rightarrow> goerr option \<times> go_type list"

record cluster_lib =
  cl_builder :: "scheme_op list \<Rightarrow> scheme_op" \<comment> \<open>\<open>AddToScheme\<close> of a scheme builder\<close>
  cl_kubernetes :: scheme_op
  cl_resources :: scheme_op
  cl_certman :: scheme_op
  cl_vpa :: scheme_op
  cl_monitoring :: scheme_op
  cl_apiextensions :: "go_type list \<Rightarrow> go_type list result" \<comment> \<open>\<open>Install\<close> panics on an error\<close>

definition clusterSchemeBuilder :: "cluster_lib \<Rightarrow> scheme_op list" where
  "clusterSchemeBuilder K =
    [cl_kubernetes K, cl_resources K, cl_certman K, cl_vpa K, cl_monitoring K]"

text \<open>\<open>init\<close> of the package, on the new scheme of the variable \<open>ClusterScheme\<close>.\<close>

definition client_init :: "cluster_lib \<Rightarrow> go_type list result" where
  "client_init K =
    rbind (must (cl_builder K (clusterSchemeBuilder K)) []) (\<lambda>ClusterScheme.
    cl_apiextensions K ClusterScheme)"

record SerializerOptions =
  so_Yaml :: bool
  so_Pretty :: bool
  so_Strict :: bool

text \<open>A serialiser creates and types objects by a scheme.\<close>

record Serializer =
  sz_Creater :: "go_type list"
  sz_Typer :: "go_type list"
  sz_Options :: SerializerOptions

definition ClusterSerializer :: "go_type list \<Rightarrow> Serializer" where
  "ClusterSerializer ClusterScheme = \<lparr>sz_Creater = ClusterScheme, sz_Typer = ClusterScheme,
     sz_Options = \<lparr>so_Yaml = True, so_Pretty = False, so_Strict = False\<rparr>\<rparr>"

text \<open>The registry of \<open>managedresources.NewRegistry\<close>: a scheme, a codec factory and a serialiser.\<close>

record Registry =
  rg_Scheme :: "go_type list"
  rg_Codec :: "go_type list"
  rg_Serializer :: Serializer

definition newManagedResourceRegistry :: "go_type list \<Rightarrow> Registry" where
  "newManagedResourceRegistry ClusterScheme =
    \<lparr>rg_Scheme = ClusterScheme, rg_Codec = ClusterScheme, rg_Serializer = ClusterSerializer ClusterScheme\<rparr>"

subsection \<open>Types of the deployed objects\<close>

definition corev1 :: string where "corev1 = ''k8s.io/api/core/v1''"
definition appsv1 :: string where "appsv1 = ''k8s.io/api/apps/v1''"
definition rbacv1 :: string where "rbacv1 = ''k8s.io/api/rbac/v1''"
definition policyv1 :: string where "policyv1 = ''k8s.io/api/policy/v1''"
definition networkingv1 :: string where "networkingv1 = ''k8s.io/api/networking/v1''"
definition vpaautoscalingv1 :: string where
  "vpaautoscalingv1 = ''k8s.io/autoscaler/vertical-pod-autoscaler/pkg/apis/autoscaling.k8s.io/v1''"
definition monitoringv1 :: string where
  "monitoringv1 = ''github.com/prometheus-operator/prometheus-operator/pkg/apis/monitoring/v1''"
definition certv1alpha1 :: string where
  "certv1alpha1 = ''github.com/gardener/cert-management/pkg/apis/cert/v1alpha1''"
definition apiextensionsv1 :: string where
  "apiextensionsv1 = ''k8s.io/apiextensions-apiserver/pkg/apis/apiextensions/v1''"

text \<open>The type of the value behind each interface, as the builders construct it.\<close>

primrec go_type_of :: "kobj \<Rightarrow> go_type" where
  "go_type_of (KServiceAccount _) = (corev1, ''ServiceAccount'')"
| "go_type_of (KConfigMap _) = (corev1, ''ConfigMap'')"
| "go_type_of (KSecret _) = (corev1, ''Secret'')"
| "go_type_of (KIssuer _) = (certv1alpha1, ''Issuer'')"
| "go_type_of (KRole _) = (rbacv1, ''Role'')"
| "go_type_of (KRoleBinding _) = (rbacv1, ''RoleBinding'')"
| "go_type_of (KClusterRole _) = (rbacv1, ''ClusterRole'')"
| "go_type_of (KClusterRoleBinding _) = (rbacv1, ''ClusterRoleBinding'')"
| "go_type_of (KService _) = (corev1, ''Service'')"
| "go_type_of (KDeployment _) = (appsv1, ''Deployment'')"
| "go_type_of (KVPA _) = (vpaautoscalingv1, ''VerticalPodAutoscaler'')"
| "go_type_of (KPodDisruptionBudget _) = (policyv1, ''PodDisruptionBudget'')"
| "go_type_of (KPrometheusRule _) = (monitoringv1, ''PrometheusRule'')"
| "go_type_of (KServiceMonitor _) = (monitoringv1, ''ServiceMonitor'')"
| "go_type_of (KNetworkPolicy _) = (networkingv1, ''NetworkPolicy'')"
| "go_type_of (KCRD _) = (apiextensionsv1, ''CustomResourceDefinition'')"

text \<open>
  Documented behaviour: a scheme builder runs its functions in order and stops at the first error; a
  function that succeeds has kept what was known and added the types of its packages.
\<close>

definition adds :: "go_type list \<Rightarrow> scheme_op \<Rightarrow> bool" where
  "adds types f \<longleftrightarrow> (\<forall>s s'. f s = (None, s') \<longrightarrow> set s \<union> set types \<subseteq> set s')"

definition kubernetes_types :: "go_type list" where
  "kubernetes_types =
     map (Pair corev1) [''ServiceAccount'', ''ConfigMap'', ''Secret'', ''Service''] @ [(appsv1, ''Deployment'')]
   @ map (Pair rbacv1) [''Role'', ''RoleBinding'', ''ClusterRole'', ''ClusterRoleBinding'']
   @ [(policyv1, ''PodDisruptionBudget''), (networkingv1, ''NetworkPolicy'')]"

definition cluster_law :: "cluster_lib \<Rightarrow> bool" where
  "cluster_law K \<longleftrightarrow> cl_builder K = in_turn
   \<and> adds kubernetes_types (cl_kubernetes K) \<and> adds [] (cl_resources K)
   \<and> adds [(certv1alpha1, ''Issuer'')] (cl_certman K)
   \<and> adds [(vpaautoscalingv1, ''VerticalPodAutoscaler'')] (cl_vpa K)
   \<and> adds [(monitoringv1, ''PrometheusRule''), (monitoringv1, ''ServiceMonitor'')] (cl_monitoring K)
   \<and> (\<forall>s s'. cl_apiextensions K s = Ok s' \<longrightarrow>
        set s \<union> {(apiextensionsv1, ''CustomResourceDefinition'')} \<subseteq> set s')"

lemma in_turn_adds:
  assumes "list_all2 adds tss fs" "in_turn fs s = (None, s')"
  shows "set s \<union> set (concat tss) \<subseteq> set s'"
  using assms
proof (induction arbitrary: s rule: list_all2_induct)
  case Nil
  then show ?case by simp
next
  case (Cons ts tss f fs)
  obtain s1 where s1: "f s = (None, s1)" "in_turn fs s1 = (None, s')"
    using Cons.prems by (auto split: prod.splits option.splits)
  then have "set s \<union> set ts \<subseteq> set s1"
    using Cons.hyps(1) by (simp add: adds_def)
  with Cons.IH [OF s1(2)] show ?case by auto
qed

lemma client_init_types:
  assumes "cluster_law K" "client_init K = Ok scheme"
  shows "go_type_of x \<in> set scheme"
proof -
  let ?tss = "[kubernetes_types, [], [(certv1alpha1, ''Issuer'')], [(vpaautoscalingv1, ''VerticalPodAutoscaler'')],
    [(monitoringv1, ''PrometheusRule''), (monitoringv1, ''ServiceMonitor'')]]"
  obtain s1 where s1: "in_turn (clusterSchemeBuilder K) [] = (None, s1)" "cl_apiextensions K s1 = Ok scheme"
    using assms by (auto simp: client_init_def rbind_Ok_iff must_def cluster_law_def split: prod.splits option.splits)
  have "list_all2 adds ?tss (clusterSchemeBuilder K)"
    using assms(1) by (simp add: clusterSchemeBuilder_def cluster_law_def)
  from in_turn_adds [OF this s1(1)] have "set (concat ?tss) \<subseteq> set s1"
    by simp
  moreover have "set s1 \<union> {(apiextensionsv1, ''CustomResourceDefinition'')} \<subseteq> set scheme"
    using assms(1) s1(2) unfolding cluster_law_def by blast
  ultimately have "set ((apiextensionsv1, ''CustomResourceDefinition'') # concat ?tss) \<subseteq> set scheme"
    by auto
  then show ?thesis
    by (cases x) (simp_all add: kubernetes_types_def)
qed

subsection \<open>Places of the deployed objects\<close>

text \<open>An object lies in the namespace if its kind has one, and in none otherwise.\<close>

fun placed :: "string \<Rightarrow> string \<times> string \<times> string \<Rightarrow> bool" where
  "placed ns (kind, n, _) \<longleftrightarrow>
     n = (if kind \<in> {''ClusterRole'', ''ClusterRoleBinding'', ''CustomResourceDefinition''} then '''' else ns)"

lemma placed_issuers:
  assumes "createIssuers v = Ok (iobjs, is)"
  shows "list_all (placed (vl_Namespace v)) (map object_key (objs_of iobjs))"
proof -
  obtain ms where "objs_of iobjs
      = map KSecret (issuer_secrets v (gardenIssuer v)) @ map (KIssuer \<circ> createIssuer v) is"
    using createIssuers_objs [OF assms] by metis
  moreover have "list_all (placed (vl_Namespace v)) (map object_key (map KSecret (issuer_secrets v i)))" for i
    using issuer_secret_keys [of v i] by (fastforce simp: list_all_iff)
  ultimately show ?thesis
    by (auto simp: list_all_iff object_key_createIssuer)
qed

lemma placed_CRDs:
  "list_all (\<lambda>c. om_Namespace (crd_Meta c) = '''') crds \<Longrightarrow> list_all (placed ns) (map object_key (map KCRD crds))"
  by (simp only: crd_keys) (simp add: list_all_iff)

lemma placed_optional:
  "list_all (placed (vl_Namespace v)) (map object_key (opt_obj KConfigMap (createCACertificatesConfigMap v)))"
  "list_all (placed (vl_Namespace v)) (map object_key (opt_obj KVPA (createVPA v)))"
  "list_all (placed (vl_Namespace v)) (map object_key (opt_obj KPrometheusRule (createPrometheusRule v)))"
  "list_all (placed (vl_Namespace v)) (map object_key (opt_obj KNetworkPolicy (createNetworkPolicy v)))"
  by (simp_all only: opt_keys) (simp_all add: append_if_def)

lemma seedObjects_placed:
  assumes "seedObjects X D v = Ok (objs, is)"
  shows "list_all (placed (vl_Namespace v)) (map object_key (objs_of objs))"
  using assms
  by (rule seedObjects_OkD) (simp add: placed_issuers placed_optional deployment_key del: opt_keys list.pred_map)

lemma getShootCRDs_no_namespace:
  assumes "assets_law D" "getShootCRDs X D v = Ok crds"
  shows "list_all (\<lambda>c. om_Namespace (crd_Meta c) = '''' \<and> om_Annotations (crd_Meta c) \<noteq> None \<and> True) crds"
  using getShootCRDs_assets [OF assms(1), of X v] assms(2) by (auto simp: list_all_iff)

lemma shootObjects_placed:
  assumes "shootObjects X D v = Ok objs" "assets_law D" "vl_ShootDeployment v"
  shows "list_all (placed ''kube-system'') (map object_key (objs_of objs))"
proof -
  obtain crds where crds: "getShootCRDs X D v = Ok crds"
    and os: "objs_of objs = [KRole (createShootRole v), KRoleBinding (createShootRoleBinding v),
      KClusterRole (createShootClusterRole v), KClusterRoleBinding (createShootClusterRoleBinding v)]
      @ objs_of (map (Obj \<circ> KCRD) crds)"
    using assms(1) by (auto simp: shootObjects_def rbind_Ok_iff)
  have "objs_of (map (Obj \<circ> KCRD) crds) = map KCRD crds"
    by (simp flip: map_map)
  moreover have "list_all (placed ''kube-system'') (map object_key (map KCRD crds))"
    using getShootCRDs_no_namespace [OF assms(2) crds] by (intro placed_CRDs) (simp add: list_all_iff)
  ultimately show ?thesis
    using assms(3) by (simp add: os shootNamespace_def del: list.pred_map)
qed

lemma gardenOrSeedObjects_placed:
  assumes "gardenOrSeedObjects X D v = Ok (objs, is)" "assets_law D" "\<not> vl_ShootDeployment v"
  shows "list_all (placed (vl_Namespace v)) (map object_key (objs_of objs))"
  using assms(1)
proof (rule gardenOrSeedObjects_OkD)
  fix iobjs d crds0 crds
  assume i: "createIssuers v = Ok (iobjs, is)" and d: "createDeployment X D v = Ok d"
    and crds: "getShootCRDs X D v = Ok crds0" "rmap (keepCRD X) crds0 = Ok crds"
    and os: "objs_of objs =
       [KServiceAccount (createServiceAccount v)]
       @ opt_obj KConfigMap (createCACertificatesConfigMap v) @ objs_of iobjs
       @ [KRole (createRole v), KRoleBinding (createRoleBinding v), KService (createService v), KDeployment d]
       @ opt_obj KVPA (createVPA v)
       @ [KRole (createShootRole v), KRoleBinding (createShootRoleBinding v),
          KClusterRole (createShootClusterRole v), KClusterRoleBinding (createShootClusterRoleBinding v)]
       @ opt_obj KNetworkPolicy (createNetworkPolicy v) @ map KCRD crds"
  have "list_all (\<lambda>c. om_Namespace (crd_Meta c) = '''') crds"
    using keepCRDs_Ok [OF getShootCRDs_no_namespace [OF assms(2) crds(1)], of X] crds(2) by auto
  then show ?thesis
    using assms(3) placed_CRDs [of crds]
    by (simp add: os placed_issuers [OF i] placed_optional deployment_key [OF d] shootNamespace_def
        del: opt_keys list.pred_map)
qed

text \<open>The registry can serialise an object, and it lies where it should.\<close>

definition well_typed :: "Registry \<Rightarrow> string \<Rightarrow> kobj \<Rightarrow> bool" where
  "well_typed R ns x \<longleftrightarrow> go_type_of x \<in> set (rg_Scheme R) \<inter> set (rg_Codec R) \<inter> set (sz_Typer (rg_Serializer R))
     \<and> placed ns (object_key x)"

lemma well_typed_placed:
  assumes "cluster_law K" "client_init K = Ok scheme" "list_all (placed ns) (map object_key os)"
  shows "list_all (well_typed (newManagedResourceRegistry scheme) ns) os"
  using assms(3) client_init_types [OF assms(1,2)]
  by (auto simp: list_all_iff well_typed_def newManagedResourceRegistry_def ClusterSerializer_def)

definition sample_op :: "go_type list \<Rightarrow> scheme_op" where
  "sample_op types s = (None, s @ types)"

definition sample_cluster_lib :: cluster_lib where
  "sample_cluster_lib = \<lparr>cl_builder = in_turn, cl_kubernetes = sample_op kubernetes_types, cl_resources = sample_op [],
     cl_certman = sample_op [(certv1alpha1, ''Issuer'')],
     cl_vpa = sample_op [(vpaautoscalingv1, ''VerticalPodAutoscaler'')],
     cl_monitoring = sample_op [(monitoringv1, ''PrometheusRule''), (monitoringv1, ''ServiceMonitor'')],
     cl_apiextensions = (\<lambda>s. Ok (s @ [(apiextensionsv1, ''CustomResourceDefinition'')]))\<rparr>"

lemma sample_cluster_law: "cluster_law sample_cluster_lib"
  by (auto simp: cluster_law_def sample_cluster_lib_def sample_op_def adds_def)

lemma sample_client_init: obtains scheme where "client_init sample_cluster_lib = Ok scheme"
  by (simp add: client_init_def must_def sample_cluster_lib_def sample_op_def clusterSchemeBuilder_def)

subsection \<open>Properties\<close>

text \<open>C18: Once the scheme of the clusters is initialised, it knows the Go type of every object that is deployed
  to a seed, a shoot or a garden, whatever the settings, so that the registry can serialise it; and the
  object has a namespace exactly if its kind has one, which is then the namespace of the deployment.\<close>

theorem deployed_objects_typed:
  assumes "cluster_law K" "assets_law D" "client_init K = Ok scheme"
  shows "(case seedObjects X D v of
       Ok (objs, is) \<Rightarrow> list_all (well_typed (newManagedResourceRegistry scheme) (vl_Namespace v)) (objs_of objs) | _ \<Rightarrow> True)
   \<and> (case shootObjects X D (v\<lparr>vl_ShootDeployment := True\<rparr>) of
       Ok objs \<Rightarrow> list_all (well_typed (newManagedResourceRegistry scheme) ''kube-system'') (objs_of objs) | _ \<Rightarrow> True)
   \<and> (case gardenOrSeedObjects X D (v\<lparr>vl_ShootDeployment := False\<rparr>) of
       Ok (objs, is) \<Rightarrow> list_all (well_typed (newManagedResourceRegistry scheme) (vl_Namespace v)) (objs_of objs) | _ \<Rightarrow> True)"
  using seedObjects_placed [of X D v] shootObjects_placed [of X D "v\<lparr>vl_ShootDeployment := True\<rparr>"]
    gardenOrSeedObjects_placed [of X D "v\<lparr>vl_ShootDeployment := False\<rparr>"]
  by (auto split: result.splits intro!: well_typed_placed [OF assms(1,3)] simp: assms(2) simp del: list.pred_map)

theorem deployed_objects_typed_witness:
  "\<exists>scheme objs is. client_init sample_cluster_lib = Ok scheme
     \<and> seedObjects sample_extern sample_deploy sample_values = Ok (objs, is)
     \<and> list_all (well_typed (newManagedResourceRegistry scheme) (vl_Namespace sample_values)) (objs_of objs)"
proof -
  obtain scheme where init: "client_init sample_cluster_lib = Ok scheme"
    by (rule sample_client_init)
  obtain objs "is" where ok: "seedObjects sample_extern sample_deploy sample_values = Ok (objs, is)"
    by (rule sample_seedObjects)
  from deployed_objects_typed [OF sample_cluster_law sample_assets_law init, where X = sample_extern and v = sample_values] ok
  have "list_all (well_typed (newManagedResourceRegistry scheme) (vl_Namespace sample_values)) (objs_of objs)"
    by simp
  with init ok show ?thesis by blast
qed

end
