(* ===== verification/Process_Start.thy ===== *)
theory Process_Start
  imports Cmd_Options Cluster_Scheme
begin

text \<open>
  The process from its start to its exit: the image vector (\<open>imagevector/imagevector.go\<close>), the
  initialisation of the packages, the command (\<open>app.go\<close>) and \<open>main.go\<close>. The command line parser, the
  image vector's library and the manager are parameters; logging is left out.
\<close>

subsection \<open>The image vector\<close>

text \<open>The library, for a type of image vectors and one of CA bundles.\<close>

record ('v, 'b) image_lib =
  im_Read :: "string \<Rightarrow> goerr + 'v \<times> 'b"
  im_WithEnvOverride :: "'v \<Rightarrow> 'b \<Rightarrow> string \<Rightarrow> goerr + 'v \<times> 'b"
  im_OverrideEnv :: string
  im_FindImages :: "'v \<Rightarrow> string list \<Rightarrow> goerr + labels"

text \<open>\<open>runtime.Must\<close> after a call that returns values and an error.\<close>

definition must_lib :: "goerr + 'a \<Rightarrow> 'a result" where
  "must_lib r = (case r of Inl e \<Rightarrow> Panic (err_text e) | Inr a \<Rightarrow> Ok a)"

text \<open>\<open>init\<close> returns the package variables \<open>imageVector\<close> and \<open>caBundle\<close>.\<close>

definition imagevector_init :: "('v, 'b) image_lib \<Rightarrow> string \<Rightarrow> ('v \<times> 'b) result" where
  "imagevector_init M imagesYAML =
    rbind (must_lib (im_Read M imagesYAML)) (\<lambda>(imageVector, caBundle).
    must_lib (im_WithEnvOverride M imageVector caBundle (im_OverrideEnv M)))"

definition ImageVector :: "'v \<times> 'b \<Rightarrow> 'v" where
  "ImageVector vars = fst vars"

text \<open>The deployer's lookup of images, on the image vector of the process.\<close>

definition with_images :: "('v, 'b) image_lib \<Rightarrow> 'v \<times> 'b \<Rightarrow> deploy_extern \<Rightarrow> deploy_extern" where
  "with_images M vars D = D\<lparr>findImages := im_FindImages M (ImageVector vars)\<rparr>"

subsection \<open>Initialisation of the packages\<close>

record ('v, 'b) init_lib =
  il_images :: "('v, 'b) image_lib"
  il_imagesYAML :: string \<comment> \<open>the embedded file\<close>
  il_cluster :: cluster_lib
  il_config :: "config_object scheme_lib"

text \<open>The initialisers of the repository's packages, in the order of their import paths.\<close>

definition init_packages ::
    "('v, 'b) init_lib \<Rightarrow> (('v \<times> 'b) \<times> go_type list \<times> config_object registration list) result" where
  "init_packages L =
    rbind (imagevector_init (il_images L) (il_imagesYAML L)) (\<lambda>vars.
    rbind (client_init (il_cluster L)) (\<lambda>ClusterScheme.
    rbind (cmd_scheme (il_config L)) (\<lambda>scheme.
    Ok (vars, ClusterScheme, scheme))))"

subsection \<open>The command and main\<close>

text \<open>
  The parser of the command line takes the defaults of the options to their values, or fails; it also
  tells whether the version was asked for, in which case the process prints it and exits.
\<close>

record parsed =
  pa_options :: AppOptions
  pa_aggregated :: aggregated
  pa_version :: bool

type_synonym flag_parser = "AppDefaults \<Rightarrow> string list \<Rightarrow> goerr + parsed"

text \<open>How the command ends: it returns an error or nil, or the process exits within it, or it panics.\<close>

datatype outcome = Returns "goerr option" | Exits int | Panics string

definition outcome_of :: "'a result \<Rightarrow> outcome" where
  "outcome_of r = (case r of Ok _ \<Rightarrow> Returns None | Error e \<Rightarrow> Returns (Some e) | Panic p \<Rightarrow> Panics p)"

definition ServiceControllerCommand ::
    "extern \<Rightarrow> cmd_extern \<Rightarrow> app_extern \<Rightarrow> flag_parser \<Rightarrow> (string \<Rightarrow> string) \<Rightarrow> (string \<Rightarrow> string) \<Rightarrow> string list
      \<Rightarrow> outcome option" where
  "ServiceControllerCommand X C A parse getenv LeaderElectionNameID arguments =
    (case parse (NewOptions getenv LeaderElectionNameID) arguments of
       Inl e \<Rightarrow> Some (Returns (Some e))
     | Inr p \<Rightarrow>
         if pa_version p then Some (Exits 0)
         else map_option (\<lambda>(r, _). outcome_of r) (app_RunE X C A (pa_aggregated p) (pa_options p) initialGlobals))"

text \<open>\<open>main\<close>: an error of the command is the exit status 1. \<open>None\<close> if the command does not return.\<close>

datatype process_end = Exited int | Crashed string

definition main_exit :: "outcome \<Rightarrow> process_end" where
  "main_exit out = (case out of
     Returns None \<Rightarrow> Exited 0
   | Returns (Some err) \<Rightarrow> Exited 1
   | Exits n \<Rightarrow> Exited n
   | Panics p \<Rightarrow> Crashed p)"

definition process ::
    "('v, 'b) init_lib \<Rightarrow> extern \<Rightarrow> cmd_extern \<Rightarrow> app_extern \<Rightarrow> flag_parser \<Rightarrow> (string \<Rightarrow> string) \<Rightarrow> (string \<Rightarrow> string)
      \<Rightarrow> string list \<Rightarrow> process_end option" where
  "process L X C A parse getenv LeaderElectionNameID arguments =
    (case init_packages L of
       Panic p \<Rightarrow> Some (Crashed p)
     | Error e \<Rightarrow> Some (Crashed (err_text e))
     | Ok _ \<Rightarrow> map_option main_exit (ServiceControllerCommand X C A parse getenv LeaderElectionNameID arguments))"

subsection \<open>The command never panics\<close>

lemma cso_Complete_no_panic: "cso_Complete X C opts \<noteq> Some (Panic p)"
  by (auto simp: cso_Complete_def decodeConfiguration_def rbind_Panic_iff split: result.splits option.splits if_splits)

lemma cso_Complete_config: "cso_Complete X C opts = Some (Ok opts') \<Longrightarrow> cso_config opts' \<noteq> None"
  by (auto simp: cso_Complete_def split: result.splits option.splits if_splits)

lemma addController_no_panic: "addController A g c \<noteq> Panic p"
  by (auto simp: addController_def when_ok_def rbind_Panic_iff shoot_AddToManager_def shoot_AddToManagerWithOptions_def
      cp_AddToManager_def cp_AddToManagerWithOptions_def Let_def split: controller.splits option.splits if_splits)

lemma app_run_no_panic:
  assumes "cso_config (ao_certOptions opts) \<noteq> None"
  shows "fst (app_run A opts g) \<noteq> Panic p"
proof -
  have "rmap (addController A g') cs \<noteq> Panic p" for g' cs p
    by (rule rmap_no_panic) (rule addController_no_panic)
  moreover have "managerSchemes A \<noteq> Panic p" for p
    by (simp add: managerSchemes_def updateScheme_def rbind_Panic_iff)
  ultimately show ?thesis
    using assms
    by (auto simp: app_run_def cso_Completed_def deref_def Let_def rbind_Panic_iff split: result.splits)
qed

lemma app_RunE_no_panic: "app_RunE X C A G opts g \<noteq> Some (Panic p, g')"
proof
  assume panics: "app_RunE X C A G opts g = Some (Panic p, g')"
  then obtain o' where "cso_Complete X C (ao_certOptions opts) = Some (Ok o')"
    "app_run A (opts\<lparr>ao_certOptions := o'\<rparr>) g = (Panic p, g')"
    using cso_Complete_no_panic [of X C "ao_certOptions opts"]
    by (auto simp: app_RunE_def Let_def when_ok_def rbind_Panic_iff rbind_Ok_iff split: option.splits result.splits)
  then show False
    using app_run_no_panic [of "opts\<lparr>ao_certOptions := o'\<rparr>" A g p] cso_Complete_config by auto
qed

lemma app_RunE_returns:
  assumes "pem_consumes X"
  obtains r g' where "app_RunE X C A G opts g = Some (r, g')" "\<And>p. r \<noteq> Panic p"
proof -
  obtain r0 where "cso_Complete X C (ao_certOptions opts) = Some r0"
    using cso_Complete_total [OF assms] by blast
  then obtain r g' where "app_RunE X C A G opts g = Some (r, g')"
    by (cases "ag_completeBefore G"; cases "rbind r0 (\<lambda>o'. when_ok (ag_completeAfter G) o')"; cases "ag_validateHeartbeat G")
      (auto simp: app_RunE_def Let_def intro: prod.exhaust)
  then show ?thesis
    using that app_RunE_no_panic by blast
qed

subsection \<open>When the command succeeds\<close>

text \<open>
  The configuration of the options: the file at their location was read and parsed, and what it says was
  defaulted, converted and is valid.
\<close>

definition configured :: "extern \<Rightarrow> cmd_extern \<Rightarrow> CertificateServiceOptions \<Rightarrow> Configuration \<Rightarrow> bool" where
  "configured X C opts config \<longleftrightarrow> cso_ConfigLocation opts \<noteq> ''''
     \<and> (\<exists>data obj. readFile C (cso_ConfigLocation opts) = Inr data \<and> parseConfiguration C data = Inr obj
          \<and> config = convConfiguration_to_config (SetObjectDefaults_Configuration obj) emptyConfiguration)
     \<and> config_ok X config"

lemma cso_Complete_Ok_iff:
  assumes "pem_consumes X"
  shows "cso_Complete X C opts = Some (Ok opts') \<longleftrightarrow>
     (\<exists>config. configured X C opts config \<and> opts' = opts\<lparr>cso_config := Some \<lparr>csc_config = config\<rparr>\<rparr>)"
proof -
  have set: "cfg_RestrictIssuer (convConfiguration_to_config (SetObjectDefaults_Configuration obj) c) \<noteq> None" for obj c
    by (auto simp: convConfiguration_to_config_def SetObjectDefaults_Configuration_def SetDefaults_Configuration_def)
  obtain r where "cso_Complete X C opts = Some r" and
    iff: "r = Ok opts' \<longleftrightarrow> cso_ConfigLocation opts \<noteq> ''''
         \<and> (\<exists>data obj. readFile C (cso_ConfigLocation opts) = Inr data \<and> parseConfiguration C data = Inr obj
              \<and> (let config = convConfiguration_to_config (SetObjectDefaults_Configuration obj) emptyConfiguration
                 in config_ok X config \<and> cfg_RestrictIssuer config \<noteq> None
                    \<and> opts' = opts\<lparr>cso_config := Some \<lparr>csc_config = config\<rparr>\<rparr>))"
    using cso_Complete_total [OF assms] by blast
  then show ?thesis
    unfolding configured_def using set by (auto simp: Let_def)
qed

text \<open>The command succeeds: its options are completed and valid, and the manager runs without error.\<close>

definition command_succeeds :: "extern \<Rightarrow> cmd_extern \<Rightarrow> app_extern \<Rightarrow> aggregated \<Rightarrow> AppOptions \<Rightarrow> Configuration \<Rightarrow> bool" where
  "command_succeeds X C A G opts config \<longleftrightarrow>
     ag_completeBefore G = None \<and> configured X C (ao_certOptions opts) config \<and> ag_completeAfter G = None
   \<and> ag_validateHeartbeat G = None \<and> run_succeeds A opts config"

text \<open>Running reads none of the options that completing changes, but for the configuration.\<close>

lemma added_for_certOptions: "added_for (opts\<lparr>ao_certOptions := c\<rparr>) config = added_for opts config"
proof
  fix ctl
  show "added_for (opts\<lparr>ao_certOptions := c\<rparr>) config ctl = added_for opts config ctl"
    by (cases ctl) simp_all
qed

lemma run_certOptions [simp]:
  "enabledControllers A (opts\<lparr>ao_certOptions := c\<rparr>) = enabledControllers A opts"
  "run_succeeds A (opts\<lparr>ao_certOptions := c\<rparr>) config = run_succeeds A opts config"
proof -
  show e: "enabledControllers A (opts\<lparr>ao_certOptions := c\<rparr>) = enabledControllers A opts"
    by (simp add: enabledControllers_def)
  have "addable A (opts\<lparr>ao_certOptions := c\<rparr>) config = addable A opts config"
    by (simp add: fun_eq_iff addable_def added_for_certOptions)
  then show "run_succeeds A (opts\<lparr>ao_certOptions := c\<rparr>) config = run_succeeds A opts config"
    by (simp add: run_succeeds_def e)
qed

lemma app_RunE_Ok_iff:
  assumes "pem_consumes X"
  shows "(\<exists>g'. app_RunE X C A G opts initialGlobals = Some (Ok added, g')) \<longleftrightarrow>
     (\<exists>config. command_succeeds X C A G opts config \<and> added = map (added_for opts config) (enabledControllers A opts))"
proof -
  have "(\<exists>g'. app_RunE X C A G opts initialGlobals = Some (Ok added, g')) \<longleftrightarrow>
      ag_completeBefore G = None \<and> ag_completeAfter G = None \<and> ag_validateHeartbeat G = None
    \<and> (\<exists>c. cso_Complete X C (ao_certOptions opts) = Some (Ok c)
        \<and> (\<exists>g'. app_run A (opts\<lparr>ao_certOptions := c\<rparr>) initialGlobals = (Ok added, g')))"
    by (auto simp: app_RunE_def Let_def when_ok_def rbind_Ok_iff split: option.splits result.splits)
  also have "\<dots> \<longleftrightarrow> ag_completeBefore G = None \<and> ag_completeAfter G = None \<and> ag_validateHeartbeat G = None
    \<and> (\<exists>config. configured X C (ao_certOptions opts) config \<and> run_succeeds A opts config
        \<and> added = map (added_for opts config) (enabledControllers A opts))"
  proof -
    have "(\<exists>g'. app_run A (opts\<lparr>ao_certOptions := c\<rparr>) initialGlobals = (Ok added, g')) \<longleftrightarrow> run_succeeds A opts config
        \<and> added = map (added_for opts config) (enabledControllers A opts)"
      if "c = (ao_certOptions opts)\<lparr>cso_config := Some \<lparr>csc_config = config\<rparr>\<rparr>" for c config
      by (subst app_run_Ok_iff [of _ "\<lparr>csc_config = config\<rparr>"]) (simp_all add: that added_for_certOptions)
    then show ?thesis
      unfolding cso_Complete_Ok_iff [OF assms] by blast
  qed
  finally show ?thesis unfolding command_succeeds_def by blast
qed

subsection \<open>Properties\<close>

definition sample_images :: "(labels, unit) image_lib" where
  "sample_images = \<lparr>im_Read = (\<lambda>yaml. Inr ([CertManagementImageName \<mapsto> yaml], ())),
     im_WithEnvOverride = (\<lambda>v b name. Inr (v, b)), im_OverrideEnv = ''IMAGEVECTOR_OVERWRITE'',
     im_FindImages = (\<lambda>v names. Inr v)\<rparr>"

definition sample_init :: "(labels, unit) init_lib" where
  "sample_init = \<lparr>il_images = sample_images, il_imagesYAML = ''image:v1'', il_cluster = sample_cluster_lib,
     il_config = sample_scheme_lib\<rparr>"

definition sample_aggregated :: aggregated where
  "sample_aggregated = \<lparr>ag_completeBefore = None, ag_completeAfter = None, ag_validateHeartbeat = None\<rparr>"

definition sample_parse :: flag_parser where
  "sample_parse defaults arguments = Inr \<lparr>pa_options = sample_opts, pa_aggregated = sample_aggregated,
     pa_version = (arguments = [''--version''])\<rparr>"

lemma sample_init_packages: obtains pkgs where "init_packages sample_init = Ok pkgs"
proof -
  obtain cs where "client_init sample_cluster_lib = Ok cs"
    by (rule sample_client_init)
  moreover obtain sc where "cmd_scheme (sample_scheme_lib :: config_object scheme_lib) = Ok sc"
    by (simp add: cmd_scheme_def must_def sample_scheme_lib_def config_SchemeBuilder_def config_addKnownTypes_def
        known_types_def v1config_localSchemeBuilder_def v1config_addKnownTypes_def config_addDefaultingFuncs_def
        config_RegisterDefaults_def register_def config_RegisterConversions_def)
  ultimately show ?thesis
    using that by (simp add: init_packages_def sample_init_def imagevector_init_def sample_images_def must_lib_def)
qed

text \<open>C19: The process always comes to an end that its start determines: it crashes exactly if a package cannot
  be initialised, for no command line, configuration file or answer of the manager; it exits with
  status 0 exactly if only the version was asked for or everything went well, that is, the options were completed
  from a configuration file that could be read and parsed and whose content is valid, the heartbeat's options
  are valid, the manager could be created and its scheme extended, every enabled controller could be added (in
  particular the shoot controller is not enabled together with the class of gardens), and the manager ran without
  error; and with status 1 in every other case.\<close>

theorem process_ends:
  assumes "pem_consumes X"
  shows "process L X C A parse getenv lname arguments =
    (case init_packages L of
       Ok _ \<Rightarrow> Some (Exited (if \<exists>p. parse (NewOptions getenv lname) arguments = Inr p
            \<and> (pa_version p \<or> (\<exists>config. command_succeeds X C A (pa_aggregated p) (pa_options p) config))
          then 0 else 1))
     | Error e \<Rightarrow> Some (Crashed (err_text e)) | Panic p \<Rightarrow> Some (Crashed p))"
proof -
  have "map_option main_exit (ServiceControllerCommand X C A parse getenv lname arguments) =
      Some (Exited (if \<exists>p. parse (NewOptions getenv lname) arguments = Inr p
            \<and> (pa_version p \<or> (\<exists>config. command_succeeds X C A (pa_aggregated p) (pa_options p) config))
          then 0 else 1))"
  proof (cases "parse (NewOptions getenv lname) arguments")
    case (Inr p)
    obtain r g' where r: "app_RunE X C A (pa_aggregated p) (pa_options p) initialGlobals = Some (r, g')" "\<And>q. r \<noteq> Panic q"
      using app_RunE_returns [OF assms] by blast
    then have "(\<exists>config. command_succeeds X C A (pa_aggregated p) (pa_options p) config) \<longleftrightarrow> (\<exists>added. r = Ok added)"
      using app_RunE_Ok_iff [OF assms, of C A "pa_aggregated p" "pa_options p"] by auto
    with r show ?thesis
      by (cases r) (auto simp: ServiceControllerCommand_def main_exit_def outcome_of_def Inr)
  qed (simp add: ServiceControllerCommand_def main_exit_def)
  then show ?thesis
    unfolding process_def by (cases "init_packages L") (simp_all only: result.case)
qed

lemma sample_configured:
  "configured sample_extern sample_cmd (ao_certOptions sample_opts)
     (convConfiguration_to_config (SetObjectDefaults_Configuration sample_v1Configuration) emptyConfiguration)"
proof -
  have "trimSpace ''B'' = ''B''" by code_simp
  then show ?thesis
    by (simp add: configured_def config_ok_def emptyConfiguration_def first_cert_ok_def key_ok_def sample_extern_def sample_cmd_def
        sample_opts_def convConfiguration_to_config_def SetObjectDefaults_Configuration_def SetDefaults_Configuration_def
        sample_v1Configuration_def asConfigCA_def)
qed

lemma sample_command_succeeds: "\<exists>config. command_succeeds sample_extern sample_cmd sample_app sample_aggregated sample_opts config"
proof -
  have "''garden'' \<notin> set (ao_generalExtensionClasses sample_opts)"
    by (simp add: sample_opts_def)
  then show ?thesis
    using sample_configured sample_run_succeeds unfolding command_succeeds_def sample_aggregated_def by fastforce
qed

theorem process_ends_witness:
  "process sample_init sample_extern sample_cmd sample_app sample_parse (\<lambda>_. '''') (\<lambda>n. n) [''--config=config.yaml''] = Some (Exited 0)
   \<and> process sample_init sample_extern sample_cmd (sample_app\<lparr>manager_Start := Some (ErrMsg ''no leader'')\<rparr>) sample_parse
       (\<lambda>_. '''') (\<lambda>n. n) [''--config=config.yaml''] = Some (Exited 1)
   \<and> process sample_init sample_extern sample_cmd sample_app (\<lambda>d a. Inl (ErrMsg ''unknown flag'')) (\<lambda>_. '''') (\<lambda>n. n) [''-x'']
      = Some (Exited 1)"
proof -
  obtain pkgs where "init_packages sample_init = Ok pkgs"
    by (rule sample_init_packages)
  then show ?thesis
    using sample_command_succeeds
    by (simp add: process_ends [OF sample_pem_consumes] sample_parse_def) (simp add: command_succeeds_def run_succeeds_def)
qed

end
