(* ===== verification/Deployer_Authority.thy ===== *)
theory Deployer_Authority
  imports Deployer_Objects
begin

text \<open>
  What the deployed roles and bindings allow. \<open>authorised\<close> says what a subject may do by a list of
  objects, the way the API server reads them; the deployments are compared with it.
\<close>

subsection \<open>Requests and rules\<close>

record access_request =
  rq_Verb :: string
  rq_Group :: string
  rq_Resource :: string
  rq_Namespace :: string \<comment> \<open>empty for an object without a namespace\<close>
  rq_Name :: string

definition listed :: "string list \<Rightarrow> string \<Rightarrow> bool" where
  "listed xs x \<longleftrightarrow> x \<in> set xs \<or> ''*'' \<in> set xs"

definition rule_allows :: "access_request \<Rightarrow> PolicyRule \<Rightarrow> bool" where
  "rule_allows q r \<longleftrightarrow> listed (pr_Verbs r) (rq_Verb q) \<and> listed (pr_APIGroups r) (rq_Group q)
     \<and> listed (pr_Resources r) (rq_Resource q)
     \<and> (pr_ResourceNames r = [] \<or> rq_Name q \<in> set (pr_ResourceNames r))"

definition role_allows :: "access_request \<Rightarrow> Role \<Rightarrow> bool" where
  "role_allows q r \<longleftrightarrow> list_ex (rule_allows q) (ro_Rules r)"

text \<open>
  A binding of a cluster role allows its rules everywhere; one of a role, in its own namespace, whether
  it refers to a role of that namespace or to a cluster role.
\<close>

definition cluster_wide :: "kobj list \<Rightarrow> Subject \<Rightarrow> access_request \<Rightarrow> bool" where
  "cluster_wide os s q \<longleftrightarrow> (\<exists>b r. KClusterRoleBinding b \<in> set os \<and> s \<in> set (rb_Subjects b)
     \<and> rr_Kind (rb_RoleRef b) = ''ClusterRole'' \<and> KClusterRole r \<in> set os
     \<and> om_Name (ro_Meta r) = rr_Name (rb_RoleRef b) \<and> role_allows q r)"

definition in_namespace :: "kobj list \<Rightarrow> Subject \<Rightarrow> access_request \<Rightarrow> bool" where
  "in_namespace os s q \<longleftrightarrow> (\<exists>b r. KRoleBinding b \<in> set os \<and> s \<in> set (rb_Subjects b)
     \<and> om_Namespace (rb_Meta b) = rq_Namespace q
     \<and> (rr_Kind (rb_RoleRef b) = ''Role'' \<and> KRole r \<in> set os \<and> om_Namespace (ro_Meta r) = rq_Namespace q
        \<or> rr_Kind (rb_RoleRef b) = ''ClusterRole'' \<and> KClusterRole r \<in> set os)
     \<and> om_Name (ro_Meta r) = rr_Name (rb_RoleRef b) \<and> role_allows q r)"

definition authorised :: "kobj list \<Rightarrow> Subject \<Rightarrow> access_request \<Rightarrow> bool" where
  "authorised os s q \<longleftrightarrow> cluster_wide os s q \<or> in_namespace os s q"

definition service_account :: "string \<Rightarrow> string \<Rightarrow> Subject" where
  "service_account ns n = \<lparr>su_Kind = ''ServiceAccount'', su_Name = n, su_Namespace = ns\<rparr>"

subsection \<open>What the roles of the controller allow\<close>

text \<open>
  The rules about certificates and their sources, in the cluster the controller works on, by verbs,
  group and resources; and what it needs in its own namespace.
\<close>

definition source_resources :: "(string \<times> string) list" where
  "source_resources = [(''networking.k8s.io'', ''ingresses''), (''gateway.networking.k8s.io'', ''gateways''),
     (''gateway.networking.k8s.io'', ''httproutes''), (''networking.istio.io'', ''gateways''),
     (''networking.istio.io'', ''virtualservices''), ('''', ''services'')]"

definition certificate_resources :: "bool \<Rightarrow> (string \<times> string) list" where
  "certificate_resources issuers = map (Pair ''cert.gardener.cloud'')
     ([''certificates'', ''certificates/status'', ''certificaterevocations'', ''certificaterevocations/status'']
      @ append_if issuers [''issuers'', ''issuers/status''])"

text \<open>A request with one of some verbs, for one of some resources.\<close>

definition asks :: "access_request \<Rightarrow> string list \<Rightarrow> (string \<times> string) list \<Rightarrow> bool" where
  "asks q verbs resources \<longleftrightarrow> rq_Verb q \<in> set verbs \<and> (rq_Group q, rq_Resource q) \<in> set resources"

text \<open>The authority over a whole cluster.\<close>

definition cluster_authority :: "bool \<Rightarrow> bool \<Rightarrow> access_request \<Rightarrow> bool" where
  "cluster_authority issuers dns q \<longleftrightarrow>
     asks q [''get'', ''list'', ''update'', ''watch''] source_resources
   \<or> asks q [''get'', ''list'', ''update'', ''watch'', ''create'', ''delete'']
       (('''', ''secrets'') # certificate_resources issuers)
   \<or> asks q [''create'', ''patch''] [('''', ''events'')]
   \<or> asks q [''get'', ''list'', ''update'', ''create'', ''watch''] [(''apiextensions.k8s.io'', ''customresourcedefinitions'')]
   \<or> dns \<and> asks q [''get'', ''list'', ''update'', ''watch'', ''create'', ''delete''] [(''dns.gardener.cloud'', ''dnsentries'')]"

text \<open>The authority the controller has for its leader election, and over its control plane's namespace.\<close>

definition lease_authority :: "access_request \<Rightarrow> bool" where
  "lease_authority q \<longleftrightarrow>
     (let locks = [('''', ''configmaps''), (''coordination.k8s.io'', ''leases'')] in
      asks q [''create''] locks
    \<or> asks q [''get'', ''watch'', ''update''] locks \<and> rq_Name q = ''shoot-cert-service'')"

definition control_authority :: "bool \<Rightarrow> access_request \<Rightarrow> bool" where
  "control_authority shoot q \<longleftrightarrow>
     (let all = [''get'', ''list'', ''update'', ''patch'', ''watch'', ''create'', ''delete''] in
      asks q [''get'', ''update''] [('''', ''configmaps'')] \<and> rq_Name q = ''gardener-extension-shoot-cert-service''
    \<or> asks q [''create''] [('''', ''configmaps'')]
    \<or> asks q all [if shoot then (''dns.gardener.cloud'', ''dnsentries'') else (''extensions.gardener.cloud'', ''dnsrecords'')]
    \<or> asks q [''get'', ''update'', ''list'', ''patch'', ''watch'']
        [(''cert.gardener.cloud'', ''issuers''), (''cert.gardener.cloud'', ''issuers/status'')]
    \<or> asks q all [('''', ''secrets'')]
    \<or> asks q [''create'', ''patch''] [('''', ''events''), (''events.k8s.io'', ''events'')])"

lemma asks_append: "asks q vs (xs @ ys) \<longleftrightarrow> asks q vs xs \<or> asks q vs ys"
  by (auto simp: asks_def)

lemma asks_Cons: "xs \<noteq> [] \<Longrightarrow> asks q vs (x # xs) \<longleftrightarrow> asks q vs [x] \<or> asks q vs xs"
  by (auto simp: asks_def)

lemma asks_Nil [simp]: "\<not> asks q vs []"
  by (simp add: asks_def)

lemma rule_allows_policy_rule:
  "''*'' \<notin> set vs \<Longrightarrow> ''*'' \<notin> set gs \<Longrightarrow> ''*'' \<notin> set rs \<Longrightarrow>
     rule_allows q (policy_rule gs rs vs) \<longleftrightarrow> asks q vs (List.product gs rs)"
  by (auto simp: rule_allows_def policy_rule_def listed_def asks_def)

lemma rule_allows_named:
  "''*'' \<notin> set vs \<Longrightarrow> ''*'' \<notin> set gs \<Longrightarrow> ''*'' \<notin> set rs \<Longrightarrow> ns \<noteq> [] \<Longrightarrow>
     rule_allows q \<lparr>pr_APIGroups = gs, pr_Resources = rs, pr_ResourceNames = ns, pr_Verbs = vs\<rparr>
       \<longleftrightarrow> asks q vs (List.product gs rs) \<and> rq_Name q \<in> set ns"
  by (auto simp: rule_allows_def listed_def asks_def)

lemma shoot_cluster_role_allows:
  "role_allows q (createShootClusterRole v) \<longleftrightarrow>
     cluster_authority (shootIssuersEnabled v) (dnsChallengeOnShootEnabled v) q"
  by (cases "shootIssuersEnabled v"; cases "dnsChallengeOnShootEnabled v";
      simp add: role_allows_def createShootClusterRole_def Let_def rule_allows_policy_rule
        cluster_authority_def source_resources_def certificate_resources_def asks_Cons disj_assoc)

lemma shoot_role_allows: "role_allows q (createShootRole v) \<longleftrightarrow> lease_authority q"
  by (simp add: role_allows_def createShootRole_def rule_allows_policy_rule rule_allows_named lease_authority_def
      Let_def asks_Cons) argo

lemma role_allows_createRole: "role_allows q (createRole v) \<longleftrightarrow> control_authority (vl_ShootDeployment v) q"
  by (simp add: role_allows_def createRole_def rule_allows_policy_rule rule_allows_named control_authority_def
      Let_def asks_Cons disj_assoc)

subsection \<open>What the deployments allow\<close>

lemma binding_simps [simp]:
  "rb_RoleRef (createRoleBinding v) = \<lparr>rr_APIGroup = ''rbac.authorization.k8s.io'', rr_Kind = ''Role'',
     rr_Name = shootCertServiceRoleName\<rparr>"
  "rb_RoleRef (createShootRoleBinding v) = \<lparr>rr_APIGroup = ''rbac.authorization.k8s.io'', rr_Kind = ''Role'', rr_Name = roleName\<rparr>"
  "rb_RoleRef (createShootClusterRoleBinding v) = \<lparr>rr_APIGroup = ''rbac.authorization.k8s.io'', rr_Kind = ''ClusterRole'',
     rr_Name = shootClusterRoleName v\<rparr>"
  "rb_Subjects (createRoleBinding v) = [service_account (vl_Namespace v) (chartNameSeed v)]"
  "rb_Subjects (createShootRoleBinding v) = [getServiceAccount v]"
  "rb_Subjects (createShootClusterRoleBinding v) = [getServiceAccount v]"
  "om_Namespace (rb_Meta (createRoleBinding v)) = vl_Namespace v"
  "om_Namespace (rb_Meta (createShootRoleBinding v)) = shootNamespace v"
  by (simp_all add: createRoleBinding_def createShootRoleBinding_def createShootClusterRoleBinding_def
      service_account_def shootCertServiceRoleName_def)

lemma role_simps [simp]:
  "om_Name (ro_Meta (createRole v)) = shootCertServiceRoleName" "om_Namespace (ro_Meta (createRole v)) = vl_Namespace v"
  "om_Name (ro_Meta (createShootRole v)) = roleName" "om_Namespace (ro_Meta (createShootRole v)) = shootNamespace v"
  "om_Name (ro_Meta (createShootClusterRole v)) = shootClusterRoleName v"
  by (simp_all add: createRole_def createShootRole_def createShootClusterRole_def Let_def)

lemma role_names_differ: "roleName \<noteq> shootCertServiceRoleName"
  by (simp add: roleName_def shootCertServiceRoleName_def)

lemma no_rbac_KCRD: "KRole r \<notin> KCRD ` A" "KRoleBinding b \<notin> KCRD ` A" "KClusterRole r \<notin> KCRD ` A"
  "KClusterRoleBinding b \<notin> KCRD ` A"
  by auto

lemma issuer_objects_no_rbac:
  assumes "createIssuers v = Ok (iobjs, is)"
  shows "KRole r \<notin> set (objs_of iobjs)" "KRoleBinding b \<notin> set (objs_of iobjs)"
    "KClusterRole r \<notin> set (objs_of iobjs)" "KClusterRoleBinding b \<notin> set (objs_of iobjs)"
  using createIssuers_kinds [OF assms] by blast+

lemma shootObjects_authority:
  assumes "shootObjects X D v = Ok objs"
  shows "authorised (objs_of objs) s q \<longleftrightarrow> s = getServiceAccount v \<and>
    (cluster_authority (shootIssuersEnabled v) (dnsChallengeOnShootEnabled v) q
     \<or> rq_Namespace q = shootNamespace v \<and> lease_authority q)"
proof -
  obtain crds where os: "objs_of objs = [KRole (createShootRole v), KRoleBinding (createShootRoleBinding v),
      KClusterRole (createShootClusterRole v), KClusterRoleBinding (createShootClusterRoleBinding v)]
      @ objs_of (map (Obj \<circ> KCRD) crds)"
    using assms by (auto simp: shootObjects_def rbind_Ok_iff)
  have crd: "set (objs_of (map (Obj \<circ> KCRD) crds)) = KCRD ` set crds"
    by (auto simp: set_objs_of)
  show ?thesis
    by (simp add: authorised_def cluster_wide_def in_namespace_def os crd no_rbac_KCRD shoot_cluster_role_allows
        shoot_role_allows) auto
qed

lemma seedObjects_authority:
  assumes "seedObjects X D v = Ok (objs, is)"
  shows "authorised (objs_of objs) s q \<longleftrightarrow> s = service_account (vl_Namespace v) (chartNameSeed v)
    \<and> rq_Namespace q = vl_Namespace v \<and> control_authority (vl_ShootDeployment v) q"
  using assms
  by (rule seedObjects_OkD)
    (auto simp: authorised_def cluster_wide_def in_namespace_def set_opt_obj issuer_objects_no_rbac role_allows_createRole)

lemma gardenOrSeedObjects_authority:
  assumes "gardenOrSeedObjects X D v = Ok (objs, is)" "\<not> vl_ShootDeployment v"
    "vl_CertClass v = ''garden'' \<or> vl_CertClass v = ''seed''"
  shows "authorised (objs_of objs) s q \<longleftrightarrow> s = service_account (vl_Namespace v) (chartNameSeed v) \<and>
    (cluster_authority False False q \<or> rq_Namespace q = vl_Namespace v \<and> (lease_authority q \<or> control_authority False q))"
proof -
  have v: "getServiceAccount v = service_account (vl_Namespace v) (chartNameSeed v)" "shootNamespace v = vl_Namespace v"
    "\<not> shootIssuersEnabled v" "\<not> dnsChallengeOnShootEnabled v"
    using assms(2,3) by (auto simp: getServiceAccount_def service_account_def instanceNameGardenOrSeed_def chartNameSeed_def
        CertManagementChartNameGarden_def CertManagementChartNameSeed_def shootNamespace_def shootIssuersEnabled_def
        dnsChallengeOnShootEnabled_def)
  show ?thesis
    using assms(1)
    by (rule gardenOrSeedObjects_OkD)
      (simp add: authorised_def cluster_wide_def in_namespace_def set_opt_obj issuer_objects_no_rbac no_rbac_KCRD
        role_allows_createRole shoot_cluster_role_allows shoot_role_allows v assms(2) role_names_differ
        role_names_differ [symmetric] conj_disj_distribL conj_disj_distribR ex_disj_distrib, auto)
qed

lemma shootObjects_total:
  assumes "assets_law D"
  obtains objs where "shootObjects X D v = Ok objs"
  using getShootCRDs_assets [OF assms, of X v] that by (auto simp: shootObjects_def)

text \<open>The flag that names the namespace is given once.\<close>

lemma namespace_flag: "flag ''namespace'' ns \<in> set (args v) \<longleftrightarrow> ns = shootNamespace v"
  by (auto simp: args_def dns_args_def key_args_def flag_def shootNamespace_def Let_def append_if_def
      split: option.splits bool.splits)

lemma lease_flag: "flag ''lease-name'' l \<in> set (args v) \<longleftrightarrow> l = ''shoot-cert-service''"
  by (auto simp: args_def dns_args_def key_args_def flag_def Let_def append_if_def split: option.splits bool.splits)

lemma lock_flag: "flag ''lease-resource-lock'' k \<in> set (args v) \<longleftrightarrow> k = ''leases''"
  by (auto simp: args_def dns_args_def key_args_def flag_def Let_def append_if_def split: option.splits bool.splits)

text \<open>The kinds of locks of client-go's leader election, by the group and resource of the object that is locked.\<close>

fun lock_resource :: "string \<Rightarrow> (string \<times> string) option" where
  "lock_resource kind = (if kind = ''leases'' then Some (''coordination.k8s.io'', ''leases'')
     else if kind = ''configmaps'' then Some ('''', ''configmaps'')
     else if kind = ''endpoints'' then Some ('''', ''endpoints'')
     else None)"

lemma lease_requests:
  "verb \<in> {''create'', ''get'', ''update''} \<Longrightarrow>
     lease_authority \<lparr>rq_Verb = verb, rq_Group = ''coordination.k8s.io'', rq_Resource = ''leases'', rq_Namespace = ns,
       rq_Name = ''shoot-cert-service''\<rparr>"
  by (auto simp: lease_authority_def asks_def Let_def)

subsection \<open>Properties\<close>

text \<open>C16: The deployed roles give authority to the controller's own service account only, and exactly this.
  On a shoot, in the whole cluster: reading and updating the sources of certificates (ingresses,
  services, gateways, routes, virtual services); everything but patching on certificates and
  revocations, on issuers if they are enabled there, on DNS entries if the challenge is, and on all
  secrets; creating and patching events; reading, creating and updating custom resource definitions. In
  the namespace of the controller there, its lock: creating leases and config maps, and reading and updating the
  one of its name. In the seed, in the namespace of the shoot's control plane and nowhere else:
  \<open>control_authority\<close> (DNS entries, secrets, issuers, events and config maps). On a garden or seed: the
  authority in the whole cluster without issuers and DNS entries, and in its own namespace
  that of the lock and of the control plane, with DNS records in place of DNS entries.\<close>

theorem controller_authority:
  "(vl_ShootDeployment v \<and> shootObjects X D v = Ok objs \<longrightarrow>
      authorised (objs_of objs) s q =
        (s = service_account ''kube-system'' ShootAccessServiceAccountName \<and>
         (cluster_authority (shootIssuersEnabled v) (dnsChallengeOnShootEnabled v) q
          \<or> rq_Namespace q = ''kube-system'' \<and> lease_authority q)))
   \<and> (vl_ShootDeployment v \<and> seedObjects X D v = Ok (objs, is) \<longrightarrow>
      authorised (objs_of objs) s q =
        (s = service_account (vl_Namespace v) (chartNameSeed v) \<and> rq_Namespace q = vl_Namespace v \<and> control_authority True q))
   \<and> (\<not> vl_ShootDeployment v \<and> vl_CertClass v \<in> {''garden'', ''seed''} \<and> gardenOrSeedObjects X D v = Ok (objs, is) \<longrightarrow>
      authorised (objs_of objs) s q =
        (s = service_account (vl_Namespace v) (chartNameSeed v) \<and>
         (cluster_authority False False q
          \<or> rq_Namespace q = vl_Namespace v \<and> (lease_authority q \<or> control_authority False q))))"
proof -
  have "getServiceAccount v = service_account ''kube-system'' ShootAccessServiceAccountName"
    "shootNamespace v = ''kube-system''" if "vl_ShootDeployment v"
    using that by (simp_all add: getServiceAccount_def service_account_def shootNamespace_def)
  then show ?thesis
    using shootObjects_authority [of X D v objs s q] seedObjects_authority [of X D v objs "is" s q]
      gardenOrSeedObjects_authority [of X D v objs "is" s q]
    by (intro conjI impI; elim conjE) simp_all
qed

theorem controller_authority_witness:
  "\<exists>objs. shootObjects sample_extern sample_deploy sample_values = Ok objs
     \<and> authorised (objs_of objs) (service_account ''kube-system'' ''extension-shoot-cert-service'')
         \<lparr>rq_Verb = ''update'', rq_Group = '''', rq_Resource = ''secrets'', rq_Namespace = ''default'', rq_Name = ''tls''\<rparr>
     \<and> (\<forall>s verb resource ns n. \<not> authorised (objs_of objs) s
         \<lparr>rq_Verb = verb, rq_Group = ''rbac.authorization.k8s.io'', rq_Resource = resource, rq_Namespace = ns, rq_Name = n\<rparr>)"
proof -
  obtain objs where ok: "shootObjects sample_extern sample_deploy sample_values = Ok objs"
    by (rule shootObjects_total [OF sample_assets_law])
  have shoot: "vl_ShootDeployment sample_values"
    by (simp add: sample_values_def emptyValues_def)
  note authority = controller_authority [THEN conjunct1, THEN mp, OF conjI, OF shoot ok]
  show ?thesis
    by (intro exI [of _ objs] conjI, rule ok)
      (simp_all add: authority cluster_authority_def lease_authority_def source_resources_def certificate_resources_def
        asks_def ShootAccessServiceAccountName_def ShootAccessSecretName_def Let_def)
qed

text \<open>C17: The controller can run for leader: its flags name exactly one namespace, one name and one kind of lock,
  the kind is one that client-go knows, and the roles deployed to the same cluster allow its service account to create, read
  and update the object of that kind, name and namespace.\<close>

theorem leader_election_permitted:
  assumes "shootObjects X D v = Ok objs \<and> vl_ShootDeployment v
      \<or> gardenOrSeedObjects X D v = Ok (objs, is) \<and> \<not> vl_ShootDeployment v \<and> vl_CertClass v \<in> {''garden'', ''seed''}"
  shows "\<exists>ns l kind group resource.
     (\<forall>x. flag ''namespace'' x \<in> set (args v) \<longleftrightarrow> x = ns)
   \<and> (\<forall>x. flag ''lease-name'' x \<in> set (args v) \<longleftrightarrow> x = l)
   \<and> (\<forall>x. flag ''lease-resource-lock'' x \<in> set (args v) \<longleftrightarrow> x = kind)
   \<and> lock_resource kind = Some (group, resource)
   \<and> list_all (\<lambda>verb. authorised (objs_of objs) (getServiceAccount v)
       \<lparr>rq_Verb = verb, rq_Group = group, rq_Resource = resource, rq_Namespace = ns, rq_Name = l\<rparr>)
       [''create'', ''get'', ''update'']"
proof -
  have "list_all (\<lambda>verb. authorised (objs_of objs) (getServiceAccount v)
      \<lparr>rq_Verb = verb, rq_Group = ''coordination.k8s.io'', rq_Resource = ''leases'', rq_Namespace = shootNamespace v,
       rq_Name = ''shoot-cert-service''\<rparr>) [''create'', ''get'', ''update'']"
    using assms
  proof (elim disjE conjE)
    assume "shootObjects X D v = Ok objs"
    from shootObjects_authority [OF this] show ?thesis
      by (simp add: lease_requests)
  next
    assume v: "\<not> vl_ShootDeployment v" "vl_CertClass v \<in> {''garden'', ''seed''}" and ok: "gardenOrSeedObjects X D v = Ok (objs, is)"
    then have "getServiceAccount v = service_account (vl_Namespace v) (chartNameSeed v)"
      by (auto simp: getServiceAccount_def service_account_def instanceNameGardenOrSeed_def chartNameSeed_def
          CertManagementChartNameGarden_def CertManagementChartNameSeed_def)
    with gardenOrSeedObjects_authority [OF ok] v show ?thesis
      by (auto simp: shootNamespace_def lease_requests)
  qed
  then show ?thesis
    using namespace_flag [of _ v] lease_flag [of _ v] lock_flag [of _ v]
    by (intro exI [of _ "shootNamespace v"] exI [of _ "''shoot-cert-service''"] exI [of _ "''leases''"]
        exI [of _ "''coordination.k8s.io''"]) simp
qed

theorem leader_election_permitted_witness:
  "\<exists>objs ns l kind group resource. shootObjects sample_extern sample_deploy sample_values = Ok objs
     \<and> set [flag ''namespace'' ns, flag ''lease-name'' l, flag ''lease-resource-lock'' kind] \<subseteq> set (args sample_values)
     \<and> lock_resource kind = Some (group, resource)
     \<and> authorised (objs_of objs) (getServiceAccount sample_values)
         \<lparr>rq_Verb = ''update'', rq_Group = group, rq_Resource = resource, rq_Namespace = ns, rq_Name = l\<rparr>"
proof -
  obtain objs where ok: "shootObjects sample_extern sample_deploy sample_values = Ok objs"
    by (rule shootObjects_total [OF sample_assets_law])
  have shoot: "vl_ShootDeployment sample_values"
    by (simp add: sample_values_def emptyValues_def)
  show ?thesis
    using leader_election_permitted [OF disjI1, OF conjI, OF ok shoot] ok
    by (elim exE conjE) (intro exI conjI, assumption, simp, assumption, simp)
qed

end
