(* ===== verification/Extension_Life.thy ===== *)
theory Extension_Life
  imports Controlplane_Controller
begin

text \<open>
  The life of Extension resources. Gardener's generic controllers call the operations of both
  actuators, for any Extension and in any order, and an operation may fail half-way; each one acts on
  the managed resource of its Extension. The theory follows, for every managed resource, what the last
  operations on it promise (its phase), and shows that what the controllers asked the API server for
  agrees with the phase after any run.
\<close>

subsection \<open>What an actuator does to managed resources\<close>

type_synonym mr_key = "string \<times> string"

text \<open>The only managed resources that an event creates (deletes) are in \<open>K\<close>, and it deletes (creates) none.\<close>

fun creates_within :: "mr_key set \<Rightarrow> event \<Rightarrow> bool" where
  "creates_within K (CreateManagedResource ns n _ _ _) = ((ns, n) \<in> K)"
| "creates_within K (DeleteManagedResource _ _) = False"
| "creates_within K _ = True"

fun deletes_within :: "mr_key set \<Rightarrow> event \<Rightarrow> bool" where
  "deletes_within K (CreateManagedResource _ _ _ _ _) = False"
| "deletes_within K (DeleteManagedResource ns n) = ((ns, n) \<in> K)"
| "deletes_within K _ = True"

lemma mr_wanted_Cons: "mr_wanted k b (e # evs) = mr_wanted k (mr_step k b e) evs"
  by (simp add: mr_wanted_def)

lemma mr_wanted_Nil [simp]: "mr_wanted k b [] = b"
  by (simp add: mr_wanted_def)

lemma creates_within_mono: "list_all (creates_within K) evs \<Longrightarrow> b \<Longrightarrow> mr_wanted k b evs"
proof (induction evs arbitrary: b)
  case (Cons e evs)
  then show ?case by (cases e) (auto simp: mr_wanted_Cons)
qed simp

lemma deletes_within_mono: "list_all (deletes_within K) evs \<Longrightarrow> \<not> b \<Longrightarrow> \<not> mr_wanted k b evs"
proof (induction evs arbitrary: b)
  case (Cons e evs)
  then show ?case by (cases e) (auto simp: mr_wanted_Cons)
qed simp

lemma within_other:
  "list_all (\<lambda>e. creates_within K e \<or> deletes_within K e) evs \<Longrightarrow> k \<notin> K \<Longrightarrow> mr_wanted k b evs = b"
proof (induction evs arbitrary: b)
  case (Cons e evs)
  then show ?case by (cases e) (auto simp: mr_wanted_Cons)
qed simp

subsection \<open>Operations and phases\<close>

datatype operation = OpReconcile | OpDelete | OpForceDelete | OpRestore | OpMigrate

text \<open>An operation of an actuator, given by its five methods.\<close>

definition run_operation :: "(Extension \<Rightarrow> unit io) \<Rightarrow> (Extension \<Rightarrow> unit io) \<Rightarrow> (Extension \<Rightarrow> unit io)
    \<Rightarrow> (Extension \<Rightarrow> unit io) \<Rightarrow> (Extension \<Rightarrow> unit io) \<Rightarrow> operation \<Rightarrow> Extension \<Rightarrow> unit io" where
  "run_operation reconcile delete forceDelete restore migrate op ex =
    (case op of OpReconcile \<Rightarrow> reconcile ex | OpDelete \<Rightarrow> delete ex | OpForceDelete \<Rightarrow> forceDelete ex
     | OpRestore \<Rightarrow> restore ex | OpMigrate \<Rightarrow> migrate ex)"

text \<open>What is known of a managed resource: nothing, that it is deployed, or that it is removed.\<close>

datatype phase = Unknown | Deployed | Removed

fun deploys_op :: "operation \<Rightarrow> bool" where
  "deploys_op OpReconcile = True"
| "deploys_op OpRestore = True"
| "deploys_op _ = False"

text \<open>A failed operation may have done its work or not, but never does the opposite.\<close>

definition next_phase :: "operation \<Rightarrow> bool \<Rightarrow> phase \<Rightarrow> phase" where
  "next_phase op success p =
    (let reached = (if deploys_op op then Deployed else Removed) in
     if success \<or> p = reached then reached else Unknown)"

definition phase_true :: "mr_key \<Rightarrow> phase \<Rightarrow> event list \<Rightarrow> bool" where
  "phase_true k p h \<longleftrightarrow> (case p of
      Unknown \<Rightarrow> True
    | Deployed \<Rightarrow> (\<forall>b. mr_wanted k b h)
    | Removed \<Rightarrow> (\<forall>b. \<not> mr_wanted k b h))"

text \<open>
  An actuator that can be followed: its operations touch the managed resource \<open>key\<close> of the Extension
  and those in \<open>others\<close>, a reconciliation deletes none, and a deletion creates none.
\<close>

locale followed_actuator = actuator +
  fixes others :: "Extension \<Rightarrow> mr_key set"
  assumes reconcile_creates: "emits (creates_within (insert (key ex) (others ex))) (reconcile ex)"
    and delete_deletes: "emits (deletes_within (insert (key ex) (others ex))) (delete ex)"
    and reconcile_own: "reconcile ex w = (Ok (), w') \<Longrightarrow> trace w' = trace w @ evs \<Longrightarrow> mr_wanted (key ex) b evs"
    and delete_own: "delete ex w = (Ok (), w') \<Longrightarrow> trace w' = trace w @ evs \<Longrightarrow> \<not> mr_wanted (key ex) b evs"
begin

lemma migrate_deletes: "emits (deletes_within (insert (key ex) (others ex))) (migrate ex)"
  unfolding migrate_eq by (intro appends_intros delete_deletes) simp

lemma operation_emits:
  "emits (if deploys_op op then creates_within (insert (key ex) (others ex))
      else deletes_within (insert (key ex) (others ex)))
    (run_operation reconcile delete forceDelete restore migrate op ex)"
  by (cases op) (simp_all add: run_operation_def restore_eq forceDelete_eq reconcile_creates
      delete_deletes migrate_deletes)

lemma operation_success:
  assumes "run_operation reconcile delete forceDelete restore migrate op ex w = (Ok u, w')"
  shows "mr_wanted (key ex) b (trace w') = deploys_op op"
  using assms reconcile_wanted delete_unwanted restore_wanted migrate_unwanted
  by (cases op) (auto simp: run_operation_def forceDelete_eq)

text \<open>Its own calls have the effect.\<close>

lemma operation_own:
  assumes "run_operation reconcile delete forceDelete restore migrate op ex w = (Ok (), w')"
    and "trace w' = trace w @ evs"
  shows "mr_wanted (key ex) b evs = deploys_op op"
proof (cases op)
  case OpMigrate
  let ?e = "SetKeepObjects (ex_Namespace ex) CertManagementResourceNameShoot True"
  let ?w = "w\<lparr>trace := trace w @ [?e]\<rparr>"
  have d: "delete ex ?w = (Ok (), w')"
    using assms(1) OpMigrate by (auto simp: run_operation_def migrate_eq ok_iffs)
  obtain evs' where "trace w' = trace ?w @ evs'"
    using emitsD [OF delete_deletes d] by blast
  then show ?thesis
    using delete_own [OF d, of evs' b] assms(2) OpMigrate by (simp add: mr_wanted_Cons)
qed (use assms reconcile_own delete_own in \<open>auto simp: run_operation_def restore_eq forceDelete_eq\<close>)

text \<open>What is as the operation wants it, it leaves so even when it fails.\<close>

lemma operation_keeps:
  assumes run: "run_operation reconcile delete forceDelete restore migrate op ex w = (r, w')"
    and old: "mr_wanted (key ex) b (trace w) = deploys_op op"
  shows "mr_wanted (key ex) b (trace w') = deploys_op op"
proof -
  obtain evs where evs: "trace w' = trace w @ evs"
      "list_all (if deploys_op op then creates_within (insert (key ex) (others ex))
         else deletes_within (insert (key ex) (others ex))) evs"
    using emitsD [OF operation_emits run] by blast
  show ?thesis
  proof (cases "deploys_op op")
    case True
    have "mr_wanted (key ex) (mr_wanted (key ex) b (trace w)) evs"
      by (rule creates_within_mono) (use evs(2) old True in simp_all)
    then show ?thesis using True evs(1) by (simp add: mr_wanted_append)
  next
    case False
    have "\<not> mr_wanted (key ex) (mr_wanted (key ex) b (trace w)) evs"
      by (rule deletes_within_mono) (use evs(2) old False in simp_all)
    then show ?thesis using False evs(1) by (simp add: mr_wanted_append)
  qed
qed

lemma operation_phase:
  assumes run: "run_operation reconcile delete forceDelete restore migrate op ex w = (r, w')"
    and old: "phase_true (key ex) p (trace w)"
  shows "phase_true (key ex) (next_phase op (is_Ok r) p) (trace w')"
proof -
  let ?reached = "if deploys_op op then Deployed else Removed"
  have reached: "phase_true (key ex) ?reached h \<longleftrightarrow> (\<forall>b. mr_wanted (key ex) b h = deploys_op op)" for h
    by (simp add: phase_true_def)
  show ?thesis
  proof (cases "is_Ok r \<or> p = ?reached")
    case True
    have "\<forall>b. mr_wanted (key ex) b (trace w') = deploys_op op"
    proof (cases "is_Ok r")
      case True
      then show ?thesis
        using operation_success [of op ex w _ w'] run by (cases r) simp_all
    next
      case False
      then have "\<forall>b. mr_wanted (key ex) b (trace w) = deploys_op op"
        using True old reached by blast
      then show ?thesis using operation_keeps [OF run] by blast
    qed
    then show ?thesis
      using True reached unfolding next_phase_def Let_def by simp
  next
    case False
    then show ?thesis unfolding next_phase_def Let_def by (simp add: phase_true_def)
  qed
qed

lemma operation_other:
  assumes run: "run_operation reconcile delete forceDelete restore migrate op ex w = (r, w')"
    and "k \<notin> insert (key ex) (others ex)"
  shows "mr_wanted k b (trace w') = mr_wanted k b (trace w)"
proof -
  obtain evs where evs: "trace w' = trace w @ evs"
      "list_all (if deploys_op op then creates_within (insert (key ex) (others ex))
         else deletes_within (insert (key ex) (others ex))) evs"
    using emitsD [OF operation_emits run] by blast
  have "list_all (\<lambda>e. creates_within (insert (key ex) (others ex)) e
      \<or> deletes_within (insert (key ex) (others ex)) e) evs"
    using evs(2) by (auto simp: list_all_iff split: if_splits)
  then show ?thesis
    using within_other [OF _ assms(2)] evs(1) by (simp add: mr_wanted_append)
qed

end

subsection \<open>Both actuators can be followed\<close>

lemma creates_within_shoot_Reconcile:
  "emits (creates_within {(ex_Namespace ex, CertManagementResourceNameSeed), (ex_Namespace ex, CertManagementResourceNameShoot)})
    (shoot_Reconcile E X D cfg ex)"
proof (rule emits_shoot_Reconcile_events)
  have "creates_within K e" if "\<not> is_write e" for K e
    using that by (cases e) simp_all
  then show "reconcile_events (creates_within {(ex_Namespace ex, CertManagementResourceNameSeed),
      (ex_Namespace ex, CertManagementResourceNameShoot)}) ex"
    by (simp add: reconcile_events_def)
qed

lemma deletes_within_shoot_Delete:
  "emits (deletes_within {(ex_Namespace ex, CertManagementResourceNameSeed), (ex_Namespace ex, CertManagementResourceNameShoot)})
    (shoot_Delete E ex)"
  unfolding shoot_Delete_def Let_def deleteShootResourcesForShoot_def dropShootResourcesForShoot_def
    deleteSeedResourcesForShoot_def DeleteShootManagedResourceAndWait_def DropShootManagedResource_def
    DeleteSeedManagedResourceAndWait_def
  by (intro appends_intros) simp_all

text \<open>The calls of an operation end in the one that decides.\<close>

lemma own_suffix:
  assumes "t' = t @ evs" "t' = (t @ pre) @ sfx" "\<And>b. mr_wanted k b sfx = v"
  shows "mr_wanted k b evs = v"
proof -
  have "evs = pre @ sfx" using assms(1,2) by simp
  then show ?thesis using assms(3) by (simp add: mr_wanted_append)
qed

lemma emits_more: "emits P m \<Longrightarrow> m w = (r, w') \<Longrightarrow> \<exists>pre. trace w' = trace w @ pre"
  by (blast dest: emitsD)

lemma shoot_Reconcile_own:
  assumes "shoot_Reconcile E X D cfg ex w = (Ok (), w')" "trace w' = trace w @ evs"
  shows "mr_wanted (ex_Namespace ex, CertManagementResourceNameSeed) b evs"
proof -
  let ?ns = "ex_Namespace ex"
  obtain cluster cc v wv wd where v: "shoot_createValues E D cfg cc cluster ?ns (w\<lparr>trace := trace w @ [GetCluster ?ns]\<rparr>) = (Ok (Some v), wv)"
    and d: "if cl_IsHibernated cluster then wd = wv else DeployShootManagedResource E X D v wv = (Ok (), wd)"
    and s: "\<exists>ws. DeploySeedManagedResource E X D v wd = (Ok (), ws)
       \<and> trace w' = trace ws @ [PatchExtensionStatus ?ns (ex_Name ex) (statusResources cc)]"
    using assms(1) by (rule shoot_Reconcile_Ok)
  obtain m1 where m1: "trace wv = trace w @ m1" and ns: "vl_Namespace v = ?ns"
    using v by (rule shoot_createValues_Ok) simp
  obtain m2 where m2: "trace wd = trace wv @ m2"
    using d by (cases "cl_IsHibernated cluster") (auto elim!: DeployShoot_success)
  obtain data m3 where "trace w' = trace wd @ m3 @ [CreateManagedResource ?ns CertManagementResourceNameSeed
      (SeedResourceManagerClass X) data False, PatchExtensionStatus ?ns (ex_Name ex) (statusResources cc)]"
    using s ns by (auto elim!: DeploySeed_success)
  then have w': "trace w' = (trace w @ m1 @ m2 @ m3) @ [CreateManagedResource ?ns CertManagementResourceNameSeed
      (SeedResourceManagerClass X) data False, PatchExtensionStatus ?ns (ex_Name ex) (statusResources cc)]"
    by (simp add: m1 m2)
  have "mr_wanted (?ns, CertManagementResourceNameSeed) b evs = True"
    by (rule own_suffix [OF assms(2) w']) (simp add: mr_wanted_Cons)
  then show ?thesis by simp
qed

lemma shoot_Delete_own:
  assumes "shoot_Delete E ex w = (Ok (), w')" "trace w' = trace w @ evs"
  shows "\<not> mr_wanted (ex_Namespace ex, CertManagementResourceNameSeed) b evs"
proof -
  let ?ns = "ex_Namespace ex"
  obtain r w0 r1 w1 where w0: "attempt (deleteShootResourcesForShoot E ?ns) w = (Ok r, w0)"
    and w1: "(case r of Inr _ \<Rightarrow> ret () | Inl err \<Rightarrow>
           bind (attempt (call (GetCluster ?ns) (\<lambda>h. e_cluster E h ?ns))) (\<lambda>cluster.
           bind get_world (\<lambda>w. if deletingForLong cluster (e_now E (trace w))
             then dropShootResourcesForShoot E ?ns else fail err))) w0 = (Ok r1, w1)"
    and d: "DeleteSeedManagedResourceAndWait E (deletionValues ?ns) (2 * minute) w1 = (Ok (), w')"
    using assms(1) unfolding shoot_Delete_def Let_def bind_Ok_iff deleteSeedResourcesForShoot_def by blast
  have e: "emits (\<lambda>_. True) (attempt (deleteShootResourcesForShoot E ?ns))"
    "emits (\<lambda>_. True) (case r of Inr _ \<Rightarrow> ret () | Inl err \<Rightarrow>
           bind (attempt (call (GetCluster ?ns) (\<lambda>h. e_cluster E h ?ns))) (\<lambda>cluster.
           bind get_world (\<lambda>w. if deletingForLong cluster (e_now E (trace w))
             then dropShootResourcesForShoot E ?ns else fail err)))"
    unfolding deleteShootResourcesForShoot_def dropShootResourcesForShoot_def
      DeleteShootManagedResourceAndWait_def DropShootManagedResource_def
    by (intro appends_intros; simp)+
  obtain m where m: "trace w1 = trace w @ m"
    using emits_more [OF e(1) w0] emits_more [OF e(2) w1] by fastforce
  obtain m2 t where "trace w' = trace w1 @ m2 @ [DeleteManagedResource ?ns CertManagementResourceNameSeed,
      WaitUntilDeleted ?ns CertManagementResourceNameSeed t]"
    using seed_mr.remove_success [OF d] by auto
  then have w': "trace w' = (trace w @ m @ m2) @ [DeleteManagedResource ?ns CertManagementResourceNameSeed,
      WaitUntilDeleted ?ns CertManagementResourceNameSeed t]"
    by (simp add: m)
  have "mr_wanted (?ns, CertManagementResourceNameSeed) b evs = False"
    by (rule own_suffix [OF assms(2) w']) (simp add: mr_wanted_Cons)
  then show ?thesis by simp
qed

interpretation shoot_life: followed_actuator E "shoot_Reconcile E X D cfg" "shoot_Delete E" "shoot_ForceDelete E"
  "shoot_Restore E X D cfg" "shoot_Migrate E" "\<lambda>ex. (ex_Namespace ex, CertManagementResourceNameSeed)"
  "\<lambda>ex. {(ex_Namespace ex, CertManagementResourceNameShoot)}"
  for E :: env and X :: extern and D :: deploy_extern and cfg :: Configuration
  by unfold_locales (rule creates_within_shoot_Reconcile, rule deletes_within_shoot_Delete,
      rule shoot_Reconcile_own, assumption, assumption, rule shoot_Delete_own)

lemma certificateStep_within:
  "emits (creates_within K) (certificateStep E X cc ex)"
  "emits (deletes_within K) (gardenCert_delete E X ex)"
proof -
  have "creates_within K e \<and> deletes_within K e" if "\<not> mr_event e" for e
    using that by (cases e) simp_all
  then show "emits (creates_within K) (certificateStep E X cc ex)"
    "emits (deletes_within K) (gardenCert_delete E X ex)"
    by (auto intro: emits_mono [OF no_mr_certificateStep] emits_mono [OF no_mr_gardenCert(1)])
qed

lemma creates_within_cp_Reconcile: "emits (creates_within {cp_key E ex}) (cp_Reconcile E X D cfg ex)"
  unfolding cp_Reconcile_def createResourcesForGardenOrSeed_def cp_updateStatus_def
proof (rule emits_bind, rule emits_pure, rule emits_bind_ok, rule emits_pure, rule emits_bind)
  fix cc v and w w' :: world
  assume "pure_res (cp_createValues E D cfg cc (ex_Namespace ex) ex) w = (Ok v, w')"
  then have "(vl_Namespace v, resourceNameGardenOrSeed v) = cp_key E ex"
    by (intro cp_createValues_Ok(1)) (auto simp: basic_Ok_iff)
  then show "emits (creates_within {cp_key E ex}) (DeployGardenOrSeedManagedResource E X D v)"
    by (intro emits_deploy(3)) simp_all
qed (intro appends_intros certificateStep_within, simp)

lemma deletes_within_cp_Delete: "emits (deletes_within {cp_key E ex}) (cp_Delete E X ex)"
  unfolding cp_Delete_def deleteResourcesForGardenOrSeed_def DeleteGardenOrSeedManagedResourceAndWait_def
  by (intro appends_intros certificateStep_within) (simp_all add: cp_key_def)

lemma cp_Reconcile_own:
  assumes "cp_Reconcile E X D cfg ex w = (Ok (), w')" "trace w' = trace w @ evs"
  shows "mr_wanted (cp_key E ex) b evs"
proof -
  obtain cc v wd wc where v: "cp_createValues E D cfg cc (ex_Namespace ex) ex = Ok v"
    and d: "DeployGardenOrSeedManagedResource E X D v w = (Ok (), wd)"
    and c: "certificateStep E X cc ex wd = (Ok (), wc)" and u: "cp_updateStatus E ex cc wc = (Ok (), w')"
    using assms(1) by (rule cp_Reconcile_Ok)
  have s: "emits (\<lambda>e. \<not> mr_event e) (cp_updateStatus E ex cc)"
    unfolding cp_updateStatus_def by (intro appends_intros) simp
  obtain m1 m2 where m: "trace w' = trace wd @ m1 @ m2" "list_all (\<lambda>e. \<not> mr_event e) (m1 @ m2)"
    using emitsD [OF no_mr_certificateStep c] emitsD [OF s u] by fastforce
  obtain data m0 where "trace wd = trace w @ m0 @ [CreateManagedResource (vl_Namespace v) (resourceNameGardenOrSeed v)
      (SeedResourceManagerClass X) data False]"
    using d by (rule DeployGardenOrSeed_success)
  then have w': "trace w' = (trace w @ m0) @ (CreateManagedResource (vl_Namespace v) (resourceNameGardenOrSeed v)
      (SeedResourceManagerClass X) data False # m1 @ m2)"
    by (simp add: m(1))
  have "mr_wanted (cp_key E ex) b evs = True"
    by (rule own_suffix [OF assms(2) w'])
      (use mr_wanted_other [OF m(2), of _ _ "[]"] cp_createValues_Ok(1) [OF v] in \<open>simp add: mr_wanted_Cons\<close>)
  then show ?thesis by simp
qed

lemma cp_Delete_own:
  assumes "cp_Delete E X ex w = (Ok (), w')" "trace w' = trace w @ evs"
  shows "\<not> mr_wanted (cp_key E ex) b evs"
proof -
  obtain r1 w1 where w1: "(if isGardenDeployment ex then gardenCert_delete E X ex else ret ()) w = (Ok r1, w1)"
    and d: "DeleteGardenOrSeedManagedResourceAndWait E (gardenOrSeedDeletionValues E ex) (2 * minute) w1 = (Ok (), w')"
    using assms(1) unfolding cp_Delete_def bind_Ok_iff deleteResourcesForGardenOrSeed_def by blast
  have e: "emits (\<lambda>e. \<not> mr_event e) (if isGardenDeployment ex then gardenCert_delete E X ex else ret ())"
    by (intro appends_intros)
  obtain m where m: "trace w1 = trace w @ m"
    using emits_more [OF e w1] by blast
  obtain m2 t where "trace w' = trace w1 @ m2 @ [DeleteManagedResource (fst (cp_key E ex)) (snd (cp_key E ex)),
      WaitUntilDeleted (fst (cp_key E ex)) (snd (cp_key E ex)) t]"
    using garden_mr.remove_success [OF d] unfolding cp_key_def by blast
  then have w': "trace w' = (trace w @ m @ m2) @ [DeleteManagedResource (fst (cp_key E ex)) (snd (cp_key E ex)),
      WaitUntilDeleted (fst (cp_key E ex)) (snd (cp_key E ex)) t]"
    by (simp add: m)
  have "mr_wanted (cp_key E ex) b evs = False"
    by (rule own_suffix [OF assms(2) w']) (simp add: mr_wanted_Cons)
  then show ?thesis by simp
qed

interpretation cp_life: followed_actuator E "cp_Reconcile E X D cfg" "cp_Delete E X" "cp_ForceDelete E X"
  "cp_Restore E X D cfg" "cp_Migrate E X" "cp_key E" "\<lambda>ex. {}"
  for E :: env and X :: extern and D :: deploy_extern and cfg :: Configuration
  by unfold_locales (rule creates_within_cp_Reconcile, rule deletes_within_cp_Delete,
      rule cp_Reconcile_own, assumption, assumption, rule cp_Delete_own)

subsection \<open>Runs of the controllers\<close>

datatype actuator_kind = Shoots | GardensOrSeeds

definition perform :: "env \<Rightarrow> extern \<Rightarrow> deploy_extern \<Rightarrow> Configuration \<Rightarrow> actuator_kind \<Rightarrow> operation
    \<Rightarrow> Extension \<Rightarrow> unit io" where
  "perform E X D cfg c op ex = (case c of
      Shoots \<Rightarrow> run_operation (shoot_Reconcile E X D cfg) (shoot_Delete E) (shoot_ForceDelete E)
        (shoot_Restore E X D cfg) (shoot_Migrate E) op ex
    | GardensOrSeeds \<Rightarrow> run_operation (cp_Reconcile E X D cfg) (cp_Delete E X) (cp_ForceDelete E X)
        (cp_Restore E X D cfg) (cp_Migrate E X) op ex)"

text \<open>The managed resource of an Extension, and the further one of a shoot.\<close>

definition managed_key :: "env \<Rightarrow> actuator_kind \<Rightarrow> Extension \<Rightarrow> mr_key" where
  "managed_key E c ex = (case c of Shoots \<Rightarrow> (ex_Namespace ex, CertManagementResourceNameSeed)
     | GardensOrSeeds \<Rightarrow> cp_key E ex)"

definition further_keys :: "actuator_kind \<Rightarrow> Extension \<Rightarrow> mr_key set" where
  "further_keys c ex = (case c of Shoots \<Rightarrow> {(ex_Namespace ex, CertManagementResourceNameShoot)}
     | GardensOrSeeds \<Rightarrow> {})"

definition next_phases :: "env \<Rightarrow> actuator_kind \<Rightarrow> operation \<Rightarrow> Extension \<Rightarrow> bool \<Rightarrow> (mr_key \<Rightarrow> phase) \<Rightarrow> mr_key \<Rightarrow> phase" where
  "next_phases E c op ex success ph k =
    (if k = managed_key E c ex then next_phase op success (ph k)
     else if k \<in> further_keys c ex then Unknown else ph k)"

text \<open>
  The runs: they start in any world, with nothing known, and each step is one operation, of any
  actuator, on any Extension, as the environment lets it end. Whole operations alternate here; that the
  calls of operations on different Extensions interleave is the matter of the section on concurrency.
\<close>

inductive life :: "env \<Rightarrow> extern \<Rightarrow> deploy_extern \<Rightarrow> Configuration \<Rightarrow> world \<Rightarrow> (mr_key \<Rightarrow> phase) \<Rightarrow> bool"
  for E :: env and X :: extern and D :: deploy_extern and cfg :: Configuration where
  life_start: "life E X D cfg w (\<lambda>_. Unknown)"
| life_step: "life E X D cfg w ph \<Longrightarrow> perform E X D cfg c op ex w = (r, w')
    \<Longrightarrow> life E X D cfg w' (next_phases E c op ex (is_Ok r) ph)"

inductive_cases life_cases: "life E X D cfg w ph"

lemma perform_phase:
  assumes "perform E X D cfg c op ex w = (r, w')" "phase_true (managed_key E c ex) p (trace w)"
  shows "phase_true (managed_key E c ex) (next_phase op (is_Ok r) p) (trace w')"
proof (cases c)
  case Shoots
  then show ?thesis
    using shoot_life.operation_phase [of E X D cfg op ex w r w' p] assms
    by (simp add: perform_def managed_key_def)
next
  case GardensOrSeeds
  then show ?thesis
    using cp_life.operation_phase [of E X D cfg op ex w r w' p] assms
    by (simp add: perform_def managed_key_def)
qed

lemma perform_other:
  assumes "perform E X D cfg c op ex w = (r, w')" "k \<notin> insert (managed_key E c ex) (further_keys c ex)"
  shows "mr_wanted k b (trace w') = mr_wanted k b (trace w)"
proof (cases c)
  case Shoots
  then show ?thesis
    using shoot_life.operation_other [of E X D cfg op ex w r w' k b] assms
    by (simp add: perform_def managed_key_def further_keys_def)
next
  case GardensOrSeeds
  then show ?thesis
    using cp_life.operation_other [of E X D cfg op ex w r w' k b] assms
    by (simp add: perform_def managed_key_def further_keys_def)
qed

text \<open>C4: After any run of the two controllers, in which operations on any Extensions alternate and
  fail as the environment decides, a managed resource whose phase is deployed is wanted and one whose
  phase is removed is not: the last successful operation decides, and neither failures of the same
  kind nor operations on other Extensions undo it.\<close>

theorem phases_true_in_every_run:
  assumes "life E X D cfg w ph"
  shows "phase_true k (ph k) (trace w)"
  using assms
proof induction
  case (life_start w)
  then show ?case by (simp add: phase_true_def)
next
  case (life_step w ph c op ex r w')
  show ?case
  proof (cases "k = managed_key E c ex")
    case True
    then show ?thesis
      using perform_phase [OF life_step.hyps(2)] life_step.IH by (simp add: next_phases_def)
  next
    case False
    then show ?thesis
      using perform_other [OF life_step.hyps(2), of k] life_step.IH
      by (cases "ph k") (simp_all add: next_phases_def phase_true_def)
  qed
qed

text \<open>A run: a shoot's Extension is reconciled.\<close>

theorem phases_true_in_every_run_witness:
  "\<exists>w ph. life sample_env sample_extern sample_deploy sample_configuration w ph
     \<and> ph (''shoot--dev--foo'', CertManagementResourceNameSeed) = Deployed
     \<and> phase_true (''shoot--dev--foo'', CertManagementResourceNameSeed) Deployed (trace w)"
proof -
  obtain w where "shoot_Reconcile sample_env sample_extern sample_deploy sample_configuration sample_extension initial = (Ok (), w)"
    by (rule sample_shoot_Reconcile)
  then have run: "perform sample_env sample_extern sample_deploy sample_configuration Shoots OpReconcile sample_extension initial = (Ok (), w)"
    by (simp add: perform_def run_operation_def)
  let ?ph = "next_phases sample_env Shoots OpReconcile sample_extension (is_Ok (Ok ())) (\<lambda>_. Unknown)"
  have life: "life sample_env sample_extern sample_deploy sample_configuration w ?ph"
    by (rule life_step [OF life_start run])
  have ph: "?ph (''shoot--dev--foo'', CertManagementResourceNameSeed) = Deployed"
    by (simp add: next_phases_def managed_key_def sample_extension_def next_phase_def)
  show ?thesis
    using phases_true_in_every_run [OF life, of "(''shoot--dev--foo'', CertManagementResourceNameSeed)"] life ph
    by (metis (no_types))
qed

subsection \<open>Concurrency\<close>

text \<open>
  The workers of the controllers run at the same time: the calls that reach the API server are those of
  several operations, in any order between them. What happens to one managed resource depends on the
  calls that name it only.
\<close>

fun names_mr :: "mr_key \<Rightarrow> event \<Rightarrow> bool" where
  "names_mr k (CreateManagedResource ns n _ _ _) = ((ns, n) = k)"
| "names_mr k (DeleteManagedResource ns n) = ((ns, n) = k)"
| "names_mr k _ = False"

lemma mr_wanted_names: "mr_wanted k b evs = mr_wanted k b (filter (names_mr k) evs)"
proof (induction evs arbitrary: b)
  case (Cons e evs)
  have "\<not> names_mr k e \<Longrightarrow> mr_step k b e = b" by (cases e) auto
  then show ?case using Cons.IH by (simp add: mr_wanted_Cons)
qed simp

lemma filter_labelled:
  assumes "\<And>j e. (j, e) \<in> set calls \<Longrightarrow> j \<noteq> i \<Longrightarrow> \<not> P e"
  shows "filter P (map snd calls) = filter P (map snd (filter (\<lambda>(l, e). l = i) calls))"
proof -
  have "filter (P \<circ> snd) calls = filter (\<lambda>x. (case x of (l, e) \<Rightarrow> l = i) \<and> P (snd x)) calls"
    by (rule filter_cong) (use assms in \<open>auto, blast\<close>)
  then show ?thesis by (simp add: filter_map comp_def)
qed

text \<open>The calls of an operation, in the world where it starts.\<close>

definition calls_of :: "'a io \<Rightarrow> world \<Rightarrow> event list" where
  "calls_of m w = drop (length (trace w)) (trace (snd (m w)))"

lemma perform_emits:
  "emits (\<lambda>e. creates_within (insert (managed_key E c ex) (further_keys c ex)) e
      \<or> deletes_within (insert (managed_key E c ex) (further_keys c ex)) e) (perform E X D cfg c op ex)"
proof (cases c)
  case Shoots
  then show ?thesis
    using emits_mono [OF shoot_life.operation_emits [where ex = ex and op = op and E = E and X = X and D = D and cfg = cfg]]
    by (auto simp: perform_def managed_key_def further_keys_def split: if_splits)
next
  case GardensOrSeeds
  then show ?thesis
    using emits_mono [OF cp_life.operation_emits [where ex = ex and op = op and E = E and X = X and D = D and cfg = cfg]]
    by (auto simp: perform_def managed_key_def further_keys_def split: if_splits)
qed

lemma perform_calls: "trace (snd (perform E X D cfg c op ex w)) = trace w @ calls_of (perform E X D cfg c op ex) w"
  using perform_emits [of E c ex X D cfg op] unfolding emits_def calls_of_def
  by (metis append_eq_conv_conj)

lemma perform_own:
  assumes "fst (perform E X D cfg c op ex w) = Ok ()"
  shows "mr_wanted (managed_key E c ex) b (calls_of (perform E X D cfg c op ex) w) = deploys_op op"
proof -
  obtain w' where run: "perform E X D cfg c op ex w = (Ok (), w')"
    using assms by (cases "perform E X D cfg c op ex w") simp
  then have t: "trace w' = trace w @ calls_of (perform E X D cfg c op ex) w"
    using perform_calls [of E X D cfg c op ex w] by simp
  show ?thesis
  proof (cases c)
    case Shoots
    then show ?thesis
      using shoot_life.operation_own [OF _ t, of E X D cfg op ex b] run
      by (simp add: perform_def managed_key_def)
  next
    case GardensOrSeeds
    then show ?thesis
      using cp_life.operation_own [OF _ t, of E X D cfg op ex b] run
      by (simp add: perform_def managed_key_def)
  qed
qed

lemma perform_names_no_other:
  assumes "k \<notin> insert (managed_key E c ex) (further_keys c ex)" "e \<in> set (calls_of (perform E X D cfg c op ex) w)"
  shows "\<not> names_mr k e"
proof -
  let ?K = "insert (managed_key E c ex) (further_keys c ex)"
  obtain evs where "trace (snd (perform E X D cfg c op ex w)) = trace w @ evs"
    "list_all (\<lambda>e. creates_within ?K e \<or> deletes_within ?K e) evs"
    using perform_emits unfolding emits_def by blast
  then have "creates_within ?K e \<or> deletes_within ?K e"
    using assms(2) perform_calls [of E X D cfg c op ex w] by (simp add: list_all_iff)
  then show ?thesis using assms(1) by (cases e) auto
qed

text \<open>C5: Concurrency: when the calls of any number of operations interleave in any way, after any
  history, an operation that succeeds has its effect on the managed resource of its Extension, if the
  others are on Extensions with other managed resources: reconciled or restored, it is wanted,
  otherwise it is not. Each operation has an environment of its own, whose answers may reflect what the
  others did meanwhile.\<close>

theorem operations_interleave:
  assumes "fst ` set calls \<subseteq> I"
    and "\<And>j. j \<in> I \<Longrightarrow> map snd (filter (\<lambda>(l, e). l = j) calls)
      = calls_of (perform (E j) X D cfg (c j) (op j) (ex j)) (w j)"
    and "i \<in> I" "fst (perform (E i) X D cfg (c i) (op i) (ex i) (w i)) = Ok ()"
    and "\<And>j. j \<in> I \<Longrightarrow> j \<noteq> i \<Longrightarrow> managed_key (E i) (c i) (ex i)
      \<notin> insert (managed_key (E j) (c j) (ex j)) (further_keys (c j) (ex j))"
  shows "mr_wanted (managed_key (E i) (c i) (ex i)) b (h @ map snd calls) = deploys_op (op i)"
proof -
  let ?k = "managed_key (E i) (c i) (ex i)"
  have others: "\<not> names_mr ?k e" if "(j, e) \<in> set calls" "j \<noteq> i" for j e
  proof (rule perform_names_no_other)
    show "?k \<notin> insert (managed_key (E j) (c j) (ex j)) (further_keys (c j) (ex j))"
      using assms(1,5) that by force
    have j: "j \<in> I" using assms(1) that(1) by force
    have "e \<in> set (map snd (filter (\<lambda>(l, e). l = j) calls))" using that(1) by force
    then show "e \<in> set (calls_of (perform (E j) X D cfg (c j) (op j) (ex j)) (w j))"
      by (simp only: assms(2) [OF j])
  qed
  have "filter (names_mr ?k) (map snd calls) = filter (names_mr ?k) (map snd (filter (\<lambda>(l, e). l = i) calls))"
    using others by (rule filter_labelled)
  then have "mr_wanted ?k b' (map snd calls) = mr_wanted ?k b' (map snd (filter (\<lambda>(l, e). l = i) calls))" for b'
    by (metis mr_wanted_names)
  then show ?thesis
    using perform_own [OF assms(4)] assms(2) [OF assms(3)] by (simp add: mr_wanted_append)
qed

text \<open>The reconciliation of a shoot's Extension and the deletion of a garden's.\<close>

theorem operations_interleave_witness:
  "\<exists>calls. set (map fst calls) = {False, True}
     \<and> mr_wanted (''shoot--dev--foo'', CertManagementResourceNameSeed) False (map snd calls)"
proof -
  let ?c = "\<lambda>j. if j then GardensOrSeeds else Shoots"
  let ?op = "\<lambda>j. if j then OpDelete else OpReconcile"
  let ?ex = "\<lambda>j. if j then sample_garden_extension else sample_extension"
  let ?own = "\<lambda>j. calls_of (perform sample_env sample_extern sample_deploy sample_configuration (?c j) (?op j) (?ex j)) initial"
  let ?calls = "map (Pair True) (?own True) @ map (Pair False) (?own False)"
  obtain w' where w': "shoot_Reconcile sample_env sample_extern sample_deploy sample_configuration sample_extension initial = (Ok (), w')"
    by (rule sample_shoot_Reconcile)
  have ok: "fst (perform sample_env sample_extern sample_deploy sample_configuration (?c False) (?op False) (?ex False) initial) = Ok ()"
    using w' by (simp add: perform_def run_operation_def)
  have keys: "managed_key sample_env (?c False) (?ex False)
      \<notin> insert (managed_key sample_env (?c j) (?ex j)) (further_keys (?c j) (?ex j))" if "j \<noteq> False" for j
    using that sample_class
    by (simp add: managed_key_def further_keys_def cp_key_def gardenOrSeedDeletionValues_def
        setValuesForGardenOrSeed_def emptyValues_def sample_garden_extension_def sample_extension_def)
  have own: "map snd (filter (\<lambda>(l, e). l = j) ?calls) = ?own j" for j
    by (cases j) (simp_all add: filter_map comp_def)
  have wanted: "mr_wanted (managed_key sample_env (?c False) (?ex False)) False ([] @ map snd ?calls) = deploys_op (?op False)"
    by (rule operations_interleave [where I = UNIV and E = "\<lambda>_. sample_env" and w = "\<lambda>_. initial" and i = False,
          OF subset_UNIV own UNIV_I ok keys])
  have "?own False \<noteq> []"
    using perform_own [OF ok, of False] by auto
  moreover have "?own True \<noteq> []"
    using sample_class
    by (simp add: calls_of_def perform_def run_operation_def cp_Delete_def gardenCert_delete_def
        deleteResourcesForGardenOrSeed_def DeleteGardenOrSeedManagedResourceAndWait_def deleteAndWait_def
        patchHashAnnotation_def io_simps initial_def sample_garden_extension_def)
  ultimately have "set (map fst ?calls) = {False, True}" by force
  then show ?thesis
    using wanted by (intro exI [of _ ?calls]) (simp add: managed_key_def sample_extension_def)
qed

subsection \<open>The life of a certificate\<close>

text \<open>Whether a certificate is wanted, by the last call that applied or deleted it.\<close>

fun cert_step :: "mr_key \<Rightarrow> bool \<Rightarrow> event \<Rightarrow> bool" where
  "cert_step k b (ApplyCertificate c) = (if (ce_Namespace c, ce_Name c) = k then True else b)"
| "cert_step k b (DeleteCertificate ns n) = (if (ns, n) = k then False else b)"
| "cert_step k b _ = b"

definition cert_wanted :: "mr_key \<Rightarrow> bool \<Rightarrow> event list \<Rightarrow> bool" where
  "cert_wanted k b h = foldl (cert_step k) b h"

lemma cert_wanted_append: "cert_wanted k b (h @ h') = cert_wanted k (cert_wanted k b h) h'"
  by (simp add: cert_wanted_def)

fun cert_event :: "event \<Rightarrow> bool" where
  "cert_event (ApplyCertificate _) = True"
| "cert_event (DeleteCertificate _ _) = True"
| "cert_event _ = False"

lemma cert_wanted_other: "list_all (\<lambda>e. \<not> cert_event e) evs \<Longrightarrow> cert_wanted k b evs = b"
proof (induction evs arbitrary: b)
  case (Cons e evs)
  then show ?case by (cases e) (simp_all add: cert_wanted_def)
qed (simp add: cert_wanted_def)

lemma cert_wanted_kept:
  assumes "emits (\<lambda>e. \<not> cert_event e) m" "m w = (r, w')"
  shows "cert_wanted k b (trace w') = cert_wanted k b (trace w)"
  using emitsD [OF assms] by (auto simp: cert_wanted_append cert_wanted_other)

lemma cpCert_reconcile_wanted:
  assumes "certificates_named E" "cpCert_reconcile E X r w = (Ok (), w')"
  shows "cert_wanted (GardenNamespace, SecretNameControlPlaneCert) b (trace w')"
proof -
  obtain w1 where "CreateOrGetAndMergePatch E cpCert_newCertificate (cpCert_mutate X r) w1 = (Ok (), w')"
    using assms(2) unfolding cpCert_reconcile_def bind_Ok_iff wrapping_Ok_iff by blast
  then obtain cert bases base where m: "cpCert_mutate X r (base_of cpCert_newCertificate base) = Ok cert"
    and p: "e_patch E (trace w1) (ce_Namespace cpCert_newCertificate) (ce_Name cpCert_newCertificate) = PatchWrites bases base"
    and w': "trace w' = trace w1 @ [MergePatchCertificate GardenNamespace SecretNameControlPlaneCert, ApplyCertificate cert]"
    by (auto simp: CreateOrGetAndMergePatch_Ok Let_def)
  have "ce_Namespace cert = GardenNamespace \<and> ce_Name cert = SecretNameControlPlaneCert"
    using mutate_keeps_name(2) [OF m] certificates_namedD [OF assms(1) p] by simp
  then show ?thesis
    by (simp add: w' cert_wanted_append) (simp add: cert_wanted_def)
qed

lemma reconcileControlPlaneCert_wanted:
  assumes "certificates_named E" "reconcileControlPlaneCert E X w = (Ok (), w')"
  shows "cert_wanted (GardenNamespace, SecretNameControlPlaneCert) b (trace w')"
  using assms(2) cpCert_reconcile_wanted [OF assms(1)]
  unfolding reconcileControlPlaneCert_def Let_def bind_Ok_iff by blast

lemma deleteIgnoringNotFound_trace:
  "deleteIgnoringNotFound E e w = (r, w') \<Longrightarrow> trace w' = trace w @ [e]"
  by (cases "e_call E (trace w) e")
    (auto simp: deleteIgnoringNotFound_def io_simps split: option.splits)

lemma cpCert_delete_unwanted:
  assumes "cpCert_delete E w = (Ok (), w')"
  shows "\<not> cert_wanted (GardenNamespace, SecretNameControlPlaneCert) b (trace w')"
proof -
  have "trace w' = trace w @ [DeleteCertificate GardenNamespace SecretNameControlPlaneCert,
      DeleteSecret GardenNamespace dnsProviderSecretName]"
    using assms unfolding cpCert_delete_def bind_Ok_iff wrapping_Ok_iff
    by (auto dest!: deleteIgnoringNotFound_trace)
  then show ?thesis
    by (simp add: cert_wanted_append) (simp add: cert_wanted_def)
qed

text \<open>Reconciling the Extension of a seed decides the certificate, deleting it does not touch it.\<close>

lemma cp_Reconcile_certificate:
  assumes "certificates_named E" "\<not> isGardenDeployment ex" "cp_Reconcile E X D cfg ex w = (Ok (), w')"
  shows "\<exists>cc. DecodeAndValidateProviderConfig X D ex None = Ok cc
     \<and> cert_wanted (GardenNamespace, SecretNameControlPlaneCert) b (trace w')
         = ptr_Deref (cc_GenerateControlPlaneCertificate cc) False"
proof -
  obtain cc v wd wc where cc: "DecodeAndValidateProviderConfig X D ex None = Ok cc"
    and c: "certificateStep E X cc ex wd = (Ok (), wc)" and u: "cp_updateStatus E ex cc wc = (Ok (), w')"
    using assms(3) by (rule cp_Reconcile_Ok)
  have "cert_wanted (GardenNamespace, SecretNameControlPlaneCert) b (trace wc)
      = ptr_Deref (cc_GenerateControlPlaneCertificate cc) False"
    using c assms(2) reconcileControlPlaneCert_wanted [OF assms(1), of X wd wc b] cpCert_delete_unwanted [of E wd wc b]
    unfolding certificateStep_def Let_def by (simp split: if_splits)
  moreover have status: "emits (\<lambda>e. \<not> cert_event e) (cp_updateStatus E ex cc)"
    unfolding cp_updateStatus_def by (intro appends_intros) simp
  ultimately show ?thesis
    using cc cert_wanted_kept [OF status u] by simp
qed

lemma seed_deletions_keep_certificates:
  assumes "\<not> isGardenDeployment ex"
  shows "emits (\<lambda>e. \<not> cert_event e) (cp_Delete E X ex)"
    and "emits (\<lambda>e. \<not> cert_event e) (cp_ForceDelete E X ex)"
    and "emits (\<lambda>e. \<not> cert_event e) (cp_Migrate E X ex)"
proof -
  show "emits (\<lambda>e. \<not> cert_event e) (cp_Delete E X ex)"
    unfolding cp_Delete_def deleteResourcesForGardenOrSeed_def DeleteGardenOrSeedManagedResourceAndWait_def
    using assms by (intro appends_intros) simp_all
  then show "emits (\<lambda>e. \<not> cert_event e) (cp_ForceDelete E X ex)" "emits (\<lambda>e. \<not> cert_event e) (cp_Migrate E X ex)"
    unfolding cp_ForceDelete_def cp_Migrate_def by (auto intro!: appends_intros)
qed

text \<open>C35: The control plane certificate of a seed follows the Extension while it is reconciled: after a
  successful reconciliation it is wanted exactly if the configuration asks for it. Deleting,
  force-deleting or migrating the Extension of a seed, in contrast, never touches a certificate, so
  that it stays as it was.\<close>

theorem seed_certificate_life:
  assumes "certificates_named E" "\<not> isGardenDeployment ex"
  shows "(case cp_Reconcile E X D cfg ex w of
       (Ok _, w') \<Rightarrow> (\<exists>cc. DecodeAndValidateProviderConfig X D ex None = Ok cc
          \<and> cert_wanted (GardenNamespace, SecretNameControlPlaneCert) b (trace w')
              = ptr_Deref (cc_GenerateControlPlaneCertificate cc) False)
     | _ \<Rightarrow> True)
   \<and> cert_wanted k b (trace (snd (cp_Delete E X ex w))) = cert_wanted k b (trace w)
   \<and> cert_wanted k b (trace (snd (cp_ForceDelete E X ex w))) = cert_wanted k b (trace w)
   \<and> cert_wanted k b (trace (snd (cp_Migrate E X ex w))) = cert_wanted k b (trace w)"
proof (intro conjI)
  show "case cp_Reconcile E X D cfg ex w of
       (Ok _, w') \<Rightarrow> (\<exists>cc. DecodeAndValidateProviderConfig X D ex None = Ok cc
          \<and> cert_wanted (GardenNamespace, SecretNameControlPlaneCert) b (trace w')
              = ptr_Deref (cc_GenerateControlPlaneCertificate cc) False)
     | _ \<Rightarrow> True"
    using cp_Reconcile_certificate [OF assms, of X D cfg w _ b] by (auto split: prod.splits result.splits)
qed (use seed_deletions_keep_certificates [OF assms(2)] cert_wanted_kept in \<open>metis prod.collapse\<close>)+

definition sample_seed_extension :: Extension where
  "sample_seed_extension = sample_garden_extension\<lparr>ex_Class := Some ExtensionClassSeed\<rparr>"

theorem seed_certificate_life_witness:
  "\<exists>h. cert_wanted (GardenNamespace, SecretNameControlPlaneCert) False h
     \<and> cert_wanted (GardenNamespace, SecretNameControlPlaneCert) False
         (trace (snd (cp_Delete sample_env sample_extern sample_seed_extension \<lparr>trace = h, gardenClient = False\<rparr>)))"
proof -
  have seed: "\<not> isGardenDeployment sample_seed_extension"
    by (simp add: isGardenDeployment_def sample_seed_extension_def GetExtensionClassOrDefault_def
        ExtensionClassGarden_def ExtensionClassSeed_def)
  let ?h = "[ApplyCertificate cpCert_newCertificate]"
  have "cert_wanted (GardenNamespace, SecretNameControlPlaneCert) False ?h"
    by (simp add: cert_wanted_def)
  then show ?thesis
    using seed_certificate_life [OF sample_env_laws(3) seed, where X = sample_extern
        and w = "\<lparr>trace = ?h, gardenClient = False\<rparr>" and b = False
        and k = "(GardenNamespace, SecretNameControlPlaneCert)"]
    by (intro exI [of _ ?h]) simp
qed

end
