(* ===== verification/Garden_Client.thy ===== *)
theory Garden_Client
  imports Controlplane_Controller
begin

text \<open>
  The client of the virtual garden under concurrency. The workers of the control plane controller share
  one actuator, and \<open>getOrCreateGardenClient\<close> (\<open>controlplane/actuator.go\<close>) creates the client that they
  share under a mutex. Each worker runs it one statement at a time, and anything else may happen between
  two of its statements. The sequential function of \<open>Controlplane_Controller\<close> is shown to be what the
  workers' calls amount to.
\<close>

subsection \<open>The actuator\<close>

text \<open>What the manager hands out, and the decoder that the library builds from a scheme; strict or not.\<close>

record ('c, 'r, 's) manager =
  mgr_GetClient :: 'c
  mgr_GetConfig :: 'r
  mgr_GetScheme :: 's

record 'd CertConfigDecoder =
  ccd_decoder :: 'd

definition NewCertConfigDecoder :: "('s \<Rightarrow> bool \<Rightarrow> 'd) \<Rightarrow> ('c, 'r, 's) manager \<Rightarrow> 'd CertConfigDecoder" where
  "NewCertConfigDecoder universalDecoder mgr = \<lparr>ccd_decoder = universalDecoder (mgr_GetScheme mgr) True\<rparr>"

text \<open>
  A client is named by the position of the call that created it in the history, so that two clients are
  never the same. The mutex holds its owner.
\<close>

type_synonym worker = nat
type_synonym client = nat

record ('d, 'c, 'r, 's) cp_actuator =
  ac_certConfigDecoder :: "'d CertConfigDecoder"
  ac_client :: 'c
  ac_config :: 'r
  ac_scheme :: 's
  ac_decoder :: "'d option"
  ac_extensionClasses :: "string list"
  ac_serviceConfig :: Configuration
  ac_gardenClient :: "client option"
  ac_gardenClientLock :: "worker option"

definition cp_NewActuator :: "('s \<Rightarrow> bool \<Rightarrow> 'd) \<Rightarrow> ('c, 'r, 's) manager \<Rightarrow> Configuration \<Rightarrow> string list
    \<Rightarrow> ('d, 'c, 'r, 's) cp_actuator" where
  "cp_NewActuator universalDecoder mgr config extensionClasses =
    \<lparr>ac_certConfigDecoder = NewCertConfigDecoder universalDecoder mgr, ac_client = mgr_GetClient mgr,
     ac_config = mgr_GetConfig mgr, ac_scheme = mgr_GetScheme mgr, ac_decoder = None,
     ac_extensionClasses = extensionClasses, ac_serviceConfig = config, ac_gardenClient = None,
     ac_gardenClientLock = None\<rparr>"

subsection \<open>The calls of a worker\<close>

text \<open>
  The calls of \<open>createGardenClient\<close>, each with the text its error is wrapped in, if it is.
\<close>

type_synonym build_step = "string \<times> string option"

definition garden_client_steps :: "build_step list" where
  "garden_client_steps =
    [(''kubeconfig'', Some ''failed to read garden kubeconfig''),
     (''kubernetes'', Some ''failed to add kubernetes scheme''),
     (''gardencorev1beta1'', Some ''failed to add gardencorev1beta1 scheme''),
     (''securityv1alpha1'', Some ''failed to add securityv1alpha1 scheme''),
     (''client'', None)]"

definition step_error :: "string option \<Rightarrow> goerr \<Rightarrow> goerr" where
  "step_error w e = (case w of None \<Rightarrow> e | Some s \<Rightarrow> Wrap s e)"

text \<open>
  Where a worker is in \<open>getOrCreateGardenClient\<close>: outside, waiting at \<open>Lock()\<close>, at the test of the field,
  at the next call of \<open>createGardenClient\<close> with further ones to come, at the assignment to the field, or at the deferred
  \<open>Unlock()\<close> with the value to return.
\<close>

datatype pc =
    Outside
  | Locking
  | Checking
  | Building build_step "build_step list"
  | Storing client
  | Unlocking "goerr + client"

text \<open>The workers, what happened so far, and what their calls returned, in this order.\<close>

record ('d, 'c, 'r, 's) workers =
  wk_actuator :: "('d, 'c, 'r, 's) cp_actuator"
  wk_pc :: "worker \<Rightarrow> pc"
  wk_history :: history
  wk_returns :: "(worker \<times> (goerr + client)) list"

abbreviation wk_lock :: "('d, 'c, 'r, 's) workers \<Rightarrow> worker option" where
  "wk_lock s \<equiv> ac_gardenClientLock (wk_actuator s)"

abbreviation wk_client :: "('d, 'c, 'r, 's) workers \<Rightarrow> client option" where
  "wk_client s \<equiv> ac_gardenClient (wk_actuator s)"

definition goto :: "worker \<Rightarrow> pc \<Rightarrow> ('d, 'c, 'r, 's) workers \<Rightarrow> ('d, 'c, 'r, 's) workers" where
  "goto i p s = s\<lparr>wk_pc := (wk_pc s)(i := p)\<rparr>"

definition set_lock :: "worker option \<Rightarrow> ('d, 'c, 'r, 's) workers \<Rightarrow> ('d, 'c, 'r, 's) workers" where
  "set_lock l s = s\<lparr>wk_actuator := (wk_actuator s)\<lparr>ac_gardenClientLock := l\<rparr>\<rparr>"

definition set_client :: "client \<Rightarrow> ('d, 'c, 'r, 's) workers \<Rightarrow> ('d, 'c, 'r, 's) workers" where
  "set_client c s = s\<lparr>wk_actuator := (wk_actuator s)\<lparr>ac_gardenClient := Some c\<rparr>\<rparr>"

definition happens :: "event \<Rightarrow> ('d, 'c, 'r, 's) workers \<Rightarrow> ('d, 'c, 'r, 's) workers" where
  "happens e s = s\<lparr>wk_history := wk_history s @ [e]\<rparr>"

lemma workers_sel [simp]:
  "wk_pc (goto i p s) = (wk_pc s)(i := p)" "wk_actuator (goto i p s) = wk_actuator s"
  "wk_history (goto i p s) = wk_history s" "wk_returns (goto i p s) = wk_returns s"
  "wk_pc (set_lock l s) = wk_pc s" "wk_client (set_lock l s) = wk_client s" "wk_lock (set_lock l s) = l"
  "wk_history (set_lock l s) = wk_history s" "wk_returns (set_lock l s) = wk_returns s"
  "wk_pc (set_client c s) = wk_pc s" "wk_client (set_client c s) = Some c" "wk_lock (set_client c s) = wk_lock s"
  "wk_history (set_client c s) = wk_history s" "wk_returns (set_client c s) = wk_returns s"
  "wk_pc (happens e s) = wk_pc s" "wk_actuator (happens e s) = wk_actuator s"
  "wk_history (happens e s) = wk_history s @ [e]" "wk_returns (happens e s) = wk_returns s"
  "wk_actuator (s\<lparr>wk_returns := rs\<rparr>) = wk_actuator s"
  by (simp_all add: goto_def set_lock_def set_client_def happens_def)

text \<open>The next statement of a worker; nothing if it is outside, or waits for the mutex.\<close>

fun after_call :: "client \<Rightarrow> build_step list \<Rightarrow> pc" where
  "after_call c [] = Storing c"
| "after_call c (st # steps) = Building st steps"

definition build_call :: "env \<Rightarrow> worker \<Rightarrow> build_step \<Rightarrow> build_step list \<Rightarrow> ('d, 'c, 'r, 's) workers
    \<Rightarrow> ('d, 'c, 'r, 's) workers" where
  "build_call E i st steps s =
    (let e = CreateGardenClient (fst st)
     in goto i (case e_call E (wk_history s) e of
            Some err \<Rightarrow> Unlocking (Inl (step_error (snd st) err))
          | None \<Rightarrow> after_call (length (wk_history s)) steps) (happens e s))"

definition advance :: "env \<Rightarrow> worker \<Rightarrow> ('d, 'c, 'r, 's) workers \<Rightarrow> ('d, 'c, 'r, 's) workers option" where
  "advance E i s = (case wk_pc s i of
      Outside \<Rightarrow> None
    | Locking \<Rightarrow> if wk_lock s = None then Some (goto i Checking (set_lock (Some i) s)) else None
    | Checking \<Rightarrow> Some (case wk_client s of
        Some c \<Rightarrow> goto i (Unlocking (Inr c)) s
      | None \<Rightarrow> goto i (after_call (length (wk_history s)) garden_client_steps) s)
    | Building st steps \<Rightarrow> Some (build_call E i st steps s)
    | Storing c \<Rightarrow> Some (goto i (Unlocking (Inr c)) (set_client c s))
    | Unlocking r \<Rightarrow> Some ((goto i Outside (set_lock None s))\<lparr>wk_returns := wk_returns s @ [(i, r)]\<rparr>))"

fun garden_event :: "event \<Rightarrow> bool" where
  "garden_event (CreateGardenClient _) = True"
| "garden_event _ = False"

text \<open>
  The reachable states: workers call the function whenever they are outside of it, execute its
  statements in any order of the workers, and anything else happens in between.
\<close>

definition fresh_workers :: "('d, 'c, 'r, 's) cp_actuator \<Rightarrow> ('d, 'c, 'r, 's) workers" where
  "fresh_workers a = \<lparr>wk_actuator = a, wk_pc = (\<lambda>_. Outside), wk_history = [], wk_returns = []\<rparr>"

inductive garden_run :: "env \<Rightarrow> ('d, 'c, 'r, 's) workers \<Rightarrow> bool" for E where
  start: "garden_run E (fresh_workers (cp_NewActuator universalDecoder mgr config classes))"
| calls: "garden_run E s \<Longrightarrow> wk_pc s i = Outside \<Longrightarrow> garden_run E (goto i Locking s)"
| works: "garden_run E s \<Longrightarrow> advance E i s = Some s' \<Longrightarrow> garden_run E s'"
| other: "garden_run E s \<Longrightarrow> \<not> garden_event e \<Longrightarrow> garden_run E (happens e s)"

subsection \<open>One worker at a time, one client\<close>

text \<open>The workers that hold the mutex.\<close>

fun inside :: "pc \<Rightarrow> bool" where
  "inside Outside = False"
| "inside Locking = False"
| "inside _ = True"

text \<open>The client \<open>c\<close> was created by a call that succeeded, and none was attempted since.\<close>

definition created :: "env \<Rightarrow> history \<Rightarrow> client \<Rightarrow> bool" where
  "created E h c \<longleftrightarrow> c < length h \<and> h ! c = CreateGardenClient ''client'' \<and> e_call E (take c h) (h ! c) = None
     \<and> (\<forall>k < length h. c < k \<longrightarrow> \<not> garden_event (h ! k))"

lemma created_other: "created E h c \<Longrightarrow> \<not> garden_event e \<Longrightarrow> created E (h @ [e]) c"
  by (auto simp: created_def nth_append less_Suc_eq)

lemma created_new:
  "e_call E h (CreateGardenClient ''client'') = None \<Longrightarrow> created E (h @ [CreateGardenClient ''client'']) (length h)"
  by (auto simp: created_def)

text \<open>What holds at each statement, for the worker that holds the mutex.\<close>

fun at_statement :: "env \<Rightarrow> pc \<Rightarrow> client option \<Rightarrow> history \<Rightarrow> bool" where
  "at_statement E (Building st steps) c h \<longleftrightarrow> c = None \<and> (\<exists>before. garden_client_steps = before @ st # steps)"
| "at_statement E (Storing new) c h \<longleftrightarrow> c = None \<and> created E h new"
| "at_statement E (Unlocking (Inr new)) c h \<longleftrightarrow> c = Some new"
| "at_statement E _ c h \<longleftrightarrow> True"

definition guarded :: "env \<Rightarrow> ('d, 'c, 'r, 's) workers \<Rightarrow> bool" where
  "guarded E s \<longleftrightarrow> (\<forall>i. inside (wk_pc s i) \<longleftrightarrow> wk_lock s = Some i)
     \<and> (\<forall>i. at_statement E (wk_pc s i) (wk_client s) (wk_history s))
     \<and> (\<forall>c. wk_client s = Some c \<longrightarrow> created E (wk_history s) c)
     \<and> (\<forall>i c. (i, Inr c) \<in> set (wk_returns s) \<longrightarrow> wk_client s = Some c)"

lemma after_call_inside [simp]: "inside (after_call c steps)"
  by (cases steps) simp_all

lemma at_statement_outside: "\<not> inside p \<Longrightarrow> at_statement E p c h"
  by (cases p) simp_all

lemma at_statement_other: "at_statement E p c h \<Longrightarrow> \<not> garden_event e \<Longrightarrow> at_statement E p c (h @ [e])"
  by (induction E p c h rule: at_statement.induct) (simp_all add: created_other)

lemma others_outside:
  assumes "guarded E s" "inside (wk_pc s i) \<or> wk_lock s = None" "j \<noteq> i"
  shows "\<not> inside (wk_pc s j)"
  using assms unfolding guarded_def by fastforce

lemma guarded_move:
  assumes "guarded E s" "inside (wk_pc s i) \<or> wk_lock s = None" "wk_pc s' = (wk_pc s)(i := p)"
    and "wk_lock s' = (if inside p then Some i else None)"
    and "at_statement E p (wk_client s') (wk_history s')"
    and "\<And>c. wk_client s' = Some c \<Longrightarrow> created E (wk_history s') c"
    and "\<And>j c. (j, Inr c) \<in> set (wk_returns s') \<Longrightarrow> wk_client s' = Some c"
  shows "guarded E s'"
  unfolding guarded_def
proof (intro conjI allI impI)
  fix j
  show "inside (wk_pc s' j) \<longleftrightarrow> wk_lock s' = Some j"
    using others_outside [OF assms(1,2), of j] assms(3,4) by auto
  show "at_statement E (wk_pc s' j) (wk_client s') (wk_history s')"
    using others_outside [OF assms(1,2), of j] assms(3,5) by (cases "j = i") (simp_all add: at_statement_outside)
qed (use assms(6,7) in auto)

lemma after_call_statement:
  assumes "garden_client_steps = before @ steps" "steps = [] \<Longrightarrow> created E h c"
  shows "at_statement E (after_call c steps) None h"
  using assms by (cases steps) auto

lemma last_build_step: "garden_client_steps = before @ [st] \<Longrightarrow> fst st = ''client''"
  using arg_cong [of garden_client_steps "before @ [st]" last] by (simp add: garden_client_steps_def) force

lemma guarded_build_call:
  assumes "guarded E s" "wk_pc s i = Building st steps"
  shows "guarded E (build_call E i st steps s)"
proof -
  let ?e = "CreateGardenClient (fst st)" and ?h = "wk_history s"
  obtain before where d: "wk_client s = None" "garden_client_steps = before @ st # steps"
    using assms unfolding guarded_def by (metis at_statement.simps(1))
  have lock: "wk_lock s = Some i" and rets: "\<And>j c. (j, Inr c) \<notin> set (wk_returns s)"
    using assms d(1) unfolding guarded_def by (metis inside.simps(4)) (metis assms(1) d(1) guarded_def option.distinct(1))
  let ?p = "case e_call E ?h ?e of Some err \<Rightarrow> Unlocking (Inl (step_error (snd st) err)) | None \<Rightarrow> after_call (length ?h) steps"
  have "at_statement E ?p None (?h @ [?e])"
  proof (cases "e_call E ?h ?e")
    case None
    have "created E (?h @ [?e]) (length ?h)" if "steps = []"
      using created_new [of E ?h] None last_build_step [of before st] d(2) that by simp
    then show ?thesis
      using None after_call_statement [of "before @ [st]" steps E "?h @ [?e]" "length ?h"] d(2) by simp
  qed simp
  moreover have "inside ?p" by (simp split: option.split)
  ultimately show ?thesis
    unfolding build_call_def Let_def
    by (intro guarded_move [OF assms(1), where i = i and p = ?p]) (use assms(2) d(1) lock rets in auto)
qed

lemma guarded_advance:
  assumes g: "guarded E s" and a: "advance E i s = Some s'"
  shows "guarded E s'"
proof (cases "wk_pc s i")
  case (Building st steps)
  then show ?thesis using guarded_build_call [OF g Building] a by (simp add: advance_def)
next
  case Locking
  then show ?thesis using a g guarded_move [OF g, of i s' Checking]
    by (auto simp: advance_def guarded_def split: if_splits)
next
  case Checking
  have "wk_lock s = Some i" using g Checking unfolding guarded_def by (metis inside.simps(3))
  show ?thesis
  proof (cases "wk_client s")
    case None
    have "at_statement E (after_call (length (wk_history s)) garden_client_steps) None (wk_history s)"
      by (rule after_call_statement [of "[]"]) (simp_all add: garden_client_steps_def)
    then show ?thesis using a g guarded_move [OF g, of i s'] None Checking \<open>wk_lock s = Some i\<close>
      by (auto simp: advance_def guarded_def)
  next
    case (Some c)
    then show ?thesis using a g guarded_move [OF g, of i s' "Unlocking (Inr c)"] Checking \<open>wk_lock s = Some i\<close>
      by (auto simp: advance_def guarded_def)
  qed
next
  case (Storing c)
  then have "wk_client s = None" "created E (wk_history s) c" "wk_lock s = Some i"
    using g unfolding guarded_def by (metis at_statement.simps(2) inside.simps(5))+
  then show ?thesis using a g guarded_move [OF g, of i s' "Unlocking (Inr c)"] Storing
    by (auto simp: advance_def guarded_def)
next
  case (Unlocking r)
  then have "\<And>c. r = Inr c \<Longrightarrow> wk_client s = Some c"
    using g unfolding guarded_def by (metis at_statement.simps(3))
  moreover have "\<And>j c. (j, Inr c) \<in> set (wk_returns s) \<Longrightarrow> wk_client s = Some c" "\<And>c. wk_client s = Some c \<Longrightarrow> created E (wk_history s) c"
    using g unfolding guarded_def by blast+
  ultimately show ?thesis
    by (intro guarded_move [OF g, of i s' Outside]) (use a Unlocking in \<open>auto simp: advance_def\<close>)
qed (use a in \<open>simp add: advance_def\<close>)

lemma garden_run_guarded: "garden_run E s \<Longrightarrow> guarded E s"
proof (induction rule: garden_run.induct)
  case (start universalDecoder mgr config classes)
  then show ?case by (simp add: guarded_def fresh_workers_def cp_NewActuator_def)
next
  case (calls s i)
  then show ?case by (auto simp: guarded_def) force+
next
  case (works s i s')
  then show ?case by (blast intro: guarded_advance)
next
  case (other s e)
  then show ?case by (auto simp: guarded_def at_statement_other created_other)
qed

subsection \<open>What concurrent calls amount to\<close>

text \<open>The sequential function, as the sequence of its calls.\<close>

definition build_step :: "env \<Rightarrow> build_step \<Rightarrow> unit io" where
  "build_step E st = (case snd st of
      None \<Rightarrow> invoke E (CreateGardenClient (fst st))
    | Some s \<Rightarrow> wrapping s (invoke E (CreateGardenClient (fst st))))"

fun build :: "env \<Rightarrow> build_step list \<Rightarrow> unit io" where
  "build E [] = ret ()"
| "build E (st # steps) = bind (build_step E st) (\<lambda>_. build E steps)"

lemma createGardenClient_build: "createGardenClient E = build E garden_client_steps"
proof
  fix w
  show "createGardenClient E w = build E garden_client_steps w"
    by (auto simp: createGardenClient_def garden_client_steps_def build_step_def io_simps split: prod.split result.split)
qed

text \<open>Calls of the sequential function, one after the other, with what they return.\<close>

primrec seq_calls :: "env \<Rightarrow> nat \<Rightarrow> world \<Rightarrow> unit result list \<times> world" where
  "seq_calls E 0 w = ([], w)"
| "seq_calls E (Suc n) w = (case seq_calls E n w of (rs, w1) \<Rightarrow>
     (case getOrCreateGardenClient E w1 of (r, w2) \<Rightarrow> (rs @ [r], w2)))"

text \<open>
  The answers that the calls of the workers got in a history, and the environment that gives these
  answers, in their order.
\<close>

fun answers_from :: "env \<Rightarrow> history \<Rightarrow> history \<Rightarrow> goerr option list" where
  "answers_from E before [] = []"
| "answers_from E before (e # es) =
    (if garden_event e then [e_call E before e] else []) @ answers_from E (before @ [e]) es"

definition garden_answers :: "env \<Rightarrow> history \<Rightarrow> goerr option list" where
  "garden_answers E h = answers_from E [] h"

definition replay :: "env \<Rightarrow> goerr option list \<Rightarrow> env" where
  "replay E answers = E\<lparr>e_call := \<lambda>h e. if length h < length answers then answers ! length h else None\<rparr>"

lemma answers_from_append: "answers_from E b (h @ h') = answers_from E b h @ answers_from E (b @ h) h'"
  by (induction E b h rule: answers_from.induct) auto

lemma garden_answers_snoc:
  "garden_answers E (h @ [e]) = garden_answers E h @ (if garden_event e then [e_call E h e] else [])"
  by (simp add: garden_answers_def answers_from_append)

lemma length_garden_answers: "length (garden_answers E h) = length (filter garden_event h)"
  by (induction h rule: rev_induct) (simp_all add: garden_answers_snoc, simp add: garden_answers_def)

text \<open>The world that the calls leave behind, and what is left of the call that a worker is in.\<close>

definition seq_world :: "('d, 'c, 'r, 's) workers \<Rightarrow> world" where
  "seq_world s = \<lparr>trace = filter garden_event (wk_history s), gardenClient = (wk_client s \<noteq> None)\<rparr>"

fun returned :: "goerr + client \<Rightarrow> unit result" where
  "returned (Inl e) = Error e"
| "returned (Inr c) = Ok ()"

fun rest_of_call :: "env \<Rightarrow> pc \<Rightarrow> unit io" where
  "rest_of_call E (Building st steps) = bind (build E (st # steps)) (\<lambda>_. set_gardenClient)"
| "rest_of_call E (Storing c) = set_gardenClient"
| "rest_of_call E (Unlocking r) = pure_res (returned r)"
| "rest_of_call E _ = getOrCreateGardenClient E"

definition amounts_to :: "env \<Rightarrow> ('d, 'c, 'r, 's) workers \<Rightarrow> bool" where
  "amounts_to E s \<longleftrightarrow> (\<exists>w. seq_calls E (length (wk_returns s)) initial = (map (\<lambda>(i, r). returned r) (wk_returns s), w)
     \<and> (case wk_lock s of None \<Rightarrow> w = seq_world s
        | Some i \<Rightarrow> getOrCreateGardenClient E w = rest_of_call E (wk_pc s i) (seq_world s)
            \<and> (\<exists>evs. trace (seq_world s) = trace w @ evs)))"

lemma rest_after_call: "rest_of_call E (after_call c steps) w = bind (build E steps) (\<lambda>_. set_gardenClient) w"
  by (cases steps) (simp_all add: io_simps)

lemma rest_build_call:
  assumes "e_call E' (trace (seq_world s)) (CreateGardenClient (fst st)) = e_call E (wk_history s) (CreateGardenClient (fst st))"
  shows "rest_of_call E' (wk_pc (build_call E i st steps s) i) (seq_world (build_call E i st steps s))
    = rest_of_call E' (Building st steps) (seq_world s)"
  using assms
  by (cases "e_call E (wk_history s) (CreateGardenClient (fst st))"; cases "snd st")
    (simp_all add: build_call_def rest_after_call build_step_def io_simps seq_world_def step_error_def)

text \<open>The environment of the replay answers as the environment of the workers did.\<close>

lemma replay_answer:
  assumes "garden_answers E (wk_history s @ [e]) @ later = answers" "garden_event e"
  shows "e_call (replay E answers) (trace (seq_world s)) e = e_call E (wk_history s) e"
proof -
  let ?as = "garden_answers E (wk_history s)"
  have "answers = ?as @ e_call E (wk_history s) e # later"
    using assms by (auto simp: garden_answers_snoc)
  moreover have "length (trace (seq_world s)) = length ?as"
    by (simp add: seq_world_def length_garden_answers)
  ultimately show ?thesis by (simp add: replay_def)
qed

lemma amounts_to_lockedI:
  assumes "amounts_to E s" "wk_lock s = Some i" "wk_lock s' = Some i" "wk_returns s' = wk_returns s"
    and "rest_of_call E (wk_pc s' i) (seq_world s') = rest_of_call E (wk_pc s i) (seq_world s)"
    and "\<exists>evs. trace (seq_world s') = trace (seq_world s) @ evs"
  shows "amounts_to E s'"
  using assms unfolding amounts_to_def by fastforce

lemma amounts_build_call:
  assumes "amounts_to (replay E answers) s" "wk_lock s = Some i" "wk_pc s i = Building st steps"
    and "garden_answers E (wk_history (build_call E i st steps s)) @ later = answers"
  shows "amounts_to (replay E answers) (build_call E i st steps s)"
proof (rule amounts_to_lockedI [OF assms(1,2)])
  have "e_call (replay E answers) (trace (seq_world s)) (CreateGardenClient (fst st))
      = e_call E (wk_history s) (CreateGardenClient (fst st))"
    using assms(4) by (intro replay_answer) (simp_all add: build_call_def Let_def)
  from rest_build_call [OF this, of i steps] assms(3)
  show "rest_of_call (replay E answers) (wk_pc (build_call E i st steps s) i) (seq_world (build_call E i st steps s))
      = rest_of_call (replay E answers) (wk_pc s i) (seq_world s)" by simp
qed (use assms(2) in \<open>simp_all add: build_call_def Let_def seq_world_def\<close>)

lemma amounts_unlock:
  assumes "amounts_to E s" "wk_lock s = Some i" "wk_pc s i = Unlocking r"
  shows "amounts_to E ((goto i Outside (set_lock None s))\<lparr>wk_returns := wk_returns s @ [(i, r)]\<rparr>)"
  using assms by (auto simp: amounts_to_def seq_world_def io_simps)

lemma amounts_advance:
  assumes g: "guarded E s" and a: "advance E i s = Some s'" and m: "amounts_to (replay E answers) s"
    and "garden_answers E (wk_history s') @ later = answers"
  shows "amounts_to (replay E answers) s'"
proof (cases "inside (wk_pc s i)")
  case True
  then have lock: "wk_lock s = Some i" using g unfolding guarded_def by blast
  note step = amounts_to_lockedI [OF m lock]
  show ?thesis
  proof (cases "wk_pc s i")
    case (Building st steps)
    then show ?thesis using amounts_build_call [OF m lock Building] assms(4) a by (simp add: advance_def)
  next
    case (Unlocking r)
    then show ?thesis using amounts_unlock [OF m lock Unlocking] a by (simp add: advance_def)
  next
    case Checking
    then show ?thesis
      using a lock by (cases "wk_client s"; intro step)
        (auto simp: advance_def seq_world_def getOrCreateGardenClient_def createGardenClient_build io_simps rest_after_call)
  next
    case (Storing c)
    then show ?thesis using a lock by (intro step) (auto simp: advance_def seq_world_def io_simps)
  qed (use True in simp_all)
next
  case False
  then have "wk_pc s i = Locking" "wk_lock s = None" "s' = goto i Checking (set_lock (Some i) s)"
    using a by (cases "wk_pc s i"; simp add: advance_def split: if_splits)+
  then show ?thesis using m by (auto simp: amounts_to_def seq_world_def)
qed

lemma amounts_other:
  assumes "amounts_to E s" "\<not> garden_event e"
  shows "amounts_to E (happens e s)"
proof -
  have "seq_world (happens e s) = seq_world s" using assms(2) by (simp add: seq_world_def)
  then show ?thesis using assms(1) unfolding amounts_to_def by (cases "wk_lock s") simp_all
qed

lemma amounts_calls:
  assumes "amounts_to E s" "wk_lock s \<noteq> Some i"
  shows "amounts_to E (goto i Locking s)"
  using assms by (auto simp: amounts_to_def seq_world_def split: option.splits)

lemma garden_answers_history:
  "advance E i s = Some s' \<Longrightarrow> \<exists>as. garden_answers E (wk_history s') = garden_answers E (wk_history s) @ as"
  by (auto simp: advance_def build_call_def Let_def garden_answers_snoc split: pc.splits if_splits option.splits)

lemma garden_run_amounts:
  "garden_run E s \<Longrightarrow> \<exists>later. garden_answers E (wk_history s) @ later = answers \<Longrightarrow> amounts_to (replay E answers) s"
proof (induction rule: garden_run.induct)
  case (start universalDecoder mgr config classes)
  then show ?case
    by (simp add: amounts_to_def fresh_workers_def cp_NewActuator_def seq_world_def initial_def)
next
  case (calls s i)
  then have "wk_lock s \<noteq> Some i" using garden_run_guarded unfolding guarded_def by (metis inside.simps(1))
  then show ?case using calls by (intro amounts_calls) simp_all
next
  case (works s i s')
  obtain later where later: "garden_answers E (wk_history s') @ later = answers" using works by blast
  then have "\<exists>later. garden_answers E (wk_history s) @ later = answers"
    using garden_answers_history [OF works.hyps(2)] by auto
  then show ?case using amounts_advance [OF garden_run_guarded works.hyps(2) _ later] works by blast
next
  case (other s e)
  then show ?case by (auto intro: amounts_other simp: garden_answers_snoc)
qed

subsection \<open>How long the calls in progress take\<close>

text \<open>
  A worker that is in the function executes a statement, after anything else has happened; no worker
  enters the function meanwhile.
\<close>

definition moves :: "env \<Rightarrow> ('d, 'c, 'r, 's) workers \<Rightarrow> ('d, 'c, 'r, 's) workers \<Rightarrow> bool" where
  "moves E s s' \<longleftrightarrow> (\<exists>i es. list_all (\<lambda>e. \<not> garden_event e) es \<and> advance E i (fold happens es s) = Some s')"

definition callers :: "('d, 'c, 'r, 's) workers \<Rightarrow> worker set" where
  "callers s = {i. wk_pc s i \<noteq> Outside}"

fun statements_left :: "pc \<Rightarrow> nat" where
  "statements_left Outside = 0"
| "statements_left Locking = 9"
| "statements_left Checking = 8"
| "statements_left (Building st steps) = length steps + 3"
| "statements_left (Storing c) = 2"
| "statements_left (Unlocking r) = 1"

definition work_left :: "('d, 'c, 'r, 's) workers \<Rightarrow> nat" where
  "work_left s = (\<Sum>i \<in> callers s. statements_left (wk_pc s i))"

lemma fold_happens_sel [simp]:
  "wk_pc (fold happens es s) = wk_pc s" "wk_actuator (fold happens es s) = wk_actuator s"
  "wk_returns (fold happens es s) = wk_returns s" "callers (fold happens es s) = callers s"
  by (induction es arbitrary: s) (simp_all add: callers_def)

lemma garden_run_fold_happens:
  "garden_run E s \<Longrightarrow> list_all (\<lambda>e. \<not> garden_event e) es \<Longrightarrow> garden_run E (fold happens es s)"
  by (induction es arbitrary: s) (simp_all add: garden_run.other)

lemma garden_run_moves: "garden_run E s \<Longrightarrow> moves E s s' \<Longrightarrow> garden_run E s'"
  unfolding moves_def using garden_run_fold_happens garden_run.works by blast

lemma statements_after_call: "statements_left (after_call c steps) = length steps + 2"
  by (cases steps) simp_all

text \<open>One statement changes the place of one worker, to one with less to do.\<close>

lemma advance_pc:
  assumes "advance E i s = Some s'"
  shows "wk_pc s i \<noteq> Outside" "\<exists>p. wk_pc s' = (wk_pc s)(i := p) \<and> statements_left p < statements_left (wk_pc s i)
      \<and> (if p = Outside then \<exists>r. wk_returns s' = wk_returns s @ [(i, r)] else wk_returns s' = wk_returns s)"
proof -
  show "wk_pc s i \<noteq> Outside" using assms by (auto simp: advance_def)
  have "after_call c steps \<noteq> Outside" for c steps by (cases steps) simp_all
  then show "\<exists>p. wk_pc s' = (wk_pc s)(i := p) \<and> statements_left p < statements_left (wk_pc s i)
      \<and> (if p = Outside then \<exists>r. wk_returns s' = wk_returns s @ [(i, r)] else wk_returns s' = wk_returns s)"
    using assms
    by (intro exI [of _ "wk_pc s' i"]; cases "wk_pc s i")
      (auto simp: advance_def build_call_def Let_def statements_after_call garden_client_steps_def
        split: if_splits option.splits)
qed

lemma work_left_advance:
  assumes "advance E i s = Some s'" "finite (callers s)"
  shows "work_left s' < work_left s" "callers s' \<subseteq> callers s"
proof -
  obtain p where p: "wk_pc s' = (wk_pc s)(i := p)" "statements_left p < statements_left (wk_pc s i)" "wk_pc s i \<noteq> Outside"
    using advance_pc [OF assms(1)] by blast
  show sub: "callers s' \<subseteq> callers s" using p by (auto simp: callers_def split: if_splits)
  have i: "i \<in> callers s" using p(3) by (simp add: callers_def)
  have "work_left s' = (\<Sum>j \<in> callers s. statements_left (wk_pc s' j))"
    unfolding work_left_def by (rule sum.mono_neutral_left [OF assms(2) sub]) (auto simp: callers_def)
  also have "\<dots> < work_left s"
    unfolding work_left_def by (rule sum_strict_mono_ex1 [OF assms(2)]) (use p i in auto)
  finally show "work_left s' < work_left s" .
qed

text \<open>As long as a worker is in the function, some worker can execute its next statement.\<close>

lemma some_worker_advances:
  assumes "guarded E s" "callers s \<noteq> {}"
  shows "\<exists>i s'. advance E i s = Some s'"
proof (cases "wk_lock s")
  case (Some i)
  then have "inside (wk_pc s i)" using assms(1) unfolding guarded_def by blast
  then have "advance E i s \<noteq> None" by (cases "wk_pc s i") (simp_all add: advance_def)
  then show ?thesis by blast
next
  case None
  obtain i where "wk_pc s i \<noteq> Outside" "\<not> inside (wk_pc s i)"
    using assms None unfolding guarded_def callers_def by auto
  then have "wk_pc s i = Locking" by (cases "wk_pc s i") simp_all
  then have "advance E i s \<noteq> None" using None by (simp add: advance_def)
  then show ?thesis by blast
qed

lemma work_left_bound:
  assumes "guarded E s"
  shows "work_left s \<le> 9 * card (callers s)"
proof -
  have "statements_left (wk_pc s i) \<le> 9" for i
  proof (cases "wk_pc s i")
    case (Building st steps)
    then obtain before where "garden_client_steps = before @ st # steps"
      using assms unfolding guarded_def by (metis at_statement.simps(1))
    from arg_cong [OF this, of length] show ?thesis using Building by (simp add: garden_client_steps_def)
  qed simp_all
  then show ?thesis
    using sum_bounded_above [of "callers s" "\<lambda>i. statements_left (wk_pc s i)" 9]
    by (simp add: work_left_def mult.commute)
qed

text \<open>The calls in progress, and those that have returned since.\<close>

definition returned_since :: "('d, 'c, 'r, 's) workers \<Rightarrow> ('d, 'c, 'r, 's) workers \<Rightarrow> bool" where
  "returned_since s s' \<longleftrightarrow> (\<exists>rs. wk_returns s' = wk_returns s @ rs \<and> distinct (map fst rs)
     \<and> set (map fst rs) \<inter> callers s' = {} \<and> set (map fst rs) \<union> callers s' = callers s)"

lemma returned_since_refl: "returned_since s s"
  by (simp add: returned_since_def)

lemma returned_since_advance:
  assumes "returned_since s s'" "advance E i s' = Some s''"
  shows "returned_since s s''"
proof -
  obtain rs where rs: "wk_returns s' = wk_returns s @ rs" "distinct (map fst rs)"
    "set (map fst rs) \<inter> callers s' = {}" "set (map fst rs) \<union> callers s' = callers s"
    using assms(1) unfolding returned_since_def by blast
  obtain p where p: "wk_pc s'' = (wk_pc s')(i := p)" "i \<in> callers s'"
    "if p = Outside then \<exists>r. wk_returns s'' = wk_returns s' @ [(i, r)] else wk_returns s'' = wk_returns s'"
    using advance_pc [OF assms(2)] by (auto simp: callers_def)
  show ?thesis
  proof (cases "p = Outside")
    case True
    then obtain r where r: "wk_returns s'' = wk_returns s' @ [(i, r)]" using p(3) by auto
    have "callers s'' = callers s' - {i}" using p True by (auto simp: callers_def)
    then show ?thesis unfolding returned_since_def
      by (intro exI [of _ "rs @ [(i, r)]"]) (use r rs p(2) in auto)
  next
    case False
    then have "callers s'' = callers s'" using p by (auto simp: callers_def)
    then show ?thesis using rs p(3) False unfolding returned_since_def by simp
  qed
qed

lemma moves_many:
  assumes "garden_run E s" "finite (callers s)"
  shows "(moves E ^^ n) s s' \<Longrightarrow> garden_run E s' \<and> finite (callers s') \<and> n + work_left s' \<le> work_left s \<and> returned_since s s'"
proof (induction n arbitrary: s')
  case 0
  then show ?case using assms by (simp add: returned_since_refl)
next
  case (Suc n)
  then obtain m where m: "(moves E ^^ n) s m" "moves E m s'" by auto
  note ih = Suc.IH [OF m(1)]
  obtain i es where i: "list_all (\<lambda>e. \<not> garden_event e) es" "advance E i (fold happens es m) = Some s'"
    using m(2) unfolding moves_def by blast
  have fin: "finite (callers (fold happens es m))" using ih by simp
  have "work_left (fold happens es m) = work_left m" by (simp add: work_left_def)
  moreover have "returned_since s (fold happens es m)" using ih by (simp add: returned_since_def)
  ultimately show ?case
    using ih garden_run_moves m(2) work_left_advance [OF i(2) fin] returned_since_advance [OF _ i(2)] finite_subset [OF _ fin]
    by fastforce
qed

subsection \<open>Every call returns\<close>

text \<open>
  A run of the workers that never ends: in each step one calls the function or executes a statement of
  it, anything else happens, or nothing does. It is fair if a worker whose next statement can be executed
  again and again executes it some time. For \<open>Lock()\<close> that is what the mutex of Go promises: a
  goroutine that waits for it is not starved by others that take it.
\<close>

inductive worker_step :: "env \<Rightarrow> ('d, 'c, 'r, 's) workers \<Rightarrow> ('d, 'c, 'r, 's) workers \<Rightarrow> bool" for E where
  step_calls: "wk_pc s i = Outside \<Longrightarrow> worker_step E s (goto i Locking s)"
| step_works: "advance E i s = Some s' \<Longrightarrow> worker_step E s s'"
| step_other: "\<not> garden_event e \<Longrightarrow> worker_step E s (happens e s)"
| step_idle: "worker_step E s s"

definition fair_run :: "env \<Rightarrow> (nat \<Rightarrow> ('d, 'c, 'r, 's) workers) \<Rightarrow> bool" where
  "fair_run E \<sigma> \<longleftrightarrow> garden_run E (\<sigma> 0) \<and> (\<forall>n. worker_step E (\<sigma> n) (\<sigma> (Suc n)))
     \<and> (\<forall>i. (\<forall>n. \<exists>m\<ge>n. advance E i (\<sigma> m) \<noteq> None) \<longrightarrow> (\<forall>n. \<exists>m\<ge>n. advance E i (\<sigma> m) = Some (\<sigma> (Suc m))))"

lemma garden_run_step: "worker_step E s s' \<Longrightarrow> garden_run E s \<Longrightarrow> garden_run E s'"
  by (induction rule: worker_step.induct) (auto intro: garden_run.intros)

lemma fair_run_reachable: "fair_run E \<sigma> \<Longrightarrow> garden_run E (\<sigma> n)"
  by (induction n) (auto simp: fair_run_def intro: garden_run_step)

lemma fair_run_guarded: "fair_run E \<sigma> \<Longrightarrow> guarded E (\<sigma> n)"
  by (rule garden_run_guarded [OF fair_run_reachable])

text \<open>Only its own statements move a worker that is in the function.\<close>

lemma worker_step_own:
  assumes "worker_step E s s'" "wk_pc s i \<noteq> Outside" "advance E i s \<noteq> Some s'"
  shows "wk_pc s' i = wk_pc s i"
  using assms
proof (induction rule: worker_step.induct)
  case (step_works j s s')
  then have "j \<noteq> i" by blast
  then show ?case using advance_pc(2) [OF step_works(1)] by auto
qed auto

lemma advance_inside:
  assumes "advance E i s = Some s'" "inside (wk_pc s i)"
  shows "inside (wk_pc s' i) \<or> wk_pc s' i = Outside \<and> wk_lock s' = None"
  using assms by (cases "wk_pc s i") (auto simp: advance_def build_call_def Let_def split: option.splits)

lemma inside_advances: "inside (wk_pc s i) \<Longrightarrow> advance E i s \<noteq> None"
  by (cases "wk_pc s i") (simp_all add: advance_def)

text \<open>A worker in the function that can go on again and again goes on, from where it is.\<close>

lemma fair_run_advances:
  assumes fair: "fair_run E \<sigma>" and n: "wk_pc (\<sigma> n) i \<noteq> Outside"
    and again: "\<And>k. \<exists>m\<ge>k. wk_pc (\<sigma> m) i = wk_pc (\<sigma> n) i \<longrightarrow> advance E i (\<sigma> m) \<noteq> None"
  shows "\<exists>m\<ge>n. wk_pc (\<sigma> m) i = wk_pc (\<sigma> n) i \<and> advance E i (\<sigma> m) = Some (\<sigma> (Suc m))"
proof (rule ccontr)
  assume no: "\<not> ?thesis"
  have same: "wk_pc (\<sigma> (n + k)) i = wk_pc (\<sigma> n) i" for k
  proof (induction k)
    case (Suc k)
    have "worker_step E (\<sigma> (n + k)) (\<sigma> (Suc (n + k)))" using fair unfolding fair_run_def by blast
    moreover have "advance E i (\<sigma> (n + k)) \<noteq> Some (\<sigma> (Suc (n + k)))" using no Suc by auto
    ultimately show ?case using worker_step_own Suc n by fastforce
  qed simp
  then have pc: "wk_pc (\<sigma> m) i = wk_pc (\<sigma> n) i" if "n \<le> m" for m
    using that le_Suc_ex by metis
  have "\<exists>m\<ge>k. advance E i (\<sigma> m) \<noteq> None" for k
  proof -
    obtain m where "max n k \<le> m" "wk_pc (\<sigma> m) i = wk_pc (\<sigma> n) i \<longrightarrow> advance E i (\<sigma> m) \<noteq> None"
      using again by blast
    then show ?thesis using pc [of m] by auto
  qed
  then obtain m where "n \<le> m" "advance E i (\<sigma> m) = Some (\<sigma> (Suc m))"
    using fair unfolding fair_run_def by blast
  with no pc show False by blast
qed

lemma fair_run_inside_returns:
  assumes fair: "fair_run E \<sigma>"
  shows "inside (wk_pc (\<sigma> n) i) \<Longrightarrow>
    \<exists>m\<ge>n. \<exists>r. wk_returns (\<sigma> (Suc m)) = wk_returns (\<sigma> m) @ [(i, r)] \<and> wk_lock (\<sigma> (Suc m)) = None"
proof (induction "statements_left (wk_pc (\<sigma> n) i)" arbitrary: n rule: less_induct)
  case less
  then have "wk_pc (\<sigma> n) i \<noteq> Outside" by auto
  moreover have "\<exists>m\<ge>k. wk_pc (\<sigma> m) i = wk_pc (\<sigma> n) i \<longrightarrow> advance E i (\<sigma> m) \<noteq> None" for k
    using inside_advances [of "\<sigma> k" i E] less(2) by (intro exI [of _ k]) simp
  ultimately obtain m where m: "n \<le> m" "wk_pc (\<sigma> m) i = wk_pc (\<sigma> n) i" "advance E i (\<sigma> m) = Some (\<sigma> (Suc m))"
    using fair_run_advances [OF fair] by blast
  obtain p where p: "wk_pc (\<sigma> (Suc m)) i = p" "statements_left p < statements_left (wk_pc (\<sigma> n) i)"
    "p = Outside \<Longrightarrow> \<exists>r. wk_returns (\<sigma> (Suc m)) = wk_returns (\<sigma> m) @ [(i, r)]"
    using advance_pc(2) [OF m(3)] m(2) by force
  show ?case
  proof (cases "p = Outside")
    case True
    then show ?thesis using p m(1) advance_inside [OF m(3)] less(2) m(2) by auto
  next
    case False
    then have "inside (wk_pc (\<sigma> (Suc m)) i)" using advance_inside [OF m(3)] less(2) m(2) p(1) by auto
    then obtain m' where "Suc m \<le> m'" "\<exists>r. wk_returns (\<sigma> (Suc m')) = wk_returns (\<sigma> m') @ [(i, r)] \<and> wk_lock (\<sigma> (Suc m')) = None"
      using less(1) p(1,2) by blast
    then show ?thesis using m(1) by (meson Suc_leD le_trans)
  qed
qed

text \<open>So the mutex is free again and again, and a worker that waits for it gets it.\<close>

lemma fair_run_free:
  assumes "fair_run E \<sigma>"
  shows "\<exists>m\<ge>n. wk_lock (\<sigma> m) = None"
proof (cases "wk_lock (\<sigma> n)")
  case (Some j)
  then have "inside (wk_pc (\<sigma> n) j)" using fair_run_guarded [OF assms, of n] unfolding guarded_def by blast
  then show ?thesis using fair_run_inside_returns [OF assms] by (meson le_Suc_eq)
qed blast

lemma fair_run_locks:
  assumes "fair_run E \<sigma>" "wk_pc (\<sigma> n) i = Locking"
  shows "\<exists>m\<ge>n. inside (wk_pc (\<sigma> m) i)"
proof -
  have "\<exists>m\<ge>k. wk_pc (\<sigma> m) i = wk_pc (\<sigma> n) i \<longrightarrow> advance E i (\<sigma> m) \<noteq> None" for k
    using fair_run_free [OF assms(1), of k] assms(2) by (auto simp: advance_def)
  then obtain m where m: "n \<le> m" "wk_pc (\<sigma> m) i = Locking" "advance E i (\<sigma> m) = Some (\<sigma> (Suc m))"
    using fair_run_advances [OF assms(1), of n i] assms(2) by auto
  then have "\<sigma> (Suc m) = goto i Checking (set_lock (Some i) (\<sigma> m))"
    by (simp add: advance_def split: if_splits)
  then have "wk_pc (\<sigma> (Suc m)) i = Checking" by simp
  then show ?thesis using m(1) by (metis inside.simps(3) le_SucI)
qed

subsection \<open>Properties\<close>

text \<open>C7: However the workers of the control plane controller interleave, at most one of them is between
  \<open>Lock()\<close> and \<open>Unlock()\<close>, and there is one client: every call that ever returned a client returned the
  one of the actuator, which a successful call of the library created, and since then none was created
  again, nor the kubeconfig read again.\<close>

theorem garden_client_shared:
  assumes "garden_run E s"
  shows "(\<forall>i j. inside (wk_pc s i) \<longrightarrow> inside (wk_pc s j) \<longrightarrow> i = j)
    \<and> (\<forall>i c. (i, Inr c) \<in> set (wk_returns s) \<longrightarrow> wk_client s = Some c \<and> created E (wk_history s) c)"
  using garden_run_guarded [OF assms] unfolding guarded_def by fastforce

text \<open>A schedule of the workers: a worker that is outside calls, one that is blocked waits.\<close>

fun play :: "env \<Rightarrow> worker list \<Rightarrow> ('d, 'c, 'r, 's) workers \<Rightarrow> ('d, 'c, 'r, 's) workers" where
  "play E [] s = s"
| "play E (i # is) s = play E is (if wk_pc s i = Outside then goto i Locking s
     else case advance E i s of Some s' \<Rightarrow> s' | None \<Rightarrow> s)"

lemma garden_run_play: "garden_run E s \<Longrightarrow> garden_run E (play E is s)"
proof (induction E "is" s rule: play.induct)
  case (2 E i "is" s)
  have "garden_run E (if wk_pc s i = Outside then goto i Locking s
      else case advance E i s of Some s' \<Rightarrow> s' | None \<Rightarrow> s)"
    using 2(2) garden_run.calls garden_run.works by (auto split: option.split)
  then show ?case using 2(1) by simp
qed simp

text \<open>Two workers call, the kubeconfig can be read at the second attempt only.\<close>

definition late_env :: env where
  "late_env = sample_env\<lparr>e_call := \<lambda>h e. if h = [] then Some (Foreign ''no such file'') else None\<rparr>"

definition sample_workers :: "(unit, unit, unit, unit) workers" where
  "sample_workers = fresh_workers (cp_NewActuator (\<lambda>_ _. ())
     \<lparr>mgr_GetClient = (), mgr_GetConfig = (), mgr_GetScheme = ()\<rparr> emptyConfiguration [ExtensionClassSeed])"

definition sample_schedule :: "worker list" where
  "sample_schedule = [0, 1, 0, 1, 0, 0, 0, 1, 0, 1, 1, 1, 0, 1, 1, 1, 1, 1, 0, 0, 0]"

lemma sample_run: "garden_run late_env (play late_env sample_schedule sample_workers)"
  unfolding sample_workers_def by (intro garden_run_play garden_run.start)

lemma sample_run_returns:
  "map (\<lambda>(i, r). (i, returned r)) (wk_returns (play late_env sample_schedule sample_workers))
    = [(0, Error (Wrap ''failed to read garden kubeconfig'' (Foreign ''no such file''))), (1, Ok ()), (0, Ok ())]"
  by (simp add: sample_schedule_def sample_workers_def fresh_workers_def cp_NewActuator_def advance_def goto_def
      set_lock_def set_client_def happens_def build_call_def garden_client_steps_def late_env_def step_error_def Let_def)

lemma sample_run_clients:
  obtains r c c' where "wk_returns (play late_env sample_schedule sample_workers) = [(0, r), (1, Inr c), (0, Inr c')]"
proof -
  have ok: "returned r = Ok () \<Longrightarrow> \<exists>c. r = Inr c" for r by (cases r) simp_all
  show thesis using sample_run_returns that ok by (auto simp: map_eq_Cons_conv dest!: ok)
qed

theorem garden_client_shared_witness:
  "\<exists>s :: (unit, unit, unit, unit) workers. \<exists>c. garden_run late_env s \<and> (0, Inr c) \<in> set (wk_returns s) \<and> (1, Inr c) \<in> set (wk_returns s)
     \<and> created late_env (wk_history s) c"
proof -
  let ?s = "play late_env sample_schedule sample_workers"
  obtain r c c' where "wk_returns ?s = [(0, r), (1, Inr c), (0, Inr c')]"
    by (rule sample_run_clients)
  then have c: "(0, Inr c') \<in> set (wk_returns ?s)" "(1, Inr c) \<in> set (wk_returns ?s)" by simp_all
  note shared = conjunct2 [OF garden_client_shared [OF sample_run], rule_format]
  have "c' = c" "created late_env (wk_history ?s) c"
    using shared [OF c(1)] shared [OF c(2)] by simp_all
  then show ?thesis using sample_run c by blast
qed

text \<open>C6: The calls of the workers amount to calls of the sequential function, one after the other in the
  order in which they return: run from the start, in an environment that gives the answers the workers
  got, the sequential function returns what the workers' calls returned and makes their calls; when no
  worker holds the mutex it also leaves the actuator as the workers did. So the model of the controller may treat
  the function as one step.\<close>

theorem garden_client_linearizable:
  assumes "garden_run E s"
  shows "case seq_calls (replay E (garden_answers E (wk_history s))) (length (wk_returns s)) initial of (rs, w) \<Rightarrow>
      rs = map (\<lambda>(i, r). returned r) (wk_returns s)
    \<and> (\<exists>evs. filter garden_event (wk_history s) = trace w @ evs)
    \<and> (wk_lock s = None \<longrightarrow> trace w = filter garden_event (wk_history s) \<and> gardenClient w = (wk_client s \<noteq> None))"
proof -
  have "amounts_to (replay E (garden_answers E (wk_history s))) s"
    using garden_run_amounts [OF assms, of "garden_answers E (wk_history s)"] by simp
  then show ?thesis by (cases "wk_lock s") (auto simp: amounts_to_def seq_world_def)
qed

theorem garden_client_linearizable_witness:
  "\<exists>E. fst (seq_calls E 3 initial) = [Error (Wrap ''failed to read garden kubeconfig'' (Foreign ''no such file'')), Ok (), Ok ()]"
proof -
  let ?s = "play late_env sample_schedule sample_workers"
  have returns: "map (\<lambda>(i, r). returned r) (wk_returns ?s)
      = [Error (Wrap ''failed to read garden kubeconfig'' (Foreign ''no such file'')), Ok (), Ok ()]"
    using arg_cong [OF sample_run_returns, of "map snd"] by (simp add: comp_def case_prod_unfold)
  then have "length (wk_returns ?s) = 3" by (metis length_map list.size(3,4) numeral_3_eq_3 One_nat_def add_Suc_right add_0_right)
  then show ?thesis
    using garden_client_linearizable [OF sample_run] returns
    by (intro exI [of _ "replay late_env (garden_answers late_env (wk_history ?s))"]) (auto split: prod.splits)
qed

text \<open>C8: Every call returns, whatever fails, whatever else happens, and however many workers enter the
  function meanwhile and call it again and again: in every fair run, a worker that is in the function at
  some time returns from it later. (Fair: a worker whose next statement can be executed again and again
  executes it some time, so the library's calls return and nobody waits for a mutex that is free again and
  again for ever.)\<close>

theorem garden_client_returns:
  assumes "fair_run E \<sigma>" "wk_pc (\<sigma> n) i \<noteq> Outside"
  shows "\<exists>m\<ge>n. \<exists>r. wk_returns (\<sigma> (Suc m)) = wk_returns (\<sigma> m) @ [(i, r)]"
proof -
  have "wk_pc (\<sigma> n) i = Locking \<or> inside (wk_pc (\<sigma> n) i)"
    using assms(2) by (cases "wk_pc (\<sigma> n) i") simp_all
  then obtain k where "n \<le> k" "inside (wk_pc (\<sigma> k) i)"
    using fair_run_locks [OF assms(1)] by blast
  then show ?thesis using fair_run_inside_returns [OF assms(1)] by (meson le_trans)
qed

lemma play_append: "play E (is @ js) s = play E js (play E is s)"
  by (induction E "is" s rule: play.induct) simp_all

lemma play_step: "worker_step E s (play E [i] s)"
  by (auto split: option.split intro: worker_step.intros)

lemma play_run_step: "worker_step E (play E (take n is) s) (play E (take (Suc n) is) s)"
proof (cases "n < length is")
  case True
  then show ?thesis by (simp only: take_Suc_conv_app_nth play_append play_step)
qed (simp add: worker_step.step_idle)

text \<open>A schedule after which no worker is in the function is a fair run.\<close>

lemma play_fair:
  assumes "garden_run E s" "callers (play E is s) = {}"
  shows "fair_run E (\<lambda>n. play E (take n is) s)"
proof -
  have "advance E i (play E (take m is) s) = None" if "length is \<le> m" for i m
    using that assms(2) by (simp add: callers_def advance_def)
  then have "\<not> (\<exists>m \<ge> length is. advance E i (play E (take m is) s) \<noteq> None)" for i
    by auto
  then show ?thesis
    unfolding fair_run_def using assms(1) play_run_step by (metis play.simps(1) take0)
qed

theorem garden_client_returns_witness:
  "\<exists>\<sigma> :: nat \<Rightarrow> (unit, unit, unit, unit) workers. fair_run late_env \<sigma> \<and> wk_pc (\<sigma> 2) 1 = Locking \<and> wk_lock (\<sigma> 3) = Some 0
     \<and> (\<exists>m\<ge>2. \<exists>r. wk_returns (\<sigma> (Suc m)) = wk_returns (\<sigma> m) @ [(1, r)])"
proof -
  let ?run = "\<lambda>n. play late_env (take n sample_schedule) sample_workers"
  have "garden_run late_env sample_workers"
    unfolding sample_workers_def by (rule garden_run.start)
  moreover have "callers (play late_env sample_schedule sample_workers) = {}"
    by (simp add: callers_def sample_schedule_def sample_workers_def fresh_workers_def cp_NewActuator_def advance_def goto_def
      set_lock_def set_client_def happens_def build_call_def garden_client_steps_def late_env_def step_error_def Let_def)
  ultimately have fair: "fair_run late_env ?run" by (rule play_fair)
  have waits: "wk_pc (?run 2) 1 = Locking" "wk_lock (?run 3) = Some 0"
    by (simp_all add: sample_schedule_def sample_workers_def fresh_workers_def cp_NewActuator_def advance_def goto_def set_lock_def)
  then have "wk_pc (?run 2) 1 \<noteq> Outside" by simp
  from garden_client_returns [OF fair this] fair waits show ?thesis by blast
qed

text \<open>If no worker enters the function meanwhile, the calls in progress need nine statements each at most,
  there is no deadlock, and when none can go on, each of them has returned once and the mutex is free.\<close>

theorem garden_client_calls_bounded:
  assumes "garden_run E s" "finite (callers s)" "(moves E ^^ n) s s'"
  shows "n \<le> 9 * card (callers s)
    \<and> ((\<nexists>s''. moves E s' s'') \<longrightarrow> callers s' = {} \<and> wk_lock s' = None
      \<and> (\<exists>rs. wk_returns s' = wk_returns s @ rs \<and> distinct (map fst rs) \<and> set (map fst rs) = callers s))"
proof (intro conjI impI)
  note m = moves_many [OF assms]
  show "n \<le> 9 * card (callers s)"
    using m work_left_bound [OF garden_run_guarded [OF assms(1)]] by simp
  assume stuck: "\<nexists>s''. moves E s' s''"
  have g: "guarded E s'" using m garden_run_guarded by blast
  have "advance E i s' \<noteq> Some s''" for i s''
    using stuck unfolding moves_def by (metis fold_simps(1) list.pred_inject(1))
  then have quiet: "callers s' = {}"
    using some_worker_advances [OF g] by metis
  then show "callers s' = {}" .
  show "wk_lock s' = None"
    using g quiet unfolding guarded_def callers_def by (cases "wk_lock s'") force+
  show "\<exists>rs. wk_returns s' = wk_returns s @ rs \<and> distinct (map fst rs) \<and> set (map fst rs) = callers s"
    using m quiet unfolding returned_since_def by auto
qed

end
