(* ===== verification/Go_Heap.thy ===== *)
theory Go_Heap
  imports Cert_Prelude "HOL-Library.AList"
begin

text \<open>
  Memory, for the code whose result is a matter of aliasing: the generated deep copies. The other
  theories read a nil-able pointer as an option of its value; here it is an address. A cell holds a
  value of one Go type. A struct is one cell, whose pointers, slices and maps are addresses; the
  elements of a slice are consecutive cells. The theory gives the statements the generated code
  consists of, and two contracts: \<open>deep_copy\<close> of a method \<open>DeepCopyInto\<close>, and \<open>field_copy\<close> of the
  statements that copy one or several fields of a struct.
\<close>

subsection \<open>Heaps and typed cells\<close>

type_synonym addr = nat

record 'c heap =
  hp_cells :: "addr \<rightharpoonup> 'c"
  hp_next :: addr

text \<open>A Go type among the types of cells: its values as cells, back, and its zero value.\<close>

record ('c, 'a) cell_type =
  ct_cell :: "'a \<Rightarrow> 'c"
  ct_value :: "'c \<Rightarrow> 'a option"
  ct_zero :: 'a

definition cell_type_ok :: "('c, 'a) cell_type \<Rightarrow> bool" where
  "cell_type_ok T \<longleftrightarrow> (\<forall>x. ct_value T (ct_cell T x) = Some x)"

definition heap_ok :: "'c heap \<Rightarrow> bool" where
  "heap_ok h \<longleftrightarrow> dom (hp_cells h) \<subseteq> {..<hp_next h}"

abbreviation allocated :: "'c heap \<Rightarrow> addr set" where
  "allocated h \<equiv> dom (hp_cells h)"

text \<open>
  A computation on the heap. \<open>None\<close> is a fault: a nil dereference, or an access to an address that
  holds no value of the type (which Go's types exclude).
\<close>

type_synonym ('c, 'a) heapm = "'c heap \<Rightarrow> ('a \<times> 'c heap) option"

definition hreturn :: "'a \<Rightarrow> ('c, 'a) heapm" where
  "hreturn x h = Some (x, h)"

definition hbind :: "('c, 'a) heapm \<Rightarrow> ('a \<Rightarrow> ('c, 'b) heapm) \<Rightarrow> ('c, 'b) heapm" where
  "hbind m f h = (case m h of None \<Rightarrow> None | Some (x, h') \<Rightarrow> f x h')"

definition hseq :: "('c, unit) heapm \<Rightarrow> ('c, 'b) heapm \<Rightarrow> ('c, 'b) heapm" where
  "hseq m k = hbind m (\<lambda>_. k)"

lemma hreturn_simps [simp]: "hreturn x h = Some (x, h)"
  by (simp add: hreturn_def)

lemma hbind_Some [simp]: "m h = Some (x, h') \<Longrightarrow> hbind m f h = f x h'"
  by (simp add: hbind_def)

lemma hseq_Some [simp]: "m h = Some (x, h') \<Longrightarrow> hseq m k h = k h'"
  by (simp add: hseq_def)

text \<open>Reading and writing through a pointer, and an assignment \<open>*out = *in\<close>.\<close>

definition value_at :: "('c, 'a) cell_type \<Rightarrow> 'c heap \<Rightarrow> addr \<Rightarrow> 'a option" where
  "value_at T h a = Option.bind (hp_cells h a) (ct_value T)"

definition load :: "('c, 'a) cell_type \<Rightarrow> addr \<Rightarrow> ('c, 'a) heapm" where
  "load T a h = map_option (\<lambda>x. (x, h)) (value_at T h a)"

definition put_cell :: "('c, 'a) cell_type \<Rightarrow> addr \<Rightarrow> 'a \<Rightarrow> 'c heap \<Rightarrow> 'c heap" where
  "put_cell T a x h = h\<lparr>hp_cells := (hp_cells h)(a \<mapsto> ct_cell T x)\<rparr>"

definition store :: "('c, 'a) cell_type \<Rightarrow> addr \<Rightarrow> 'a \<Rightarrow> ('c, unit) heapm" where
  "store T a x h = (if value_at T h a = None then None else Some ((), put_cell T a x h))"

definition modify :: "('c, 'a) cell_type \<Rightarrow> addr \<Rightarrow> ('a \<Rightarrow> 'a) \<Rightarrow> ('c, unit) heapm" where
  "modify T a f = hbind (load T a) (\<lambda>x. store T a (f x))"

definition assign :: "('c, 'a) cell_type \<Rightarrow> addr \<Rightarrow> addr \<Rightarrow> ('c, unit) heapm" where
  "assign T i out = hbind (load T i) (store T out)"

text \<open>\<open>make([]T, n)\<close> and \<open>new(T)\<close>: fresh cells with the zero value.\<close>

definition make_cells :: "('c, 'a) cell_type \<Rightarrow> nat \<Rightarrow> ('c, addr) heapm" where
  "make_cells T n h = Some (hp_next h,
     \<lparr>hp_cells = (\<lambda>a. if hp_next h \<le> a \<and> a < hp_next h + n then Some (ct_cell T (ct_zero T))
                      else hp_cells h a),
      hp_next = hp_next h + n\<rparr>)"

definition new_cell :: "('c, 'a) cell_type \<Rightarrow> ('c, addr) heapm" where
  "new_cell T = make_cells T 1"

text \<open>\<open>h'\<close> keeps every cell of \<open>h\<close> outside \<open>X\<close>.\<close>

definition keeps :: "addr set \<Rightarrow> 'c heap \<Rightarrow> 'c heap \<Rightarrow> bool" where
  "keeps X h h' \<longleftrightarrow> allocated h \<subseteq> allocated h'
     \<and> (\<forall>a \<in> allocated h - X. hp_cells h' a = hp_cells h a)"

lemma keeps_refl [simp]: "keeps X h h"
  by (simp add: keeps_def)

lemma keeps_trans: "keeps X h h1 \<Longrightarrow> keeps Y h1 h2 \<Longrightarrow> Y \<inter> allocated h \<subseteq> X \<Longrightarrow> keeps X h h2"
  unfolding keeps_def by (smt (verit, best) Diff_iff IntI subset_eq)

lemma keeps_mono: "keeps X h h' \<Longrightarrow> X \<subseteq> Y \<Longrightarrow> keeps Y h h'"
  unfolding keeps_def by blast

lemma keeps_value: "keeps X h h' \<Longrightarrow> a \<notin> X \<Longrightarrow> value_at T h a = Some x \<Longrightarrow> value_at T h' a = Some x"
  unfolding keeps_def value_at_def by (cases "hp_cells h a") force+

lemma value_at_allocated: "value_at T h a = Some x \<Longrightarrow> a \<in> allocated h"
  unfolding value_at_def by (cases "hp_cells h a") auto

lemma load_Some [simp]: "value_at T h a = Some x \<Longrightarrow> load T a h = Some (x, h)"
  by (simp add: load_def)

lemma value_at_put [simp]: "cell_type_ok T \<Longrightarrow> value_at T (put_cell T a x h) a = Some x"
  by (simp add: value_at_def put_cell_def cell_type_ok_def)

lemma store_Some: "value_at T h a = Some y \<Longrightarrow> store T a x h = Some ((), put_cell T a x h)"
  by (simp add: store_def)

lemma put_cell_keeps: "a \<in> allocated h \<Longrightarrow> keeps {a} h (put_cell T a x h)"
  by (auto simp: keeps_def put_cell_def)

lemma put_cell_allocated: "a \<in> allocated h \<Longrightarrow> allocated (put_cell T a x h) = allocated h"
  by (auto simp: put_cell_def)

lemma put_cell_ok: "a \<in> allocated h \<Longrightarrow> heap_ok h \<Longrightarrow> heap_ok (put_cell T a x h)"
  by (auto simp: heap_ok_def put_cell_def)

lemma modify_Some:
  "value_at T h a = Some x \<Longrightarrow> modify T a f h = Some ((), put_cell T a (f x) h)"
  by (simp add: modify_def store_Some)

lemma assign_Some:
  "value_at T h i = Some x \<Longrightarrow> value_at T h out = Some y \<Longrightarrow> assign T i out h = Some ((), put_cell T out x h)"
  by (simp add: assign_def store_Some)

lemma make_cells_ok:
  assumes "cell_type_ok T" "heap_ok h"
  obtains b h' where "make_cells T n h = Some (b, h')" "heap_ok h'" "keeps {} h h'"
    "allocated h' = allocated h \<union> {b..<b + n}" "{b..<b + n} \<inter> allocated h = {}"
    "\<And>k. k < n \<Longrightarrow> value_at T h' (b + k) = Some (ct_zero T)"
proof -
  let ?b = "hp_next h"
  let ?h = "\<lparr>hp_cells = (\<lambda>a. if ?b \<le> a \<and> a < ?b + n then Some (ct_cell T (ct_zero T)) else hp_cells h a),
      hp_next = ?b + n\<rparr>"
  have a: "allocated ?h = allocated h \<union> {?b..<?b + n}"
    by (auto split: if_splits)
  have d: "{?b..<?b + n} \<inter> allocated h = {}"
    using assms(2) by (auto simp: heap_ok_def)
  have "heap_ok ?h"
    using assms(2) unfolding heap_ok_def a by auto
  moreover have "keeps {} h ?h"
    using d by (auto simp: keeps_def)
  moreover have "value_at T ?h (?b + k) = Some (ct_zero T)" if "k < n" for k
    using that assms(1) by (simp add: value_at_def cell_type_ok_def)
  ultimately show thesis
    using a d by (intro that[of ?b ?h]) (simp_all add: make_cells_def)
qed

end
