(* ===== verification/Deep_Copy.thy ===== *)
theory Deep_Copy
  imports Go_Heap
begin

text \<open>
  The statements of generated deep copies and their contracts. A meaning of a value in memory is the
  value it denotes, without addresses, and its footprint: the addresses that the denoted value was
  read from. \<open>deep_copy\<close> is the contract of \<open>DeepCopyInto\<close>, \<open>field_copy\<close> the one of the statements
  for some fields of a struct, and contracts compose as the statements do.
\<close>

subsection \<open>The statements\<close>

type_synonym ('c, 'a, 'v) meaning = "'c heap \<Rightarrow> 'a \<Rightarrow> ('v \<times> addr set) option"

text \<open>A field of a struct in memory: \<open>in.X\<close> for the pointer \<open>in\<close>.\<close>

definition field :: "('c, 's) cell_type \<Rightarrow> ('s \<Rightarrow> 'f) \<Rightarrow> addr \<Rightarrow> ('c, 'f) heapm" where
  "field S get a = hbind (load S a) (\<lambda>r. hreturn (get r))"

text \<open>A dereference of a field: nil is a fault.\<close>

definition deref_field :: "('c, 's) cell_type \<Rightarrow> ('s \<Rightarrow> 'f option) \<Rightarrow> addr \<Rightarrow> ('c, 'f) heapm" where
  "deref_field S get a = hbind (field S get a) (\<lambda>p h. map_option (\<lambda>x. (x, h)) p)"

text \<open>\<open>out.X = in.X\<close>\<close>

definition copy_field :: "('c, 's) cell_type \<Rightarrow> ('s \<Rightarrow> 'f) \<Rightarrow> ('f \<Rightarrow> 's \<Rightarrow> 's)
    \<Rightarrow> addr \<Rightarrow> addr \<Rightarrow> ('c, unit) heapm" where
  "copy_field S get put i out = hbind (field S get i) (\<lambda>x. modify S out (put x))"

text \<open>
  \<open>if in.X != nil { in, out := &in.X, &out.X; *out = new(F); body }\<close>, where the body is
  \<open>**out = **in\<close> or \<open>(*in).DeepCopyInto(*out)\<close>. The body reads both fields after the assignment.
\<close>

definition copy_pointer :: "('c, 's) cell_type \<Rightarrow> ('s \<Rightarrow> addr option) \<Rightarrow> (addr option \<Rightarrow> 's \<Rightarrow> 's)
    \<Rightarrow> ('c, 'f) cell_type \<Rightarrow> (addr \<Rightarrow> addr \<Rightarrow> ('c, unit) heapm) \<Rightarrow> addr \<Rightarrow> addr \<Rightarrow> ('c, unit) heapm" where
  "copy_pointer S get put F body i out = hbind (field S get i) (\<lambda>x.
    if x = None then hreturn ()
    else hbind (new_cell F) (\<lambda>q. hseq (modify S out (put (Some q)))
      (hbind (deref_field S get i) (\<lambda>src. hbind (deref_field S get out) (\<lambda>dst. body src dst)))))"

text \<open>A slice: the address of its first element and its length. The capacity is never read.\<close>

record slice =
  sl_base :: addr
  sl_len :: nat

text \<open>\<open>for i := range *in { body(&(*in)[i], &(*out)[i]) }\<close> from two addresses on.\<close>

fun for_elements :: "(addr \<Rightarrow> addr \<Rightarrow> ('c, unit) heapm) \<Rightarrow> nat \<Rightarrow> addr \<Rightarrow> addr \<Rightarrow> ('c, unit) heapm" where
  "for_elements body 0 i out = hreturn ()"
| "for_elements body (Suc n) i out = hseq (body i out) (for_elements body n (Suc i) (Suc out))"

text \<open>The builtin \<open>copy(dst, src)\<close> copies as many elements as the shorter slice has.\<close>

definition go_copy :: "('c, 'f) cell_type \<Rightarrow> slice \<Rightarrow> slice \<Rightarrow> ('c, unit) heapm" where
  "go_copy F dst src = for_elements (assign F) (min (sl_len dst) (sl_len src)) (sl_base src) (sl_base dst)"

definition range_elements :: "(addr \<Rightarrow> addr \<Rightarrow> ('c, unit) heapm) \<Rightarrow> slice \<Rightarrow> slice \<Rightarrow> ('c, unit) heapm" where
  "range_elements body dst src = for_elements body (sl_len src) (sl_base src) (sl_base dst)"

text \<open>\<open>if in.X != nil { in, out := &in.X, &out.X; *out = make([]F, len(*in)); body }\<close>\<close>

definition copy_slice :: "('c, 's) cell_type \<Rightarrow> ('s \<Rightarrow> slice option) \<Rightarrow> (slice option \<Rightarrow> 's \<Rightarrow> 's)
    \<Rightarrow> ('c, 'f) cell_type \<Rightarrow> (slice \<Rightarrow> slice \<Rightarrow> ('c, unit) heapm) \<Rightarrow> addr \<Rightarrow> addr \<Rightarrow> ('c, unit) heapm" where
  "copy_slice S get put F body i out = hbind (field S get i) (\<lambda>x.
    if x = None then hreturn ()
    else hbind (deref_field S get i) (\<lambda>s. hbind (make_cells F (sl_len s)) (\<lambda>b.
      hseq (modify S out (put (Some \<lparr>sl_base = b, sl_len = sl_len s\<rparr>)))
        (hbind (deref_field S get i) (\<lambda>src. hbind (deref_field S get out) (\<lambda>dst. body dst src))))))"

text \<open>
  A map in memory is the list of its entries in the order in which \<open>range\<close> visits them, with distinct
  keys. \<open>for key, val := range *in { (*out)[key] = val }\<close> writes one entry after the other.
\<close>

fun set_entries :: "('c, ('k \<times> 'w) list) cell_type \<Rightarrow> addr \<Rightarrow> ('k \<times> 'w) list \<Rightarrow> ('c, unit) heapm" where
  "set_entries M a [] = hreturn ()"
| "set_entries M a ((key, val) # es) = hseq (modify M a (AList.update key val)) (set_entries M a es)"

definition copy_entries :: "('c, ('k \<times> 'w) list) cell_type \<Rightarrow> addr \<Rightarrow> addr \<Rightarrow> ('c, unit) heapm" where
  "copy_entries M i out = hbind (load M i) (set_entries M out)"

text \<open>\<open>if in == nil { return nil }; out := new(T); in.DeepCopyInto(out); return out\<close>\<close>

definition deep_copy_ptr :: "('c, 'a) cell_type \<Rightarrow> (addr \<Rightarrow> addr \<Rightarrow> ('c, unit) heapm)
    \<Rightarrow> addr option \<Rightarrow> ('c, addr option) heapm" where
  "deep_copy_ptr T into inp = (case inp of
      None \<Rightarrow> hreturn None
    | Some i \<Rightarrow> hbind (new_cell T) (\<lambda>out. hseq (into i out) (hreturn (Some out))))"

text \<open>\<open>if c := in.DeepCopy(); c != nil { return c }; return nil\<close>\<close>

definition deep_copy_object :: "(addr option \<Rightarrow> ('c, addr option) heapm) \<Rightarrow> addr option
    \<Rightarrow> ('c, addr option) heapm" where
  "deep_copy_object copy inp = hbind (copy inp) (\<lambda>c. if c \<noteq> None then hreturn c else hreturn None)"

subsection \<open>Meanings\<close>

text \<open>A value without addresses means itself.\<close>

definition flat_meaning :: "('c, 'a, 'a) meaning" where
  "flat_meaning h x = Some (x, {})"

definition pointer_meaning :: "('c, 'f) cell_type \<Rightarrow> ('c, 'f, 'v) meaning \<Rightarrow> ('c, addr option, 'v option) meaning" where
  "pointer_meaning F m h p = (case p of
      None \<Rightarrow> Some (None, {})
    | Some a \<Rightarrow> Option.bind (value_at F h a) (\<lambda>x. map_option (\<lambda>(v, A). (Some v, insert a A)) (m h x)))"

fun elements_meaning :: "('c, 'f) cell_type \<Rightarrow> ('c, 'f, 'v) meaning \<Rightarrow> 'c heap \<Rightarrow> nat \<Rightarrow> addr
    \<Rightarrow> ('v list \<times> addr set) option" where
  "elements_meaning F m h 0 b = Some ([], {})"
| "elements_meaning F m h (Suc n) b = Option.bind (value_at F h b) (\<lambda>x. Option.bind (m h x) (\<lambda>(v, A).
     map_option (\<lambda>(vs, B). (v # vs, insert b (A \<union> B))) (elements_meaning F m h n (Suc b))))"

definition slice_meaning :: "('c, 'f) cell_type \<Rightarrow> ('c, 'f, 'v) meaning \<Rightarrow> ('c, slice option, 'v list option) meaning" where
  "slice_meaning F m h s = (case s of
      None \<Rightarrow> Some (None, {})
    | Some s \<Rightarrow> map_option (\<lambda>(vs, A). (Some vs, A)) (elements_meaning F m h (sl_len s) (sl_base s)))"

definition map_meaning :: "('c, ('k \<times> 'w) list, 'k \<rightharpoonup> 'w) meaning" where
  "map_meaning h es = (if distinct (map fst es) then Some (map_of es, {}) else None)"

definition pair_meaning :: "('c, 'a, 'v) meaning \<Rightarrow> ('c, 'b, 'w) meaning \<Rightarrow> ('c, 'a \<times> 'b, 'v \<times> 'w) meaning" where
  "pair_meaning m1 m2 h x = Option.bind (m1 h (fst x)) (\<lambda>(v, A).
     map_option (\<lambda>(w, B). ((v, w), A \<union> B)) (m2 h (snd x)))"

text \<open>The meaning of a struct: of its fields with addresses, put together with the other fields.\<close>

definition struct_meaning :: "('s \<Rightarrow> 'f) \<Rightarrow> ('c, 'f, 'v) meaning \<Rightarrow> ('s \<Rightarrow> 'v \<Rightarrow> 'w) \<Rightarrow> ('c, 's, 'w) meaning" where
  "struct_meaning get m build h r = map_option (\<lambda>(v, A). (build r v, A)) (m h (get r))"

subsection \<open>Contracts\<close>

text \<open>A meaning depends on its footprint only, and the footprint is allocated.\<close>

definition local_meaning :: "('c, 'a, 'v) meaning \<Rightarrow> bool" where
  "local_meaning m \<longleftrightarrow> (\<forall>h x v A. m h x = Some (v, A) \<longrightarrow> A \<subseteq> allocated h
     \<and> (\<forall>h'. (\<forall>a \<in> A. hp_cells h' a = hp_cells h a) \<longrightarrow> m h' x = Some (v, A)))"

lemma local_allocated: "local_meaning m \<Longrightarrow> m h x = Some (v, A) \<Longrightarrow> A \<subseteq> allocated h"
  unfolding local_meaning_def by blast

lemma local_agree:
  "local_meaning m \<Longrightarrow> m h x = Some (v, A) \<Longrightarrow> (\<And>a. a \<in> A \<Longrightarrow> hp_cells h' a = hp_cells h a)
    \<Longrightarrow> m h' x = Some (v, A)"
  unfolding local_meaning_def by blast

lemma local_keeps:
  assumes "local_meaning m" "m h x = Some (v, A)" "keeps X h h'" "X \<inter> A = {}"
  shows "m h' x = Some (v, A)"
proof (rule local_agree[OF assms(1,2)])
  fix a assume "a \<in> A"
  then have "a \<in> allocated h - X"
    using local_allocated[OF assms(1,2)] assms(4) by blast
  then show "hp_cells h' a = hp_cells h a"
    using assms(3) unfolding keeps_def by blast
qed

text \<open>
  \<open>DeepCopyInto\<close> into another allocated cell outside the footprint: the target then has the same
  meaning, with a footprint of new addresses, and no other cell is changed. A struct may hold anything
  before, a map must be empty, as \<open>make\<close> returns it (\<open>target\<close>).
\<close>

locale deep_copy =
  fixes T :: "('c, 'a) cell_type" and m :: "('c, 'a, 'v) meaning"
    and target :: "'a \<Rightarrow> bool" and into :: "addr \<Rightarrow> addr \<Rightarrow> ('c, unit) heapm"
  assumes cells: "cell_type_ok T"
    and zero: "target (ct_zero T)"
    and local: "local_meaning m"
    and copies: "heap_ok h \<Longrightarrow> value_at T h i = Some r \<Longrightarrow> m h r = Some (v, A)
      \<Longrightarrow> value_at T h out = Some c \<Longrightarrow> target c \<Longrightarrow> i \<noteq> out \<Longrightarrow> out \<notin> A
      \<Longrightarrow> \<exists>h' r' A'. into i out h = Some ((), h') \<and> heap_ok h' \<and> keeps {out} h h'
            \<and> value_at T h' out = Some r' \<and> m h' r' = Some (v, A') \<and> A' \<inter> allocated h = {}"

text \<open>The statements for the fields that \<open>get\<close> reads and \<open>put\<close> writes, when they are equal before.\<close>

locale field_copy =
  fixes S :: "('c, 's) cell_type" and get :: "'s \<Rightarrow> 'f" and put :: "'f \<Rightarrow> 's \<Rightarrow> 's"
    and m :: "('c, 'f, 'v) meaning" and step :: "addr \<Rightarrow> addr \<Rightarrow> ('c, unit) heapm"
  assumes struct_cells: "cell_type_ok S"
    and field_local: "local_meaning m"
    and field_copies: "heap_ok h \<Longrightarrow> value_at S h i = Some r \<Longrightarrow> m h (get r) = Some (v, A)
      \<Longrightarrow> value_at S h out = Some c \<Longrightarrow> get c = get r \<Longrightarrow> i \<noteq> out \<Longrightarrow> out \<notin> A
      \<Longrightarrow> \<exists>h' y A'. step i out h = Some ((), h') \<and> heap_ok h' \<and> keeps {out} h h'
            \<and> value_at S h' out = Some (put y c) \<and> m h' y = Some (v, A') \<and> A' \<inter> allocated h = {}"

subsection \<open>How contracts compose\<close>

text \<open>A struct without addresses: \<open>*out = *in\<close>.\<close>

lemma local_flat: "local_meaning flat_meaning"
  by (simp add: local_meaning_def flat_meaning_def)

lemma deep_copy_flat: "cell_type_ok T \<Longrightarrow> deep_copy T flat_meaning (\<lambda>_. True) (assign T)"
proof (unfold_locales, goal_cases)
  case (4 h i r v A out c)
  have "allocated (put_cell T out r h) = allocated h"
    using 4 by (intro put_cell_allocated value_at_allocated)
  then show ?case
    using 4 by (auto simp: assign_Some flat_meaning_def put_cell_keeps put_cell_ok value_at_allocated
        intro!: put_cell_keeps put_cell_ok)
qed (auto simp: local_flat)

lemma field_Some [simp]: "value_at S h a = Some r \<Longrightarrow> field S get a h = Some (get r, h)"
  by (simp add: field_def)

lemma deref_field_Some [simp]: "value_at S h a = Some r \<Longrightarrow> get r = Some x \<Longrightarrow> deref_field S get a h = Some (x, h)"
  by (simp add: deref_field_def)

lemma copy_field_ok: "cell_type_ok S \<Longrightarrow> field_copy S get put flat_meaning (copy_field S get put)"
proof (unfold_locales, goal_cases)
  case (3 h i r v A out c)
  then have "copy_field S get put i out h = Some ((), put_cell S out (put (get r) c) h)"
    by (simp add: copy_field_def modify_Some)
  then show ?case
    using 3 by (auto simp: flat_meaning_def put_cell_keeps put_cell_ok value_at_allocated
        intro!: put_cell_keeps put_cell_ok exI[of _ "get r"])
qed (auto simp: local_flat)

text \<open>Two groups of fields, one after the other.\<close>

lemma pair_meaning_Some:
  "pair_meaning m1 m2 h x = Some (v, A) \<longleftrightarrow> (\<exists>v1 A1 v2 A2. m1 h (fst x) = Some (v1, A1)
     \<and> m2 h (snd x) = Some (v2, A2) \<and> v = (v1, v2) \<and> A = A1 \<union> A2)"
  by (auto simp: pair_meaning_def bind_eq_Some_conv)

lemma local_pair:
  assumes "local_meaning m1" "local_meaning m2"
  shows "local_meaning (pair_meaning m1 m2)"
  unfolding local_meaning_def
proof (intro allI impI conjI)
  fix h x v A
  assume "pair_meaning m1 m2 h x = Some (v, A)"
  then obtain v1 A1 v2 A2 where m: "m1 h (fst x) = Some (v1, A1)" "m2 h (snd x) = Some (v2, A2)"
    and v: "v = (v1, v2)" "A = A1 \<union> A2"
    by (auto simp: pair_meaning_Some)
  show "A \<subseteq> allocated h"
    using local_allocated[OF assms(1) m(1)] local_allocated[OF assms(2) m(2)] v by blast
  fix h' :: "'a heap"
  assume "\<forall>a \<in> A. hp_cells h' a = hp_cells h a"
  then show "pair_meaning m1 m2 h' x = Some (v, A)"
    using local_agree[OF assms(1) m(1), of h'] local_agree[OF assms(2) m(2), of h'] v
    by (simp add: pair_meaning_Some)
qed

lemma field_copy_pair:
  assumes f1: "field_copy S get1 put1 m1 step1" and f2: "field_copy S get2 put2 m2 step2"
    and independent: "\<And>y c. get2 (put1 y c) = get2 c"
  shows "field_copy S (\<lambda>r. (get1 r, get2 r)) (\<lambda>(y1, y2) c. put2 y2 (put1 y1 c)) (pair_meaning m1 m2)
    (\<lambda>i out. hseq (step1 i out) (step2 i out))"
proof (unfold_locales, goal_cases)
  case 1 show ?case using field_copy.struct_cells[OF f1] .
next
  case 2 show ?case by (rule local_pair[OF field_copy.field_local[OF f1] field_copy.field_local[OF f2]])
next
  case (3 h i r v A out c)
  then obtain v1 A1 v2 A2 where m: "m1 h (get1 r) = Some (v1, A1)" "m2 h (get2 r) = Some (v2, A2)"
    and v: "v = (v1, v2)" "A = A1 \<union> A2"
    by (auto simp: pair_meaning_Some)
  obtain h1 y1 B1 where s1: "step1 i out h = Some ((), h1)" "heap_ok h1" "keeps {out} h h1"
      "value_at S h1 out = Some (put1 y1 c)" "m1 h1 y1 = Some (v1, B1)" "B1 \<inter> allocated h = {}"
    using field_copy.field_copies[OF f1 3(1,2) m(1) 3(4)] 3 v by auto
  have i: "value_at S h1 i = Some r" "m2 h1 (get2 r) = Some (v2, A2)"
    using keeps_value[OF s1(3)] local_keeps[OF field_copy.field_local[OF f2] m(2) s1(3)] 3 v by auto
  obtain h2 y2 B2 where s2: "step2 i out h1 = Some ((), h2)" "heap_ok h2" "keeps {out} h1 h2"
      "value_at S h2 out = Some (put2 y2 (put1 y1 c))" "m2 h2 y2 = Some (v2, B2)" "B2 \<inter> allocated h1 = {}"
    using field_copy.field_copies[OF f2 s1(2) i s1(4)] 3(5-7) v independent by auto
  have out: "out \<in> allocated h" using 3(4) by (rule value_at_allocated)
  have "m1 h2 y1 = Some (v1, B1)"
    using local_keeps[OF field_copy.field_local[OF f1] s1(5) s2(3)] s1(6) out by auto
  moreover have "keeps {out} h h2"
    using keeps_trans[OF s1(3) s2(3)] by simp
  moreover have "allocated h \<subseteq> allocated h1"
    using s1(3) by (simp add: keeps_def)
  ultimately have "pair_meaning m1 m2 h2 (y1, y2) = Some (v, B1 \<union> B2)" "keeps {out} h h2"
    "(B1 \<union> B2) \<inter> allocated h = {}"
    using s1(6) s2(5,6) v by (auto simp: pair_meaning_Some)
  then show ?case
    using s1(1) s2(1,2,4) by (intro exI[of _ h2] exI[of _ "(y1, y2)"] exI[of _ "B1 \<union> B2"]) simp
qed

text \<open>A struct: \<open>*out = *in\<close>, then its fields with addresses.\<close>

lemma struct_meaning_Some:
  "struct_meaning get m build h r = Some (w, A) \<longleftrightarrow> (\<exists>v. m h (get r) = Some (v, A) \<and> w = build r v)"
  by (auto simp: struct_meaning_def)

lemma local_struct: "local_meaning m \<Longrightarrow> local_meaning (struct_meaning get m build)"
  unfolding local_meaning_def struct_meaning_Some by blast

lemma deep_copy_struct:
  assumes f: "field_copy S get put m step"
    and get: "\<And>y r. get (put y r) = y" and build: "\<And>y r. build (put y r) = build r"
  shows "deep_copy S (struct_meaning get m build) (\<lambda>_. True) (\<lambda>i out. hseq (assign S i out) (step i out))"
proof (unfold_locales, goal_cases)
  case 1 then show ?case using field_copy.struct_cells[OF f] .
next
  case 3 then show ?case using local_struct field_copy.field_local[OF f] by blast
next
  case (4 h i r w A out c)
  then obtain v where v: "m h (get r) = Some (v, A)" "w = build r v"
    by (auto simp: struct_meaning_Some)
  let ?h = "put_cell S out r h"
  have out: "out \<in> allocated h" using 4(4) by (rule value_at_allocated)
  have a: "assign S i out h = Some ((), ?h)" "heap_ok ?h" "keeps {out} h ?h" "allocated ?h = allocated h"
      "value_at S ?h out = Some r"
    using 4 out field_copy.struct_cells[OF f]
    by (simp_all add: assign_Some put_cell_ok put_cell_keeps put_cell_allocated)
  have "value_at S ?h i = Some r" "m ?h (get r) = Some (v, A)"
    using keeps_value[OF a(3)] local_keeps[OF field_copy.field_local[OF f] v(1) a(3)] 4 by auto
  then obtain h' y A' where "step i out ?h = Some ((), h')" "heap_ok h'" "keeps {out} ?h h'"
      "value_at S h' out = Some (put y r)" "m h' y = Some (v, A')" "A' \<inter> allocated ?h = {}"
    using field_copy.field_copies[OF f a(2) _ _ a(5) refl] 4 by blast
  then show ?case
    using a v keeps_trans[OF a(3), of "{out}" h'] get build
    by (auto simp: struct_meaning_Some intro!: exI[of _ h'])
qed simp

text \<open>A pointer.\<close>

lemma pointer_meaning_Some:
  "pointer_meaning F m h (Some a) = Some (w, B) \<longleftrightarrow>
    (\<exists>x v A. value_at F h a = Some x \<and> m h x = Some (v, A) \<and> w = Some v \<and> B = insert a A)"
  by (auto simp: pointer_meaning_def bind_eq_Some_conv)

lemma pointer_meaning_None [simp]: "pointer_meaning F m h None = Some (None, {})"
  by (simp add: pointer_meaning_def)

lemma value_at_agree: "hp_cells h' a = hp_cells h a \<Longrightarrow> value_at T h' a = value_at T h a"
  by (simp add: value_at_def)

lemma local_pointer:
  assumes "local_meaning m"
  shows "local_meaning (pointer_meaning F m)"
  unfolding local_meaning_def
proof (intro allI impI conjI)
  fix h p w B
  assume pm: "pointer_meaning F m h p = Some (w, B)"
  show "B \<subseteq> allocated h"
    using pm local_allocated[OF assms] value_at_allocated
    by (cases p) (fastforce simp: pointer_meaning_Some)+
  fix h' :: "'a heap"
  assume agree: "\<forall>a \<in> B. hp_cells h' a = hp_cells h a"
  show "pointer_meaning F m h' p = Some (w, B)"
  proof (cases p)
    case (Some a)
    obtain x v A where x: "value_at F h a = Some x" "m h x = Some (v, A)" "w = Some v" "B = insert a A"
      using pm Some by (auto simp: pointer_meaning_Some)
    have "value_at F h' a = Some x" "m h' x = Some (v, A)"
      using value_at_agree[of h' a h F] agree x local_agree[OF assms x(2), of h'] by auto
    then show ?thesis
      using x Some by (simp add: pointer_meaning_Some)
  qed (use pm in simp)
qed

text \<open>After \<open>*out.X = \<dots>\<close> of a fresh object, the rest of memory is as before.\<close>

lemma assigned_fresh:
  assumes "cell_type_ok S" "heap_ok h1" "keeps {} h h1" "value_at S h out = Some c"
    and h2: "h2 = put_cell S out c' h1"
  shows "heap_ok h2" "keeps {out} h h2" "keeps {out} h1 h2" "allocated h2 = allocated h1"
    "value_at S h2 out = Some c'"
proof -
  have out: "out \<in> allocated h1"
    using value_at_allocated[OF assms(4)] assms(3) unfolding keeps_def by blast
  show "heap_ok h2" "keeps {out} h1 h2" "allocated h2 = allocated h1" "value_at S h2 out = Some c'"
    unfolding h2 using out assms(1,2)
    by (simp_all only: put_cell_ok put_cell_keeps put_cell_allocated value_at_put)
  then show "keeps {out} h h2"
    using keeps_trans[OF keeps_mono[OF assms(3)], of "{out}"] by blast
qed

lemma new_cell_ok:
  assumes "cell_type_ok T" "heap_ok h"
  obtains q h' where "new_cell T h = Some (q, h')" "heap_ok h'" "keeps {} h h'"
    "allocated h' = insert q (allocated h)" "q \<notin> allocated h" "value_at T h' q = Some (ct_zero T)"
proof -
  obtain b h' where m: "make_cells T 1 h = Some (b, h')" "heap_ok h'" "keeps {} h h'"
      "allocated h' = allocated h \<union> {b..<b + 1}" "{b..<b + 1} \<inter> allocated h = {}"
      "\<And>k. k < 1 \<Longrightarrow> value_at T h' (b + k) = Some (ct_zero T)"
    using make_cells_ok[OF assms, of 1] by metis
  show thesis
    using that[of b h'] m(1-5) m(6)[of 0] by (simp add: new_cell_def)
qed

text \<open>An optional field: nil is left alone, so that the case of a value remains.\<close>

lemma field_copy_option:
  assumes S: "cell_type_ok S" and m: "local_meaning m" "\<And>h. m h None = Some (None, {})"
    and nil: "\<And>c. get c = None \<Longrightarrow> put None c = c"
    and step: "\<And>h i out r. value_at S h i = Some r \<Longrightarrow> get r = None \<Longrightarrow> step i out h = Some ((), h)"
    and some: "\<And>h i r x w A out c. \<lbrakk>heap_ok h; value_at S h i = Some r; m h (Some x) = Some (w, A);
        value_at S h out = Some c; get r = Some x; get c = Some x; i \<noteq> out; out \<notin> A\<rbrakk>
      \<Longrightarrow> \<exists>h' y A'. step i out h = Some ((), h') \<and> heap_ok h' \<and> keeps {out} h h'
            \<and> value_at S h' out = Some (put y c) \<and> m h' y = Some (w, A') \<and> A' \<inter> allocated h = {}"
  shows "field_copy S get put m step"
proof (unfold_locales, goal_cases)
  case (3 h i r w A out c)
  show ?case
  proof (cases "get r")
    case None
    then show ?thesis
      using 3 m(2) nil[of c] step[of h i r out]
      by (intro exI[of _ h] exI[of _ None] exI[of _ A]) auto
  next
    case (Some x)
    then show ?thesis using some[of h i r x w A out c] 3 by simp
  qed
qed (use S m in simp_all)

lemma copy_pointer_ok:
  assumes d: "deep_copy F m target body" and S: "cell_type_ok S"
    and get: "\<And>y c. get (put y c) = y" and nil: "\<And>c. get c = None \<Longrightarrow> put None c = c"
  shows "field_copy S get put (pointer_meaning F m) (copy_pointer S get put F body)"
proof (rule field_copy_option[OF S local_pointer[OF deep_copy.local[OF d]]], goal_cases)
  case (4 h i r p w B out c)
  then obtain x v A where p: "value_at F h p = Some x" "m h x = Some (v, A)" "w = Some v" "B = insert p A"
    by (auto simp: pointer_meaning_Some)
  obtain q h1 where q: "new_cell F h = Some (q, h1)" "heap_ok h1" "keeps {} h h1"
      "allocated h1 = insert q (allocated h)" "q \<notin> allocated h" "value_at F h1 q = Some (ct_zero F)"
    using new_cell_ok[OF deep_copy.cells[OF d] 4(1)] .
  let ?c = "put (Some q) c" let ?h = "put_cell S out ?c h1"
  note k = assigned_fresh[OF S q(2,3) 4(4) refl, of ?c]
  have out: "out \<in> allocated h" and p_old: "p \<in> allocated h" and A: "A \<subseteq> allocated h"
    using value_at_allocated[OF 4(4)] value_at_allocated[OF p(1)]
      local_allocated[OF deep_copy.local[OF d] p(2)] .
  have "p \<noteq> out" using 4 p by auto
  then have h2: "value_at S h1 out = Some c" "value_at S h1 i = Some r" "value_at S ?h i = Some r"
      "value_at F ?h p = Some x" "m ?h x = Some (v, A)"
    using keeps_value[OF q(3)] keeps_value[OF k(2)] local_keeps[OF deep_copy.local[OF d] p(2) k(2)] 4 p by auto
  have "value_at F ?h q = Some (ct_zero F)"
    using keeps_value[OF k(3) _ q(6)] q(5) out by auto
  then obtain h3 y A' where b: "body p q ?h = Some ((), h3)" "heap_ok h3" "keeps {q} ?h h3"
      "value_at F h3 q = Some y" "m h3 y = Some (v, A')" "A' \<inter> allocated ?h = {}"
    using deep_copy.copies[OF d k(1) h2(4,5) _ deep_copy.zero[OF d]] q(5) p_old A by blast
  have "copy_pointer S get put F body i out h = Some ((), h3)"
    using 4 q(1) h2 k(5) b(1) get by (simp add: copy_pointer_def modify_Some)
  moreover have "pointer_meaning F m h3 (Some q) = Some (w, insert q A')"
    using b p by (simp add: pointer_meaning_Some)
  moreover have "insert q A' \<inter> allocated h = {}"
    using q(4,5) b(6) k(4) by auto
  moreover have "value_at S h3 out = Some ?c" "keeps {out} h h3"
    using keeps_value[OF b(3) _ k(5)] keeps_trans[OF k(2) b(3)] q(5) out by auto
  ultimately show ?case
    using b(2) by blast
qed (simp_all add: copy_pointer_def nil)

text \<open>Elements of a slice, copied to consecutive cells that are not read.\<close>

lemma elements_meaning_Suc:
  "elements_meaning F m h (Suc n) b = Some (ws, C) \<longleftrightarrow> (\<exists>x v A vs B. value_at F h b = Some x
     \<and> m h x = Some (v, A) \<and> elements_meaning F m h n (Suc b) = Some (vs, B)
     \<and> ws = v # vs \<and> C = insert b (A \<union> B))"
  by (auto simp: bind_eq_Some_conv)

lemma elements_local:
  assumes "local_meaning m"
  shows "elements_meaning F m h n b = Some (ws, C) \<Longrightarrow> C \<subseteq> allocated h
    \<and> (\<forall>h'. (\<forall>a \<in> C. hp_cells h' a = hp_cells h a) \<longrightarrow> elements_meaning F m h' n b = Some (ws, C))"
proof (induction n arbitrary: b ws C)
  case 0
  then show ?case by simp
next
  case (Suc n)
  then obtain x v A vs B where x: "value_at F h b = Some x" "m h x = Some (v, A)"
      "elements_meaning F m h n (Suc b) = Some (vs, B)" "ws = v # vs" "C = insert b (A \<union> B)"
    unfolding elements_meaning_Suc by blast
  have "elements_meaning F m h' (Suc n) b = Some (ws, C)"
    if agree: "\<forall>a \<in> C. hp_cells h' a = hp_cells h a" for h'
  proof -
    have "value_at F h' b = Some x" "m h' x = Some (v, A)" "elements_meaning F m h' n (Suc b) = Some (vs, B)"
      using value_at_agree[of h' b h F] local_agree[OF assms x(2), of h'] Suc.IH[OF x(3)] x agree by auto
    then show ?thesis using x unfolding elements_meaning_Suc by blast
  qed
  moreover have "C \<subseteq> allocated h"
    using value_at_allocated[OF x(1)] local_allocated[OF assms x(2)] Suc.IH[OF x(3)] x(5) by blast
  ultimately show ?case by blast
qed

lemma elements_keeps:
  assumes "local_meaning m" "elements_meaning F m h n b = Some (ws, C)" "keeps X h h'" "X \<inter> C = {}"
  shows "elements_meaning F m h' n b = Some (ws, C)"
proof -
  have "\<forall>a \<in> C. hp_cells h' a = hp_cells h a"
    using elements_local[OF assms(1,2)] assms(3,4) unfolding keeps_def by blast
  then show ?thesis using elements_local[OF assms(1,2)] by blast
qed

text \<open>The cells that a loop writes, before its first step and after it.\<close>

lemma targets_allocated:
  assumes "\<And>k. k < n \<Longrightarrow> \<exists>c. value_at F h (out + k) = Some c \<and> target c"
  shows "{out..<out + n} \<subseteq> allocated h"
proof
  fix a assume a: "a \<in> {out..<out + n}"
  then have "a - out < n" "out + (a - out) = a" by auto
  then show "a \<in> allocated h"
    using assms[of "a - out"] value_at_allocated[of F h a] by auto
qed

lemma targets_step:
  assumes "\<And>k. k < Suc n \<Longrightarrow> \<exists>c. value_at F h (out + k) = Some c \<and> target c"
    and "keeps {out} h h'" "k < n"
  shows "\<exists>c. value_at F h' (Suc out + k) = Some c \<and> target c"
proof -
  obtain c where "value_at F h (Suc out + k) = Some c" "target c"
    using assms(1)[of "Suc k"] assms(3) by auto
  then show ?thesis using keeps_value[OF assms(2), of "Suc out + k" F c] by simp
qed

lemma for_elements_copies:
  assumes d: "deep_copy F m target body"
  shows "\<lbrakk>heap_ok h; elements_meaning F m h n i = Some (vs, C);
      \<And>k. k < n \<Longrightarrow> \<exists>c. value_at F h (out + k) = Some c \<and> target c; {out..<out + n} \<inter> C = {}\<rbrakk>
    \<Longrightarrow> \<exists>h' D. for_elements body n i out h = Some ((), h') \<and> heap_ok h' \<and> keeps {out..<out + n} h h'
      \<and> elements_meaning F m h' n out = Some (vs, D) \<and> D \<inter> allocated h \<subseteq> {out..<out + n}"
proof (induction n arbitrary: h i out vs C)
  case 0
  then show ?case by auto
next
  case (Suc n)
  obtain x v A ws B where x: "value_at F h i = Some x" "m h x = Some (v, A)"
      "elements_meaning F m h n (Suc i) = Some (ws, B)" "vs = v # ws" "C = insert i (A \<union> B)"
    using Suc.prems(2) unfolding elements_meaning_Suc by blast
  obtain c where c: "value_at F h out = Some c" "target c" using Suc.prems(3)[of 0] by auto
  have "out \<in> {out..<out + Suc n}" "{Suc out..<Suc out + n} \<subseteq> {out..<out + Suc n}" by auto
  then have sep: "i \<noteq> out" "out \<notin> A" "out \<notin> B" "{Suc out..<Suc out + n} \<inter> B = {}"
    using Suc.prems(4) x(5) by blast+
  obtain h1 y A' where b: "body i out h = Some ((), h1)" "heap_ok h1" "keeps {out} h h1"
      "value_at F h1 out = Some y" "m h1 y = Some (v, A')" "A' \<inter> allocated h = {}"
    using deep_copy.copies[OF d Suc.prems(1) x(1,2) c sep(1,2)] by blast
  have rest: "elements_meaning F m h1 n (Suc i) = Some (ws, B)"
    using elements_keeps[OF deep_copy.local[OF d] x(3) b(3)] sep by auto
  have cells: "\<And>k. k < n \<Longrightarrow> \<exists>c. value_at F h1 (Suc out + k) = Some c \<and> target c"
    using targets_step[OF Suc.prems(3) b(3)] .
  obtain h2 D where r: "for_elements body n (Suc i) (Suc out) h1 = Some ((), h2)" "heap_ok h2"
      "keeps {Suc out..<Suc out + n} h1 h2" "elements_meaning F m h2 n (Suc out) = Some (ws, D)"
      "D \<inter> allocated h1 \<subseteq> {Suc out..<Suc out + n}"
    using Suc.IH[OF b(2) rest cells sep(4)] by blast
  have old: "{Suc out..<Suc out + n} \<subseteq> allocated h" "allocated h \<subseteq> allocated h1"
    using targets_allocated[of "Suc n", OF Suc.prems(3)] b(3) unfolding keeps_def by (auto simp: subset_iff)
  have "value_at F h2 out = Some y" "m h2 y = Some (v, A')"
    using keeps_value[OF r(3) _ b(4)] local_keeps[OF deep_copy.local[OF d] b(5) r(3)] old b(6) by auto
  then have "elements_meaning F m h2 (Suc n) out = Some (vs, insert out (A' \<union> D))"
    using r(4) x(4) unfolding elements_meaning_Suc by blast
  moreover have "keeps {out..<out + Suc n} h h2"
    by (rule keeps_trans[OF keeps_mono[OF b(3)] r(3)]) auto
  moreover have "insert out (A' \<union> D) \<inter> allocated h \<subseteq> {out..<out + Suc n}"
  proof -
    have "{Suc out..<Suc out + n} \<subseteq> {out..<out + Suc n}" "out \<in> {out..<out + Suc n}" by auto
    then show ?thesis using b(6) r(5) old(2) by blast
  qed
  moreover have "for_elements body (Suc n) i out h = Some ((), h2)"
    using b(1) r(1) by simp
  ultimately show ?case
    using r(2) by blast
qed

text \<open>A slice, copied by the builtin or element by element.\<close>

lemma slice_meaning_Some:
  "slice_meaning F m h (Some s) = Some (w, A) \<longleftrightarrow>
    (\<exists>vs. elements_meaning F m h (sl_len s) (sl_base s) = Some (vs, A) \<and> w = Some vs)"
  by (auto simp: slice_meaning_def)

lemma slice_meaning_None [simp]: "slice_meaning F m h None = Some (None, {})"
  by (simp add: slice_meaning_def)

lemma local_slice:
  assumes "local_meaning m"
  shows "local_meaning (slice_meaning F m)"
  unfolding local_meaning_def
proof (intro allI impI)
  fix h s w A
  assume sm: "slice_meaning F m h s = Some (w, A)"
  show "A \<subseteq> allocated h \<and> (\<forall>h'. (\<forall>a \<in> A. hp_cells h' a = hp_cells h a)
      \<longrightarrow> slice_meaning F m h' s = Some (w, A))"
  proof (cases s)
    case (Some s')
    then obtain vs where e: "elements_meaning F m h (sl_len s') (sl_base s') = Some (vs, A)" "w = Some vs"
      using sm by (auto simp: slice_meaning_Some)
    then show ?thesis
      using elements_local[OF assms e(1)] Some by (simp add: slice_meaning_Some)
  qed (use sm in simp)
qed

lemma copy_slice_ok:
  assumes d: "deep_copy F m target body" and S: "cell_type_ok S"
    and get: "\<And>y c. get (put y c) = y" and nil: "\<And>c. get c = None \<Longrightarrow> put None c = c"
    and loop: "\<And>dst src. sl_len dst = sl_len src \<Longrightarrow>
      loop dst src = for_elements body (sl_len src) (sl_base src) (sl_base dst)"
  shows "field_copy S get put (slice_meaning F m) (copy_slice S get put F loop)"
proof (rule field_copy_option[OF S local_slice[OF deep_copy.local[OF d]]], goal_cases)
  case (4 h i r s w B out c)
  then obtain vs where s: "elements_meaning F m h (sl_len s) (sl_base s) = Some (vs, B)" "w = Some vs"
    using 4 by (auto simp: slice_meaning_Some)
  obtain b h1 where q: "make_cells F (sl_len s) h = Some (b, h1)" "heap_ok h1" "keeps {} h h1"
      "allocated h1 = allocated h \<union> {b..<b + sl_len s}" "{b..<b + sl_len s} \<inter> allocated h = {}"
      "\<And>k. k < sl_len s \<Longrightarrow> value_at F h1 (b + k) = Some (ct_zero F)"
    using make_cells_ok[OF deep_copy.cells[OF d] 4(1), of "sl_len s"] by metis
  let ?s = "\<lparr>sl_base = b, sl_len = sl_len s\<rparr>"
  let ?c = "put (Some ?s) c" let ?h = "put_cell S out ?c h1"
  note k = assigned_fresh[OF S q(2,3) 4(4) refl, of ?c]
  have out: "out \<in> allocated h" using value_at_allocated[OF 4(4)] .
  have h1: "value_at S h1 out = Some c" "value_at S h1 i = Some r" "value_at S ?h i = Some r"
    using keeps_value[OF q(3)] keeps_value[OF k(2)] 4 by auto
  have elems: "elements_meaning F m ?h (sl_len s) (sl_base s) = Some (vs, B)"
    using elements_keeps[OF deep_copy.local[OF d] s(1) k(2)] 4 by auto
  have fresh: "\<exists>c. value_at F ?h (b + j) = Some c \<and> target c" if "j < sl_len s" for j
  proof -
    have "b + j \<in> {b..<b + sl_len s}" using that by simp
    then have "b + j \<noteq> out" using q(5) out by blast
    then show ?thesis
      using keeps_value[OF k(3) _ q(6)[OF that]] deep_copy.zero[OF d] by auto
  qed
  have out_new: "out \<notin> {b..<b + sl_len s}" using q(5) out by blast
  have "{b..<b + sl_len s} \<inter> B = {}"
    using q(5) elements_local[OF deep_copy.local[OF d] s(1)] by blast
  then obtain h3 D where r: "for_elements body (sl_len s) (sl_base s) b ?h = Some ((), h3)" "heap_ok h3"
      "keeps {b..<b + sl_len s} ?h h3" "elements_meaning F m h3 (sl_len s) b = Some (vs, D)"
      "D \<inter> allocated ?h \<subseteq> {b..<b + sl_len s}"
    using for_elements_copies[OF d k(1) elems fresh] by blast
  have "copy_slice S get put F loop i out h = Some ((), h3)"
    using 4 q(1) h1 k(5) r(1) get loop[of ?s s] by (simp add: copy_slice_def modify_Some)
  moreover have "slice_meaning F m h3 (Some ?s) = Some (w, D)"
    using r s by (simp add: slice_meaning_Some)
  moreover have "D \<inter> allocated h = {}"
    using r(5) k(4) q(4,5) by blast
  moreover have "value_at S h3 out = Some ?c" "keeps {out} h h3"
    using keeps_value[OF r(3) out_new k(5)] keeps_trans[OF k(2) r(3)] q(5) by auto
  ultimately show ?case
    using r(2) by blast
qed (simp_all add: copy_slice_def nil)

lemma go_copy_loop: "sl_len dst = sl_len src \<Longrightarrow>
  go_copy F dst src = for_elements (assign F) (sl_len src) (sl_base src) (sl_base dst)"
  by (simp add: go_copy_def)

lemma range_elements_loop: "sl_len dst = sl_len src \<Longrightarrow>
  range_elements body dst src = for_elements body (sl_len src) (sl_base src) (sl_base dst)"
  by (simp add: range_elements_def)

text \<open>A map: entries are written one by one into an empty map.\<close>

lemma map_of_updates: "map_of (fold (\<lambda>(k, v). AList.update k v) es acc) = map_of acc ++ map_of (rev es)"
proof (induction es arbitrary: acc)
  case (Cons e es)
  then show ?case
    by (cases e) (auto simp: update_conv' map_add_def fun_eq_iff split: option.splits)
qed simp

lemma distinct_updates:
  "distinct (map fst acc) \<Longrightarrow> distinct (map fst (fold (\<lambda>(k, v). AList.update k v) es acc))"
  by (induction es arbitrary: acc) (auto simp: distinct_update)

lemma map_of_rev_distinct: "distinct (map fst es) \<Longrightarrow> map_of (rev es) = map_of es"
  by (rule map_of_inject_set[THEN iffD2]) (auto simp: rev_map[symmetric])

lemma set_entries_fold:
  assumes M: "cell_type_ok M"
  shows "\<lbrakk>heap_ok h; value_at M h a = Some acc\<rbrakk> \<Longrightarrow> \<exists>h'. set_entries M a es h = Some ((), h') \<and> heap_ok h'
    \<and> keeps {a} h h' \<and> value_at M h' a = Some (fold (\<lambda>(k, v). AList.update k v) es acc)"
proof (induction es arbitrary: h acc)
  case Nil
  then show ?case by simp
next
  case (Cons e es)
  obtain k v where e: "e = (k, v)" by fastforce
  let ?h = "put_cell M a (AList.update k v acc) h"
  have a: "a \<in> allocated h" using value_at_allocated[OF Cons.prems(2)] .
  obtain h' where "set_entries M a es ?h = Some ((), h')" "heap_ok h'" "keeps {a} ?h h'"
      "value_at M h' a = Some (fold (\<lambda>(k, v). AList.update k v) es (AList.update k v acc))"
    using Cons.IH[OF put_cell_ok[OF a Cons.prems(1)] value_at_put[OF M]] by blast
  then show ?case
    using keeps_trans[OF put_cell_keeps[OF a], of "{a}" M "AList.update k v acc" h'] Cons.prems(2) e
    by (auto simp: modify_Some)
qed

lemma local_map: "local_meaning map_meaning"
  by (simp add: local_meaning_def map_meaning_def)

lemma deep_copy_map:
  assumes M: "cell_type_ok M" and zero: "ct_zero M = []"
  shows "deep_copy M map_meaning (\<lambda>es. es = []) (copy_entries M)"
proof (unfold_locales, goal_cases)
  case (4 h i es v A out c)
  then obtain h' where h': "set_entries M out es h = Some ((), h')" "heap_ok h'" "keeps {out} h h'"
      "value_at M h' out = Some (fold (\<lambda>(k, v). AList.update k v) es [])"
    using set_entries_fold[OF M] by blast
  let ?es = "fold (\<lambda>(k, v). AList.update k v) es []"
  have "map_meaning h' ?es = Some (v, {})"
    using 4(3) by (auto simp: map_meaning_def map_of_updates map_of_rev_distinct distinct_updates
        split: if_splits)
  then show ?case
    using h' 4(2) by (auto simp: copy_entries_def intro!: exI[of _ h'])
qed (simp_all add: M zero local_map)

subsection \<open>The method \<open>DeepCopy\<close>\<close>

text \<open>
  A copy is a new object that means the same; what was allocated is unchanged, and the footprints of
  the original and of the copy are disjoint.
\<close>

definition copied :: "('c, 'a) cell_type \<Rightarrow> ('c, 'a, 'v) meaning \<Rightarrow> 'c heap \<Rightarrow> addr option
    \<Rightarrow> (addr option \<times> 'c heap) option \<Rightarrow> bool" where
  "copied T m h p res \<longleftrightarrow> (\<forall>w A. pointer_meaning T m h p = Some (w, A) \<longrightarrow>
     (\<exists>q h' A'. res = Some (q, h') \<and> heap_ok h' \<and> keeps {} h h'
       \<and> pointer_meaning T m h' q = Some (w, A') \<and> A' \<inter> allocated h = {}))"

context deep_copy
begin

lemma deep_copy_ptr_copied:
  assumes "heap_ok h"
  shows "copied T m h p (deep_copy_ptr T into p h)"
  unfolding copied_def
proof (intro allI impI)
  fix w A
  assume pm: "pointer_meaning T m h p = Some (w, A)"
  show "\<exists>q h' A'. deep_copy_ptr T into p h = Some (q, h') \<and> heap_ok h' \<and> keeps {} h h'
       \<and> pointer_meaning T m h' q = Some (w, A') \<and> A' \<inter> allocated h = {}"
  proof (cases p)
    case None
    then show ?thesis using pm assms by (auto simp: deep_copy_ptr_def)
  next
    case (Some i)
    then obtain r v B where r: "value_at T h i = Some r" "m h r = Some (v, B)" "w = Some v"
        "A = insert i B"
      using pm by (auto simp: pointer_meaning_Some)
    obtain q h1 where q: "new_cell T h = Some (q, h1)" "heap_ok h1" "keeps {} h h1"
        "allocated h1 = insert q (allocated h)" "q \<notin> allocated h" "value_at T h1 q = Some (ct_zero T)"
      using new_cell_ok[OF cells assms] .
    have "value_at T h1 i = Some r" "m h1 r = Some (v, B)"
      using keeps_value[OF q(3)] local_keeps[OF local r(2) q(3)] r by auto
    moreover have "i \<noteq> q" "q \<notin> B"
      using value_at_allocated[OF r(1)] local_allocated[OF local r(2)] q(5) by auto
    ultimately obtain h2 r' A' where c: "into i q h1 = Some ((), h2)" "heap_ok h2" "keeps {q} h1 h2"
        "value_at T h2 q = Some r'" "m h2 r' = Some (v, A')" "A' \<inter> allocated h1 = {}"
      using copies[OF q(2) _ _ q(6) zero] by blast
    have "deep_copy_ptr T into p h = Some (Some q, h2)"
      using Some q(1) c(1) by (simp add: deep_copy_ptr_def)
    moreover have "pointer_meaning T m h2 (Some q) = Some (w, insert q A')"
      using c r by (simp add: pointer_meaning_Some)
    moreover have "keeps {} h h2" "insert q A' \<inter> allocated h = {}"
      using keeps_trans[OF q(3) c(3)] q(4,5) c(6) by auto
    ultimately show ?thesis using c(2) by blast
  qed
qed

end

text \<open>\<open>DeepCopyObject\<close> returns what \<open>DeepCopy\<close> does.\<close>

lemma deep_copy_object_eq: "deep_copy_object copy p h = copy p h"
  by (simp add: deep_copy_object_def hbind_def hreturn_def split: option.split prod.split)

text \<open>
  The result of a copy of \<open>p\<close>, which denotes \<open>w\<close>: what was allocated is unchanged, original and copy
  denote \<open>w\<close>, no address is in both footprints, and a change of memory outside one of them leaves that
  object as it is.
\<close>

definition independent_copy :: "('c, 'a) cell_type \<Rightarrow> ('c, 'a, 'v) meaning \<Rightarrow> 'c heap \<Rightarrow> addr option
    \<Rightarrow> 'v option \<Rightarrow> (addr option \<times> 'c heap) option \<Rightarrow> bool" where
  "independent_copy T m h p w res \<longleftrightarrow> (\<exists>q h' A A'. res = Some (q, h') \<and> keeps {} h h'
     \<and> pointer_meaning T m h' p = Some (w, A) \<and> pointer_meaning T m h' q = Some (w, A') \<and> A \<inter> A' = {}
     \<and> (\<forall>h''. (\<forall>a. a \<notin> A' \<longrightarrow> hp_cells h'' a = hp_cells h' a)
          \<longrightarrow> pointer_meaning T m h'' p = Some (w, A))
     \<and> (\<forall>h''. (\<forall>a. a \<notin> A \<longrightarrow> hp_cells h'' a = hp_cells h' a)
          \<longrightarrow> pointer_meaning T m h'' q = Some (w, A')))"

context deep_copy
begin

lemma copy_independent:
  assumes "heap_ok h" "pointer_meaning T m h p = Some (w, A)"
  shows "independent_copy T m h p w (deep_copy_ptr T into p h)"
proof -
  obtain q h' A' where q: "deep_copy_ptr T into p h = Some (q, h')" "heap_ok h'" "keeps {} h h'"
      "pointer_meaning T m h' q = Some (w, A')" "A' \<inter> allocated h = {}"
    using deep_copy_ptr_copied[OF assms(1)] assms(2) unfolding copied_def by blast
  note l = local_pointer[OF local]
  have p: "pointer_meaning T m h' p = Some (w, A)"
    using local_keeps[OF l assms(2) q(3)] by simp
  have "A \<inter> A' = {}"
    using local_allocated[OF l assms(2)] q(5) by blast
  moreover have "pointer_meaning T m h'' p = Some (w, A)"
    if "\<forall>a. a \<notin> A' \<longrightarrow> hp_cells h'' a = hp_cells h' a" for h''
    using that \<open>A \<inter> A' = {}\<close> by (intro local_agree[OF l p]) blast
  moreover have "pointer_meaning T m h'' q = Some (w, A')"
    if "\<forall>a. a \<notin> A \<longrightarrow> hp_cells h'' a = hp_cells h' a" for h''
    using that \<open>A \<inter> A' = {}\<close> by (intro local_agree[OF l q(4)]) blast
  ultimately show ?thesis
    unfolding independent_copy_def using q(1,3,4) p by blast
qed

end

end
