(* ===== verification/Deep_Copy_Config.thy ===== *)
theory Deep_Copy_Config
  imports Deep_Copy Config_API
begin

text \<open>
  The deep copies of the configuration types (\<open>pkg/apis/config/zz_generated.deepcopy.go\<close> and
  \<open>pkg/apis/config/v1alpha1/zz_generated.deepcopy.go\<close>). The structs of the two packages have the same
  layout, which their conversions rely on when they cast pointers; memory here has one cell type for
  both. \<open>HealthCheckConfig\<close> is gardener's, and its \<open>DeepCopyInto\<close> a parameter.
\<close>

subsection \<open>The structs in memory\<close>

text \<open>Pointers and the map are addresses; the other fields are as in \<open>Config_API\<close>.\<close>

record mem_ACME =
  ma_Email :: string
  ma_Server :: string
  ma_PrivateKey :: "addr option"
  ma_PropagationTimeout :: "addr option"
  ma_PrecheckNameservers :: "addr option"
  ma_CACertificates :: "addr option"
  ma_DeactivateAuthorizations :: "addr option"
  ma_SkipDNSChallengeValidation :: "addr option"

record mem_PrivateKeyDefaults =
  mk_Algorithm :: "addr option"
  mk_SizeRSA :: "addr option"
  mk_SizeECDSA :: "addr option"

record mem_Configuration =
  mc_TypeMeta :: TypeMeta
  mc_IssuerName :: string
  mc_RestrictIssuer :: "addr option"
  mc_DefaultRequestsPerDayQuota :: "addr option"
  mc_ShootIssuers :: "addr option"
  mc_ACME :: "addr option"
  mc_CA :: "addr option"
  mc_HealthCheckConfig :: "addr option"
  mc_PrivateKeyDefaults :: "addr option"
  mc_InClusterACMEServerNamespaceMatchLabel :: "addr option"

datatype config_cell =
    CfgString string
  | CfgInt go_int
  | CfgInt32 go_int32
  | CfgBool bool
  | CfgDuration go_int
  | CfgLabels "(string \<times> string) list"
  | CfgShootIssuers ShootIssuers
  | CfgCA ConfigCA
  | CfgHealthCheck HealthCheckConfig
  | CfgACME mem_ACME
  | CfgPrivateKeyDefaults mem_PrivateKeyDefaults
  | CfgConfiguration mem_Configuration

definition cfg_string :: "(config_cell, string) cell_type" where
  "cfg_string = \<lparr>ct_cell = CfgString,
     ct_value = (\<lambda>c. case c of CfgString x \<Rightarrow> Some x | _ \<Rightarrow> None), ct_zero = []\<rparr>"

definition cfg_int :: "(config_cell, go_int) cell_type" where
  "cfg_int = \<lparr>ct_cell = CfgInt,
     ct_value = (\<lambda>c. case c of CfgInt x \<Rightarrow> Some x | _ \<Rightarrow> None), ct_zero = 0\<rparr>"

definition cfg_int32 :: "(config_cell, go_int32) cell_type" where
  "cfg_int32 = \<lparr>ct_cell = CfgInt32,
     ct_value = (\<lambda>c. case c of CfgInt32 x \<Rightarrow> Some x | _ \<Rightarrow> None), ct_zero = 0\<rparr>"

definition cfg_bool :: "(config_cell, bool) cell_type" where
  "cfg_bool = \<lparr>ct_cell = CfgBool,
     ct_value = (\<lambda>c. case c of CfgBool x \<Rightarrow> Some x | _ \<Rightarrow> None), ct_zero = False\<rparr>"

definition cfg_duration :: "(config_cell, go_int) cell_type" where
  "cfg_duration = \<lparr>ct_cell = CfgDuration,
     ct_value = (\<lambda>c. case c of CfgDuration x \<Rightarrow> Some x | _ \<Rightarrow> None), ct_zero = 0\<rparr>"

definition cfg_labels :: "(config_cell, (string \<times> string) list) cell_type" where
  "cfg_labels = \<lparr>ct_cell = CfgLabels,
     ct_value = (\<lambda>c. case c of CfgLabels x \<Rightarrow> Some x | _ \<Rightarrow> None), ct_zero = []\<rparr>"

definition cfg_shootIssuers :: "(config_cell, ShootIssuers) cell_type" where
  "cfg_shootIssuers = \<lparr>ct_cell = CfgShootIssuers,
     ct_value = (\<lambda>c. case c of CfgShootIssuers x \<Rightarrow> Some x | _ \<Rightarrow> None),
     ct_zero = \<lparr>si_Enabled = False\<rparr>\<rparr>"

definition cfg_CA_type :: "(config_cell, ConfigCA) cell_type" where
  "cfg_CA_type = \<lparr>ct_cell = CfgCA,
     ct_value = (\<lambda>c. case c of CfgCA x \<Rightarrow> Some x | _ \<Rightarrow> None),
     ct_zero = \<lparr>cca_Certificate = [], cca_CertificateKey = []\<rparr>\<rparr>"

definition cfg_healthCheck :: "(config_cell, HealthCheckConfig) cell_type" where
  "cfg_healthCheck = \<lparr>ct_cell = CfgHealthCheck,
     ct_value = (\<lambda>c. case c of CfgHealthCheck x \<Rightarrow> Some x | _ \<Rightarrow> None),
     ct_zero = \<lparr>hcc_SyncPeriod = 0\<rparr>\<rparr>"

definition cfg_ACME_type :: "(config_cell, mem_ACME) cell_type" where
  "cfg_ACME_type = \<lparr>ct_cell = CfgACME,
     ct_value = (\<lambda>c. case c of CfgACME x \<Rightarrow> Some x | _ \<Rightarrow> None),
     ct_zero = \<lparr>ma_Email = [], ma_Server = [], ma_PrivateKey = None, ma_PropagationTimeout = None,
       ma_PrecheckNameservers = None, ma_CACertificates = None, ma_DeactivateAuthorizations = None,
       ma_SkipDNSChallengeValidation = None\<rparr>\<rparr>"

definition cfg_privateKeyDefaults :: "(config_cell, mem_PrivateKeyDefaults) cell_type" where
  "cfg_privateKeyDefaults = \<lparr>ct_cell = CfgPrivateKeyDefaults,
     ct_value = (\<lambda>c. case c of CfgPrivateKeyDefaults x \<Rightarrow> Some x | _ \<Rightarrow> None),
     ct_zero = \<lparr>mk_Algorithm = None, mk_SizeRSA = None, mk_SizeECDSA = None\<rparr>\<rparr>"

definition cfg_configuration :: "(config_cell, mem_Configuration) cell_type" where
  "cfg_configuration = \<lparr>ct_cell = CfgConfiguration,
     ct_value = (\<lambda>c. case c of CfgConfiguration x \<Rightarrow> Some x | _ \<Rightarrow> None),
     ct_zero = \<lparr>mc_TypeMeta = emptyTypeMeta, mc_IssuerName = [], mc_RestrictIssuer = None,
       mc_DefaultRequestsPerDayQuota = None, mc_ShootIssuers = None, mc_ACME = None, mc_CA = None,
       mc_HealthCheckConfig = None, mc_PrivateKeyDefaults = None,
       mc_InClusterACMEServerNamespaceMatchLabel = None\<rparr>\<rparr>"

lemmas cfg_types = cfg_string_def cfg_int_def cfg_int32_def cfg_bool_def cfg_duration_def
  cfg_labels_def cfg_shootIssuers_def cfg_CA_type_def cfg_healthCheck_def cfg_ACME_type_def
  cfg_privateKeyDefaults_def cfg_configuration_def

lemma cfg_types_ok [simp]:
  "cell_type_ok cfg_string" "cell_type_ok cfg_int" "cell_type_ok cfg_int32" "cell_type_ok cfg_bool"
  "cell_type_ok cfg_duration" "cell_type_ok cfg_labels" "cell_type_ok cfg_shootIssuers"
  "cell_type_ok cfg_CA_type" "cell_type_ok cfg_healthCheck" "cell_type_ok cfg_ACME_type"
  "cell_type_ok cfg_privateKeyDefaults" "cell_type_ok cfg_configuration"
  by (simp_all add: cell_type_ok_def cfg_types)

subsection \<open>The methods of the package \<open>config\<close>\<close>

definition ACME_DeepCopyInto :: "addr \<Rightarrow> addr \<Rightarrow> (config_cell, unit) heapm" where
  "ACME_DeepCopyInto = (\<lambda>i out. hseq (assign cfg_ACME_type i out)
    (hseq (copy_pointer cfg_ACME_type ma_PrivateKey (\<lambda>x r. r\<lparr>ma_PrivateKey := x\<rparr>)
       cfg_string (assign cfg_string) i out)
    (hseq (copy_pointer cfg_ACME_type ma_PropagationTimeout (\<lambda>x r. r\<lparr>ma_PropagationTimeout := x\<rparr>)
       cfg_duration (assign cfg_duration) i out)
    (hseq (copy_pointer cfg_ACME_type ma_PrecheckNameservers (\<lambda>x r. r\<lparr>ma_PrecheckNameservers := x\<rparr>)
       cfg_string (assign cfg_string) i out)
    (hseq (copy_pointer cfg_ACME_type ma_CACertificates (\<lambda>x r. r\<lparr>ma_CACertificates := x\<rparr>)
       cfg_string (assign cfg_string) i out)
    (hseq (copy_pointer cfg_ACME_type ma_DeactivateAuthorizations
       (\<lambda>x r. r\<lparr>ma_DeactivateAuthorizations := x\<rparr>) cfg_bool (assign cfg_bool) i out)
    (copy_pointer cfg_ACME_type ma_SkipDNSChallengeValidation
       (\<lambda>x r. r\<lparr>ma_SkipDNSChallengeValidation := x\<rparr>) cfg_bool (assign cfg_bool) i out)))))))"

definition ACME_DeepCopy :: "addr option \<Rightarrow> (config_cell, addr option) heapm" where
  "ACME_DeepCopy = deep_copy_ptr cfg_ACME_type ACME_DeepCopyInto"

definition CA_DeepCopyInto :: "addr \<Rightarrow> addr \<Rightarrow> (config_cell, unit) heapm" where
  "CA_DeepCopyInto = assign cfg_CA_type"

definition CA_DeepCopy :: "addr option \<Rightarrow> (config_cell, addr option) heapm" where
  "CA_DeepCopy = deep_copy_ptr cfg_CA_type CA_DeepCopyInto"

definition PrivateKeyDefaults_DeepCopyInto :: "addr \<Rightarrow> addr \<Rightarrow> (config_cell, unit) heapm" where
  "PrivateKeyDefaults_DeepCopyInto = (\<lambda>i out. hseq (assign cfg_privateKeyDefaults i out)
    (hseq (copy_pointer cfg_privateKeyDefaults mk_Algorithm (\<lambda>x r. r\<lparr>mk_Algorithm := x\<rparr>)
       cfg_string (assign cfg_string) i out)
    (hseq (copy_pointer cfg_privateKeyDefaults mk_SizeRSA (\<lambda>x r. r\<lparr>mk_SizeRSA := x\<rparr>)
       cfg_int (assign cfg_int) i out)
    (copy_pointer cfg_privateKeyDefaults mk_SizeECDSA (\<lambda>x r. r\<lparr>mk_SizeECDSA := x\<rparr>)
       cfg_int (assign cfg_int) i out))))"

definition PrivateKeyDefaults_DeepCopy :: "addr option \<Rightarrow> (config_cell, addr option) heapm" where
  "PrivateKeyDefaults_DeepCopy = deep_copy_ptr cfg_privateKeyDefaults PrivateKeyDefaults_DeepCopyInto"

definition ShootIssuers_DeepCopyInto :: "addr \<Rightarrow> addr \<Rightarrow> (config_cell, unit) heapm" where
  "ShootIssuers_DeepCopyInto = assign cfg_shootIssuers"

definition ShootIssuers_DeepCopy :: "addr option \<Rightarrow> (config_cell, addr option) heapm" where
  "ShootIssuers_DeepCopy = deep_copy_ptr cfg_shootIssuers ShootIssuers_DeepCopyInto"

definition Configuration_DeepCopyInto :: "(addr \<Rightarrow> addr \<Rightarrow> (config_cell, unit) heapm)
    \<Rightarrow> addr \<Rightarrow> addr \<Rightarrow> (config_cell, unit) heapm" where
  "Configuration_DeepCopyInto health_check_into = (\<lambda>i out. hseq (assign cfg_configuration i out)
    (hseq (copy_field cfg_configuration mc_TypeMeta (\<lambda>x r. r\<lparr>mc_TypeMeta := x\<rparr>) i out)
    (hseq (copy_pointer cfg_configuration mc_RestrictIssuer (\<lambda>x r. r\<lparr>mc_RestrictIssuer := x\<rparr>)
       cfg_bool (assign cfg_bool) i out)
    (hseq (copy_pointer cfg_configuration mc_DefaultRequestsPerDayQuota
       (\<lambda>x r. r\<lparr>mc_DefaultRequestsPerDayQuota := x\<rparr>) cfg_int32 (assign cfg_int32) i out)
    (hseq (copy_pointer cfg_configuration mc_ShootIssuers (\<lambda>x r. r\<lparr>mc_ShootIssuers := x\<rparr>)
       cfg_shootIssuers (assign cfg_shootIssuers) i out)
    (hseq (copy_pointer cfg_configuration mc_ACME (\<lambda>x r. r\<lparr>mc_ACME := x\<rparr>)
       cfg_ACME_type ACME_DeepCopyInto i out)
    (hseq (copy_pointer cfg_configuration mc_CA (\<lambda>x r. r\<lparr>mc_CA := x\<rparr>)
       cfg_CA_type (assign cfg_CA_type) i out)
    (hseq (copy_pointer cfg_configuration mc_HealthCheckConfig (\<lambda>x r. r\<lparr>mc_HealthCheckConfig := x\<rparr>)
       cfg_healthCheck health_check_into i out)
    (hseq (copy_pointer cfg_configuration mc_PrivateKeyDefaults (\<lambda>x r. r\<lparr>mc_PrivateKeyDefaults := x\<rparr>)
       cfg_privateKeyDefaults PrivateKeyDefaults_DeepCopyInto i out)
    (copy_pointer cfg_configuration mc_InClusterACMEServerNamespaceMatchLabel
       (\<lambda>x r. r\<lparr>mc_InClusterACMEServerNamespaceMatchLabel := x\<rparr>)
       cfg_labels (copy_entries cfg_labels) i out))))))))))"

definition Configuration_DeepCopy :: "(addr \<Rightarrow> addr \<Rightarrow> (config_cell, unit) heapm)
    \<Rightarrow> addr option \<Rightarrow> (config_cell, addr option) heapm" where
  "Configuration_DeepCopy health_check_into =
    deep_copy_ptr cfg_configuration (Configuration_DeepCopyInto health_check_into)"

definition Configuration_DeepCopyObject :: "(addr \<Rightarrow> addr \<Rightarrow> (config_cell, unit) heapm)
    \<Rightarrow> addr option \<Rightarrow> (config_cell, addr option) heapm" where
  "Configuration_DeepCopyObject health_check_into =
    deep_copy_object (Configuration_DeepCopy health_check_into)"

subsection \<open>The methods of the package \<open>config/v1alpha1\<close>\<close>

text \<open>The generated code of the versioned package, over the structs of the same layout.\<close>

definition v1_ACME_DeepCopyInto :: "addr \<Rightarrow> addr \<Rightarrow> (config_cell, unit) heapm" where
  "v1_ACME_DeepCopyInto = (\<lambda>i out. hseq (assign cfg_ACME_type i out)
    (hseq (copy_pointer cfg_ACME_type ma_PrivateKey (\<lambda>x r. r\<lparr>ma_PrivateKey := x\<rparr>)
       cfg_string (assign cfg_string) i out)
    (hseq (copy_pointer cfg_ACME_type ma_PropagationTimeout (\<lambda>x r. r\<lparr>ma_PropagationTimeout := x\<rparr>)
       cfg_duration (assign cfg_duration) i out)
    (hseq (copy_pointer cfg_ACME_type ma_PrecheckNameservers (\<lambda>x r. r\<lparr>ma_PrecheckNameservers := x\<rparr>)
       cfg_string (assign cfg_string) i out)
    (hseq (copy_pointer cfg_ACME_type ma_CACertificates (\<lambda>x r. r\<lparr>ma_CACertificates := x\<rparr>)
       cfg_string (assign cfg_string) i out)
    (hseq (copy_pointer cfg_ACME_type ma_DeactivateAuthorizations
       (\<lambda>x r. r\<lparr>ma_DeactivateAuthorizations := x\<rparr>) cfg_bool (assign cfg_bool) i out)
    (copy_pointer cfg_ACME_type ma_SkipDNSChallengeValidation
       (\<lambda>x r. r\<lparr>ma_SkipDNSChallengeValidation := x\<rparr>) cfg_bool (assign cfg_bool) i out)))))))"

definition v1_ACME_DeepCopy :: "addr option \<Rightarrow> (config_cell, addr option) heapm" where
  "v1_ACME_DeepCopy = deep_copy_ptr cfg_ACME_type v1_ACME_DeepCopyInto"

definition v1_CA_DeepCopyInto :: "addr \<Rightarrow> addr \<Rightarrow> (config_cell, unit) heapm" where
  "v1_CA_DeepCopyInto = assign cfg_CA_type"

definition v1_CA_DeepCopy :: "addr option \<Rightarrow> (config_cell, addr option) heapm" where
  "v1_CA_DeepCopy = deep_copy_ptr cfg_CA_type v1_CA_DeepCopyInto"

definition v1_PrivateKeyDefaults_DeepCopyInto :: "addr \<Rightarrow> addr \<Rightarrow> (config_cell, unit) heapm" where
  "v1_PrivateKeyDefaults_DeepCopyInto = (\<lambda>i out. hseq (assign cfg_privateKeyDefaults i out)
    (hseq (copy_pointer cfg_privateKeyDefaults mk_Algorithm (\<lambda>x r. r\<lparr>mk_Algorithm := x\<rparr>)
       cfg_string (assign cfg_string) i out)
    (hseq (copy_pointer cfg_privateKeyDefaults mk_SizeRSA (\<lambda>x r. r\<lparr>mk_SizeRSA := x\<rparr>)
       cfg_int (assign cfg_int) i out)
    (copy_pointer cfg_privateKeyDefaults mk_SizeECDSA (\<lambda>x r. r\<lparr>mk_SizeECDSA := x\<rparr>)
       cfg_int (assign cfg_int) i out))))"

definition v1_PrivateKeyDefaults_DeepCopy :: "addr option \<Rightarrow> (config_cell, addr option) heapm" where
  "v1_PrivateKeyDefaults_DeepCopy = deep_copy_ptr cfg_privateKeyDefaults v1_PrivateKeyDefaults_DeepCopyInto"

definition v1_ShootIssuers_DeepCopyInto :: "addr \<Rightarrow> addr \<Rightarrow> (config_cell, unit) heapm" where
  "v1_ShootIssuers_DeepCopyInto = assign cfg_shootIssuers"

definition v1_ShootIssuers_DeepCopy :: "addr option \<Rightarrow> (config_cell, addr option) heapm" where
  "v1_ShootIssuers_DeepCopy = deep_copy_ptr cfg_shootIssuers v1_ShootIssuers_DeepCopyInto"

definition v1_Configuration_DeepCopyInto :: "(addr \<Rightarrow> addr \<Rightarrow> (config_cell, unit) heapm)
    \<Rightarrow> addr \<Rightarrow> addr \<Rightarrow> (config_cell, unit) heapm" where
  "v1_Configuration_DeepCopyInto health_check_into = (\<lambda>i out. hseq (assign cfg_configuration i out)
    (hseq (copy_field cfg_configuration mc_TypeMeta (\<lambda>x r. r\<lparr>mc_TypeMeta := x\<rparr>) i out)
    (hseq (copy_pointer cfg_configuration mc_RestrictIssuer (\<lambda>x r. r\<lparr>mc_RestrictIssuer := x\<rparr>)
       cfg_bool (assign cfg_bool) i out)
    (hseq (copy_pointer cfg_configuration mc_DefaultRequestsPerDayQuota
       (\<lambda>x r. r\<lparr>mc_DefaultRequestsPerDayQuota := x\<rparr>) cfg_int32 (assign cfg_int32) i out)
    (hseq (copy_pointer cfg_configuration mc_ShootIssuers (\<lambda>x r. r\<lparr>mc_ShootIssuers := x\<rparr>)
       cfg_shootIssuers (assign cfg_shootIssuers) i out)
    (hseq (copy_pointer cfg_configuration mc_ACME (\<lambda>x r. r\<lparr>mc_ACME := x\<rparr>)
       cfg_ACME_type v1_ACME_DeepCopyInto i out)
    (hseq (copy_pointer cfg_configuration mc_CA (\<lambda>x r. r\<lparr>mc_CA := x\<rparr>)
       cfg_CA_type (assign cfg_CA_type) i out)
    (hseq (copy_pointer cfg_configuration mc_HealthCheckConfig (\<lambda>x r. r\<lparr>mc_HealthCheckConfig := x\<rparr>)
       cfg_healthCheck health_check_into i out)
    (hseq (copy_pointer cfg_configuration mc_PrivateKeyDefaults (\<lambda>x r. r\<lparr>mc_PrivateKeyDefaults := x\<rparr>)
       cfg_privateKeyDefaults v1_PrivateKeyDefaults_DeepCopyInto i out)
    (copy_pointer cfg_configuration mc_InClusterACMEServerNamespaceMatchLabel
       (\<lambda>x r. r\<lparr>mc_InClusterACMEServerNamespaceMatchLabel := x\<rparr>)
       cfg_labels (copy_entries cfg_labels) i out))))))))))"

definition v1_Configuration_DeepCopy :: "(addr \<Rightarrow> addr \<Rightarrow> (config_cell, unit) heapm)
    \<Rightarrow> addr option \<Rightarrow> (config_cell, addr option) heapm" where
  "v1_Configuration_DeepCopy health_check_into =
    deep_copy_ptr cfg_configuration (v1_Configuration_DeepCopyInto health_check_into)"

definition v1_Configuration_DeepCopyObject :: "(addr \<Rightarrow> addr \<Rightarrow> (config_cell, unit) heapm)
    \<Rightarrow> addr option \<Rightarrow> (config_cell, addr option) heapm" where
  "v1_Configuration_DeepCopyObject health_check_into =
    deep_copy_object (v1_Configuration_DeepCopy health_check_into)"

text \<open>The two packages copy in the same way.\<close>

lemma v1_config_copies:
  "v1_ACME_DeepCopyInto = ACME_DeepCopyInto"
  "v1_ACME_DeepCopy = ACME_DeepCopy"
  "v1_CA_DeepCopyInto = CA_DeepCopyInto"
  "v1_CA_DeepCopy = CA_DeepCopy"
  "v1_PrivateKeyDefaults_DeepCopyInto = PrivateKeyDefaults_DeepCopyInto"
  "v1_PrivateKeyDefaults_DeepCopy = PrivateKeyDefaults_DeepCopy"
  "v1_ShootIssuers_DeepCopyInto = ShootIssuers_DeepCopyInto"
  "v1_ShootIssuers_DeepCopy = ShootIssuers_DeepCopy"
  "v1_Configuration_DeepCopyInto = Configuration_DeepCopyInto"
  "v1_Configuration_DeepCopy = Configuration_DeepCopy"
  "v1_Configuration_DeepCopyObject = Configuration_DeepCopyObject"
  by (auto simp: fun_eq_iff v1_ACME_DeepCopyInto_def ACME_DeepCopyInto_def v1_ACME_DeepCopy_def ACME_DeepCopy_def v1_CA_DeepCopyInto_def CA_DeepCopyInto_def v1_CA_DeepCopy_def CA_DeepCopy_def v1_PrivateKeyDefaults_DeepCopyInto_def PrivateKeyDefaults_DeepCopyInto_def v1_PrivateKeyDefaults_DeepCopy_def PrivateKeyDefaults_DeepCopy_def v1_ShootIssuers_DeepCopyInto_def ShootIssuers_DeepCopyInto_def v1_ShootIssuers_DeepCopy_def ShootIssuers_DeepCopy_def v1_Configuration_DeepCopyInto_def Configuration_DeepCopyInto_def v1_Configuration_DeepCopy_def Configuration_DeepCopy_def v1_Configuration_DeepCopyObject_def Configuration_DeepCopyObject_def)

subsection \<open>What the structs mean\<close>

text \<open>The values of \<open>Config_API\<close>: a nil label map is read as the empty one there.\<close>

definition acme_meaning :: "(config_cell, mem_ACME, ConfigACME) meaning" where
  "acme_meaning = struct_meaning
     (\<lambda>r. (ma_PrivateKey r, ma_PropagationTimeout r, ma_PrecheckNameservers r, ma_CACertificates r,
       ma_DeactivateAuthorizations r, ma_SkipDNSChallengeValidation r))
     (pair_meaning (pointer_meaning cfg_string flat_meaning)
     (pair_meaning (pointer_meaning cfg_duration flat_meaning)
     (pair_meaning (pointer_meaning cfg_string flat_meaning)
     (pair_meaning (pointer_meaning cfg_string flat_meaning)
     (pair_meaning (pointer_meaning cfg_bool flat_meaning) (pointer_meaning cfg_bool flat_meaning))))))
     (\<lambda>r (key, timeout, nameservers, cas, deactivate, skip). \<lparr>cacme_Email = ma_Email r,
       cacme_Server = ma_Server r, cacme_PrivateKey = key, cacme_PropagationTimeout = timeout,
       cacme_PrecheckNameservers = nameservers, cacme_CACertificates = cas,
       cacme_DeactivateAuthorizations = deactivate, cacme_SkipDNSChallengeValidation = skip\<rparr>)"

definition privateKeyDefaults_meaning ::
    "(config_cell, mem_PrivateKeyDefaults, PrivateKeyDefaults) meaning" where
  "privateKeyDefaults_meaning = struct_meaning (\<lambda>r. (mk_Algorithm r, mk_SizeRSA r, mk_SizeECDSA r))
     (pair_meaning (pointer_meaning cfg_string flat_meaning)
     (pair_meaning (pointer_meaning cfg_int flat_meaning) (pointer_meaning cfg_int flat_meaning)))
     (\<lambda>r (alg, rsa, ecdsa). \<lparr>pkd_Algorithm = alg, pkd_SizeRSA = rsa, pkd_SizeECDSA = ecdsa\<rparr>)"

definition configuration_meaning :: "(config_cell, mem_Configuration, Configuration) meaning" where
  "configuration_meaning = struct_meaning
     (\<lambda>r. (mc_TypeMeta r, mc_RestrictIssuer r, mc_DefaultRequestsPerDayQuota r, mc_ShootIssuers r,
       mc_ACME r, mc_CA r, mc_HealthCheckConfig r, mc_PrivateKeyDefaults r,
       mc_InClusterACMEServerNamespaceMatchLabel r))
     (pair_meaning flat_meaning
     (pair_meaning (pointer_meaning cfg_bool flat_meaning)
     (pair_meaning (pointer_meaning cfg_int32 flat_meaning)
     (pair_meaning (pointer_meaning cfg_shootIssuers flat_meaning)
     (pair_meaning (pointer_meaning cfg_ACME_type acme_meaning)
     (pair_meaning (pointer_meaning cfg_CA_type flat_meaning)
     (pair_meaning (pointer_meaning cfg_healthCheck flat_meaning)
     (pair_meaning (pointer_meaning cfg_privateKeyDefaults privateKeyDefaults_meaning)
       (pointer_meaning cfg_labels map_meaning)))))))))
     (\<lambda>r (tm, restrict, quota, issuers, acme, ca, hc, keys, label). \<lparr>cfg_TypeMeta = tm,
       cfg_IssuerName = mc_IssuerName r, cfg_RestrictIssuer = restrict,
       cfg_DefaultRequestsPerDayQuota = quota, cfg_ShootIssuers = issuers, cfg_ACME = acme, cfg_CA = ca,
       cfg_HealthCheckConfig = hc, cfg_PrivateKeyDefaults = keys,
       cfg_InClusterACMEServerNamespaceMatchLabel = ptr_Deref label Map.empty\<rparr>)"

subsection \<open>The methods fulfil the contract\<close>

interpretation cfg_flat_CA: deep_copy cfg_CA_type flat_meaning "\<lambda>_. True" CA_DeepCopyInto
  unfolding CA_DeepCopyInto_def by (rule deep_copy_flat) simp

interpretation cfg_flat_ShootIssuers:
  deep_copy cfg_shootIssuers flat_meaning "\<lambda>_. True" ShootIssuers_DeepCopyInto
  unfolding ShootIssuers_DeepCopyInto_def by (rule deep_copy_flat) simp

interpretation acme_copy: deep_copy cfg_ACME_type acme_meaning "\<lambda>_. True" ACME_DeepCopyInto
  unfolding ACME_DeepCopyInto_def acme_meaning_def
  by (rule deep_copy_struct, (rule field_copy_pair copy_pointer_ok deep_copy_flat | simp)+)
     (auto simp: fun_eq_iff)

interpretation keys_copy:
  deep_copy cfg_privateKeyDefaults privateKeyDefaults_meaning "\<lambda>_. True" PrivateKeyDefaults_DeepCopyInto
  unfolding PrivateKeyDefaults_DeepCopyInto_def privateKeyDefaults_meaning_def
  by (rule deep_copy_struct, (rule field_copy_pair copy_pointer_ok deep_copy_flat | simp)+)
     (auto simp: fun_eq_iff)

lemma configuration_deep_copy:
  assumes "deep_copy cfg_healthCheck flat_meaning (\<lambda>_. True) health_check_into"
  shows "deep_copy cfg_configuration configuration_meaning (\<lambda>_. True)
    (Configuration_DeepCopyInto health_check_into)"
  unfolding Configuration_DeepCopyInto_def configuration_meaning_def
  by (rule deep_copy_struct, (rule field_copy_pair copy_field_ok copy_pointer_ok assms
        acme_copy.deep_copy_axioms keys_copy.deep_copy_axioms deep_copy_flat deep_copy_map
        cfg_types_ok | (simp; fail))+)
     (auto simp: fun_eq_iff cfg_labels_def)

interpretation configuration_copy: deep_copy cfg_configuration configuration_meaning "\<lambda>_. True"
  "Configuration_DeepCopyInto (assign cfg_healthCheck)"
  by (rule configuration_deep_copy, rule deep_copy_flat) simp

subsection \<open>Copies of configurations\<close>

text \<open>C20: A deep copy of a configuration, of the internal or of the versioned type, denotes the same
  configuration, and the two share no memory: for every well-formed heap and every pointer to a
  readable configuration (nil included), \<open>DeepCopyObject\<close> returns, what was allocated is unchanged,
  and a later change of what one of the two was read from never changes the other. The copy of
  gardener's \<open>HealthCheckConfig\<close> is assumed to fulfil the contract of a deep copy.\<close>

theorem config_deep_copy_independent:
  assumes "deep_copy cfg_healthCheck flat_meaning (\<lambda>_. True) health_check_into"
    and "heap_ok h"
    and "pointer_meaning cfg_configuration configuration_meaning h p = Some (c, A)"
  shows "independent_copy cfg_configuration configuration_meaning h p c
      (Configuration_DeepCopyObject health_check_into p h)
    \<and> independent_copy cfg_configuration configuration_meaning h p c
      (v1_Configuration_DeepCopyObject health_check_into p h)"
  unfolding v1_config_copies Configuration_DeepCopyObject_def Configuration_DeepCopy_def
    deep_copy_object_eq
  using deep_copy.copy_independent[OF configuration_deep_copy[OF assms(1)] assms(2,3)] by blast

text \<open>A configuration with a flag, ACME settings with a key, and a label.\<close>

definition sample_config_heap :: "config_cell heap" where
  "sample_config_heap = \<lparr>hp_cells = [
     0 \<mapsto> CfgConfiguration \<lparr>mc_TypeMeta = emptyTypeMeta, mc_IssuerName = ''issuer'',
       mc_RestrictIssuer = Some 1, mc_DefaultRequestsPerDayQuota = None, mc_ShootIssuers = None,
       mc_ACME = Some 2, mc_CA = None, mc_HealthCheckConfig = None, mc_PrivateKeyDefaults = None,
       mc_InClusterACMEServerNamespaceMatchLabel = Some 3\<rparr>,
     1 \<mapsto> CfgBool True,
     2 \<mapsto> CfgACME \<lparr>ma_Email = ''e'', ma_Server = ''s'', ma_PrivateKey = Some 4,
       ma_PropagationTimeout = None, ma_PrecheckNameservers = None, ma_CACertificates = None,
       ma_DeactivateAuthorizations = None, ma_SkipDNSChallengeValidation = None\<rparr>,
     3 \<mapsto> CfgLabels [(''k'', ''v'')],
     4 \<mapsto> CfgString ''key''], hp_next = 5\<rparr>"

definition sample_config :: Configuration where
  "sample_config = emptyConfiguration\<lparr>cfg_IssuerName := ''issuer'', cfg_RestrictIssuer := Some True,
     cfg_ACME := Some \<lparr>cacme_Email = ''e'', cacme_Server = ''s'', cacme_PrivateKey = Some ''key'',
       cacme_PropagationTimeout = None, cacme_PrecheckNameservers = None, cacme_CACertificates = None,
       cacme_DeactivateAuthorizations = None, cacme_SkipDNSChallengeValidation = None\<rparr>,
     cfg_InClusterACMEServerNamespaceMatchLabel := [''k'' \<mapsto> ''v'']\<rparr>"

lemma sample_config_meaning:
  "pointer_meaning cfg_configuration configuration_meaning sample_config_heap (Some 0)
    = Some (Some sample_config, {0, 1, 2, 3, 4})"
  by (auto simp: sample_config_heap_def sample_config_def emptyConfiguration_def pointer_meaning_def
      value_at_def configuration_meaning_def acme_meaning_def struct_meaning_def pair_meaning_def
      flat_meaning_def map_meaning_def cfg_types)

lemma sample_config_heap_ok: "heap_ok sample_config_heap"
  by (auto simp: heap_ok_def sample_config_heap_def)

theorem config_deep_copy_independent_witness:
  "independent_copy cfg_configuration configuration_meaning sample_config_heap (Some 0) (Some sample_config)
      (Configuration_DeepCopyObject (assign cfg_healthCheck) (Some 0) sample_config_heap)"
  using config_deep_copy_independent[OF deep_copy_flat[OF cfg_types_ok(9)] sample_config_heap_ok
      sample_config_meaning]
  by blast

end
