(* ===== verification/Deep_Copy_Service.thy ===== *)
theory Deep_Copy_Service
  imports Deep_Copy Service_API
begin

text \<open>
  The deep copies of the provider configuration (\<open>pkg/apis/service/zz_generated.deepcopy.go\<close> and
  \<open>pkg/apis/service/v1alpha1/zz_generated.deepcopy.go\<close>), as in \<open>Deep_Copy_Config\<close>: one layout for the
  structs of both packages, slices as runs of consecutive cells.
\<close>

subsection \<open>The structs in memory\<close>

record mem_Alerting =
  mal_CertExpirationAlertDays :: "addr option"

record mem_DNSSelection =
  mds_Include :: "slice option"
  mds_Exclude :: "slice option"

record mem_DNSChallengeOnShoot =
  mdc_Enabled :: bool
  mdc_Namespace :: string
  mdc_DNSClass :: "addr option"

record mem_IssuerConfig =
  mic_Name :: string
  mic_Server :: string
  mic_Email :: string
  mic_RequestsPerDayQuota :: "addr option"
  mic_PrivateKeySecretName :: "addr option"
  mic_ExternalAccountBinding :: "addr option"
  mic_SkipDNSChallengeValidation :: "addr option"
  mic_Domains :: "addr option"
  mic_PrecheckNameservers :: "slice option"

record mem_CertConfig =
  mcc_TypeMeta :: TypeMeta
  mcc_Issuers :: "slice option"
  mcc_DNSChallengeOnShoot :: "addr option"
  mcc_ShootIssuers :: "addr option"
  mcc_PrecheckNameservers :: "addr option"
  mcc_Alerting :: "addr option"
  mcc_GenerateControlPlaneCertificate :: "addr option"

datatype service_cell =
    SvcString string
  | SvcInt go_int
  | SvcBool bool
  | SvcBinding ACMEExternalAccountBinding
  | SvcShootIssuers SvcShootIssuers
  | SvcAlerting mem_Alerting
  | SvcDNSSelection mem_DNSSelection
  | SvcDNSChallenge mem_DNSChallengeOnShoot
  | SvcIssuer mem_IssuerConfig
  | SvcCertConfig mem_CertConfig

definition svc_string :: "(service_cell, string) cell_type" where
  "svc_string = \<lparr>ct_cell = SvcString,
     ct_value = (\<lambda>c. case c of SvcString x \<Rightarrow> Some x | _ \<Rightarrow> None),
     ct_zero = []\<rparr>"

definition svc_int :: "(service_cell, go_int) cell_type" where
  "svc_int = \<lparr>ct_cell = SvcInt,
     ct_value = (\<lambda>c. case c of SvcInt x \<Rightarrow> Some x | _ \<Rightarrow> None),
     ct_zero = 0\<rparr>"

definition svc_bool :: "(service_cell, bool) cell_type" where
  "svc_bool = \<lparr>ct_cell = SvcBool,
     ct_value = (\<lambda>c. case c of SvcBool x \<Rightarrow> Some x | _ \<Rightarrow> None),
     ct_zero = False\<rparr>"

definition svc_binding :: "(service_cell, ACMEExternalAccountBinding) cell_type" where
  "svc_binding = \<lparr>ct_cell = SvcBinding,
     ct_value = (\<lambda>c. case c of SvcBinding x \<Rightarrow> Some x | _ \<Rightarrow> None),
     ct_zero = \<lparr>eab_KeyID = [], eab_KeySecretName = []\<rparr>\<rparr>"

definition svc_shootIssuers :: "(service_cell, SvcShootIssuers) cell_type" where
  "svc_shootIssuers = \<lparr>ct_cell = SvcShootIssuers,
     ct_value = (\<lambda>c. case c of SvcShootIssuers x \<Rightarrow> Some x | _ \<Rightarrow> None),
     ct_zero = \<lparr>ssi_Enabled = False\<rparr>\<rparr>"

definition svc_alerting :: "(service_cell, mem_Alerting) cell_type" where
  "svc_alerting = \<lparr>ct_cell = SvcAlerting,
     ct_value = (\<lambda>c. case c of SvcAlerting x \<Rightarrow> Some x | _ \<Rightarrow> None),
     ct_zero = \<lparr>mal_CertExpirationAlertDays = None\<rparr>\<rparr>"

definition svc_DNSSelection :: "(service_cell, mem_DNSSelection) cell_type" where
  "svc_DNSSelection = \<lparr>ct_cell = SvcDNSSelection,
     ct_value = (\<lambda>c. case c of SvcDNSSelection x \<Rightarrow> Some x | _ \<Rightarrow> None),
     ct_zero = \<lparr>mds_Include = None, mds_Exclude = None\<rparr>\<rparr>"

definition svc_DNSChallenge :: "(service_cell, mem_DNSChallengeOnShoot) cell_type" where
  "svc_DNSChallenge = \<lparr>ct_cell = SvcDNSChallenge,
     ct_value = (\<lambda>c. case c of SvcDNSChallenge x \<Rightarrow> Some x | _ \<Rightarrow> None),
     ct_zero = \<lparr>mdc_Enabled = False, mdc_Namespace = [], mdc_DNSClass = None\<rparr>\<rparr>"

definition svc_issuer :: "(service_cell, mem_IssuerConfig) cell_type" where
  "svc_issuer = \<lparr>ct_cell = SvcIssuer,
     ct_value = (\<lambda>c. case c of SvcIssuer x \<Rightarrow> Some x | _ \<Rightarrow> None),
     ct_zero = \<lparr>mic_Name = [], mic_Server = [], mic_Email = [], mic_RequestsPerDayQuota = None,
       mic_PrivateKeySecretName = None, mic_ExternalAccountBinding = None,
       mic_SkipDNSChallengeValidation = None, mic_Domains = None, mic_PrecheckNameservers = None\<rparr>\<rparr>"

definition svc_certConfig :: "(service_cell, mem_CertConfig) cell_type" where
  "svc_certConfig = \<lparr>ct_cell = SvcCertConfig,
     ct_value = (\<lambda>c. case c of SvcCertConfig x \<Rightarrow> Some x | _ \<Rightarrow> None),
     ct_zero = \<lparr>mcc_TypeMeta = emptyTypeMeta, mcc_Issuers = None, mcc_DNSChallengeOnShoot = None,
       mcc_ShootIssuers = None, mcc_PrecheckNameservers = None, mcc_Alerting = None,
       mcc_GenerateControlPlaneCertificate = None\<rparr>\<rparr>"

lemmas svc_types = svc_string_def svc_int_def svc_bool_def svc_binding_def svc_shootIssuers_def
  svc_alerting_def svc_DNSSelection_def svc_DNSChallenge_def svc_issuer_def svc_certConfig_def

lemma svc_types_ok [simp]:
  "cell_type_ok svc_string" "cell_type_ok svc_int" "cell_type_ok svc_bool"
  "cell_type_ok svc_binding" "cell_type_ok svc_shootIssuers" "cell_type_ok svc_alerting"
  "cell_type_ok svc_DNSSelection" "cell_type_ok svc_DNSChallenge" "cell_type_ok svc_issuer"
  "cell_type_ok svc_certConfig"
  by (simp_all add: cell_type_ok_def svc_types)

subsection \<open>The methods of the package \<open>service\<close>\<close>

definition ACMEExternalAccountBinding_DeepCopyInto :: "addr \<Rightarrow> addr \<Rightarrow> (service_cell, unit) heapm" where
  "ACMEExternalAccountBinding_DeepCopyInto = assign svc_binding"

definition ACMEExternalAccountBinding_DeepCopy :: "addr option \<Rightarrow> (service_cell, addr option) heapm" where
  "ACMEExternalAccountBinding_DeepCopy = deep_copy_ptr svc_binding ACMEExternalAccountBinding_DeepCopyInto"

definition Alerting_DeepCopyInto :: "addr \<Rightarrow> addr \<Rightarrow> (service_cell, unit) heapm" where
  "Alerting_DeepCopyInto = (\<lambda>i out. hseq (assign svc_alerting i out)
    (copy_pointer svc_alerting mal_CertExpirationAlertDays (\<lambda>x r. r\<lparr>mal_CertExpirationAlertDays := x\<rparr>)
       svc_int (assign svc_int) i out))"

definition Alerting_DeepCopy :: "addr option \<Rightarrow> (service_cell, addr option) heapm" where
  "Alerting_DeepCopy = deep_copy_ptr svc_alerting Alerting_DeepCopyInto"

definition DNSChallengeOnShoot_DeepCopyInto :: "addr \<Rightarrow> addr \<Rightarrow> (service_cell, unit) heapm" where
  "DNSChallengeOnShoot_DeepCopyInto = (\<lambda>i out. hseq (assign svc_DNSChallenge i out)
    (copy_pointer svc_DNSChallenge mdc_DNSClass (\<lambda>x r. r\<lparr>mdc_DNSClass := x\<rparr>)
       svc_string (assign svc_string) i out))"

definition DNSChallengeOnShoot_DeepCopy :: "addr option \<Rightarrow> (service_cell, addr option) heapm" where
  "DNSChallengeOnShoot_DeepCopy = deep_copy_ptr svc_DNSChallenge DNSChallengeOnShoot_DeepCopyInto"

definition DNSSelection_DeepCopyInto :: "addr \<Rightarrow> addr \<Rightarrow> (service_cell, unit) heapm" where
  "DNSSelection_DeepCopyInto = (\<lambda>i out. hseq (assign svc_DNSSelection i out)
    (hseq (copy_slice svc_DNSSelection mds_Include (\<lambda>x r. r\<lparr>mds_Include := x\<rparr>)
       svc_string (go_copy svc_string) i out)
    (copy_slice svc_DNSSelection mds_Exclude (\<lambda>x r. r\<lparr>mds_Exclude := x\<rparr>)
       svc_string (go_copy svc_string) i out)))"

definition DNSSelection_DeepCopy :: "addr option \<Rightarrow> (service_cell, addr option) heapm" where
  "DNSSelection_DeepCopy = deep_copy_ptr svc_DNSSelection DNSSelection_DeepCopyInto"

definition IssuerConfig_DeepCopyInto :: "addr \<Rightarrow> addr \<Rightarrow> (service_cell, unit) heapm" where
  "IssuerConfig_DeepCopyInto = (\<lambda>i out. hseq (assign svc_issuer i out)
    (hseq (copy_pointer svc_issuer mic_RequestsPerDayQuota (\<lambda>x r. r\<lparr>mic_RequestsPerDayQuota := x\<rparr>)
       svc_int (assign svc_int) i out)
    (hseq (copy_pointer svc_issuer mic_PrivateKeySecretName (\<lambda>x r. r\<lparr>mic_PrivateKeySecretName := x\<rparr>)
       svc_string (assign svc_string) i out)
    (hseq (copy_pointer svc_issuer mic_ExternalAccountBinding (\<lambda>x r. r\<lparr>mic_ExternalAccountBinding := x\<rparr>)
       svc_binding (assign svc_binding) i out)
    (hseq (copy_pointer svc_issuer mic_SkipDNSChallengeValidation (\<lambda>x r. r\<lparr>mic_SkipDNSChallengeValidation := x\<rparr>)
       svc_bool (assign svc_bool) i out)
    (hseq (copy_pointer svc_issuer mic_Domains (\<lambda>x r. r\<lparr>mic_Domains := x\<rparr>)
       svc_DNSSelection DNSSelection_DeepCopyInto i out)
    (copy_slice svc_issuer mic_PrecheckNameservers (\<lambda>x r. r\<lparr>mic_PrecheckNameservers := x\<rparr>)
       svc_string (go_copy svc_string) i out)))))))"

definition IssuerConfig_DeepCopy :: "addr option \<Rightarrow> (service_cell, addr option) heapm" where
  "IssuerConfig_DeepCopy = deep_copy_ptr svc_issuer IssuerConfig_DeepCopyInto"

definition SvcShootIssuers_DeepCopyInto :: "addr \<Rightarrow> addr \<Rightarrow> (service_cell, unit) heapm" where
  "SvcShootIssuers_DeepCopyInto = assign svc_shootIssuers"

definition SvcShootIssuers_DeepCopy :: "addr option \<Rightarrow> (service_cell, addr option) heapm" where
  "SvcShootIssuers_DeepCopy = deep_copy_ptr svc_shootIssuers SvcShootIssuers_DeepCopyInto"

definition CertConfig_DeepCopyInto :: "addr \<Rightarrow> addr \<Rightarrow> (service_cell, unit) heapm" where
  "CertConfig_DeepCopyInto = (\<lambda>i out. hseq (assign svc_certConfig i out)
    (hseq (copy_field svc_certConfig mcc_TypeMeta (\<lambda>x r. r\<lparr>mcc_TypeMeta := x\<rparr>) i out)
    (hseq (copy_slice svc_certConfig mcc_Issuers (\<lambda>x r. r\<lparr>mcc_Issuers := x\<rparr>)
       svc_issuer (range_elements IssuerConfig_DeepCopyInto) i out)
    (hseq (copy_pointer svc_certConfig mcc_DNSChallengeOnShoot (\<lambda>x r. r\<lparr>mcc_DNSChallengeOnShoot := x\<rparr>)
       svc_DNSChallenge DNSChallengeOnShoot_DeepCopyInto i out)
    (hseq (copy_pointer svc_certConfig mcc_ShootIssuers (\<lambda>x r. r\<lparr>mcc_ShootIssuers := x\<rparr>)
       svc_shootIssuers (assign svc_shootIssuers) i out)
    (hseq (copy_pointer svc_certConfig mcc_PrecheckNameservers (\<lambda>x r. r\<lparr>mcc_PrecheckNameservers := x\<rparr>)
       svc_string (assign svc_string) i out)
    (hseq (copy_pointer svc_certConfig mcc_Alerting (\<lambda>x r. r\<lparr>mcc_Alerting := x\<rparr>)
       svc_alerting Alerting_DeepCopyInto i out)
    (copy_pointer svc_certConfig mcc_GenerateControlPlaneCertificate (\<lambda>x r. r\<lparr>mcc_GenerateControlPlaneCertificate := x\<rparr>)
       svc_bool (assign svc_bool) i out))))))))"

definition CertConfig_DeepCopy :: "addr option \<Rightarrow> (service_cell, addr option) heapm" where
  "CertConfig_DeepCopy = deep_copy_ptr svc_certConfig CertConfig_DeepCopyInto"

definition CertConfig_DeepCopyObject :: "addr option \<Rightarrow> (service_cell, addr option) heapm" where
  "CertConfig_DeepCopyObject = deep_copy_object CertConfig_DeepCopy"

subsection \<open>The methods of the package \<open>service/v1alpha1\<close>\<close>

definition v1_ACMEExternalAccountBinding_DeepCopyInto :: "addr \<Rightarrow> addr \<Rightarrow> (service_cell, unit) heapm" where
  "v1_ACMEExternalAccountBinding_DeepCopyInto = assign svc_binding"

definition v1_ACMEExternalAccountBinding_DeepCopy :: "addr option \<Rightarrow> (service_cell, addr option) heapm" where
  "v1_ACMEExternalAccountBinding_DeepCopy = deep_copy_ptr svc_binding v1_ACMEExternalAccountBinding_DeepCopyInto"

definition v1_Alerting_DeepCopyInto :: "addr \<Rightarrow> addr \<Rightarrow> (service_cell, unit) heapm" where
  "v1_Alerting_DeepCopyInto = (\<lambda>i out. hseq (assign svc_alerting i out)
    (copy_pointer svc_alerting mal_CertExpirationAlertDays (\<lambda>x r. r\<lparr>mal_CertExpirationAlertDays := x\<rparr>)
       svc_int (assign svc_int) i out))"

definition v1_Alerting_DeepCopy :: "addr option \<Rightarrow> (service_cell, addr option) heapm" where
  "v1_Alerting_DeepCopy = deep_copy_ptr svc_alerting v1_Alerting_DeepCopyInto"

definition v1_DNSChallengeOnShoot_DeepCopyInto :: "addr \<Rightarrow> addr \<Rightarrow> (service_cell, unit) heapm" where
  "v1_DNSChallengeOnShoot_DeepCopyInto = (\<lambda>i out. hseq (assign svc_DNSChallenge i out)
    (copy_pointer svc_DNSChallenge mdc_DNSClass (\<lambda>x r. r\<lparr>mdc_DNSClass := x\<rparr>)
       svc_string (assign svc_string) i out))"

definition v1_DNSChallengeOnShoot_DeepCopy :: "addr option \<Rightarrow> (service_cell, addr option) heapm" where
  "v1_DNSChallengeOnShoot_DeepCopy = deep_copy_ptr svc_DNSChallenge v1_DNSChallengeOnShoot_DeepCopyInto"

definition v1_DNSSelection_DeepCopyInto :: "addr \<Rightarrow> addr \<Rightarrow> (service_cell, unit) heapm" where
  "v1_DNSSelection_DeepCopyInto = (\<lambda>i out. hseq (assign svc_DNSSelection i out)
    (hseq (copy_slice svc_DNSSelection mds_Include (\<lambda>x r. r\<lparr>mds_Include := x\<rparr>)
       svc_string (go_copy svc_string) i out)
    (copy_slice svc_DNSSelection mds_Exclude (\<lambda>x r. r\<lparr>mds_Exclude := x\<rparr>)
       svc_string (go_copy svc_string) i out)))"

definition v1_DNSSelection_DeepCopy :: "addr option \<Rightarrow> (service_cell, addr option) heapm" where
  "v1_DNSSelection_DeepCopy = deep_copy_ptr svc_DNSSelection v1_DNSSelection_DeepCopyInto"

definition v1_IssuerConfig_DeepCopyInto :: "addr \<Rightarrow> addr \<Rightarrow> (service_cell, unit) heapm" where
  "v1_IssuerConfig_DeepCopyInto = (\<lambda>i out. hseq (assign svc_issuer i out)
    (hseq (copy_pointer svc_issuer mic_RequestsPerDayQuota (\<lambda>x r. r\<lparr>mic_RequestsPerDayQuota := x\<rparr>)
       svc_int (assign svc_int) i out)
    (hseq (copy_pointer svc_issuer mic_PrivateKeySecretName (\<lambda>x r. r\<lparr>mic_PrivateKeySecretName := x\<rparr>)
       svc_string (assign svc_string) i out)
    (hseq (copy_pointer svc_issuer mic_ExternalAccountBinding (\<lambda>x r. r\<lparr>mic_ExternalAccountBinding := x\<rparr>)
       svc_binding (assign svc_binding) i out)
    (hseq (copy_pointer svc_issuer mic_SkipDNSChallengeValidation (\<lambda>x r. r\<lparr>mic_SkipDNSChallengeValidation := x\<rparr>)
       svc_bool (assign svc_bool) i out)
    (hseq (copy_pointer svc_issuer mic_Domains (\<lambda>x r. r\<lparr>mic_Domains := x\<rparr>)
       svc_DNSSelection v1_DNSSelection_DeepCopyInto i out)
    (copy_slice svc_issuer mic_PrecheckNameservers (\<lambda>x r. r\<lparr>mic_PrecheckNameservers := x\<rparr>)
       svc_string (go_copy svc_string) i out)))))))"

definition v1_IssuerConfig_DeepCopy :: "addr option \<Rightarrow> (service_cell, addr option) heapm" where
  "v1_IssuerConfig_DeepCopy = deep_copy_ptr svc_issuer v1_IssuerConfig_DeepCopyInto"

definition v1_SvcShootIssuers_DeepCopyInto :: "addr \<Rightarrow> addr \<Rightarrow> (service_cell, unit) heapm" where
  "v1_SvcShootIssuers_DeepCopyInto = assign svc_shootIssuers"

definition v1_SvcShootIssuers_DeepCopy :: "addr option \<Rightarrow> (service_cell, addr option) heapm" where
  "v1_SvcShootIssuers_DeepCopy = deep_copy_ptr svc_shootIssuers v1_SvcShootIssuers_DeepCopyInto"

definition v1_CertConfig_DeepCopyInto :: "addr \<Rightarrow> addr \<Rightarrow> (service_cell, unit) heapm" where
  "v1_CertConfig_DeepCopyInto = (\<lambda>i out. hseq (assign svc_certConfig i out)
    (hseq (copy_field svc_certConfig mcc_TypeMeta (\<lambda>x r. r\<lparr>mcc_TypeMeta := x\<rparr>) i out)
    (hseq (copy_slice svc_certConfig mcc_Issuers (\<lambda>x r. r\<lparr>mcc_Issuers := x\<rparr>)
       svc_issuer (range_elements v1_IssuerConfig_DeepCopyInto) i out)
    (hseq (copy_pointer svc_certConfig mcc_DNSChallengeOnShoot (\<lambda>x r. r\<lparr>mcc_DNSChallengeOnShoot := x\<rparr>)
       svc_DNSChallenge v1_DNSChallengeOnShoot_DeepCopyInto i out)
    (hseq (copy_pointer svc_certConfig mcc_ShootIssuers (\<lambda>x r. r\<lparr>mcc_ShootIssuers := x\<rparr>)
       svc_shootIssuers (assign svc_shootIssuers) i out)
    (hseq (copy_pointer svc_certConfig mcc_PrecheckNameservers (\<lambda>x r. r\<lparr>mcc_PrecheckNameservers := x\<rparr>)
       svc_string (assign svc_string) i out)
    (hseq (copy_pointer svc_certConfig mcc_Alerting (\<lambda>x r. r\<lparr>mcc_Alerting := x\<rparr>)
       svc_alerting v1_Alerting_DeepCopyInto i out)
    (copy_pointer svc_certConfig mcc_GenerateControlPlaneCertificate (\<lambda>x r. r\<lparr>mcc_GenerateControlPlaneCertificate := x\<rparr>)
       svc_bool (assign svc_bool) i out))))))))"

definition v1_CertConfig_DeepCopy :: "addr option \<Rightarrow> (service_cell, addr option) heapm" where
  "v1_CertConfig_DeepCopy = deep_copy_ptr svc_certConfig v1_CertConfig_DeepCopyInto"

definition v1_CertConfig_DeepCopyObject :: "addr option \<Rightarrow> (service_cell, addr option) heapm" where
  "v1_CertConfig_DeepCopyObject = deep_copy_object v1_CertConfig_DeepCopy"

text \<open>The two packages copy in the same way.\<close>

lemma v1_service_copies:
  "v1_ACMEExternalAccountBinding_DeepCopyInto = ACMEExternalAccountBinding_DeepCopyInto"
  "v1_ACMEExternalAccountBinding_DeepCopy = ACMEExternalAccountBinding_DeepCopy"
  "v1_Alerting_DeepCopyInto = Alerting_DeepCopyInto"
  "v1_Alerting_DeepCopy = Alerting_DeepCopy"
  "v1_DNSChallengeOnShoot_DeepCopyInto = DNSChallengeOnShoot_DeepCopyInto"
  "v1_DNSChallengeOnShoot_DeepCopy = DNSChallengeOnShoot_DeepCopy"
  "v1_DNSSelection_DeepCopyInto = DNSSelection_DeepCopyInto"
  "v1_DNSSelection_DeepCopy = DNSSelection_DeepCopy"
  "v1_IssuerConfig_DeepCopyInto = IssuerConfig_DeepCopyInto"
  "v1_IssuerConfig_DeepCopy = IssuerConfig_DeepCopy"
  "v1_SvcShootIssuers_DeepCopyInto = SvcShootIssuers_DeepCopyInto"
  "v1_SvcShootIssuers_DeepCopy = SvcShootIssuers_DeepCopy"
  "v1_CertConfig_DeepCopyInto = CertConfig_DeepCopyInto"
  "v1_CertConfig_DeepCopy = CertConfig_DeepCopy"
  "v1_CertConfig_DeepCopyObject = CertConfig_DeepCopyObject"
  by (auto simp: fun_eq_iff
      v1_ACMEExternalAccountBinding_DeepCopyInto_def ACMEExternalAccountBinding_DeepCopyInto_def
      v1_ACMEExternalAccountBinding_DeepCopy_def ACMEExternalAccountBinding_DeepCopy_def
      v1_Alerting_DeepCopyInto_def Alerting_DeepCopyInto_def
      v1_Alerting_DeepCopy_def Alerting_DeepCopy_def
      v1_DNSChallengeOnShoot_DeepCopyInto_def DNSChallengeOnShoot_DeepCopyInto_def
      v1_DNSChallengeOnShoot_DeepCopy_def DNSChallengeOnShoot_DeepCopy_def
      v1_DNSSelection_DeepCopyInto_def DNSSelection_DeepCopyInto_def
      v1_DNSSelection_DeepCopy_def DNSSelection_DeepCopy_def
      v1_IssuerConfig_DeepCopyInto_def IssuerConfig_DeepCopyInto_def
      v1_IssuerConfig_DeepCopy_def IssuerConfig_DeepCopy_def
      v1_SvcShootIssuers_DeepCopyInto_def SvcShootIssuers_DeepCopyInto_def
      v1_SvcShootIssuers_DeepCopy_def SvcShootIssuers_DeepCopy_def
      v1_CertConfig_DeepCopyInto_def CertConfig_DeepCopyInto_def
      v1_CertConfig_DeepCopy_def CertConfig_DeepCopy_def
      v1_CertConfig_DeepCopyObject_def CertConfig_DeepCopyObject_def)

subsection \<open>What the structs mean\<close>

text \<open>The values of \<open>Service_API\<close>: nil slices of issuers and nameservers are read as empty ones there.\<close>

definition alerting_meaning :: "(service_cell, mem_Alerting, Alerting) meaning" where
  "alerting_meaning = struct_meaning mal_CertExpirationAlertDays (pointer_meaning svc_int flat_meaning)
     (\<lambda>r days. \<lparr>al_CertExpirationAlertDays = days\<rparr>)"

definition dnsChallenge_meaning :: "(service_cell, mem_DNSChallengeOnShoot, DNSChallengeOnShoot) meaning" where
  "dnsChallenge_meaning = struct_meaning mdc_DNSClass (pointer_meaning svc_string flat_meaning)
     (\<lambda>r cls. \<lparr>dcs_Enabled = mdc_Enabled r, dcs_Namespace = mdc_Namespace r, dcs_DNSClass = cls\<rparr>)"

definition dnsSelection_meaning :: "(service_cell, mem_DNSSelection, DNSSelection) meaning" where
  "dnsSelection_meaning = struct_meaning (\<lambda>r. (mds_Include r, mds_Exclude r))
     (pair_meaning (slice_meaning svc_string flat_meaning) (slice_meaning svc_string flat_meaning))
     (\<lambda>r (incl, excl). \<lparr>dsel_Include = incl, dsel_Exclude = excl\<rparr>)"

definition issuer_meaning :: "(service_cell, mem_IssuerConfig, IssuerConfig) meaning" where
  "issuer_meaning = struct_meaning
     (\<lambda>r. (mic_RequestsPerDayQuota r, mic_PrivateKeySecretName r, mic_ExternalAccountBinding r,
       mic_SkipDNSChallengeValidation r, mic_Domains r, mic_PrecheckNameservers r))
     (pair_meaning (pointer_meaning svc_int flat_meaning)
     (pair_meaning (pointer_meaning svc_string flat_meaning)
     (pair_meaning (pointer_meaning svc_binding flat_meaning)
     (pair_meaning (pointer_meaning svc_bool flat_meaning)
     (pair_meaning (pointer_meaning svc_DNSSelection dnsSelection_meaning)
       (slice_meaning svc_string flat_meaning))))))
     (\<lambda>r (quota, key, eab, skip, doms, servers). \<lparr>ic_Name = mic_Name r, ic_Server = mic_Server r,
       ic_Email = mic_Email r, ic_RequestsPerDayQuota = quota, ic_PrivateKeySecretName = key,
       ic_ExternalAccountBinding = eab, ic_SkipDNSChallengeValidation = skip, ic_Domains = doms,
       ic_PrecheckNameservers = ptr_Deref servers []\<rparr>)"

definition certConfig_meaning :: "(service_cell, mem_CertConfig, CertConfig) meaning" where
  "certConfig_meaning = struct_meaning
     (\<lambda>r. (mcc_TypeMeta r, mcc_Issuers r, mcc_DNSChallengeOnShoot r, mcc_ShootIssuers r,
       mcc_PrecheckNameservers r, mcc_Alerting r, mcc_GenerateControlPlaneCertificate r))
     (pair_meaning flat_meaning
     (pair_meaning (slice_meaning svc_issuer issuer_meaning)
     (pair_meaning (pointer_meaning svc_DNSChallenge dnsChallenge_meaning)
     (pair_meaning (pointer_meaning svc_shootIssuers flat_meaning)
     (pair_meaning (pointer_meaning svc_string flat_meaning)
     (pair_meaning (pointer_meaning svc_alerting alerting_meaning)
       (pointer_meaning svc_bool flat_meaning)))))))
     (\<lambda>r (tm, iss, dns, shoot, servers, alert, gen). \<lparr>cc_TypeMeta = tm, cc_Issuers = ptr_Deref iss [],
       cc_DNSChallengeOnShoot = dns, cc_ShootIssuers = shoot, cc_PrecheckNameservers = servers,
       cc_Alerting = alert, cc_GenerateControlPlaneCertificate = gen\<rparr>)"

subsection \<open>The methods fulfil the contract\<close>

interpretation binding_copy:
  deep_copy svc_binding flat_meaning "\<lambda>_. True" ACMEExternalAccountBinding_DeepCopyInto
  unfolding ACMEExternalAccountBinding_DeepCopyInto_def by (rule deep_copy_flat) simp

interpretation svc_shootIssuers_copy:
  deep_copy svc_shootIssuers flat_meaning "\<lambda>_. True" SvcShootIssuers_DeepCopyInto
  unfolding SvcShootIssuers_DeepCopyInto_def by (rule deep_copy_flat) simp

interpretation alerting_copy: deep_copy svc_alerting alerting_meaning "\<lambda>_. True" Alerting_DeepCopyInto
  unfolding Alerting_DeepCopyInto_def alerting_meaning_def
  by (rule deep_copy_struct, (rule copy_pointer_ok deep_copy_flat | simp)+)

interpretation dnsChallenge_copy:
  deep_copy svc_DNSChallenge dnsChallenge_meaning "\<lambda>_. True" DNSChallengeOnShoot_DeepCopyInto
  unfolding DNSChallengeOnShoot_DeepCopyInto_def dnsChallenge_meaning_def
  by (rule deep_copy_struct, (rule copy_pointer_ok deep_copy_flat | simp)+)

interpretation dnsSelection_copy:
  deep_copy svc_DNSSelection dnsSelection_meaning "\<lambda>_. True" DNSSelection_DeepCopyInto
  unfolding DNSSelection_DeepCopyInto_def dnsSelection_meaning_def
  by (rule deep_copy_struct, (rule field_copy_pair copy_slice_ok deep_copy_flat go_copy_loop | simp)+)
     (auto simp: fun_eq_iff)

interpretation issuer_copy: deep_copy svc_issuer issuer_meaning "\<lambda>_. True" IssuerConfig_DeepCopyInto
  unfolding IssuerConfig_DeepCopyInto_def issuer_meaning_def
  by (rule deep_copy_struct, (rule field_copy_pair copy_pointer_ok copy_slice_ok
        dnsSelection_copy.deep_copy_axioms deep_copy_flat svc_types_ok go_copy_loop | (simp; fail))+)
     (auto simp: fun_eq_iff)

interpretation certConfig_copy: deep_copy svc_certConfig certConfig_meaning "\<lambda>_. True" CertConfig_DeepCopyInto
  unfolding CertConfig_DeepCopyInto_def certConfig_meaning_def
  by (rule deep_copy_struct, (rule field_copy_pair copy_field_ok copy_pointer_ok copy_slice_ok
        issuer_copy.deep_copy_axioms dnsChallenge_copy.deep_copy_axioms alerting_copy.deep_copy_axioms
        deep_copy_flat svc_types_ok range_elements_loop | (simp; fail))+)
     (auto simp: fun_eq_iff)

subsection \<open>Copies of provider configurations\<close>

text \<open>C21: A deep copy of a provider configuration, of the internal or of the versioned type, denotes the
  same configuration, and the two share no memory: for every well-formed heap and every pointer to a
  readable configuration (nil included), \<open>DeepCopyObject\<close> returns, what was allocated is unchanged, and
  a later change of what one of the two was read from, an element of a slice of issuers, domains or
  nameservers included, never changes the other.\<close>

theorem cert_config_deep_copy_independent:
  assumes "heap_ok h"
    and "pointer_meaning svc_certConfig certConfig_meaning h p = Some (c, A)"
  shows "independent_copy svc_certConfig certConfig_meaning h p c (CertConfig_DeepCopyObject p h)
    \<and> independent_copy svc_certConfig certConfig_meaning h p c (v1_CertConfig_DeepCopyObject p h)"
  unfolding v1_service_copies CertConfig_DeepCopyObject_def CertConfig_DeepCopy_def deep_copy_object_eq
  using certConfig_copy.copy_independent[OF assms] by blast

text \<open>A provider configuration with an issuer that has an excluded domain and two nameservers.\<close>

definition sample_service_heap :: "service_cell heap" where
  "sample_service_heap = \<lparr>hp_cells = [
     0 \<mapsto> SvcCertConfig \<lparr>mcc_TypeMeta = emptyTypeMeta, mcc_Issuers = Some \<lparr>sl_base = 1, sl_len = 1\<rparr>,
       mcc_DNSChallengeOnShoot = None, mcc_ShootIssuers = None, mcc_PrecheckNameservers = None,
       mcc_Alerting = None, mcc_GenerateControlPlaneCertificate = None\<rparr>,
     1 \<mapsto> SvcIssuer \<lparr>mic_Name = ''n'', mic_Server = ''s'', mic_Email = ''e'',
       mic_RequestsPerDayQuota = None, mic_PrivateKeySecretName = None,
       mic_ExternalAccountBinding = None, mic_SkipDNSChallengeValidation = None,
       mic_Domains = Some 2, mic_PrecheckNameservers = Some \<lparr>sl_base = 4, sl_len = 2\<rparr>\<rparr>,
     2 \<mapsto> SvcDNSSelection \<lparr>mds_Include = None, mds_Exclude = Some \<lparr>sl_base = 3, sl_len = 1\<rparr>\<rparr>,
     3 \<mapsto> SvcString ''d'', 4 \<mapsto> SvcString ''p'', 5 \<mapsto> SvcString ''q''], hp_next = 6\<rparr>"

definition sample_cert_config :: CertConfig where
  "sample_cert_config = emptyCertConfig\<lparr>cc_Issuers := [(plainIssuerConfig ''n'' ''s'' ''e'')
     \<lparr>ic_Domains := Some \<lparr>dsel_Include = None, dsel_Exclude = Some [''d'']\<rparr>,
      ic_PrecheckNameservers := [''p'', ''q'']\<rparr>]\<rparr>"

lemma sample_service_heap_ok: "heap_ok sample_service_heap"
  by (auto simp: heap_ok_def sample_service_heap_def)

lemma sample_service_meaning:
  "pointer_meaning svc_certConfig certConfig_meaning sample_service_heap (Some 0)
    = Some (Some sample_cert_config, {0, 1, 2, 3, 4, 5})"
  by (auto simp: sample_service_heap_def sample_cert_config_def emptyCertConfig_def
      plainIssuerConfig_def pointer_meaning_def slice_meaning_def value_at_def certConfig_meaning_def
      issuer_meaning_def dnsSelection_meaning_def struct_meaning_def pair_meaning_def flat_meaning_def
      svc_types eval_nat_numeral)

theorem cert_config_deep_copy_independent_witness:
  "independent_copy svc_certConfig certConfig_meaning sample_service_heap (Some 0)
      (Some sample_cert_config) (CertConfig_DeepCopyObject (Some 0) sample_service_heap)"
  using cert_config_deep_copy_independent[OF sample_service_heap_ok sample_service_meaning] by blast

end
