(* ===== verification/Unit_Tests_Validation.thy ===== *)
theory Unit_Tests_Validation
  imports Service_Validation
begin

text \<open>
  The tables of \<open>config/validation/validation_test.go\<close> and \<open>service/validation/validation_test.go\<close>,
  evaluated on the model: each entry with the type and the field of every error it expects. Parsers that
  the model takes as parameters are small functions that tell the entries' values apart: a URL starts
  with \<open>https://\<close>, a PEM block is one \<open>B\<close>, and blocks may be separated by newlines.
\<close>

definition test_extern :: extern where
  "test_extern = sample_extern\<lparr>
     parseRequestURI := (\<lambda>s. if take 8 s = ''https://'' then None else Some (Foreign ''invalid URI for request'')),
     pemDecode := (\<lambda>s. case dropWhile (\<lambda>c. c = CHR 0x0A) s of [] \<Rightarrow> None
       | c # r \<Rightarrow> if c = CHR ''B'' then Some ([c], r) else None)\<rparr>"

definition error_sites :: "field_error list \<Rightarrow> (error_type \<times> field_path) list" where
  "error_sites es = map (\<lambda>e. (fe_Type e, fe_Field e)) es"

subsection \<open>Name servers\<close>

lemma test_nameservers_valid:
  "list_all (\<lambda>s. ValidateNameserver test_extern s = None)
    [''8.8.8.8'', ''8.8.8.8:53'', ''2001:db8::1'', ''[::1]'', ''[::1]:53'', ''[2001:db8::1]:5353'', ''foo.com'',
     ''foo-2.bla.net'', ''foo-2.bla.net.'', ''ns1.example.com:5353'', ''ns1.example.com.:53'']"
  by code_simp

fun begins :: "string \<Rightarrow> string \<Rightarrow> bool" where
  "begins [] s = True"
| "begins (c # cs) [] = False"
| "begins (c # cs) (d # ds) = (c = d \<and> begins cs ds)"

fun contains :: "string \<Rightarrow> string \<Rightarrow> bool" where
  "contains sub [] = (sub = [])"
| "contains sub (c # cs) = (begins sub (c # cs) \<or> contains sub cs)"

definition complains :: "string \<Rightarrow> goerr option \<Rightarrow> bool" where
  "complains sub e = (case e of None \<Rightarrow> False | Some err \<Rightarrow> contains sub (err_text err))"

lemma test_nameservers_invalid:
  "list_all (\<lambda>s. complains ''is no valid IP address or domain name'' (ValidateNameserver test_extern s))
     [''-foo-.com'', ''dns.server.te%st'', ''1.2.3'']"
  "complains ''is no valid port'' (ValidateNameserver test_extern ''8.8.8.8:abc'')"
  "list_all (\<lambda>s. complains ''is no valid nameserver address'' (ValidateNameserver test_extern s)) [''[::1'', ''[notanip]'']"
  by code_simp+

text \<open>Ports beyond the range, whose values are computed as numerals.\<close>

lemma test_port_out_of_range:
  assumes "SplitHostPort s = Some (host, port)" "ParseIP host \<or> isDNS1123Subdomain X (trimSuffix host ''.'') = []"
    and "ParseIP host \<or> trimSet host ''0123456789.'' \<noteq> []" "atoi port = Some n" "n > 65535"
  shows "ValidateNameserver X s = Some (ErrMsg (quoted port @ '' is no valid port number''))"
  using assms by (auto simp: ValidateNameserver_def)

lemma test_atoi: "atoi ''123456'' = Some 123456"
  by (simp add: atoi_def digit_val_def dec_digits_def hasPrefix_def)

lemma test_split: "SplitHostPort ''8.8.8.8:123456'' = Some (''8.8.8.8'', ''123456'')" "ParseIP ''8.8.8.8''"
  by code_simp+

lemma test_nameserver_port:
  "ValidateNameserver X ''8.8.8.8:123456'' = Some (ErrMsg (quoted ''123456'' @ '' is no valid port number''))"
  by (rule test_port_out_of_range [OF test_split(1) _ _ test_atoi(1)]) (simp_all add: test_split)

subsection \<open>Configurations\<close>

definition test_acme :: ConfigACME where
  "test_acme = \<lparr>cacme_Email = ''john.doe@example.com'', cacme_Server = ''https://acme-v02.api.letsencrypt.org/directory'',
     cacme_PrivateKey = None, cacme_PropagationTimeout = None, cacme_PrecheckNameservers = None,
     cacme_CACertificates = None, cacme_DeactivateAuthorizations = None, cacme_SkipDNSChallengeValidation = None\<rparr>"

definition test_config :: Configuration where
  "test_config = emptyConfiguration\<lparr>cfg_IssuerName := ''gardener'', cfg_ACME := Some test_acme\<rparr>"

abbreviation with_acme :: "(ConfigACME \<Rightarrow> ConfigACME) \<Rightarrow> Configuration" where
  "with_acme f \<equiv> test_config\<lparr>cfg_ACME := Some (f test_acme)\<rparr>"

abbreviation with_ca :: "string \<Rightarrow> Configuration" where
  "with_ca data \<equiv> test_config\<lparr>cfg_ACME := None, cfg_CA := Some \<lparr>cca_Certificate = data, cca_CertificateKey = data\<rparr>\<rparr>"

abbreviation at :: "string list \<Rightarrow> field_path" where
  "at names \<equiv> map Child names"

definition configuration_table :: "(Configuration \<times> (error_type \<times> field_path) list) list" where
  "configuration_table =
    [(emptyConfiguration\<lparr>cfg_ACME := Some (test_acme\<lparr>cacme_Email := '''', cacme_Server := ''''\<rparr>)\<rparr>,
       [(TypeRequired, at [''issuerName'']), (TypeInvalid, at [''acme'', ''server'']), (TypeInvalid, at [''acme'', ''email''])]),
     (with_acme (\<lambda>a. a\<lparr>cacme_Email := ''john.doe.com'', cacme_Server := ''acme-v02.api.letsencrypt.org/directory''\<rparr>),
       [(TypeInvalid, at [''acme'', ''server'']), (TypeInvalid, at [''acme'', ''email''])]),
     (with_acme (\<lambda>a. a\<lparr>cacme_PrecheckNameservers := Some ''''\<rparr>), [(TypeInvalid, at [''acme'', ''precheckNameservers''])]),
     (with_acme (\<lambda>a. a\<lparr>cacme_PrecheckNameservers := Some ''-foo-.com''\<rparr>),
       [(TypeInvalid, at [''acme'', ''precheckNameservers''])]),
     (with_acme (\<lambda>a. a\<lparr>cacme_PrecheckNameservers := Some (''8.8.8.8,172.11.22.253,8.8.8.8:53,2001:db8::1,[::1],''
         @ ''[::1]:53,foo.com,foo-2.bla.net.,ns1.example.com:5353'')\<rparr>), []),
     (with_acme (\<lambda>a. a\<lparr>cacme_PrecheckNameservers := Some ''-bad-.com:53''\<rparr>),
       [(TypeInvalid, at [''acme'', ''precheckNameservers''])]),
     (test_config\<lparr>cfg_DefaultRequestsPerDayQuota := Some 0\<rparr>, [(TypeInvalid, at [''defaultRequestsPerDayQuota''])]),
     (test_config\<lparr>cfg_DefaultRequestsPerDayQuota := Some 50\<rparr>, []),
     (test_config\<lparr>cfg_PrivateKeyDefaults := Some \<lparr>pkd_Algorithm = Some ''ECDSA'', pkd_SizeRSA = Some 2048,
         pkd_SizeECDSA = Some 256\<rparr>\<rparr>, []),
     (test_config\<lparr>cfg_PrivateKeyDefaults := Some \<lparr>pkd_Algorithm = Some ''X'', pkd_SizeRSA = Some 999,
         pkd_SizeECDSA = Some 444\<rparr>\<rparr>,
       map (\<lambda>f. (TypeInvalid, at [''privateKeyDefaults'', f])) [''algorithm'', ''sizeRSA'', ''sizeECDSA'']),
     (with_ca ''B'', []),
     (with_ca ''blabla'', [(TypeInvalid, at [''ca'', ''certificate'']), (TypeInvalid, at [''ca'', ''certificateKey''])]),
     ((with_ca ''B'')\<lparr>cfg_ACME := Some test_acme\<rparr>, [(TypeInvalid, at [''acme''])]),
     (test_config\<lparr>cfg_ACME := None\<rparr>, [(TypeRequired, at [''acme''])])]"

lemma test_configurations:
  "list_all (\<lambda>(c, sites). map_option error_sites (ValidateConfiguration test_extern c) = Some sites) configuration_table"
  by code_simp

text \<open>The entries with a bundle of certificates, whose loop is unfolded as often as it runs.\<close>

lemma test_bundles:
  "trimSpace ''blabla'' = ''blabla''" "trimSpace ''B\<newline>B'' = ''B\<newline>B''"
  by code_simp+

lemma test_certificates:
  "map_option error_sites (ValidateConfiguration test_extern (with_acme (\<lambda>a. a\<lparr>cacme_CACertificates := Some ''blabla''\<rparr>)))
    = Some [(TypeInvalid, at [''acme'', ''caCertificates''])]"
  "map_option error_sites (ValidateConfiguration test_extern (with_acme (\<lambda>a. a\<lparr>cacme_CACertificates := Some ''B\<newline>B''\<rparr>)))
    = Some []"
  by (simp_all add: ValidateConfiguration_def validateACME_def validateCACertificates_def test_bundles test_config_def
      test_acme_def emptyConfiguration_def caCertificatesLoop.simps validateCertificate_def test_extern_def
      sample_extern_def error_sites_def fInvalid_def validatePrivateKeyDefaults_def)

text \<open>The details that the tests compare.\<close>

lemma test_configuration_details:
  "map_option (map fe_Detail) (ValidateConfiguration test_extern (with_ca ''blabla''))
    = Some [''invalid certificate: expected PEM format'', ''invalid certificate private key: expected PEM format'']"
  "map_option (map fe_Detail) (ValidateConfiguration test_extern ((with_ca ''B'')\<lparr>cfg_ACME := Some test_acme\<rparr>))
    = Some [''only one of ACME or CA can be specified'']"
  "map_option (map fe_Detail) (ValidateConfiguration test_extern (test_config\<lparr>cfg_ACME := None\<rparr>))
    = Some [''at least one of ACME or CA must be specified'']"
  by code_simp+

subsection \<open>Provider configurations\<close>

definition test_cluster :: Cluster where
  "test_cluster = \<lparr>cl_Shoot = Some \<lparr>sh_Name = '''', sh_Namespace = '''', sh_DeletionTimestamp = None, sh_DNS = None,
       sh_Resources = [\<lparr>nrr_Name = ''testref'', nrr_Kind = ''Secret'', nrr_RefName = ''referenced-secret'',
         nrr_APIVersion = ''v1''\<rparr>]\<rparr>, cl_IsHibernated = False, cl_GetReplicas = 0,
     cl_GenericTokenKubeconfigSecretName = ''''\<rparr>"

definition test_issuer :: IssuerConfig where
  "test_issuer = plainIssuerConfig ''issuer'' ''https://acme-v02.api.letsencrypt.org/directory'' ''john@example.com''"

abbreviation with_issuers :: "IssuerConfig list \<Rightarrow> CertConfig" where
  "with_issuers is \<equiv> emptyCertConfig\<lparr>cc_Issuers := is\<rparr>"

abbreviation at_issuer :: "nat \<Rightarrow> string list \<Rightarrow> field_path" where
  "at_issuer i names \<equiv> Child ''issuers'' # Index i # at names"

definition test_dns :: "string \<Rightarrow> DNSChallengeOnShoot" where
  "test_dns ns = \<lparr>dcs_Enabled = True, dcs_Namespace = ns, dcs_DNSClass = None\<rparr>"

definition shoot_table :: "(CertConfig \<times> (error_type \<times> field_path) list) list" where
  "shoot_table =
    [(emptyCertConfig, []),
     (with_issuers [plainIssuerConfig '''' '''' ''''],
       map (\<lambda>f. (TypeInvalid, at_issuer 0 [f])) [''name'', ''server'', ''email'']),
     (with_issuers [test_issuer, plainIssuerConfig ''issuer'' ''https://acme-v02.api.acme.org'' ''john.doe@example.com''],
       [(TypeDuplicate, at_issuer 1 [''name''])]),
     (with_issuers [test_issuer], []),
     (with_issuers [test_issuer\<lparr>ic_PrivateKeySecretName := Some ''testref''\<rparr>], []),
     (with_issuers [test_issuer\<lparr>ic_PrivateKeySecretName := Some ''not-existing-ref''\<rparr>],
       [(TypeInvalid, at_issuer 0 [''privateKeySecretName''])]),
     (with_issuers [test_issuer\<lparr>ic_RequestsPerDayQuota := Some 0\<rparr>], [(TypeInvalid, at_issuer 0 [''requestsPerDayQuota''])]),
     (with_issuers [test_issuer\<lparr>ic_RequestsPerDayQuota := Some 1\<rparr>], []),
     (with_issuers [test_issuer\<lparr>ic_RequestsPerDayQuota := Some 1,
         ic_ExternalAccountBinding := Some \<lparr>eab_KeyID = ''mykey'', eab_KeySecretName = ''testref''\<rparr>,
         ic_SkipDNSChallengeValidation := Some True,
         ic_Domains := Some \<lparr>dsel_Include = Some [''my.domain.com''], dsel_Exclude = None\<rparr>\<rparr>], []),
     (with_issuers [test_issuer\<lparr>ic_RequestsPerDayQuota := Some 1,
         ic_ExternalAccountBinding := Some \<lparr>eab_KeyID = '''', eab_KeySecretName = ''foo''\<rparr>\<rparr>],
       map (\<lambda>f. (TypeInvalid, at_issuer 0 [''externalAccountBinding'', f])) [''keyID'', ''keySecretName'']),
     (with_issuers [test_issuer\<lparr>ic_RequestsPerDayQuota := Some 1, ic_SkipDNSChallengeValidation := Some True\<rparr>],
       [(TypeInvalid, at_issuer 0 [''skipDNSChallengeValidation''])]),
     (with_issuers [test_issuer\<lparr>ic_PrecheckNameservers := [''8.8.8.8'', ''8.8.4.4:53'', ''some.special.dns.server.:53'',
         ''2001:db8::1428:57ab'', ''[2001:db8::1428:57ab]:53'']\<rparr>], []),
     (emptyCertConfig\<lparr>cc_DNSChallengeOnShoot := Some (test_dns '''')\<rparr>,
       [(TypeRequired, at [''dnsChallengeOnShoot'', ''namespace''])]),
     (emptyCertConfig\<lparr>cc_DNSChallengeOnShoot := Some (test_dns ''kube-system'')\<rparr>, []),
     (emptyCertConfig\<lparr>cc_PrecheckNameservers := Some (''10.0.0.53:53,1.1.1.1,[2001:0db8:85a3:08d3::0370:7344]:8080,''
         @ ''dns.server.test,dns.server.test.:53'')\<rparr>, []),
     (emptyCertConfig\<lparr>cc_PrecheckNameservers := Some ''''\<rparr>, [(TypeInvalid, at [''precheckNameservers''])])]"

lemma test_shoot_configs:
  "list_all (\<lambda>(c, sites). error_sites (ValidateCertConfig test_extern c (Some test_cluster)) = sites) shoot_table"
  by code_simp

definition runtime_table :: "(CertConfig \<times> (error_type \<times> field_path) list) list" where
  "runtime_table =
    [(emptyCertConfig, []),
     (with_issuers [test_issuer], [(TypeForbidden, at [''issuers''])]),
     (emptyCertConfig\<lparr>cc_DNSChallengeOnShoot := Some (test_dns ''kube-system'')\<rparr>, [(TypeForbidden, at [''dnsChallengeOnShoot''])]),
     (emptyCertConfig\<lparr>cc_PrecheckNameservers := Some ''1.1.1.1''\<rparr>, [(TypeForbidden, at [''precheckNameservers''])]),
     (emptyCertConfig\<lparr>cc_ShootIssuers := Some \<lparr>ssi_Enabled = True\<rparr>\<rparr>, [(TypeForbidden, at [''shootIssuers''])]),
     (emptyCertConfig\<lparr>cc_Alerting := Some \<lparr>al_CertExpirationAlertDays = None\<rparr>\<rparr>, [(TypeForbidden, at [''alerting''])])]"

lemma test_runtime_configs:
  "list_all (\<lambda>(c, sites). error_sites (ValidateCertConfig test_extern c None) = sites) runtime_table"
  by code_simp

end
