(* ===== verification/Unit_Tests_Deployer.thy ===== *)
theory Unit_Tests_Deployer
  imports Deployer_Objects
begin

text \<open>
  The cases of \<open>shared/deployer_test.go\<close>, evaluated on the model: the arguments of the controller for
  each setting the tests vary, the rules of the roles, and the objects of each deployment.
\<close>

text \<open>The values of the tests' \<open>BeforeEach\<close>.\<close>

definition test_values :: Values where
  "test_values = emptyValues\<lparr>
     vl_Namespace := ''shoot--foo--bar'',
     vl_ExtensionConfig := emptyConfiguration\<lparr>cfg_IssuerName := ''garden'', cfg_DefaultRequestsPerDayQuota := Some 100,
       cfg_ACME := Some \<lparr>cacme_Email = ''foo@example.com'', cacme_Server = ''https://acme-v02.api.letsencrypt.org/directory'',
         cacme_PrivateKey = Some ''<private-key>'', cacme_PropagationTimeout = None, cacme_PrecheckNameservers = None,
         cacme_CACertificates = Some ''cert1\<newline>cert2\<newline>'', cacme_DeactivateAuthorizations = Some True,
         cacme_SkipDNSChallengeValidation = None\<rparr>\<rparr>,
     vl_ShootDeployment := True, vl_Replicas := 1,
     vl_Image := ''example.com/gardener-project/releases/cert-controller-manager:v0.0.0'',
     vl_GenericTokenKubeconfigSecretName := ''generic-token-kubeconfig-71a3f1a4''\<rparr>"

lemma test_numbers: "show_int 100 = ''100''" "show_int 10258 = ''10258''" "show_int 5 = ''5''" "show_int 2 = ''2''"
  "show_int 3072 = ''3072''" "show_int 384 = ''384''" "show_int 2048 = ''2048''" "show_int 256 = ''256''"
  by (simp_all add: show_int_def digit_char_def dec_digits_def show_nat.simps)

text \<open>The helper functions of the tests.\<close>

fun insertArgsAfter :: "string \<Rightarrow> string list \<Rightarrow> string list \<Rightarrow> string list" where
  "insertArgsAfter p [] new = new"
| "insertArgsAfter p (a # as) new = (if hasPrefix a p then a # new @ as else a # insertArgsAfter p as new)"

definition removeArgs :: "string list \<Rightarrow> string list \<Rightarrow> string list" where
  "removeArgs as gone = filter (\<lambda>a. a \<notin> set gone) as"

definition test_args :: "bool \<Rightarrow> string \<Rightarrow> string \<Rightarrow> string list" where
  "test_args internal namespace certClass =
    [''--name=cert-controller-manager'', ''--namespace='' @ (if internal then namespace else ''kube-system'')]
    @ (if internal then [''--cert-class='' @ certClass, ''--use-dnsrecords=true'']
       else [''--source=/var/run/secrets/gardener.cloud/shoot/generic-kubeconfig/kubeconfig''])
    @ [''--issuer.issuer-namespace='' @ namespace, ''--issuer.default-issuer=garden'',
       ''--issuer.default-requests-per-day-quota=100'', ''--issuer.dns-namespace='' @ namespace,
       ''--server-port-http=10258'', ''--ingress-cert.targets.pool.size=5'', ''--service-cert.targets.pool.size=5'',
       ''--issuer.default.pool.size=2'', ''--acme-deactivate-authorizations'', ''--lease-name=shoot-cert-service'',
       ''--lease-resource-lock=leases'', ''--kubeconfig.disable-deploy-crds'', ''--source.disable-deploy-crds'',
       ''--target.disable-deploy-crds'', ''--default-private-key-algorithm=RSA'',
       ''--default-rsa-private-key-size=3072'', ''--default-ecdsa-private-key-size=384'']"

abbreviation seed_args :: "string list" where
  "seed_args \<equiv> test_args False ''shoot--foo--bar'' ''''"

abbreviation with_extension :: "(Configuration \<Rightarrow> Configuration) \<Rightarrow> Values" where
  "with_extension f \<equiv> test_values\<lparr>vl_ExtensionConfig := f (vl_ExtensionConfig test_values)\<rparr>"

abbreviation with_provider :: "(CertConfig \<Rightarrow> CertConfig) \<Rightarrow> Values" where
  "with_provider f \<equiv> test_values\<lparr>vl_CertConfig := f (vl_CertConfig test_values)\<rparr>"

lemmas test_args_simps = args_def dns_args_def key_args_def flag_def fullName_def serverPortHttp_def
  ingressCertWorkers_def certWorkers_def issuerWorkers_def defaultAlgorithm_def defaultSizeRSA_def defaultSizeECDSA_def
  nextGenerationDNSClass_def RestrictedIssuer_def precheckNameservers_def propagationTimeout_def
  shootIssuersEnabled_def dnsChallengeOnShootEnabled_def deactivateAuthorizations_def defaultPrecheckNameservers_def
  test_values_def emptyValues_def emptyConfiguration_def emptyCertConfig_def test_numbers
  test_args_def hasPrefix_def removeArgs_def

lemma test_args_standard: "args test_values = seed_args"
  by (simp add: test_args_simps)

lemma test_args_restricted:
  "args ((with_extension (\<lambda>c. c\<lparr>cfg_RestrictIssuer := Some True\<rparr>))\<lparr>vl_RestrictedDomains := ''sub1.example.com,sub2.example.com''\<rparr>)
    = insertArgsAfter ''--issuer.default-requests-per-day-quota='' seed_args
        [''--issuer.default-issuer-domain-ranges=sub1.example.com,sub2.example.com'']"
  by (simp add: test_args_simps)

lemma test_args_dns_on_shoot:
  "args (with_provider (\<lambda>c. c\<lparr>cc_DNSChallengeOnShoot := Some \<lparr>dcs_Enabled = True, dcs_Namespace = ''my-ns'',
      dcs_DNSClass = Some ''my-dns-class''\<rparr>\<rparr>))
    = removeArgs (insertArgsAfter ''--issuer.default-requests-per-day-quota='' seed_args
        [''--dns=/var/run/secrets/gardener.cloud/shoot/generic-kubeconfig/kubeconfig'', ''--issuer.dns-namespace=my-ns'',
         ''--issuer.dns-class=my-dns-class'']) [''--issuer.dns-namespace=shoot--foo--bar'']"
  by (simp add: test_args_simps)

lemma test_args_issuers_on_shoot:
  "args (with_provider (\<lambda>c. c\<lparr>cc_ShootIssuers := Some \<lparr>ssi_Enabled = True\<rparr>\<rparr>))
    = insertArgsAfter ''--issuer.default.pool.size='' seed_args [''--allow-target-issuers'']"
  by (simp add: test_args_simps)

lemma test_args_private_key_defaults:
  "args (with_extension (\<lambda>c. c\<lparr>cfg_PrivateKeyDefaults := Some \<lparr>pkd_Algorithm = Some ''ECDSA'', pkd_SizeRSA = Some 2048,
      pkd_SizeECDSA = Some 256\<rparr>\<rparr>))
    = removeArgs seed_args [''--default-private-key-algorithm=RSA'', ''--default-rsa-private-key-size=3072'',
        ''--default-ecdsa-private-key-size=384'']
      @ [''--default-private-key-algorithm=ECDSA'', ''--default-rsa-private-key-size=2048'',
         ''--default-ecdsa-private-key-size=256'']"
  by (simp add: test_args_simps)

lemma test_args_next_generation:
  "args (test_values\<lparr>vl_NextGenDNSShootService := True\<rparr>) = seed_args @ [''--issuer.dns-class=gardendns-next-gen'']"
  by (simp add: test_args_simps)

lemma test_args_precheck_nameservers:
  "args (with_extension (\<lambda>c. c\<lparr>cfg_ACME := map_option (\<lambda>a. a\<lparr>cacme_PrecheckNameservers := Some ''8.8.8.8,8.8.4.4''\<rparr>) (cfg_ACME c)\<rparr>))
    = insertArgsAfter ''--issuer.default-requests-per-day-quota='' seed_args [''--issuer.precheck-nameservers=8.8.8.8,8.8.4.4'']"
  by (simp add: test_args_simps)

lemma test_fraction: "pad_digits 9 300000000000 = ''000000000''"
proof -
  have nine: "(9::nat) = Suc (Suc (Suc (Suc (Suc (Suc (Suc (Suc (Suc 0))))))))" by simp
  show ?thesis unfolding nine pad_digits.simps by (simp add: digit_char_def dec_digits_def)
qed

lemma test_five_minutes: "durationString 300000000000 = ''5m0s''"
  by (simp add: durationString_def duration_abs_def fmtFrac_def test_fraction digit_char_def dec_digits_def
      show_nat.simps Let_def)

lemma test_args_propagation_timeout:
  "args (with_extension (\<lambda>c. c\<lparr>cfg_ACME := map_option (\<lambda>a. a\<lparr>cacme_PropagationTimeout := Some 300000000000\<rparr>) (cfg_ACME c)\<rparr>))
    = insertArgsAfter ''--issuer.default.pool.size='' seed_args [''--propagation-timeout=5m0s'']"
  by (simp add: test_args_simps test_five_minutes)

text \<open>The values for a garden with a certificate authority of its own, and for a seed.\<close>

definition test_garden_values :: Values where
  "test_garden_values = (with_extension (\<lambda>c. c\<lparr>cfg_ACME := None,
       cfg_CA := Some \<lparr>cca_Certificate = ''certificate'', cca_CertificateKey = ''cert-key''\<rparr>,
       cfg_InClusterACMEServerNamespaceMatchLabel := [''in-cluster-acme-server'' \<mapsto> ''allow'']\<rparr>))
     \<lparr>vl_ShootDeployment := False, vl_GardenDeployment := True, vl_Namespace := ''garden'', vl_CertClass := ''garden''\<rparr>"

definition test_seed_values :: Values where
  "test_seed_values = test_values\<lparr>vl_ShootDeployment := False, vl_Namespace := ''seed-foo'', vl_CertClass := ''seed''\<rparr>"

lemma test_args_internal:
  "args test_seed_values = test_args True ''seed-foo'' ''seed''"
  "args test_garden_values = removeArgs (test_args True ''garden'' ''garden'') [''--acme-deactivate-authorizations'']"
  by (simp_all add: test_args_simps test_seed_values_def test_garden_values_def)

subsection \<open>Objects\<close>

lemmas test_object_simps = seedObjects_def shootObjects_def gardenOrSeedObjects_def createIssuers_def collectIssuers_def
  gardenIssuer_def issuerObjects_def createIssuer_def createACMESpec_def createCASpec_def secretACME_def secretCA_def
  createDeployment_def issuersChecksum_def getShootCRDs_def crd_items_def stringToCRD_def keepCRD_def
  as_object_def object_key_def sample_deploy_def sample_crd_def
  createCACertificatesConfigMap_def createVPA_def createPrometheusRule_def createNetworkPolicy_def
  createPodDisruptionBudget_def createServiceAccount_def createRole_def createRoleBinding_def createService_def
  createDashboardsConfigMap_def createServiceMonitor_def createShootRole_def createShootRoleBinding_def
  createShootClusterRole_def createShootClusterRoleBinding_def caCertificates_def certExpirationAlertDays_def
  Let_def defaultCertExpirationAlertDays_def chartNameSeed_def CertManagementChartNameShootSeed_def CertManagementChartNameGarden_def CertManagementChartNameSeed_def

definition object_keys :: "(client_object list \<times> Issuer list) result \<Rightarrow> (string \<times> string \<times> string) list option" where
  "object_keys r = (case r of Ok (os, is) \<Rightarrow> Some (map object_key (objs_of os)) | _ \<Rightarrow> None)"

definition at_namespace :: "string \<Rightarrow> (string \<times> string) list \<Rightarrow> (string \<times> string \<times> string) list" where
  "at_namespace ns ks = map (\<lambda>(k, n). (k, ns, n)) ks"

lemma test_seed_objects:
  "object_keys (seedObjects sample_extern sample_deploy test_values) = Some (at_namespace ''shoot--foo--bar''
    [(''PodDisruptionBudget'', ''cert-controller-manager''), (''ServiceAccount'', ''shoot-cert-management-seed''),
     (''ConfigMap'', ''cert-controller-manager-ca-certificates''),
     (''Secret'', ''extension-shoot-cert-service-issuer-garden''), (''Issuer'', ''garden''),
     (''Role'', ''extensions.gardener.cloud:extension-shoot-cert-service''), (''RoleBinding'', ''shoot-cert-management-seed''),
     (''Service'', ''cert-controller-manager''), (''Deployment'', ''cert-controller-manager''),
     (''VerticalPodAutoscaler'', ''cert-controller-manager-vpa''), (''ConfigMap'', ''cert-controller-manager-dashboards''),
     (''PrometheusRule'', ''shoot-cert-controller-manager''), (''ServiceMonitor'', ''shoot-cert-controller-manager'')])"
  by (simp add: object_keys_def at_namespace_def test_object_simps test_args_simps issuerSecretName_def
      shootCertServiceRoleName_def)

text \<open>Without alerting there is no rule; the interface that holds the nil pointer stays in the list.\<close>

lemma test_without_alerting:
  "object_keys (seedObjects sample_extern sample_deploy
      (with_provider (\<lambda>c. c\<lparr>cc_Alerting := Some \<lparr>al_CertExpirationAlertDays = Some 0\<rparr>\<rparr>)))
    = map_option (filter (\<lambda>k. fst k \<noteq> ''PrometheusRule''))
        (object_keys (seedObjects sample_extern sample_deploy test_values))"
  by (simp add: object_keys_def test_object_simps test_args_simps)

lemma test_replicas:
  "case createDeployment X sample_deploy (test_values\<lparr>vl_Replicas := 0\<rparr>) of
     Ok d \<Rightarrow> dp_Replicas d = Some 0 | _ \<Rightarrow> False"
  by (simp add: test_object_simps test_args_simps)

definition internal_keys :: "string \<Rightarrow> string \<Rightarrow> (string \<times> string \<times> string) list \<Rightarrow> (string \<times> string) list
    \<Rightarrow> (string \<times> string) list \<Rightarrow> (string \<times> string \<times> string) list" where
  "internal_keys ns certClass certs issuers policies =
    at_namespace ns [(''ServiceAccount'', ''cert-management-'' @ certClass)] @ certs @ at_namespace ns
      (issuers @ [(''Role'', ''extensions.gardener.cloud:extension-shoot-cert-service''),
        (''RoleBinding'', ''cert-management-'' @ certClass), (''Service'', ''cert-controller-manager''),
        (''Deployment'', ''cert-controller-manager''),
        (''Role'', ''extensions.gardener.cloud:extension-shoot-cert-service:cert-controller-manager''),
        (''RoleBinding'', ''extensions.gardener.cloud:extension-shoot-cert-service:cert-controller-manager'')])
    @ at_namespace '''' [(''ClusterRole'', ''extensions.gardener.cloud:extension-shoot-cert-service:'' @ certClass),
        (''ClusterRoleBinding'', ''extensions.gardener.cloud:extension-shoot-cert-service:'' @ certClass)]
    @ at_namespace ns policies
    @ at_namespace '''' [(''CustomResourceDefinition'', ''certificates.cert.gardener.cloud''),
        (''CustomResourceDefinition'', ''certificaterevocations.cert.gardener.cloud''),
        (''CustomResourceDefinition'', ''issuers.cert.gardener.cloud'')]"

lemma test_internal_objects:
  "object_keys (gardenOrSeedObjects sample_extern sample_deploy test_seed_values) = Some (internal_keys ''seed-foo'' ''seed''
    (at_namespace ''seed-foo'' [(''ConfigMap'', ''cert-controller-manager-ca-certificates'')])
    [(''Secret'', ''extension-shoot-cert-service-issuer-garden''), (''Issuer'', ''garden'')] [])"
  "object_keys (gardenOrSeedObjects sample_extern sample_deploy test_garden_values) = Some (internal_keys ''garden'' ''garden'' []
    [(''Secret'', ''extension-shoot-cert-service-issuer-garden-ca''), (''Issuer'', ''garden'')]
    [(''NetworkPolicy'', ''egress-from-cert-controller-manager-to-labelled-namespaces'')])"
  by (simp_all add: object_keys_def internal_keys_def at_namespace_def test_object_simps test_args_simps
      test_seed_values_def test_garden_values_def issuerSecretName_def shootCertServiceRoleName_def roleName_def
      shootClusterRoleName_def shootNamespace_def)

definition shoot_keys :: "Values \<Rightarrow> (string \<times> string \<times> string) list option" where
  "shoot_keys v = (case shootObjects sample_extern sample_deploy v of
     Ok os \<Rightarrow> Some (map object_key (objs_of os)) | _ \<Rightarrow> None)"

lemma test_shoot_objects:
  "shoot_keys test_values = Some
    [(''Role'', ''kube-system'', ''extensions.gardener.cloud:extension-shoot-cert-service:cert-controller-manager''),
     (''RoleBinding'', ''kube-system'', ''extensions.gardener.cloud:extension-shoot-cert-service:cert-controller-manager''),
     (''ClusterRole'', '''', ''extensions.gardener.cloud:extension-shoot-cert-service:shoot''),
     (''ClusterRoleBinding'', '''', ''extensions.gardener.cloud:extension-shoot-cert-service:shoot''),
     (''CustomResourceDefinition'', '''', ''certificates.cert.gardener.cloud''),
     (''CustomResourceDefinition'', '''', ''certificaterevocations.cert.gardener.cloud'')]"
  "shoot_keys (with_provider (\<lambda>c. c\<lparr>cc_ShootIssuers := Some \<lparr>ssi_Enabled = True\<rparr>\<rparr>))
    = map_option (\<lambda>ks. ks @ [(''CustomResourceDefinition'', '''', ''issuers.cert.gardener.cloud'')]) (shoot_keys test_values)"
  by (simp_all add: shoot_keys_def test_object_simps test_args_simps roleName_def shootClusterRoleName_def shootNamespace_def)

subsection \<open>Issuers of the provider configuration\<close>

definition test_issuer_values :: Values where
  "test_issuer_values = (with_provider (\<lambda>c. c\<lparr>cc_Issuers :=
     [\<lparr>ic_Name = ''bar'', ic_Server = ''https://acme.example.com/directory'', ic_Email = ''bar@example.com'',
        ic_RequestsPerDayQuota = Some 999, ic_PrivateKeySecretName = Some ''bar-secret'',
        ic_ExternalAccountBinding = Some \<lparr>eab_KeyID = ''key-id'', eab_KeySecretName = ''eab-secret''\<rparr>,
        ic_SkipDNSChallengeValidation = Some True,
        ic_Domains = Some \<lparr>dsel_Include = Some [''example.com''], dsel_Exclude = Some [''sub.example.com'']\<rparr>,
        ic_PrecheckNameservers = [''1.1.1.1'', ''2.2.2.2'']\<rparr>,
      plainIssuerConfig ''bar2'' ''https://acme2.example.com/directory'' ''bar2@example.com'']\<rparr>))
     \<lparr>vl_Resources :=
       [\<lparr>nrr_Name = ''bar-secret'', nrr_Kind = ''Secret'', nrr_RefName = ''original-bar-secret'', nrr_APIVersion = ''''\<rparr>,
        \<lparr>nrr_Name = ''eab-secret'', nrr_Kind = ''Secret'', nrr_RefName = ''original-eab-secret'', nrr_APIVersion = ''''\<rparr>]\<rparr>"

definition secret_ref :: "string \<Rightarrow> SecretReference" where
  "secret_ref n = \<lparr>sr_Name = n, sr_Namespace = ''shoot--foo--bar''\<rparr>"

definition issuers_of :: "(client_object list \<times> Issuer list) result \<Rightarrow> IssuerObj list" where
  "issuers_of r = (case r of Ok (os, _) \<Rightarrow> concat (map (\<lambda>x. case x of KIssuer i \<Rightarrow> [i] | _ \<Rightarrow> []) (objs_of os)) | _ \<Rightarrow> [])"

lemma test_issuers:
  "issuers_of (createIssuers test_issuer_values) =
    [\<lparr>is_Meta = meta ''garden'' ''shoot--foo--bar'', is_ACME = Some \<lparr>as_Email = ''foo@example.com'',
        as_Server = ''https://acme-v02.api.letsencrypt.org/directory'',
        as_PrivateKeySecretRef = secret_ref ''extension-shoot-cert-service-issuer-garden'', as_AutoRegistration = False,
        as_PrecheckNameservers = [], as_ExternalAccountBinding = None, as_SkipDNSChallengeValidation = None,
        as_Domains = None\<rparr>, is_CA = None, is_RequestsPerDayQuota = None\<rparr>,
     \<lparr>is_Meta = meta ''bar'' ''shoot--foo--bar'', is_ACME = Some \<lparr>as_Email = ''bar@example.com'',
        as_Server = ''https://acme.example.com/directory'', as_PrivateKeySecretRef = secret_ref ''ref-original-bar-secret'',
        as_AutoRegistration = False, as_PrecheckNameservers = [''1.1.1.1'', ''2.2.2.2''],
        as_ExternalAccountBinding = Some \<lparr>eabs_KeyID = ''key-id'', eabs_KeySecretRef = secret_ref ''ref-original-eab-secret''\<rparr>,
        as_SkipDNSChallengeValidation = Some True,
        as_Domains = Some (Some [''example.com''], Some [''sub.example.com''])\<rparr>, is_CA = None,
        is_RequestsPerDayQuota = Some 999\<rparr>,
     \<lparr>is_Meta = meta ''bar2'' ''shoot--foo--bar'', is_ACME = Some \<lparr>as_Email = ''bar2@example.com'',
        as_Server = ''https://acme2.example.com/directory'',
        as_PrivateKeySecretRef = secret_ref ''extension-shoot-cert-service-issuer-bar2'', as_AutoRegistration = True,
        as_PrecheckNameservers = [], as_ExternalAccountBinding = None, as_SkipDNSChallengeValidation = None,
        as_Domains = None\<rparr>, is_CA = None, is_RequestsPerDayQuota = None\<rparr>]"
  by (simp add: issuers_of_def test_issuer_values_def test_object_simps test_args_simps issuerSecretName_def
      userIssuer_def plainIssuerConfig_def lookupReferencedSecret_def ReferencedResourcesPrefix_def issuerDomains_def
      secret_ref_def meta_def)

subsection \<open>Rules and pods\<close>

text \<open>The rules of a role: groups, resources, names and verbs.\<close>

definition rules :: "Role \<Rightarrow> (string list \<times> string list \<times> string list \<times> string list) list" where
  "rules r = map (\<lambda>p. (pr_APIGroups p, pr_Resources p, pr_ResourceNames p, pr_Verbs p)) (ro_Rules r)"

lemma test_shoot_rules:
  "rules (createShootClusterRole test_values) =
    [([''networking.k8s.io''], [''ingresses''], [], [''get'', ''list'', ''update'', ''watch'']),
     ([''gateway.networking.k8s.io''], [''gateways'', ''httproutes''], [], [''get'', ''list'', ''update'', ''watch'']),
     ([''networking.istio.io''], [''gateways'', ''virtualservices''], [], [''get'', ''list'', ''update'', ''watch'']),
     ([''''], [''services''], [], [''get'', ''list'', ''update'', ''watch'']),
     ([''''], [''secrets''], [], [''get'', ''list'', ''update'', ''watch'', ''create'', ''delete'']),
     ([''cert.gardener.cloud''], [''certificates'', ''certificates/status'', ''certificaterevocations'',
        ''certificaterevocations/status''], [], [''get'', ''list'', ''update'', ''watch'', ''create'', ''delete'']),
     ([''''], [''events''], [], [''create'', ''patch'']),
     ([''apiextensions.k8s.io''], [''customresourcedefinitions''], [], [''get'', ''list'', ''update'', ''create'', ''watch''])]"
  "rules (createShootClusterRole (with_provider (\<lambda>c. c\<lparr>cc_DNSChallengeOnShoot := Some
      \<lparr>dcs_Enabled = True, dcs_Namespace = '''', dcs_DNSClass = None\<rparr>\<rparr>)))
    = rules (createShootClusterRole test_values) @ [([''dns.gardener.cloud''], [''dnsentries''], [],
        [''get'', ''list'', ''update'', ''watch'', ''create'', ''delete''])]"
  by (simp_all add: rules_def policy_rule_def test_object_simps test_args_simps)

lemma test_control_rules:
  "rules (createRole (if internal then test_seed_values else test_values)) =
    [([''''], [''configmaps''], [''gardener-extension-shoot-cert-service''], [''get'', ''update'']),
     ([''''], [''configmaps''], [], [''create'']),
     (if internal then [''extensions.gardener.cloud''] else [''dns.gardener.cloud''],
      if internal then [''dnsrecords''] else [''dnsentries''], [],
      [''get'', ''list'', ''update'', ''patch'', ''watch'', ''create'', ''delete'']),
     ([''cert.gardener.cloud''], [''issuers'', ''issuers/status''], [], [''get'', ''update'', ''list'', ''patch'', ''watch'']),
     ([''''], [''secrets''], [], [''get'', ''list'', ''update'', ''patch'', ''watch'', ''create'', ''delete'']),
     (['''', ''events.k8s.io''], [''events''], [], [''create'', ''patch''])]"
  by (simp add: rules_def policy_rule_def createRole_def test_seed_values_def test_values_def emptyValues_def)

text \<open>The pod of a shoot's controller, and of a seed's, without and with the access to a shoot.\<close>

lemma test_pods:
  "map (\<lambda>e. (ev_Name e, ev_Value e)) (env test_values)
    = [(''LEGO_CA_SYSTEM_CERT_POOL'', ''true''), (''LEGO_CA_CERTIFICATES'', ''/var/run/cert-manager/certs/certs.pem'')]"
  "env test_garden_values = []"
  "map vm_MountPath (volumeMounts test_values)
    = [''/var/run/secrets/gardener.cloud/shoot/generic-kubeconfig'', ''/var/run/cert-manager/certs'']"
  "map vm_MountPath (volumeMounts test_seed_values) = [''/var/run/cert-manager/certs'']"
  "volumes test_values =
    [\<lparr>vo_Name = ''kubeconfig'', vo_Source = Projected (Some 420)
       [\<lparr>sp_Name = ''generic-token-kubeconfig-71a3f1a4'', sp_Optional = Some False,
          sp_Items = [(''kubeconfig'', ''kubeconfig'')]\<rparr>,
        \<lparr>sp_Name = ''shoot-access-extension-shoot-cert-service'', sp_Optional = Some False,
          sp_Items = [(''token'', ''token'')]\<rparr>]\<rparr>,
     \<lparr>vo_Name = ''ca-certificates'', vo_Source = ConfigMapVolume ''cert-controller-manager-ca-certificates''\<rparr>]"
  "priorityClassName test_values = ''gardener-system-200''" "priorityClassName test_garden_values = ''gardener-garden-system-100''"
  by (simp_all add: env_def volumeMounts_def volumes_def priorityClassName_def caCertificates_def test_garden_values_def
      test_seed_values_def test_args_simps shootAccessSecretName_def SecretNamePrefixShootAccess_def ShootAccessSecretName_def)

end
