(* ===== verification/Unit_Tests_Watches.thy ===== *)
theory Unit_Tests_Watches
  imports Controlplane_Controller
begin

text \<open>
  The cases of \<open>shoot/add_test.go\<close> and \<open>controlplane/add_test.go\<close>, evaluated on the model: the predicate
  and the mapping of the watch on DNS extensions, whether the next generation of the DNS controller is in
  use, and the mapping of the watch on gardens.
\<close>

definition test_extension :: "string \<Rightarrow> labels \<Rightarrow> Extension" where
  "test_extension n as = \<lparr>ex_Name = n, ex_Namespace = ''shoot--foo--bar'', ex_Annotations = as,
     ex_DeletionTimestamp = None, ex_Type = '''', ex_Class = None, ex_ProviderConfig = None, ex_StatusResources = []\<rparr>"

abbreviation dns_extension :: "labels \<Rightarrow> Extension" where
  "dns_extension \<equiv> test_extension dnsServiceExtensionName"

abbreviation next_gen :: "string \<Rightarrow> labels" where
  "next_gen val \<equiv> [useNextGenerationControllerAnnotation \<mapsto> val]"

lemmas test_watch_simps = test_extension_def dnsServiceExtensionName_def useNextGenerationControllerAnnotation_def
  dnsPredicate_Create_def dnsPredicate_Update_def dnsPredicate_Delete_def dnsPredicate_Generic_def annotation_def

lemma test_predicate_create:
  "dnsPredicate_Create (Some (dns_extension Map.empty))"
  "\<not> dnsPredicate_Create (Some (test_extension ''shoot-other-service'' Map.empty))"
  "\<not> dnsPredicate_Create None"
  by (simp_all add: test_watch_simps)

lemma test_predicate_update:
  "\<not> dnsPredicate_Update (Some (test_extension ''shoot-other-service'' Map.empty))
      (Some (test_extension ''shoot-other-service'' (next_gen ''true'')))"
  "\<not> dnsPredicate_Update (Some (dns_extension (next_gen ''true''))) (Some (dns_extension (next_gen ''true'')))"
  "dnsPredicate_Update (Some (dns_extension Map.empty)) (Some (dns_extension (next_gen ''true'')))"
  "dnsPredicate_Update (Some (dns_extension (next_gen ''false''))) (Some (dns_extension (next_gen ''true'')))"
  "dnsPredicate_Update (Some (dns_extension (next_gen ''true''))) (Some (dns_extension Map.empty))"
  "dnsPredicate_Update None (Some (dns_extension (next_gen ''true'')))"
  "\<not> dnsPredicate_Update (Some (dns_extension Map.empty)) None"
  by (simp_all add: test_watch_simps)

lemma test_predicate_others:
  "\<not> dnsPredicate_Delete (Some (dns_extension Map.empty))" "\<not> dnsPredicate_Generic (Some (dns_extension Map.empty))"
  by (simp_all add: test_watch_simps)

lemma test_dns_mapping:
  "mapDNSServiceExtensionToCertServiceExtension (Some (dns_extension Map.empty)) = [(''shoot--foo--bar'', ''shoot-cert-service'')]"
  "mapDNSServiceExtensionToCertServiceExtension (Some (test_extension ''shoot-other-service'' Map.empty)) = []"
  "mapDNSServiceExtensionToCertServiceExtension None = []"
  "mapDNSServiceExtensionToCertServiceExtension (Some ((dns_extension Map.empty)\<lparr>ex_Namespace := ''shoot--other--ns''\<rparr>))
    = [(''shoot--other--ns'', ''shoot-cert-service'')]"
  by (simp_all add: mapDNSServiceExtensionToCertServiceExtension_def shoot_Type_def test_watch_simps)

text \<open>A cluster with these Extensions; another is not found.\<close>

definition cluster_with :: "Extension list \<Rightarrow> env" where
  "cluster_with exs = sample_env\<lparr>
     e_extension := \<lambda>h ns n. (case find (\<lambda>e. ex_Namespace e = ns \<and> ex_Name e = n) exs of
       None \<Rightarrow> Inl (NotFound n) | Some e \<Rightarrow> Inr e),
     e_extensions := \<lambda>h ns. Inr (filter (\<lambda>e. ex_Namespace e = ns) exs)\<rparr>"

lemma test_next_generation:
  "list_all (\<lambda>(exs, expected). fst (isNextGenDNSShootServiceEnabled (cluster_with exs) ''shoot--foo--bar'' initial) = Ok expected)
    [([], False), ([dns_extension Map.empty], False), ([dns_extension (next_gen ''false'')], False),
     ([dns_extension (next_gen ''True'')], False), ([dns_extension (next_gen ''true'')], True),
     ([(dns_extension (next_gen ''true''))\<lparr>ex_Namespace := ''shoot--other--ns''\<rparr>], False)]"
  by (simp add: cluster_with_def isNextGenDNSShootServiceEnabled_def io_simps test_watch_simps)

text \<open>The Extension of a garden whose provider configuration asks for the certificate.\<close>

definition test_garden :: Garden where
  "test_garden = \<lparr>ga_VirtualDomains = [], ga_IngressDomains = [], ga_DNSProviders = None\<rparr>"

definition test_decoder :: deploy_extern where
  "test_decoder = sample_deploy\<lparr>decodeCertConfig :=
     \<lambda>raw. Inr (emptyCertConfig\<lparr>cc_GenerateControlPlaneCertificate := Some True\<rparr>)\<rparr>"

definition test_garden_extension :: Extension where
  "test_garden_extension = \<lparr>ex_Name = ''garden-shoot-cert-service'', ex_Namespace = ''garden'', ex_Annotations = Map.empty,
     ex_DeletionTimestamp = None, ex_Type = ''controlplane-cert-service'', ex_Class = Some ExtensionClassGarden,
     ex_ProviderConfig = Some ''generateControlPlaneCertificate'', ex_StatusResources = []\<rparr>"

text \<open>A hash that is never empty.\<close>

definition test_hash :: extern where
  "test_hash = sample_extern\<lparr>sha256 := \<lambda>s. CHR ''h'' # s\<rparr>"

definition requests :: "Extension \<Rightarrow> nat option" where
  "requests ex = (case fst (mapGardenToExtension (cluster_with [ex]) test_hash test_decoder test_garden initial) of
     Ok rs \<Rightarrow> Some (length rs) | _ \<Rightarrow> None)"

lemma test_garden_mapping:
  "requests (test_garden_extension\<lparr>ex_ProviderConfig := None\<rparr>) = Some 0"
  "requests test_garden_extension = Some 1"
  "requests (test_garden_extension\<lparr>ex_Class := Some ExtensionClassSeed\<rparr>) = Some 0"
  "requests (test_garden_extension\<lparr>ex_Type := ''foo''\<rparr>) = Some 0"
  "requests (test_garden_extension\<lparr>ex_Annotations :=
      [GardenRelevantDataHashAnnotation \<mapsto> calcGardenRelevantDataHash test_hash test_garden]\<rparr>) = Some 0"
proof -
  have valid: "ValidateCertConfig test_hash (emptyCertConfig\<lparr>cc_GenerateControlPlaneCertificate := g\<rparr>) None = []" for g
    by (simp add: ValidateCertConfig_def emptyCertConfig_def)
  have hash: "calcGardenRelevantDataHash test_hash test_garden \<noteq> ''''"
    by (simp add: calcGardenRelevantDataHash_def test_hash_def hex_of_bytes_def Let_def)
  show "requests (test_garden_extension\<lparr>ex_ProviderConfig := None\<rparr>) = Some 0"
    "requests test_garden_extension = Some 1"
    "requests (test_garden_extension\<lparr>ex_Class := Some ExtensionClassSeed\<rparr>) = Some 0"
    "requests (test_garden_extension\<lparr>ex_Type := ''foo''\<rparr>) = Some 0"
    "requests (test_garden_extension\<lparr>ex_Annotations :=
      [GardenRelevantDataHashAnnotation \<mapsto> calcGardenRelevantDataHash test_hash test_garden]\<rparr>) = Some 0"
    using valid hash
    by (simp_all add: requests_def mapGardenToExtension_def cluster_with_def test_garden_extension_def io_simps cp_Type_def
        GetExtensionClassOrDefault_def extension_class_defs DecodeAndValidateProviderConfig_def test_decoder_def
        annotation_def GardenNamespace_def emptyCertConfig_def)
qed

end
