(* ===== verification/Spec2Isabelle.thy ===== *)
theory Spec2Isabelle
  imports Process_Start Deployer_Authority Extension_Life Garden_Client Deep_Copy_Config Deep_Copy_Service
    Unit_Tests_Validation Unit_Tests_Deployer Unit_Tests_Watches
begin

text \<open>
  A model of \<open>gardener-extension-shoot-cert-service\<close>, the gardener extension that deploys the
  certificate controller (cert-management) for shoots, seeds and gardens, with the theorems that make
  it correct.

  The program and its parts. The extension is a controller manager. Its options
  (\<open>pkg/cmd/options.go\<close>) read a configuration file, which is defaulted, converted
  (\<open>pkg/apis/config\<close>) and validated (\<open>pkg/apis/config/validation\<close>). It runs two controllers for
  \<open>Extension\<close> resources, one for shoots (\<open>pkg/controller/extension/shoot\<close>) and one for gardens or seeds
  (\<open>pkg/controller/extension/controlplane\<close>). Both decode and validate the provider configuration
  (\<open>pkg/apis/service\<close>, \<open>shared/certconfigdecoder.go\<close>), put it with the extension's configuration into
  values (\<open>shared/deployer.go\<close>), build the Kubernetes objects to deploy from them
  (\<open>shared/deployer_*.go\<close>) and create a managed resource that holds them. The second controller also
  keeps the wildcard certificate of a garden or a seed (\<open>gardencert.go\<close>, \<open>controlplanecert.go\<close>). A health
  check (\<open>pkg/controller/healthcheck\<close>) looks at the issuers of a shoot.

  Theories, in the order of their imports.

  \<^item> \<open>Cert_Prelude\<close>: Go's errors, results with errors and panics, pointers, integers of 32 and 64 bits,
    loops with an index, and the collections of simplification rules.
  \<^item> \<open>Go_Strings\<close>, \<open>Go_Net\<close>: what the code uses of the packages \<open>strings\<close>, \<open>strconv\<close>, \<open>fmt\<close>, \<open>time\<close>
    and \<open>net\<close>; with their specifications.
  \<^item> \<open>API_Conversion\<close> (the contract of generated conversions), \<open>Config_API\<close>, \<open>Service_API\<close>: the API types
    as records, one field per field of the struct, their defaults and conversions.
  \<^item> \<open>API_Scheme\<close>: the registration of the types, their defaults and their conversions with schemes.
  \<^item> \<open>Go_Heap\<close>, \<open>Deep_Copy\<close>: memory with addresses, for code whose result is a matter of aliasing; the
    statements of generated deep copies with their contracts (locales \<open>deep_copy\<close> and \<open>field_copy\<close>), which
    compose as the statements do.
  \<^item> \<open>Deep_Copy_Config\<close>, \<open>Deep_Copy_Service\<close>: the deep copies of both APIs in both versions, each an
    interpretation of \<open>deep_copy\<close>, read as values of \<open>Config_API\<close> and \<open>Service_API\<close>.
  \<^item> \<open>Field_Errors\<close>, \<open>Extern\<close>: errors with field paths; the library functions that are parameters, with
    the documented behaviour that some theorems assume and an instance that has it.
  \<^item> \<open>Config_Validation\<close>, \<open>Service_Validation\<close>: the two validations, each equivalent to a specification
    (\<open>config_ok\<close>, \<open>shoot_config_ok\<close>, \<open>nameserver_form\<close>).
  \<^item> \<open>Gardener_Types\<close>, \<open>Kube_Objects\<close>: the objects the code reads and writes.
  \<^item> \<open>Seen_Loop\<close>: the contract of a loop that keeps first occurrences, with two instances in the code.
  \<^item> \<open>Deployer_Values\<close>, \<open>Deployer_Issuers\<close>, \<open>Deployer_Seed\<close>, \<open>Deployer_Shoot\<close>: the deployer's values,
    issuers and objects, function by function.
  \<^item> \<open>Deployer_Coherence\<close>, \<open>Deployer_Objects\<close>: what makes a list of objects coherent (every reference
    resolves, selectors match, roles are bound), and that the deployed lists are, with distinct keys.
  \<^item> \<open>Deployer_Authority\<close>: what the deployed roles and bindings allow, as the API server reads them
    (\<open>authorised\<close>), compared with the authority the controller needs.
  \<^item> \<open>Cluster_Scheme\<close>: the scheme and the registry deployed objects are serialised with
    (\<open>pkg/client/scheme.go\<close>), their Go types and their namespaces.
  \<^item> \<open>World\<close>: operations that talk to the API server. An operation maps a world, whose trace holds the
    calls made so far, to a result and the next world; an environment answers each call from that
    history. \<open>emits\<close> bounds what an operation calls and \<open>no_panic\<close> says that it never panics. Two
    answers are richer: what a method does that is called on a nil pointer of the library (\<open>e_nil\<close>), and what
    gardener's \<open>CreateOrGetAndMergePatch\<close> does with the callback it is given (\<open>patch_answer\<close>): on which
    certificates it runs it, and whether it fails or writes the result of a last run.
  \<^item> \<open>Deployer_Ops\<close>: the deployer's operations, and the contract of a managed resource between the
    deployer and the actuators (locale \<open>managed_resource\<close>, interpreted for the three resources).
  \<^item> \<open>Controller_Common\<close>: decoding of provider configurations with its specification (\<open>provider_config\<close>), the
    options of controllers, and gardener's contract of an actuator (locale \<open>actuator\<close>).
  \<^item> \<open>Shoot_Controller\<close>, \<open>Controlplane_Certs\<close>, \<open>Controlplane_Controller\<close>: the actuators, watches and
    registrations, and the interpretations of \<open>actuator\<close>.
  \<^item> \<open>Extension_Life\<close>: runs in which the operations of both actuators alternate, on any Extensions, with
    failures, as a step relation (\<open>life\<close>), and the phases of managed resources (locale
    \<open>followed_actuator\<close>, which extends \<open>actuator\<close>, interpreted for both).
  \<^item> \<open>Garden_Client\<close>: the workers of the control plane controller, which share one actuator, as a step
    relation (\<open>garden_run\<close>) over the statements of \<open>getOrCreateGardenClient\<close>: a worker waits for the mutex,
    tests the field, makes the calls of \<open>createGardenClient\<close>, stores the client and releases the mutex; and
    runs of the workers that never end and are fair (\<open>fair_run\<close>).
  \<^item> \<open>Health_Check\<close>, \<open>Cmd_Options\<close>: the health check; the options and the run of the controllers: the manager's
    scheme, the switches, of which the library selects those that are not disabled (\<open>switches_law\<close>), and what
    each controller is added with (\<open>added_for\<close>).
  \<^item> \<open>Process_Start\<close>: the image vector (\<open>imagevector\<close>), the initialisation of the packages, the command and
    \<open>main.go\<close>, from the start of the process to its exit status.
  \<^item> \<open>Unit_Tests_Validation\<close>, \<open>Unit_Tests_Deployer\<close>, \<open>Unit_Tests_Watches\<close>: cases of the repository's own
    unit tests, evaluated on the model.

  What the theorems show. Validations accept exactly the values of their specification, for every
  input, and return (the loop over a CA bundle is a partial function that is shown to end if the PEM
  decoder consumes what it returns). A validated provider configuration is one whose issuers the
  deployer can collect. Deployed objects are coherent and distinct, of types their serialiser knows,
  and in their namespace; the roles among them give the controller's service account exactly a stated
  authority, which suffices for its leader election, and no other account any. Operations call exactly the
  expected sequence when they succeed, change only what belongs to their Extension in every case, and
  never panic under named conditions on the environment; reconciling makes the managed resource
  wanted and deleting makes it unwanted, under the same key. The garden's certificate settles: the
  hash that is stored is the one at which the watch asks for nothing. In every run of the controllers
  the last successful operation on a managed resource decides whether it is wanted, and an operation
  that succeeds has its effect however its calls interleave with those for other Extensions. However
  its workers interleave, the control plane controller creates one client of the virtual garden, its
  calls of \<open>getOrCreateGardenClient\<close> amount to calls of the sequential function in the order in which they
  return, and each of them returns in every fair run. Deep copies share
  no memory with their original, and the schemes convert every type both ways without loss. The theory
  at hand composes the parts: from the configuration file that was read at the start to the objects
  that the reconciliation of a shoot, a garden or a seed has deployed. The process always ends as its
  start determines, and never by a panic once its packages are initialised. Some theorems state
  defects: \<open>seed_certificate_life\<close>,
  \<open>restrict_issuer_without_effect\<close>, \<open>incomplete_seed_panics\<close>, \<open>precheck_nameservers_trailing_comma\<close>,
  \<open>missing_support_panics\<close>, \<open>provider_not_hashed\<close>,
  and the exceptions in \<open>flags_distinct\<close> and \<open>garden_events_mapped\<close>.

  Bounds. No fuel is used: loops are structural or proved to end by a measure, and the one loop
  without a bound in the code is a \<open>partial_function\<close>. Integers have Go's width where the code
  converts or prints them.

  Not modelled. Logging and metrics; constructors that only store their arguments (\<open>NewActuator\<close> of the
  shoot controller, \<open>NewDeployer\<close>, \<open>newGardenCert\<close>), whose fields are arguments of the definitions; the
  end-to-end and integration tests, which need a cluster.
  Code outside the repository is a parameter: the command line parser, the selection of the controllers by their
  switches, the patches of \<open>controllerutils\<close>, image vectors, what the
  \<open>AddToScheme\<close> functions of libraries register, parsers of URLs, mail addresses, PEM, X.509 and YAML, SHA-256, the
  serialiser of managed resources, the API server, and gardener's generic controllers. The embedded
  custom resource definitions and the dashboard are strings of the parameter \<open>deploy_extern\<close>.
\<close>

subsection \<open>From the configuration file to the deployed objects\<close>

text \<open>What a successful start of the process has read is what the controllers then work with.\<close>

lemma app_RunE_configured:
  assumes "pem_consumes X" "app_RunE X C A G opts initialGlobals = Some (Ok added, g')" "AddedExtension a n \<in> set added"
  shows "configured X C (ao_certOptions opts) (aa_ServiceConfig a)"
proof -
  obtain config where c: "command_succeeds X C A G opts config"
    and added: "added = map (added_for opts config) (enabledControllers A opts)"
    using app_RunE_Ok_iff [OF assms(1)] assms(2) by blast
  obtain ctl where "AddedExtension a n = added_for opts config ctl"
    using assms(3) added by auto
  then have "aa_ServiceConfig a = config" by (cases ctl) simp_all
  then show ?thesis using c by (simp add: command_succeeds_def)
qed

text \<open>The names of the issuers to deploy: the extension's own, and those of the configuration without it.\<close>

definition issuer_names :: "Configuration \<Rightarrow> CertConfig \<Rightarrow> string list" where
  "issuer_names cfg cc = cfg_IssuerName cfg # filter (\<lambda>n. n \<noteq> cfg_IssuerName cfg) (map ic_Name (cc_Issuers cc))"

lemma seedObjects_issuer_names:
  assumes "seedObjects X D v = Ok (objs, is)" "vl_ShootDeployment v"
  shows "map i_Name is = issuer_names (vl_ExtensionConfig v) (vl_CertConfig v)"
proof -
  have "collectIssuers v = Ok is"
    using assms(1) by (auto simp: seedObjects_def rbind_Ok_iff dest!: createIssuers_OkD simp del: removeNilObjects.simps)
  from collectIssuers_names [OF this] show ?thesis
    using assms(2) by (simp add: issuer_names_def user_issuers_def filter_map comp_def)
qed

text \<open>
  What a successful reconciliation of a shoot's Extension has deployed in the seed: the objects that the
  values stand for, coherent, with the issuers of both configurations.
\<close>

definition seed_deployment ::
    "env \<Rightarrow> extern \<Rightarrow> deploy_extern \<Rightarrow> Configuration \<Rightarrow> CertConfig \<Rightarrow> Values \<Rightarrow> string \<Rightarrow> history \<Rightarrow> bool" where
  "seed_deployment E X D cfg cc v ns h \<longleftrightarrow> (\<exists>objs is data. seedObjects X D v = Ok (objs, is)
     \<and> coherent (objs_of objs) \<and> distinct (map object_key (objs_of objs))
     \<and> map i_Name is = issuer_names cfg cc \<and> list_all (issuer_checked E D ns h) is
     \<and> AddAllAndSerialize D objs = Inr data
     \<and> CreateManagedResource ns CertManagementResourceNameSeed (SeedResourceManagerClass X) data False \<in> set h)"

lemma shoot_Reconcile_deployed:
  assumes "dns1123_law X" "shoot_Reconcile E X D cfg ex w = (Ok (), w')"
  obtains cluster cc v where "e_cluster E (trace w) (ex_Namespace ex) = Inr cluster" "provider_config D ex cc"
    "shoot_config_ok X cluster cc" "shoot_values cfg cc cluster (ex_Namespace ex) v"
    "seed_deployment E X D cfg cc v (ex_Namespace ex) (trace w')"
proof -
  obtain cluster cc v objs "is" data shootCalls where c: "e_cluster E (trace w) (ex_Namespace ex) = Inr cluster"
    "provider_config D ex cc" and valid: "ValidateCertConfig X cc (Some cluster) = []"
    and v: "shoot_values cfg cc cluster (ex_Namespace ex) v"
    and o: "seedObjects X D v = Ok (objs, is)" "AddAllAndSerialize D objs = Inr data"
    and checked: "list_all (issuer_checked E D (ex_Namespace ex) (trace w')) is"
    and t: "trace w' = trace w @ [GetCluster (ex_Namespace ex), GetExtension (ex_Namespace ex) dnsServiceExtensionName,
       ReconcileShootAccessSecret ShootAccessSecretName (ex_Namespace ex)]
     @ shootCalls @ concat (map (issuer_checks (ex_Namespace ex)) is)
     @ [CreateManagedResource (ex_Namespace ex) CertManagementResourceNameSeed (SeedResourceManagerClass X) data False,
        PatchExtensionStatus (ex_Namespace ex) (ex_Name ex) (statusResources cc)]"
    using assms(2) by (rule shoot_Reconcile_trace)
  have ok: "shoot_config_ok X cluster cc"
    using valid by (simp add: ValidateCertConfig_shoot_iff [OF assms(1)])
  then have names: "distinct (map ic_Name (cc_Issuers (vl_CertConfig v)))"
    using v by (simp add: shoot_config_ok_def issuers_ok_def shoot_values_def)
  have "map i_Name is = issuer_names cfg cc"
    using seedObjects_issuer_names [OF o(1)] v by (simp add: shoot_values_def)
  then have "seed_deployment E X D cfg cc v (ex_Namespace ex) (trace w')"
    unfolding seed_deployment_def
    using o checked seedObjects_coherent [OF o(1)] seedObjects_keys_distinct [OF o(1) names]
    by (intro exI [of _ objs] exI [of _ "is"] exI [of _ data]) (simp add: t)
  with c ok v show thesis by (rule that)
qed

text \<open>C1: From the configuration file to the objects in the seed: when the process has started, every
  controller of Extensions that it added works with the defaulted and converted content of the configuration file,
  which is valid; and when such a controller has reconciled the Extension of a shoot, then the provider
  configuration of this Extension is valid for the cluster that was read for its namespace, the values come from both
  configurations and this cluster, the objects built from the values are coherent with distinct keys and issuers of
  the names that both configurations give, every secret of the issuers was checked, and it is the
  serialisation of the objects that the managed resource of the seed was created with, which is wanted from
  then on.\<close>

theorem started_process_deploys_shoots:
  assumes "pem_consumes X" "dns1123_law X"
    and "app_RunE X C A G opts initialGlobals = Some (Ok added, g')" "AddedExtension a n \<in> set added"
    and "shoot_Reconcile E X D (aa_ServiceConfig a) ex w = (Ok (), w')"
  shows "\<exists>cluster cc v. let ns = ex_Namespace ex; cfg = aa_ServiceConfig a in
      configured X C (ao_certOptions opts) cfg
    \<and> e_cluster E (trace w) ns = Inr cluster \<and> provider_config D ex cc \<and> shoot_config_ok X cluster cc
    \<and> shoot_values cfg cc cluster ns v
    \<and> seed_deployment E X D cfg cc v ns (trace w')
    \<and> mr_wanted (ns, CertManagementResourceNameSeed) b (trace w')"
proof -
  have cfg: "configured X C (ao_certOptions opts) (aa_ServiceConfig a)"
    by (rule app_RunE_configured [OF assms(1,3,4)])
  obtain cluster cc v where deployed: "e_cluster E (trace w) (ex_Namespace ex) = Inr cluster" "provider_config D ex cc"
    "shoot_config_ok X cluster cc" "shoot_values (aa_ServiceConfig a) cc cluster (ex_Namespace ex) v"
    "seed_deployment E X D (aa_ServiceConfig a) cc v (ex_Namespace ex) (trace w')"
    using assms(2,5) by (rule shoot_Reconcile_deployed)
  have "mr_wanted (ex_Namespace ex, CertManagementResourceNameSeed) b (trace w')"
    using shoot_actuator.reconcile_wanted [OF assms(5)] .
  with cfg deployed show ?thesis
    unfolding Let_def by blast
qed

lemma sample_process:
  obtains added g' a n where "app_RunE sample_extern sample_cmd sample_app sample_aggregated sample_opts initialGlobals
        = Some (Ok added, g')" "AddedExtension a n \<in> set added"
proof -
  obtain config where c: "command_succeeds sample_extern sample_cmd sample_app sample_aggregated sample_opts config"
    using sample_command_succeeds by blast
  let ?added = "map (added_for sample_opts config) (enabledControllers sample_app sample_opts)"
  obtain g' where "app_RunE sample_extern sample_cmd sample_app sample_aggregated sample_opts initialGlobals = Some (Ok ?added, g')"
    using app_RunE_Ok_iff [OF sample_pem_consumes] c by blast
  moreover have "ShootController \<in> set (enabledControllers sample_app sample_opts)"
    by (simp add: enabledControllers_def sample_app_def sample_opts_def ControllerSwitches_def shoot_ControllerName_def)
  then have "added_for sample_opts config ShootController \<in> set ?added"
    unfolding set_map by (rule imageI)
  moreover obtain a n where "added_for sample_opts config ShootController = AddedExtension a n" by simp
  ultimately show thesis
    using that by metis
qed

theorem started_process_deploys_shoots_witness:
  "\<exists>(a :: AddArgs) w'. shoot_Reconcile sample_env sample_extern sample_deploy (aa_ServiceConfig a) sample_extension initial = (Ok (), w')
     \<and> configured sample_extern sample_cmd (ao_certOptions sample_opts) (aa_ServiceConfig a)
     \<and> mr_wanted (ex_Namespace sample_extension, CertManagementResourceNameSeed) False (trace w')"
proof -
  obtain added g' a n where run: "app_RunE sample_extern sample_cmd sample_app sample_aggregated sample_opts initialGlobals
        = Some (Ok added, g')" "AddedExtension a n \<in> set added"
    by (rule sample_process)
  obtain w' where ok: "shoot_Reconcile sample_env sample_extern sample_deploy (aa_ServiceConfig a) sample_extension initial = (Ok (), w')"
    by (rule sample_shoot_Reconcile)
  have "configured sample_extern sample_cmd (ao_certOptions sample_opts) (aa_ServiceConfig a)
      \<and> mr_wanted (ex_Namespace sample_extension, CertManagementResourceNameSeed) False (trace w')"
    using started_process_deploys_shoots [OF sample_pem_consumes sample_dns1123_law run ok, of False]
    unfolding Let_def by (elim exE conjE) (intro conjI)
  then show ?thesis using ok by (intro exI [of _ a] exI [of _ w']) simp
qed

text \<open>What a successful reconciliation of the Extension of a garden or a seed has deployed.\<close>

definition garden_values :: "env \<Rightarrow> Configuration \<Rightarrow> CertConfig \<Rightarrow> Extension \<Rightarrow> Values \<Rightarrow> bool" where
  "garden_values E cfg cc ex v \<longleftrightarrow>
     vl_ExtensionConfig v = cfg \<and> vl_CertConfig v = cc \<and> \<not> vl_ShootDeployment v
   \<and> vl_CertClass v = (if isGardenDeployment ex then ''garden'' else ''seed'')
   \<and> (vl_Namespace v, resourceNameGardenOrSeed v) = cp_key E ex"

definition garden_deployment ::
    "env \<Rightarrow> extern \<Rightarrow> deploy_extern \<Rightarrow> Configuration \<Rightarrow> Values \<Rightarrow> string \<times> string \<Rightarrow> history \<Rightarrow> bool" where
  "garden_deployment E X D cfg v key h \<longleftrightarrow> (\<exists>objs is data. gardenOrSeedObjects X D v = Ok (objs, is)
     \<and> coherent (objs_of objs) \<and> distinct (map object_key (objs_of objs))
     \<and> map i_Name is = [cfg_IssuerName cfg] \<and> list_all (issuer_checked E D (fst key) h) is
     \<and> AddAllAndSerialize D objs = Inr data
     \<and> CreateManagedResource (fst key) (snd key) (SeedResourceManagerClass X) data False \<in> set h)"

lemma gardenOrSeedObjects_issuer_names:
  assumes "gardenOrSeedObjects X D v = Ok (objs, is)" "\<not> vl_ShootDeployment v"
  shows "map i_Name is = [cfg_IssuerName (vl_ExtensionConfig v)]"
proof -
  have "collectIssuers v = Ok is"
    using assms(1) by (auto simp: gardenOrSeedObjects_def rbind_Ok_iff dest!: createIssuers_OkD simp del: removeNilObjects.simps)
  from collectIssuers_names [OF this] show ?thesis
    using assms(2) by simp
qed

lemma cp_Reconcile_deployed:
  assumes "assets_law D" and rec: "cp_Reconcile E X D cfg ex w = (Ok (), w')"
  obtains cc v wd wc where "provider_config D ex cc" "runtime_config_ok cc" "garden_values E cfg cc ex v"
    "garden_deployment E X D cfg v (cp_key E ex) (trace w')"
    "certificateStep E X cc ex wd = (Ok (), wc)" "set (trace wc) \<subseteq> set (trace w')"
proof -
  obtain cc v wd wc where dec: "DecodeAndValidateProviderConfig X D ex None = Ok cc"
    and v: "cp_createValues E D cfg cc (ex_Namespace ex) ex = Ok v"
    and d: "DeployGardenOrSeedManagedResource E X D v w = (Ok (), wd)"
    and c: "certificateStep E X cc ex wd = (Ok (), wc)" and u: "cp_updateStatus E ex cc wc = (Ok (), w')"
    using rec by (rule cp_Reconcile_Ok)
  note sel = cp_createValues_Ok [OF v]
  have valid: "provider_config D ex cc" "runtime_config_ok cc"
    using dec by (simp_all add: decode_runtime_iff)
  then have names: "distinct (map ic_Name (cc_Issuers (vl_CertConfig v)))"
    using sel(3) by (simp add: runtime_config_ok_def)
  obtain objs "is" data evs w1 where o: "gardenOrSeedObjects X D v = Ok (objs, is)" "AddAllAndSerialize D objs = Inr data"
    and w1: "validateIssuerSecrets E D v is w = (Ok (), w1)" "trace w1 = trace w @ evs"
    and t: "trace wd = trace w @ evs @ [CreateManagedResource (vl_Namespace v) (resourceNameGardenOrSeed v)
       (SeedResourceManagerClass X) data False]"
    using d by (rule DeployGardenOrSeed_success)
  obtain evs1 where t1: "trace wc = trace wd @ evs1"
    using emitsD [OF no_mr_certificateStep c] by blast
  obtain rest where t2: "trace w' = trace wc @ rest"
    using u by (simp add: cp_updateStatus_def invoke_Ok_iff)
  have key: "fst (cp_key E ex) = vl_Namespace v" "snd (cp_key E ex) = resourceNameGardenOrSeed v"
    using sel(1) by (metis fst_conv snd_conv)+
  have "list_all (issuer_checked E D (vl_Namespace v) (trace w1)) is"
    by (rule validateIssuerSecrets_Ok [OF w1(1)])
  then have "list_all (issuer_checked E D (fst (cp_key E ex)) (trace w')) is"
    using w1(2) by (auto simp: key t t1 t2 list_all_iff intro: issuer_checked_append [of _ _ _ "trace w @ evs", simplified])
  moreover have "coherent (objs_of objs)"
    by (rule gardenOrSeedObjects_coherent [OF o(1) sel(2)]) (simp add: sel(5))
  ultimately have "garden_deployment E X D cfg v (cp_key E ex) (trace w')"
    unfolding garden_deployment_def
    using o gardenOrSeedObjects_keys_distinct [OF o(1) assms(1) sel(2) names] gardenOrSeedObjects_issuer_names [OF o(1) sel(2)]
    by (intro exI [of _ objs] exI [of _ "is"] exI [of _ data]) (simp add: key t t1 t2 sel(4))
  moreover have "garden_values E cfg cc ex v" using sel by (simp add: garden_values_def)
  ultimately show thesis
    by (intro that [OF valid _ _ c]) (auto simp: t2)
qed

text \<open>The certificate of the garden, if it is asked for.\<close>

lemma garden_certificate_applied:
  assumes "certificateStep E X cc ex w = (Ok (), w')" "isGardenDeployment ex"
    "cc_GenerateControlPlaneCertificate cc = Some True" "e_gardens E (trace w) = Inr [g]"
    "ga_VirtualDomains g @ ga_IngressDomains g \<noteq> []"
  obtains cert where "garden_certificate_ok X g cert" "ApplyCertificate cert \<in> set (trace w')"
  using assms gardenCert_reconcile_Ok [of E X ex w w' g] by (auto simp: certificateStep_def gardenDNSNames_Nil_iff)

text \<open>C2: From the configuration file to a garden or a seed: when the process has started and one of its
  controllers has reconciled the Extension of a garden or seed, the configuration it worked with is the defaulted and
  converted content of the configuration file and valid, the provider configuration of this Extension holds nothing that
  is reserved for shoots, the values come from both, the objects built from them
  are coherent with distinct keys and the extension's own issuer, whose secrets were checked, their serialisation is what
  the managed resource was created with, under the key a deletion will use, and it is wanted from then
  on; and if this provider configuration asks for the certificate of the only garden, one was applied with
  all names of the garden.\<close>

theorem started_process_deploys_gardens:
  assumes "pem_consumes X" "assets_law D"
    and "app_RunE X C A G opts initialGlobals = Some (Ok added, g')" "AddedExtension a n \<in> set added"
    and "cp_Reconcile E X D (aa_ServiceConfig a) ex w = (Ok (), w')"
  shows "\<exists>cc v. let cfg = aa_ServiceConfig a in
      configured X C (ao_certOptions opts) cfg \<and> provider_config D ex cc \<and> runtime_config_ok cc
    \<and> garden_values E cfg cc ex v \<and> garden_deployment E X D cfg v (cp_key E ex) (trace w')
    \<and> mr_wanted (cp_key E ex) b (trace w')
    \<and> (isGardenDeployment ex \<and> cc_GenerateControlPlaneCertificate cc = Some True
        \<and> (\<forall>h. e_gardens E h = Inr [garden]) \<and> ga_VirtualDomains garden @ ga_IngressDomains garden \<noteq> []
        \<longrightarrow> (\<exists>cert. garden_certificate_ok X garden cert \<and> ApplyCertificate cert \<in> set (trace w')))"
proof -
  have config: "configured X C (ao_certOptions opts) (aa_ServiceConfig a)"
    by (rule app_RunE_configured [OF assms(1,3,4)])
  obtain cc v wd wc where deployed: "provider_config D ex cc" "runtime_config_ok cc"
    "garden_values E (aa_ServiceConfig a) cc ex v"
    "garden_deployment E X D (aa_ServiceConfig a) v (cp_key E ex) (trace w')"
    and step: "certificateStep E X cc ex wd = (Ok (), wc)" "set (trace wc) \<subseteq> set (trace w')"
    using assms(2,5) by (rule cp_Reconcile_deployed)
  have "mr_wanted (cp_key E ex) b (trace w')"
    using cp_actuator.reconcile_wanted [OF assms(5)] .
  moreover have "isGardenDeployment ex \<and> cc_GenerateControlPlaneCertificate cc = Some True
        \<and> (\<forall>h. e_gardens E h = Inr [garden]) \<and> ga_VirtualDomains garden @ ga_IngressDomains garden \<noteq> []
    \<longrightarrow> (\<exists>cert. garden_certificate_ok X garden cert \<and> ApplyCertificate cert \<in> set (trace w'))"
  proof (intro impI, elim conjE)
    assume asked: "isGardenDeployment ex" "cc_GenerateControlPlaneCertificate cc = Some True"
      "\<forall>h. e_gardens E h = Inr [garden]" "ga_VirtualDomains garden @ ga_IngressDomains garden \<noteq> []"
    obtain cert where "garden_certificate_ok X garden cert" "ApplyCertificate cert \<in> set (trace wc)"
      using step(1) asked(1,2) spec [OF asked(3)] asked(4) by (rule garden_certificate_applied)
    then show "\<exists>cert. garden_certificate_ok X garden cert \<and> ApplyCertificate cert \<in> set (trace w')"
      using step(2) by blast
  qed
  ultimately show ?thesis
    unfolding Let_def by (intro exI [of _ cc] exI [of _ v] conjI config deployed)
qed

theorem started_process_deploys_gardens_witness:
  "\<exists>(a :: AddArgs) w'. cp_Reconcile sample_env sample_extern sample_deploy (aa_ServiceConfig a) sample_garden_extension initial = (Ok (), w')
     \<and> configured sample_extern sample_cmd (ao_certOptions sample_opts) (aa_ServiceConfig a)
     \<and> mr_wanted (cp_key sample_env sample_garden_extension) False (trace w')"
proof -
  obtain added g' a n where run: "app_RunE sample_extern sample_cmd sample_app sample_aggregated sample_opts initialGlobals
        = Some (Ok added, g')" "AddedExtension a n \<in> set added"
    by (rule sample_process)
  obtain w' where ok: "cp_Reconcile sample_env sample_extern sample_deploy (aa_ServiceConfig a) sample_garden_extension initial = (Ok (), w')"
    by (rule sample_cp_Reconcile)
  have "configured sample_extern sample_cmd (ao_certOptions sample_opts) (aa_ServiceConfig a)
      \<and> mr_wanted (cp_key sample_env sample_garden_extension) False (trace w')"
    using started_process_deploys_gardens [OF sample_pem_consumes sample_assets_law run ok, where b = False and garden = sample_garden]
    unfolding Let_def by (elim exE conjE) (intro conjI)
  then show ?thesis using ok by (intro exI [of _ a] exI [of _ w']) simp
qed

end
